(* ===== verification/Prelude.thy ===== *)
theory Prelude
  imports Main
begin

text \<open>
  What every component shares: the outcome of a Go call that may panic, the state-passing
  monad in which the reconcilers are written, its weakest-precondition rules (collection
  \<open>go_wp\<close>), Go maps that may be nil, and the trace predicates used for ordering properties.
\<close>

named_theorems go_wp
named_theorems cond_simps

subsection \<open>Go values\<close>

text \<open>
  A Go \<open>string\<close> and a Go \<open>[]byte\<close> are both sequences of bytes, and the conversions between
  them keep the bytes, so both are the HOL type \<open>string\<close>. Instants are integers with
  \<open>0\<close> for the zero \<open>time.Time\<close>; durations are nanoseconds.
\<close>

type_synonym bytes = string
type_synonym time = int
type_synonym duration = int

text \<open>A Go map that may be nil (\<open>None\<close>): reading a nil map gives nothing, writing to it panics.\<close>

type_synonym 'v gomap = "(string \<rightharpoonup> 'v) option"

text \<open>A Go slice that may be nil: \<open>nil\<close> and the empty slice are different for \<open>reflect.DeepEqual\<close>.\<close>

type_synonym 'a slice = "'a list option"

definition gomap_lookup :: "'v gomap \<Rightarrow> string \<Rightarrow> 'v option" where
  "gomap_lookup m k = (case m of None \<Rightarrow> None | Some f \<Rightarrow> f k)"

text \<open>\<open>v := m[k]\<close> of a \<open>map[string][]byte\<close> or \<open>map[string]string\<close>: the zero value if absent.\<close>

definition gomap_index :: "bytes gomap \<Rightarrow> string \<Rightarrow> bytes" where
  "gomap_index m k = (case gomap_lookup m k of None \<Rightarrow> [] | Some v \<Rightarrow> v)"

lemma gomap_lookup_simps [simp]:
  "gomap_lookup None = Map.empty"
  "gomap_lookup (Some f) = f"
  by (simp_all add: gomap_lookup_def fun_eq_iff)

lemma gomap_index_Some [simp]: "f k = Some v \<Longrightarrow> gomap_index (Some f) k = v"
  by (simp add: gomap_index_def)

subsection \<open>Calls that may panic\<close>

datatype 'a outcome = Ret 'a | Panic

type_synonym ('s, 'a) go = "'s \<Rightarrow> 'a outcome \<times> 's"

definition go_return :: "'a \<Rightarrow> ('s, 'a) go" where
  "go_return x = (\<lambda>s. (Ret x, s))"

definition go_panic :: "('s, 'a) go" where
  "go_panic = (\<lambda>s. (Panic, s))"

definition go_bind :: "('s, 'a) go \<Rightarrow> ('a \<Rightarrow> ('s, 'b) go) \<Rightarrow> ('s, 'b) go" where
  "go_bind m f = (\<lambda>s. case m s of (Ret x, s') \<Rightarrow> f x s' | (Panic, s') \<Rightarrow> (Panic, s'))"

text \<open>
  A part of a Go function that either returns from the whole function (\<open>Inl\<close>) or falls
  through with the variables the rest uses (\<open>Inr\<close>).
\<close>

definition go_then :: "('s, 'r + 'a) go \<Rightarrow> ('a \<Rightarrow> ('s, 'r) go) \<Rightarrow> ('s, 'r) go" where
  "go_then m f = go_bind m (\<lambda>x. case x of Inl r \<Rightarrow> go_return r | Inr a \<Rightarrow> f a)"

text \<open>\<open>m[k] = v\<close>\<close>

definition gomap_store :: "'v gomap \<Rightarrow> string \<Rightarrow> 'v \<Rightarrow> ('s, 'v gomap) go" where
  "gomap_store m k v =
     (case m of None \<Rightarrow> go_panic | Some f \<Rightarrow> go_return (Some (f(k \<mapsto> v))))"

text \<open>\<open>*p\<close>, with \<open>None\<close> for a nil pointer.\<close>

definition go_deref :: "'a option \<Rightarrow> ('s, 'a) go" where
  "go_deref p = (case p of None \<Rightarrow> go_panic | Some x \<Rightarrow> go_return x)"

lemma go_return_run: "go_return x s = (Ret x, s)"
  by (simp add: go_return_def)

lemma go_bind_assoc: "go_bind (go_bind m f) g = go_bind m (\<lambda>x. go_bind (f x) g)"
  by (auto simp: go_bind_def fun_eq_iff split: prod.splits outcome.splits)

lemma go_bind_return [simp]:
  "go_bind (go_return x) f = f x"
  "go_bind m go_return = m"
  by (auto simp: go_bind_def go_return_def fun_eq_iff split: prod.splits outcome.splits)

lemma go_bind_panic [simp]: "go_bind go_panic f = go_panic"
  by (simp add: go_bind_def go_panic_def)

subsection \<open>Weakest preconditions\<close>

text \<open>
  \<open>wp m Q s\<close>: running \<open>m\<close> from \<open>s\<close> ends in an outcome and a state related by \<open>Q\<close>. The
  machine is total and deterministic, so this is total correctness; panics are outcomes.
\<close>

definition wp :: "('s, 'a) go \<Rightarrow> ('a outcome \<Rightarrow> 's \<Rightarrow> bool) \<Rightarrow> 's \<Rightarrow> bool" where
  "wp m Q s = (case m s of (r, s') \<Rightarrow> Q r s')"

lemma wp_iff: "wp m Q s \<longleftrightarrow> Q (fst (m s)) (snd (m s))"
  by (simp add: wp_def split: prod.splits)

lemma wp_return [go_wp]: "wp (go_return x) Q s = Q (Ret x) s"
  by (simp add: wp_def go_return_def)

lemma wp_panic [go_wp]: "wp go_panic Q s = Q Panic s"
  by (simp add: wp_def go_panic_def)

lemma wp_bind [go_wp]:
  "wp (go_bind m f) Q s =
     wp m (\<lambda>r s'. case r of Ret x \<Rightarrow> wp (f x) Q s' | Panic \<Rightarrow> Q Panic s') s"
  by (simp add: wp_def go_bind_def split: prod.splits outcome.splits)

lemma wp_then [go_wp]:
  "wp (go_then m f) Q s =
     wp m (\<lambda>r s'. case r of Ret x \<Rightarrow> (case x of Inl y \<Rightarrow> Q (Ret y) s' | Inr a \<Rightarrow> wp (f a) Q s')
                          | Panic \<Rightarrow> Q Panic s') s"
  by (simp add: go_then_def wp_def go_bind_def go_return_def
      split: prod.splits outcome.splits sum.splits)

lemma wp_if [go_wp]: "wp (if b then m else n) Q s = (if b then wp m Q s else wp n Q s)"
  by simp

lemma wp_case_option [go_wp]:
  "wp (case x of None \<Rightarrow> m | Some y \<Rightarrow> f y) Q s =
     (case x of None \<Rightarrow> wp m Q s | Some y \<Rightarrow> wp (f y) Q s)"
  by (simp split: option.splits)

lemma wp_case_prod [go_wp]: "wp (case x of (a, b) \<Rightarrow> f a b) Q s = (case x of (a, b) \<Rightarrow> wp (f a b) Q s)"
  by (simp split: prod.splits)

lemma wp_store [go_wp]:
  "wp (gomap_store m k v) Q s =
     (case m of None \<Rightarrow> Q Panic s | Some f \<Rightarrow> Q (Ret (Some (f(k \<mapsto> v)))) s)"
  by (simp add: gomap_store_def wp_return wp_panic split: option.splits)

lemma wp_deref [go_wp]:
  "wp (go_deref p) Q s = (case p of None \<Rightarrow> Q Panic s | Some x \<Rightarrow> Q (Ret x) s)"
  by (simp add: go_deref_def wp_return wp_panic split: option.splits)

lemma wp_mono: "wp m P s \<Longrightarrow> (\<And>r s'. P r s' \<Longrightarrow> Q r s') \<Longrightarrow> wp m Q s"
  by (simp add: wp_def split: prod.splits)

text \<open>Sequencing: what the first part hands on has to be enough for the second.\<close>

lemma wp_thenI:
  assumes "wp m (\<lambda>r s'. (\<forall>a. r = Ret (Inr a) \<longrightarrow> R a s') \<and> (\<forall>y. r = Ret (Inl y) \<longrightarrow> Q (Ret y) s') \<and>
      (r = Panic \<longrightarrow> Q Panic s')) s"
    and "\<And>a s'. R a s' \<Longrightarrow> wp (f a) Q s'"
  shows "wp (go_then m f) Q s"
  unfolding wp_then using assms(1)
  by (rule wp_mono) (auto intro: assms(2) split: outcome.split sum.split)

lemma wp_conj: "wp m (\<lambda>r s'. P r s' \<and> Q r s') s \<longleftrightarrow> wp m P s \<and> wp m Q s"
  by (simp add: wp_iff)

subsection \<open>Traces\<close>

text \<open>
  \<open>guarded P xs\<close>: every element \<open>x\<close> of the trace satisfies \<open>P before x\<close>, where \<open>before\<close> is
  what the trace holds up to it. Ordering properties of the reconcilers ("a CSR is created
  only after \<open>\<dots>\<close>") are instances.
\<close>

fun guarded_from :: "'a list \<Rightarrow> ('a list \<Rightarrow> 'a \<Rightarrow> bool) \<Rightarrow> 'a list \<Rightarrow> bool" where
  "guarded_from before P [] = True"
| "guarded_from before P (x # xs) = (P before x \<and> guarded_from (before @ [x]) P xs)"

definition guarded :: "('a list \<Rightarrow> 'a \<Rightarrow> bool) \<Rightarrow> 'a list \<Rightarrow> bool" where
  "guarded P xs = guarded_from [] P xs"

lemma guarded_from_append:
  "guarded_from before P (xs @ ys) \<longleftrightarrow>
     guarded_from before P xs \<and> guarded_from (before @ xs) P ys"
  by (induction xs arbitrary: before) auto

lemma guarded_Nil [simp]: "guarded P []"
  by (simp add: guarded_def)

lemma guarded_append [simp]: "guarded P (xs @ ys) \<longleftrightarrow> guarded P xs \<and> guarded_from xs P ys"
  by (simp add: guarded_def guarded_from_append)

lemma guarded_from_mono:
  "guarded_from before P xs \<Longrightarrow> (\<And>b x. P b x \<Longrightarrow> Q b x) \<Longrightarrow> guarded_from before Q xs"
  by (induction xs arbitrary: before) auto

lemma guarded_mono: "guarded P xs \<Longrightarrow> (\<And>b x. P b x \<Longrightarrow> Q b x) \<Longrightarrow> guarded Q xs"
  unfolding guarded_def by (rule guarded_from_mono)

lemma guarded_split: "guarded P (xs @ x # ys) \<Longrightarrow> P xs x"
  by (simp add: guarded_def guarded_from_append)

end
