(* ===== verification/Api_Types.thy ===== *)
theory Api_Types
  imports Prelude
begin

text \<open>
  The data the operator works on: the \<open>Kubeconfig\<close> resource of \<open>api/v1alpha1\<close> with its
  condition types and phases, and the fields of the Kubernetes objects (secrets, certificate
  signing requests, cluster role bindings, config maps) that the code reads or writes.
  A pointer field is an option; a slice that is compared by \<open>reflect.DeepEqual\<close> is a
  \<open>slice\<close>, so that nil and empty differ as they do in Go.
\<close>

subsection \<open>Errors\<close>

text \<open>
  A Go \<open>error\<close> is either an error of the API server, which carries a machine-readable
  reason, or a plain error with a message.
\<close>

datatype reason = ReasonNotFound | ReasonAlreadyExists | ReasonConflict | ReasonForbidden
  | ReasonInternalError | ReasonOther string

datatype go_error = StatusError reason string | PlainError string

fun error_text :: "go_error \<Rightarrow> string" where
  "error_text (StatusError r m) = m"
| "error_text (PlainError m) = m"

text \<open>\<open>fmt.Sprintf("m, %v", err)\<close>, the form of all messages of the operator that carry an error.\<close>

definition errorf :: "string \<Rightarrow> go_error \<Rightarrow> string" where
  "errorf m e = m @ '', '' @ error_text e"

definition IsNotFound :: "go_error option \<Rightarrow> bool" where
  "IsNotFound err = (case err of Some (StatusError ReasonNotFound m) \<Rightarrow> True | _ \<Rightarrow> False)"

lemma IsNotFound_None [simp]: "\<not> IsNotFound None"
  by (simp add: IsNotFound_def)

lemma IsNotFound_Some [simp]:
  "IsNotFound (Some (StatusError ReasonNotFound m))"
  "\<not> IsNotFound (Some (PlainError m))"
  by (simp_all add: IsNotFound_def)

lemma IsNotFound_ne: "r \<noteq> ReasonNotFound \<Longrightarrow> \<not> IsNotFound (Some (StatusError r m))"
  by (cases r) (simp_all add: IsNotFound_def)

lemma IsNotFound_obtain:
  assumes "IsNotFound err"
  obtains m where "err = Some (StatusError ReasonNotFound m)"
  using assms by (auto simp: IsNotFound_def split: option.splits go_error.splits reason.splits)

subsection \<open>Object metadata\<close>

record NamespacedName =
  nn_Namespace :: string
  nn_Name :: string

record OwnerReference =
  or_APIVersion :: string
  or_Kind :: string
  or_Name :: string
  or_UID :: string
  or_Controller :: bool

record ObjectMeta =
  Name :: string
  Namespace :: string
  UID :: string
  Labels :: "string \<rightharpoonup> string"
  Annotations :: "string \<rightharpoonup> string"
  OwnerReferences :: "OwnerReference list"

definition zero_meta :: ObjectMeta where
  "zero_meta = \<lparr>Name = [], Namespace = [], UID = [], Labels = Map.empty,
     Annotations = Map.empty, OwnerReferences = []\<rparr>"

subsection \<open>Condition types and phases\<close>

abbreviation ConditionTypeCSRCreated :: string where
  "ConditionTypeCSRCreated \<equiv> ''CSRCreated''"
abbreviation ConditionTypeCSRApproved :: string where
  "ConditionTypeCSRApproved \<equiv> ''CSRApproved''"
abbreviation ConditionTypeUserSecretCreated :: string where
  "ConditionTypeUserSecretCreated \<equiv> ''UserSecretCreated''"
abbreviation ConditionTypeUserSecretFinished :: string where
  "ConditionTypeUserSecretFinished \<equiv> ''UserSecretFinished''"
abbreviation ConditionTypeKubeconfigFinished :: string where
  "ConditionTypeKubeconfigFinished \<equiv> ''KubeconfigFinished''"

abbreviation PhasePending :: string where
  "PhasePending \<equiv> ''Pending''"
abbreviation PhaseAwaitingApproval :: string where
  "PhaseAwaitingApproval \<equiv> ''Awaiting Approval''"
abbreviation PhaseDone :: string where
  "PhaseDone \<equiv> ''Done''"
abbreviation PhaseFailed :: string where
  "PhaseFailed \<equiv> ''Failed''"

text \<open>The values of \<open>metav1.ConditionStatus\<close> and \<open>corev1.ConditionStatus\<close>.\<close>

abbreviation ConditionTrue :: string where "ConditionTrue \<equiv> ''True''"
abbreviation ConditionFalse :: string where "ConditionFalse \<equiv> ''False''"
abbreviation ConditionUnknown :: string where "ConditionUnknown \<equiv> ''Unknown''"

text \<open>\<open>metav1.Condition\<close>\<close>

record Condition =
  c_Type :: string
  c_Status :: string
  c_ObservedGeneration :: int
  c_LastTransitionTime :: time
  c_Reason :: string
  c_Message :: string

definition new_condition :: "string \<Rightarrow> string \<Rightarrow> time \<Rightarrow> string \<Rightarrow> string \<Rightarrow> Condition" where
  "new_condition t s at r m = \<lparr>c_Type = t, c_Status = s, c_ObservedGeneration = 0,
     c_LastTransitionTime = at, c_Reason = r, c_Message = m\<rparr>"

lemma new_condition_sel [simp]:
  "c_Type (new_condition t s at r m) = t"
  "c_Status (new_condition t s at r m) = s"
  "c_LastTransitionTime (new_condition t s at r m) = at"
  "c_Reason (new_condition t s at r m) = r"
  "c_Message (new_condition t s at r m) = m"
  by (simp_all add: new_condition_def)

subsection \<open>Signature algorithms\<close>

text \<open>\<open>SignatureAlgorithm\<close> is a Go string type: any string can stand in the field.\<close>

type_synonym SignatureAlgorithm = string

abbreviation UnknownSignatureAlgorithm :: SignatureAlgorithm where
  "UnknownSignatureAlgorithm \<equiv> ''Unknown''"
abbreviation SHA256WithRSA :: SignatureAlgorithm where "SHA256WithRSA \<equiv> ''SHA256WithRSA''"
abbreviation SHA384WithRSA :: SignatureAlgorithm where "SHA384WithRSA \<equiv> ''SHA384WithRSA''"
abbreviation SHA512WithRSA :: SignatureAlgorithm where "SHA512WithRSA \<equiv> ''SHA512WithRSA''"
abbreviation ECDSAWithSHA256 :: SignatureAlgorithm where "ECDSAWithSHA256 \<equiv> ''ECDSAWithSHA256''"
abbreviation ECDSAWithSHA384 :: SignatureAlgorithm where "ECDSAWithSHA384 \<equiv> ''ECDSAWithSHA384''"
abbreviation ECDSAWithSHA512 :: SignatureAlgorithm where "ECDSAWithSHA512 \<equiv> ''ECDSAWithSHA512''"
abbreviation SHA256WithRSAPSS :: SignatureAlgorithm where "SHA256WithRSAPSS \<equiv> ''SHA256WithRSAPSS''"
abbreviation SHA384WithRSAPSS :: SignatureAlgorithm where "SHA384WithRSAPSS \<equiv> ''SHA384WithRSAPSS''"
abbreviation SHA512WithRSAPSS :: SignatureAlgorithm where "SHA512WithRSAPSS \<equiv> ''SHA512WithRSAPSS''"
abbreviation PureEd25519 :: SignatureAlgorithm where "PureEd25519 \<equiv> ''PureEd25519''"

subsection \<open>The Kubeconfig resource\<close>

record SecretRef =
  sr_Name :: string
  sr_Namespace :: string

record CsrRef =
  cr_Name :: string

record ClusterSpec =
  cl_Name :: string
  cl_Server :: string

record CertificateSigningRequestAdditionalFields =
  Country :: "string slice"
  Province :: "string slice"
  Locality :: "string slice"
  Organization :: "string slice"
  OrganizationalUnit :: "string slice"

record CertificateSigningRequestSpec =
  SignatureAlg :: SignatureAlgorithm
  AdditionalFields :: CertificateSigningRequestAdditionalFields

text \<open>\<open>rbacv1.RoleRef\<close>\<close>

record RoleRef =
  rr_APIGroup :: string
  rr_Kind :: string
  rr_Name :: string

record KubeconfigSpec =
  Username :: string
  ExistingCSR :: "SecretRef option"
  AutoApproveCSR :: bool
  SpecCSR :: "CertificateSigningRequestSpec option"
  SpecCluster :: "ClusterSpec option"
  SpecRoleRef :: "RoleRef option"

record KubeconfigStatus =
  UserSecret :: SecretRef
  StatusCsr :: CsrRef
  Conditions :: "Condition list"
  StatusKubeconfig :: string
  Phase :: string

record Kubeconfig =
  KMeta :: ObjectMeta
  Spec :: KubeconfigSpec
  Status :: KubeconfigStatus

text \<open>The zero values Go gives to freshly allocated structs.\<close>

definition zero_fields :: CertificateSigningRequestAdditionalFields where
  "zero_fields = \<lparr>Country = None, Province = None, Locality = None,
     Organization = None, OrganizationalUnit = None\<rparr>"

definition zero_kubeconfig :: Kubeconfig where
  "zero_kubeconfig = \<lparr>KMeta = zero_meta,
     Spec = \<lparr>Username = [], ExistingCSR = None, AutoApproveCSR = False, SpecCSR = None,
       SpecCluster = None, SpecRoleRef = None\<rparr>,
     Status = \<lparr>UserSecret = \<lparr>sr_Name = [], sr_Namespace = []\<rparr>, StatusCsr = \<lparr>cr_Name = []\<rparr>,
       Conditions = [], StatusKubeconfig = [], Phase = []\<rparr>\<rparr>"

subsection \<open>Kubernetes objects\<close>

record Secret =
  SMeta :: ObjectMeta
  SecretType :: string
  SecretData :: "bytes gomap"
  StringData :: "string gomap"

definition zero_secret :: Secret where
  "zero_secret = \<lparr>SMeta = zero_meta, SecretType = [], SecretData = None, StringData = None\<rparr>"

record ConfigMap =
  CMeta :: ObjectMeta
  ConfigData :: "string gomap"

definition zero_configmap :: ConfigMap where
  "zero_configmap = \<lparr>CMeta = zero_meta, ConfigData = None\<rparr>"

text \<open>\<open>certificatesv1.CertificateSigningRequestCondition\<close>\<close>

record CsrCondition =
  cc_Type :: string
  cc_Status :: string
  cc_Reason :: string
  cc_Message :: string
  cc_LastUpdateTime :: time
  cc_LastTransitionTime :: time

abbreviation CertificateApproved :: string where "CertificateApproved \<equiv> ''Approved''"
abbreviation CertificateDenied :: string where "CertificateDenied \<equiv> ''Denied''"
abbreviation CertificateFailed :: string where "CertificateFailed \<equiv> ''Failed''"

record Csr =
  CsrMeta :: ObjectMeta
  Request :: bytes
  SignerName :: string
  Usages :: "string list"
  CsrConditions :: "CsrCondition list"
  Certificate :: bytes

definition zero_csr :: Csr where
  "zero_csr = \<lparr>CsrMeta = zero_meta, Request = [], SignerName = [], Usages = [],
     CsrConditions = [], Certificate = []\<rparr>"

record Subject =
  sub_Kind :: string
  sub_APIGroup :: string
  sub_Name :: string

record ClusterRoleBinding =
  CrbMeta :: ObjectMeta
  Subjects :: "Subject list"
  CrbRoleRef :: RoleRef

definition zero_crb :: ClusterRoleBinding where
  "zero_crb = \<lparr>CrbMeta = zero_meta, Subjects = [],
     CrbRoleRef = \<lparr>rr_APIGroup = [], rr_Kind = [], rr_Name = []\<rparr>\<rparr>"

subsection \<open>Reconcile results\<close>

text \<open>\<open>ctrl.Result\<close>\<close>

record Result =
  Requeue :: bool
  RequeueAfter :: duration

definition empty_result :: Result where
  "empty_result = \<lparr>Requeue = False, RequeueAfter = 0\<rparr>"

abbreviation time_Second :: duration where "time_Second \<equiv> 1000000000"
abbreviation time_Minute :: duration where "time_Minute \<equiv> 60 * time_Second"

type_synonym reconcile_return = "Result \<times> go_error option"

end
