(* ===== verification/Runtime.thy ===== *)
theory Runtime
  imports Api_Types
begin

text \<open>
  What the operator relies on and does not contain: the API server behind the client, the
  helpers of apimachinery and controller-runtime, the YAML library, the cryptography. All of
  it is the record \<open>env\<close>, an argument of the definitions that use it; nothing is assumed about
  a field unless a theorem says so. The type \<open>'w\<close> is the state of the world outside the
  operator; every call of the client may change it in any way, which also covers whatever
  other actors of the cluster do between two calls.
\<close>

subsection \<open>Cryptographic data\<close>

text \<open>A \<open>crypto.Signer\<close>, with its dynamic type and its opaque key material.\<close>

datatype Signer = RSAKey bytes | ECDSAKey bytes | Ed25519Key bytes

datatype x509_SignatureAlgorithm =
    X509_Unknown
  | X509_SHA256WithRSA | X509_SHA384WithRSA | X509_SHA512WithRSA
  | X509_ECDSAWithSHA256 | X509_ECDSAWithSHA384 | X509_ECDSAWithSHA512
  | X509_SHA256WithRSAPSS | X509_SHA384WithRSAPSS | X509_SHA512WithRSAPSS
  | X509_PureEd25519

text \<open>\<open>pkix.Name\<close> and \<open>x509.CertificateRequest\<close>, the fields the code sets.\<close>

record PkixName =
  pk_CommonName :: string
  pk_Country :: "string slice"
  pk_Province :: "string slice"
  pk_Locality :: "string slice"
  pk_Organization :: "string slice"
  pk_OrganizationalUnit :: "string slice"
  pk_ExtraNames :: "(string \<times> string) slice"

record CertificateRequestTemplate =
  tp_Subject :: PkixName
  tp_SignatureAlgorithm :: x509_SignatureAlgorithm

record PemBlock =
  pem_Type :: string
  pem_Bytes :: bytes

subsection \<open>Kubeconfig files as data\<close>

text \<open>
  \<open>interface{}\<close> values of the field \<open>preferences\<close>: nil, the empty struct of
  \<open>NewBareConfig\<close>, or what the YAML library decodes, left opaque.
\<close>

datatype Preferences = PrefNil | PrefEmptyStruct | PrefDecoded string

record ClusterEntryData =
  CertificateAuthority :: string
  Server :: string

record ContextData =
  ctx_Cluster :: string
  ctx_Namespace :: string
  ctx_User :: string

record UserData =
  ClientCertificate :: string
  ClientKey :: string

record clusterEntry =
  ce_Name :: string
  ce_Cluster :: ClusterEntryData

record contextEntry =
  xe_Name :: string
  xe_Context :: ContextData

record userEntry =
  ue_Name :: string
  ue_User :: UserData

record serializedConfig =
  s_APIVersion :: string
  s_Kind :: string
  s_Preferences :: Preferences
  s_CurrentContext :: string
  s_Clusters :: "clusterEntry list"
  s_Contexts :: "contextEntry list"
  s_Users :: "userEntry list"

subsection \<open>The environment\<close>

type_synonym ('w, 'o) reply = "'w \<Rightarrow> (go_error option \<times> 'o) \<times> 'w"

text \<open>
  A client call takes the object it fills or sends and replies with the error (\<open>None\<close> for
  nil) and the object as the call leaves it.
\<close>

record 'w env =
  client_Get_Kubeconfig :: "NamespacedName \<Rightarrow> Kubeconfig \<Rightarrow> ('w, Kubeconfig) reply"
  client_Get_Secret :: "NamespacedName \<Rightarrow> Secret \<Rightarrow> ('w, Secret) reply"
  client_Get_Csr :: "NamespacedName \<Rightarrow> Csr \<Rightarrow> ('w, Csr) reply"
  client_Get_Crb :: "NamespacedName \<Rightarrow> ClusterRoleBinding \<Rightarrow> ('w, ClusterRoleBinding) reply"
  client_Get_ConfigMap :: "NamespacedName \<Rightarrow> ConfigMap \<Rightarrow> ('w, ConfigMap) reply"
  client_Create_Secret :: "Secret \<Rightarrow> ('w, Secret) reply"
  client_Create_Csr :: "Csr \<Rightarrow> ('w, Csr) reply"
  client_Create_Crb :: "ClusterRoleBinding \<Rightarrow> ('w, ClusterRoleBinding) reply"
  client_Update_Secret :: "Secret \<Rightarrow> ('w, Secret) reply"
  client_Status_Update_Kubeconfig :: "Kubeconfig \<Rightarrow> ('w, Kubeconfig) reply"
  client_Status_Update_Csr :: "Csr \<Rightarrow> ('w, Csr) reply"
  clientset_UpdateApproval :: "Csr \<Rightarrow> ('w, Csr) reply"
  meta_SetStatusCondition :: "time \<Rightarrow> Condition list \<Rightarrow> Condition \<Rightarrow> Condition list"
  meta_FindStatusCondition :: "Condition list \<Rightarrow> string \<Rightarrow> Condition option"
  SetControllerReference :: "Kubeconfig \<Rightarrow> ObjectMeta \<Rightarrow> go_error option \<times> ObjectMeta"
  time_Now :: "'w \<Rightarrow> time"
  rsa_GenerateKey :: "int \<Rightarrow> 'w \<Rightarrow> bytes option \<times> 'w"
  ecdsa_GenerateKey :: "string \<Rightarrow> 'w \<Rightarrow> bytes option \<times> 'w"
  ed25519_GenerateKey :: "'w \<Rightarrow> bytes option \<times> 'w"
  x509_MarshalPKCS1PrivateKey :: "bytes \<Rightarrow> bytes"
  x509_MarshalECPrivateKey :: "bytes \<Rightarrow> bytes"
  x509_MarshalPKCS8PrivateKey :: "bytes \<Rightarrow> bytes"
  x509_CreateCertificateRequest ::
    "CertificateRequestTemplate \<Rightarrow> Signer option \<Rightarrow> 'w \<Rightarrow> (go_error + bytes) \<times> 'w"
  x509_ParseCertificateRequest :: "bytes \<Rightarrow> go_error + CertificateRequestTemplate"
  pem_Decode :: "bytes \<Rightarrow> PemBlock option \<times> bytes"
  yaml_Marshal :: "serializedConfig \<Rightarrow> bytes"
  yaml_Unmarshal :: "bytes \<Rightarrow> go_error + serializedConfig"
  range_order :: "string set \<Rightarrow> string list"

subsection \<open>The state a reconciler runs in\<close>

text \<open>
  The world and the trace of what the operator did to it: each client call with the object
  and the error of its reply, each event handed to the recorder.
\<close>

datatype call =
    GetKubeconfig NamespacedName "go_error option" Kubeconfig
  | GetSecret NamespacedName "go_error option" Secret
  | GetCsr NamespacedName "go_error option" Csr
  | GetCrb NamespacedName "go_error option" ClusterRoleBinding
  | GetConfigMap NamespacedName "go_error option" ConfigMap
  | CreateSecret Secret "go_error option"
  | CreateCsr Csr "go_error option"
  | CreateCrb ClusterRoleBinding "go_error option"
  | UpdateSecret Secret "go_error option"
  | UpdateKubeconfigStatus Kubeconfig "go_error option"
  | UpdateCsrStatus Csr "go_error option"
  | UpdateCsrApproval Csr "go_error option"
  | Event string string string

record 'w go_state =
  world :: 'w
  calls :: "call list"

lemma go_state_eta [simp]: "\<lparr>world = world s, calls = calls s\<rparr> = (s :: 'w go_state)"
  by (cases s) simp

definition start :: "'w \<Rightarrow> 'w go_state" where
  "start w = \<lparr>world = w, calls = []\<rparr>"

lemma start_sel [simp]: "world (start w) = w" "calls (start w) = []"
  by (simp_all add: start_def)

text \<open>The calls that change an object of the cluster.\<close>

fun is_write :: "call \<Rightarrow> bool" where
  "is_write (GetKubeconfig n e x) = False"
| "is_write (GetSecret n e y) = False"
| "is_write (GetCsr n e z) = False"
| "is_write (GetCrb n e b) = False"
| "is_write (GetConfigMap n e c) = False"
| "is_write (Event t r m) = False"
| "is_write c = True"

definition writes :: "call list \<Rightarrow> call list" where
  "writes cs = filter is_write cs"

lemma writes_simps [simp]:
  "writes [] = []"
  "writes (xs @ ys) = writes xs @ writes ys"
  "is_write c \<Longrightarrow> writes (c # cs) = c # writes cs"
  "\<not> is_write c \<Longrightarrow> writes (c # cs) = writes cs"
  by (simp_all add: writes_def)

subsection \<open>Calling the environment\<close>

definition api_call ::
  "('w, 'o) reply \<Rightarrow> (go_error option \<Rightarrow> 'o \<Rightarrow> call) \<Rightarrow> ('w go_state, go_error option \<times> 'o) go"
where
  "api_call f ev = (\<lambda>s. case f (world s) of
     ((err, obj), w') \<Rightarrow> (Ret (err, obj), \<lparr>world = w', calls = calls s @ [ev err obj]\<rparr>))"

definition Get_Kubeconfig where
  "Get_Kubeconfig E n obj = api_call (client_Get_Kubeconfig E n obj) (GetKubeconfig n)"
definition Get_Secret where
  "Get_Secret E n obj = api_call (client_Get_Secret E n obj) (GetSecret n)"
definition Get_Csr where
  "Get_Csr E n obj = api_call (client_Get_Csr E n obj) (GetCsr n)"
definition Get_Crb where
  "Get_Crb E n obj = api_call (client_Get_Crb E n obj) (GetCrb n)"
definition Get_ConfigMap where
  "Get_ConfigMap E n obj = api_call (client_Get_ConfigMap E n obj) (GetConfigMap n)"
definition Create_Secret where
  "Create_Secret E obj = api_call (client_Create_Secret E obj) (\<lambda>err _. CreateSecret obj err)"
definition Create_Csr where
  "Create_Csr E obj = api_call (client_Create_Csr E obj) (\<lambda>err _. CreateCsr obj err)"
definition Create_Crb where
  "Create_Crb E obj = api_call (client_Create_Crb E obj) (\<lambda>err _. CreateCrb obj err)"
definition Update_Secret where
  "Update_Secret E obj = api_call (client_Update_Secret E obj) (\<lambda>err _. UpdateSecret obj err)"
definition Status_Update_Kubeconfig where
  "Status_Update_Kubeconfig E obj =
     api_call (client_Status_Update_Kubeconfig E obj) (\<lambda>err _. UpdateKubeconfigStatus obj err)"
definition Status_Update_Csr where
  "Status_Update_Csr E obj =
     api_call (client_Status_Update_Csr E obj) (\<lambda>err _. UpdateCsrStatus obj err)"
definition UpdateApproval where
  "UpdateApproval E obj =
     api_call (clientset_UpdateApproval E obj) (\<lambda>err _. UpdateCsrApproval obj err)"

lemmas client_defs = Get_Kubeconfig_def Get_Secret_def Get_Csr_def Get_Crb_def Get_ConfigMap_def
  Create_Secret_def Create_Csr_def Create_Crb_def Update_Secret_def
  Status_Update_Kubeconfig_def Status_Update_Csr_def UpdateApproval_def

definition record_event :: "string \<Rightarrow> string \<Rightarrow> string \<Rightarrow> ('w go_state, unit) go" where
  "record_event t r m =
     (\<lambda>s. (Ret (), \<lparr>world = world s, calls = calls s @ [Event t r m]\<rparr>))"

definition now :: "'w env \<Rightarrow> ('w go_state, time) go" where
  "now E = (\<lambda>s. (Ret (time_Now E (world s)), s))"

text \<open>A call of a library that draws on the world (randomness) and leaves no API trace.\<close>

definition lib_call :: "('w \<Rightarrow> 'a \<times> 'w) \<Rightarrow> ('w go_state, 'a) go" where
  "lib_call f = (\<lambda>s. case f (world s) of (x, w') \<Rightarrow> (Ret x, \<lparr>world = w', calls = calls s\<rparr>))"

text \<open>
  The rules of the calls: the reply is whatever the environment gives, so a
  postcondition has to hold for it.
\<close>

lemma wp_api_call [go_wp]:
  "wp (api_call f ev) Q s = (case f (world s) of
     ((err, obj), w') \<Rightarrow> Q (Ret (err, obj)) \<lparr>world = w', calls = calls s @ [ev err obj]\<rparr>)"
  by (simp add: wp_def api_call_def split: prod.splits)

lemma wp_record_event [go_wp]:
  "wp (record_event t r m) Q s = Q (Ret ()) \<lparr>world = world s, calls = calls s @ [Event t r m]\<rparr>"
  by (simp add: wp_def record_event_def)

lemma wp_now [go_wp]: "wp (now E) Q s = Q (Ret (time_Now E (world s))) s"
  by (simp add: wp_def now_def)

lemma wp_lib_call [go_wp]:
  "wp (lib_call f) Q s = (case f (world s) of (x, w') \<Rightarrow> Q (Ret x) \<lparr>world = w', calls = calls s\<rparr>)"
  by (simp add: wp_def lib_call_def split: prod.splits)

lemma wp_api_callI:
  assumes "\<And>err obj w'. f (world s) = ((err, obj), w') \<Longrightarrow>
    Q (Ret (err, obj)) \<lparr>world = w', calls = calls s @ [ev err obj]\<rparr>"
  shows "wp (api_call f ev) Q s"
  using assms by (simp add: wp_api_call split: prod.splits)

lemma wp_lib_callI:
  assumes "\<And>x w'. f (world s) = (x, w') \<Longrightarrow> Q (Ret x) \<lparr>world = w', calls = calls s\<rparr>"
  shows "wp (lib_call f) Q s"
  using assms by (simp add: wp_lib_call split: prod.splits)

end
