(* ===== verification/Config_File.thy ===== *)
theory Config_File
  imports Runtime
begin

text \<open>
  \<open>pkg/kubeconfig/types.go\<close>: kubeconfig files. In memory the clusters, contexts and users
  are maps by name; in the file they are lists of named entries. \<open>Marshal\<close> turns the maps
  into lists in the order in which Go ranges over a map, which the language leaves open
  (\<open>range_order\<close> of the environment), \<open>Unmarshal\<close> turns the lists back into maps.
\<close>

record Config =
  APIVersion :: string
  Kind :: string
  ConfigPreferences :: Preferences
  CurrentContext :: string
  Clusters :: "ClusterEntryData gomap"
  Contexts :: "ContextData gomap"
  Users :: "UserData gomap"

definition NewBareConfig :: Config where
  "NewBareConfig = \<lparr>APIVersion = ''v1'', Kind = ''Config'', ConfigPreferences = PrefEmptyStruct,
     CurrentContext = [], Clusters = None, Contexts = None, Users = None\<rparr>"

subsection \<open>Marshal and Unmarshal\<close>

text \<open>\<open>for name, v := range m\<close>: the keys in some order.\<close>

definition range_keys :: "'w env \<Rightarrow> 'v gomap \<Rightarrow> string list" where
  "range_keys E m = range_order E (dom (gomap_lookup m))"

definition clusterEntries :: "'w env \<Rightarrow> ClusterEntryData gomap \<Rightarrow> clusterEntry list" where
  "clusterEntries E m =
     map (\<lambda>name. \<lparr>ce_Name = name, ce_Cluster = the (gomap_lookup m name)\<rparr>) (range_keys E m)"

definition contextEntries :: "'w env \<Rightarrow> ContextData gomap \<Rightarrow> contextEntry list" where
  "contextEntries E m =
     map (\<lambda>name. \<lparr>xe_Name = name, xe_Context = the (gomap_lookup m name)\<rparr>) (range_keys E m)"

definition userEntries :: "'w env \<Rightarrow> UserData gomap \<Rightarrow> userEntry list" where
  "userEntries E m =
     map (\<lambda>name. \<lparr>ue_Name = name, ue_User = the (gomap_lookup m name)\<rparr>) (range_keys E m)"

definition serializeConfig :: "'w env \<Rightarrow> Config \<Rightarrow> serializedConfig" where
  "serializeConfig E c = \<lparr>s_APIVersion = ''v1'', s_Kind = ''Config'',
     s_Preferences = ConfigPreferences c, s_CurrentContext = CurrentContext c,
     s_Clusters = clusterEntries E (Clusters c), s_Contexts = contextEntries E (Contexts c),
     s_Users = userEntries E (Users c)\<rparr>"

definition Marshal :: "'w env \<Rightarrow> Config \<Rightarrow> bytes" where
  "Marshal E c = yaml_Marshal E (serializeConfig E c)"

definition collectClusters :: "clusterEntry list \<Rightarrow> (string \<rightharpoonup> ClusterEntryData)" where
  "collectClusters es = foldl (\<lambda>m e. m(ce_Name e \<mapsto> ce_Cluster e)) Map.empty es"

definition collectContexts :: "contextEntry list \<Rightarrow> (string \<rightharpoonup> ContextData)" where
  "collectContexts es = foldl (\<lambda>m e. m(xe_Name e \<mapsto> xe_Context e)) Map.empty es"

definition collectUsers :: "userEntry list \<Rightarrow> (string \<rightharpoonup> UserData)" where
  "collectUsers es = foldl (\<lambda>m e. m(ue_Name e \<mapsto> ue_User e)) Map.empty es"

definition deserializeConfig :: "serializedConfig \<Rightarrow> Config" where
  "deserializeConfig sc = \<lparr>APIVersion = ''v1'', Kind = ''Config'',
     ConfigPreferences = s_Preferences sc, CurrentContext = s_CurrentContext sc,
     Clusters = Some (collectClusters (s_Clusters sc)),
     Contexts = Some (collectContexts (s_Contexts sc)),
     Users = Some (collectUsers (s_Users sc))\<rparr>"

definition Unmarshal :: "'w env \<Rightarrow> bytes \<Rightarrow> go_error + Config" where
  "Unmarshal E config = (case yaml_Unmarshal E config of
     Inl err \<Rightarrow> Inl err | Inr sc \<Rightarrow> Inr (deserializeConfig sc))"

subsection \<open>Lists of named entries against maps\<close>

text \<open>The order in which Go ranges over a map is some enumeration of its keys, without repetition.\<close>

definition range_law :: "'w env \<Rightarrow> bool" where
  "range_law E \<longleftrightarrow> (\<forall>S. finite S \<longrightarrow> distinct (range_order E S) \<and> set (range_order E S) = S)"

text \<open>
  The three pairs of loops have one contract: \<open>entries\<close> lists the bindings of a map under
  their names, \<open>collect\<close> stores them again, a later entry overwriting an earlier one.
\<close>

locale entry_list =
  fixes entries :: "'w env \<Rightarrow> 'v gomap \<Rightarrow> 'e list"
    and collect :: "'e list \<Rightarrow> (string \<rightharpoonup> 'v)"
    and ename :: "'e \<Rightarrow> string"
    and evalue :: "'e \<Rightarrow> 'v"
  assumes entries_names: "map ename (entries E m) = range_keys E m"
    and entries_values: "e \<in> set (entries E m) \<Longrightarrow> evalue e = the (gomap_lookup m (ename e))"
    and collect_Nil: "collect [] = Map.empty"
    and collect_snoc: "collect (es @ [e]) = (collect es)(ename e \<mapsto> evalue e)"
begin

lemma collect_map_of: "collect es = map_of (rev (map (\<lambda>e. (ename e, evalue e)) es))"
  by (induction es rule: rev_induct) (simp_all add: collect_Nil collect_snoc)

lemma collect_last: "ename e = k \<Longrightarrow> collect (es @ [e]) k = Some (evalue e)"
  by (simp add: collect_snoc)

lemma collect_dom: "dom (collect es) = ename ` set es"
  by (induction es rule: rev_induct) (simp_all add: collect_Nil collect_snoc del: fun_upd_apply)

lemma collect_consistent:
  assumes "\<And>e. e \<in> set es \<Longrightarrow> m (ename e) = Some (evalue e)"
    and "dom m = ename ` set es"
  shows "collect es = m"
proof
  fix k
  show "collect es k = m k"
  proof (cases "k \<in> ename ` set es")
    case False
    then show ?thesis using assms(2) collect_dom[of es] by (metis domIff)
  next
    case True
    then obtain v where "collect es k = Some v" using collect_dom[of es] by blast
    then have "(k, v) \<in> set (map (\<lambda>e. (ename e, evalue e)) es)"
      by (auto simp: collect_map_of dest: map_of_SomeD)
    with assms(1) \<open>collect es k = Some v\<close> show ?thesis by auto
  qed
qed

text \<open>Storing the listed entries gives the map back, in whatever order it was ranged over.\<close>

lemma collect_entries:
  assumes "range_law E" and "finite (dom (gomap_lookup m))"
  shows "collect (entries E m) = gomap_lookup m"
proof (rule collect_consistent)
  have names: "ename ` set (entries E m) = dom (gomap_lookup m)"
    using assms entries_names[of E m] by (metis list.set_map range_keys_def range_law_def)
  then show "dom (gomap_lookup m) = ename ` set (entries E m)" by simp
  fix e
  assume e: "e \<in> set (entries E m)"
  with names have "gomap_lookup m (ename e) \<noteq> None" by blast
  with entries_values[OF e] show "gomap_lookup m (ename e) = Some (evalue e)" by simp
qed

end

interpretation cluster_entries: entry_list clusterEntries collectClusters ce_Name ce_Cluster
  by unfold_locales (auto simp: clusterEntries_def collectClusters_def o_def)

interpretation context_entries: entry_list contextEntries collectContexts xe_Name xe_Context
  by unfold_locales (auto simp: contextEntries_def collectContexts_def o_def)

interpretation user_entries: entry_list userEntries collectUsers ue_Name ue_User
  by unfold_locales (auto simp: userEntries_def collectUsers_def o_def)

subsection \<open>Round trip\<close>

definition finite_config :: "Config \<Rightarrow> bool" where
  "finite_config c \<longleftrightarrow> finite (dom (gomap_lookup (Clusters c))) \<and>
     finite (dom (gomap_lookup (Contexts c))) \<and> finite (dom (gomap_lookup (Users c)))"

lemma deserialize_serialize:
  assumes "range_law E" and "finite_config c"
  shows "deserializeConfig ((serializeConfig E c)\<lparr>s_Preferences := p\<rparr>) =
    \<lparr>APIVersion = ''v1'', Kind = ''Config'', ConfigPreferences = p,
     CurrentContext = CurrentContext c,
     Clusters = Some (gomap_lookup (Clusters c)), Contexts = Some (gomap_lookup (Contexts c)),
     Users = Some (gomap_lookup (Users c))\<rparr>"
  using assms
  by (simp add: deserializeConfig_def serializeConfig_def finite_config_def
      cluster_entries.collect_entries context_entries.collect_entries
      user_entries.collect_entries)

end
