(* ===== verification/Cluster_Endpoint.thy ===== *)
theory Cluster_Endpoint
  imports Config_File
begin

text \<open>
  \<open>pkg/utils/cluster_endpoint.go\<close>: the endpoint of the cluster, read from the kubeconfig
  embedded in the config map \<open>kube-public/cluster-info\<close>. The result is the endpoint and the
  error, as in the code; on an error the endpoint is the empty string.
\<close>

definition no_kubeconfig_key :: go_error where
  "no_kubeconfig_key = PlainError ''no kubeconfig key in cluster-info config map''"

definition no_default_cluster :: go_error where
  "no_default_cluster = PlainError
     (''no cluster entry at default location clusters.cluster.name == '' @ [CHR 0x27, CHR 0x27])"

definition cluster_info_name :: NamespacedName where
  "cluster_info_name = \<lparr>nn_Namespace = ''kube-public'', nn_Name = ''cluster-info''\<rparr>"

text \<open>What the function does with the config map once it is there.\<close>

definition endpoint_of_cluster_info :: "'w env \<Rightarrow> ConfigMap \<Rightarrow> string \<times> go_error option" where
  "endpoint_of_cluster_info E cm =
    (case gomap_lookup (ConfigData cm) ''kubeconfig'' of
       None \<Rightarrow> ([], Some no_kubeconfig_key)
     | Some kubeconfig \<Rightarrow>
        (case Unmarshal E kubeconfig of
           Inl err \<Rightarrow> ([], Some err)
         | Inr cfg \<Rightarrow>
            (case gomap_lookup (Clusters cfg) [] of
               None \<Rightarrow> ([], Some no_default_cluster)
             | Some cluster \<Rightarrow> (Server cluster, None))))"

definition ClusterEndpoint :: "'w env \<Rightarrow> ('w go_state, string \<times> go_error option) go" where
  "ClusterEndpoint E =
     go_bind (Get_ConfigMap E cluster_info_name zero_configmap) (\<lambda>(err, clusterInfoCM).
       case err of
         Some e \<Rightarrow> go_return ([], Some e)
       | None \<Rightarrow> go_return (endpoint_of_cluster_info E clusterInfoCM))"

lemma wp_ClusterEndpointI:
  assumes "\<And>err cm w'. client_Get_ConfigMap E cluster_info_name zero_configmap (world s) =
      ((err, cm), w') \<Longrightarrow>
    Q (Ret (case err of Some e \<Rightarrow> ([], Some e) | None \<Rightarrow> endpoint_of_cluster_info E cm))
      \<lparr>world = w', calls = calls s @ [GetConfigMap cluster_info_name err cm]\<rparr>"
  shows "wp (ClusterEndpoint E) Q s"
proof -
  obtain err cm w' where
    r: "client_Get_ConfigMap E cluster_info_name zero_configmap (world s) = ((err, cm), w')"
    by (metis surj_pair)
  show ?thesis using assms[OF r]
    by (simp add: ClusterEndpoint_def client_defs go_wp r split: option.splits)
qed

lemma endpoint_error_empty:
  "endpoint_of_cluster_info E cm = (ep, Some err) \<Longrightarrow> ep = []"
  by (auto simp: endpoint_of_cluster_info_def split: option.splits sum.splits)

lemma endpoint_ok_iff:
  "endpoint_of_cluster_info E cm = (ep, None) \<longleftrightarrow>
     (\<exists>text sc cl. gomap_lookup (ConfigData cm) ''kubeconfig'' = Some text \<and>
        yaml_Unmarshal E text = Inr sc \<and>
        collectClusters (s_Clusters sc) [] = Some cl \<and> Server cl = ep)"
  by (auto simp: endpoint_of_cluster_info_def Unmarshal_def deserializeConfig_def
      split: option.splits sum.splits)

end
