(* ===== verification/Status_Conditions.thy ===== *)
theory Status_Conditions
  imports Runtime
begin

text \<open>
  Condition lists. The contract between a condition list and its users is the locale
  \<open>condition_list\<close>: what \<open>find\<close> returns after \<open>set\<close>. The CSR controller has its own
  implementation (\<open>setStatusCondition\<close> and \<open>findStatusCondition\<close> of
  \<open>controllers/csr_controller.go\<close>), modelled here and shown to satisfy the contract; the
  Kubeconfig reconciler uses the implementation of apimachinery, for which the same contract
  is a hypothesis.
\<close>

subsection \<open>The contract\<close>

locale condition_list =
  fixes ctype :: "'c \<Rightarrow> string"
    and cstatus :: "'c \<Rightarrow> string"
    and find :: "'c list \<Rightarrow> string \<Rightarrow> 'c option"
    and set_cond :: "'c list \<Rightarrow> 'c \<Rightarrow> 'c list"
  assumes find_None: "find cs t = None \<longleftrightarrow> t \<notin> ctype ` set cs"
    and find_append: "find (cs @ [c]) t =
      (case find cs t of Some d \<Rightarrow> Some d | None \<Rightarrow> if ctype c = t then Some c else None)"
    and find_set_same: "map_option cstatus (find (set_cond cs c) (ctype c)) = Some (cstatus c)"
    and find_set_other: "t \<noteq> ctype c \<Longrightarrow> find (set_cond cs c) t = find cs t"
    and set_types: "map ctype (set_cond cs c) =
      (if ctype c \<in> ctype ` set cs then map ctype cs else map ctype cs @ [ctype c])"
begin

definition status_of :: "'c list \<Rightarrow> string \<Rightarrow> string option" where
  "status_of cs t = map_option cstatus (find cs t)"

lemma find_Nil: "find [] t = None"
  by (simp add: find_None)

text \<open>The contract determines \<open>find\<close>: it is the first condition of the type.\<close>

lemma find_eq: "find cs t = List.find (\<lambda>c. ctype c = t) cs"
proof (induction cs rule: rev_induct)
  case Nil
  show ?case by (simp add: find_Nil)
next
  case (snoc c cs)
  have "List.find (\<lambda>c. ctype c = t) (cs @ [c]) =
      (case List.find (\<lambda>c. ctype c = t) cs of Some d \<Rightarrow> Some d
       | None \<Rightarrow> if ctype c = t then Some c else None)"
    by (induction cs) auto
  with snoc show ?case by (simp add: find_append)
qed

lemma find_type: "find cs t = Some c \<Longrightarrow> ctype c = t"
  by (auto simp: find_eq find_Some_iff)

lemma status_of_set:
  "status_of (set_cond cs c) t = (if t = ctype c then Some (cstatus c) else status_of cs t)"
  by (simp add: status_of_def find_set_same find_set_other)

text \<open>A set on one type and a set on another commute, as far as the statuses go.\<close>

lemma status_of_commute:
  assumes "ctype c \<noteq> ctype d"
  shows "status_of (set_cond (set_cond cs c) d) t = status_of (set_cond (set_cond cs d) c) t"
  using assms by (simp add: status_of_set)

lemma status_of_foldl:
  "status_of (foldl set_cond cs ds) t =
     (case List.find (\<lambda>d. ctype d = t) (rev ds) of
        Some d \<Rightarrow> Some (cstatus d) | None \<Rightarrow> status_of cs t)"
proof (induction ds rule: rev_induct)
  case Nil
  show ?case by simp
next
  case (snoc d ds)
  then show ?case by (simp add: status_of_set)
qed

text \<open>The list stays a map keyed by type (\<open>+listType=map\<close>, \<open>+listMapKey=type\<close>).\<close>

definition keyed :: "'c list \<Rightarrow> bool" where
  "keyed cs = distinct (map ctype cs)"

lemma keyed_set: "keyed cs \<Longrightarrow> keyed (set_cond cs c)"
  by (simp add: keyed_def set_types)

lemma keyed_append: "keyed cs \<Longrightarrow> find cs (ctype c) = None \<Longrightarrow> keyed (cs @ [c])"
  by (simp add: keyed_def find_None)

lemma length_set: "length (set_cond cs c) \<le> Suc (length cs)"
proof -
  have "length (map ctype (set_cond cs c)) \<le> Suc (length cs)"
    by (simp add: set_types)
  then show ?thesis by simp
qed

end

subsection \<open>The conditions of a certificate signing request\<close>

text \<open>
  \<open>findStatusCondition\<close> returns a pointer into the slice, which is the index of the element
  here; \<open>nil\<close> is \<open>None\<close>.
\<close>

fun findStatusCondition :: "CsrCondition list \<Rightarrow> string \<Rightarrow> nat option" where
  "findStatusCondition [] t = None"
| "findStatusCondition (c # cs) t =
     (if cc_Type c = t then Some 0 else map_option Suc (findStatusCondition cs t))"

text \<open>What the pointer points to.\<close>

definition findCsrCondition :: "CsrCondition list \<Rightarrow> string \<Rightarrow> CsrCondition option" where
  "findCsrCondition cs t = map_option (\<lambda>i. cs ! i) (findStatusCondition cs t)"

definition IsZero :: "time \<Rightarrow> bool" where
  "IsZero t \<longleftrightarrow> t = 0"

text \<open>
  \<open>setStatusCondition\<close>: \<open>at\<close> is what \<open>time.Now()\<close> returns. The slice pointer itself may be
  nil. The found element is updated in place.
\<close>

definition setStatusCondition ::
  "time \<Rightarrow> CsrCondition list option \<Rightarrow> CsrCondition \<Rightarrow> CsrCondition list option"
where
  "setStatusCondition at conditions newCondition =
    (case conditions of
       None \<Rightarrow> None
     | Some cs \<Rightarrow>
        (case findStatusCondition cs (cc_Type newCondition) of
           None \<Rightarrow>
             Some (cs @ [if IsZero (cc_LastTransitionTime newCondition)
                         then newCondition\<lparr>cc_LastTransitionTime := at\<rparr> else newCondition])
         | Some i \<Rightarrow>
             (let existing = cs ! i;
                  existing' =
                    (if cc_Status existing \<noteq> cc_Status newCondition
                     then existing\<lparr>cc_Status := cc_Status newCondition,
                        cc_LastTransitionTime :=
                          (if \<not> IsZero (cc_LastTransitionTime newCondition)
                           then cc_LastTransitionTime newCondition else at)\<rparr>
                     else existing)
              in Some (cs[i := existing'\<lparr>cc_Reason := cc_Reason newCondition,
                                        cc_Message := cc_Message newCondition\<rparr>]))))"

text \<open>The call on a slice that is there, as both call sites make it.\<close>

definition setCsrCondition :: "time \<Rightarrow> CsrCondition list \<Rightarrow> CsrCondition \<Rightarrow> CsrCondition list" where
  "setCsrCondition at cs c = the (setStatusCondition at (Some cs) c)"

lemma findStatusCondition_None:
  "findStatusCondition cs t = None \<longleftrightarrow> t \<notin> cc_Type ` set cs"
  by (induction cs) auto

lemma findStatusCondition_absent: "t \<notin> cc_Type ` set cs \<Longrightarrow> findStatusCondition cs t = None"
  by (simp add: findStatusCondition_None)

lemma findStatusCondition_Some:
  "findStatusCondition cs t = Some i \<Longrightarrow>
     i < length cs \<and> cc_Type (cs ! i) = t \<and> (\<forall>j<i. cc_Type (cs ! j) \<noteq> t)"
proof (induction cs arbitrary: i)
  case Nil
  then show ?case by simp
next
  case (Cons c cs)
  show ?case
  proof (cases "cc_Type c = t")
    case True
    with Cons.prems show ?thesis by simp
  next
    case False
    with Cons.prems obtain k where k: "findStatusCondition cs t = Some k" and i: "i = Suc k"
      by auto
    from Cons.IH[OF k] False show ?thesis
      by (auto simp: i less_Suc_eq_0_disj)
  qed
qed

lemma findCsrCondition_find: "findCsrCondition cs t = List.find (\<lambda>c. cc_Type c = t) cs"
  unfolding findCsrCondition_def
  by (induction cs) (auto simp: option.map_comp o_def)

lemma findStatusCondition_update:
  "cc_Type d = cc_Type (cs ! i) \<Longrightarrow> findStatusCondition (cs[i := d]) t = findStatusCondition cs t"
  by (induction cs arbitrary: i) (auto split: nat.splits)

lemma setCsrCondition_new:
  assumes "cc_Type c \<notin> cc_Type ` set cs"
  shows "setCsrCondition at cs c =
    cs @ [if IsZero (cc_LastTransitionTime c) then c\<lparr>cc_LastTransitionTime := at\<rparr> else c]"
  using findStatusCondition_absent[OF assms]
  by (simp add: setCsrCondition_def setStatusCondition_def)

lemma setCsrCondition_old:
  assumes "findStatusCondition cs (cc_Type c) = Some i"
  shows "\<exists>at'. setCsrCondition at cs c =
    cs[i := (cs ! i)\<lparr>cc_Status := cc_Status c, cc_LastTransitionTime := at',
                     cc_Reason := cc_Reason c, cc_Message := cc_Message c\<rparr>]"
  using assms
  by (cases "cs ! i") (auto simp: setCsrCondition_def setStatusCondition_def Let_def)

lemma find_snoc:
  "List.find P (xs @ [x]) =
     (case List.find P xs of Some y \<Rightarrow> Some y | None \<Rightarrow> if P x then Some x else None)"
  by (induction xs) auto

text \<open>The CSR controller's own implementation satisfies the contract, whatever the clock says.\<close>

interpretation csr_conditions: condition_list cc_Type cc_Status findCsrCondition "setCsrCondition at"
  for at
proof
  fix cs t
  show "findCsrCondition cs t = None \<longleftrightarrow> t \<notin> cc_Type ` set cs"
    by (simp add: findCsrCondition_def findStatusCondition_None)
next
  fix cs c t
  show "findCsrCondition (cs @ [c]) t = (case findCsrCondition cs t of Some d \<Rightarrow> Some d
      | None \<Rightarrow> if cc_Type c = t then Some c else None)"
    by (simp add: findCsrCondition_find find_snoc)
next
  fix cs c
  show "map_option cc_Status (findCsrCondition (setCsrCondition at cs c) (cc_Type c)) =
      Some (cc_Status c)"
  proof (cases "findStatusCondition cs (cc_Type c)")
    case None
    then have new: "cc_Type c \<notin> cc_Type ` set cs" by (simp add: findStatusCondition_None)
    have "List.find (\<lambda>d. cc_Type d = cc_Type c) cs = None"
      using None by (simp add: findCsrCondition_def flip: findCsrCondition_find)
    with new show ?thesis by (simp add: findCsrCondition_find setCsrCondition_new find_snoc)
  next
    case (Some i)
    from setCsrCondition_old[OF Some] obtain at' where
      eq: "setCsrCondition at cs c = cs[i := (cs ! i)\<lparr>cc_Status := cc_Status c,
        cc_LastTransitionTime := at', cc_Reason := cc_Reason c, cc_Message := cc_Message c\<rparr>]"
      by blast
    from findStatusCondition_Some[OF Some] Some show ?thesis
      by (simp add: eq findCsrCondition_def findStatusCondition_update)
  qed
next
  fix t cs and c :: CsrCondition
  assume t: "t \<noteq> cc_Type c"
  show "findCsrCondition (setCsrCondition at cs c) t = findCsrCondition cs t"
  proof (cases "findStatusCondition cs (cc_Type c)")
    case None
    then have "cc_Type c \<notin> cc_Type ` set cs" by (simp add: findStatusCondition_None)
    with t show ?thesis
      by (simp add: findCsrCondition_find setCsrCondition_new find_snoc split: option.split)
  next
    case (Some i)
    from setCsrCondition_old[OF Some] obtain at' where
      eq: "setCsrCondition at cs c = cs[i := (cs ! i)\<lparr>cc_Status := cc_Status c,
        cc_LastTransitionTime := at', cc_Reason := cc_Reason c, cc_Message := cc_Message c\<rparr>]"
      by blast
    note i = findStatusCondition_Some[OF Some]
    show ?thesis
    proof (cases "findStatusCondition cs t")
      case None
      then show ?thesis by (simp add: eq findCsrCondition_def findStatusCondition_update)
    next
      case (Some j)
      with t i have "i \<noteq> j" by (auto dest: findStatusCondition_Some)
      with Some show ?thesis by (simp add: eq findCsrCondition_def findStatusCondition_update)
    qed
  qed
next
  fix cs and c :: CsrCondition
  show "map cc_Type (setCsrCondition at cs c) =
      (if cc_Type c \<in> cc_Type ` set cs then map cc_Type cs else map cc_Type cs @ [cc_Type c])"
  proof (cases "findStatusCondition cs (cc_Type c)")
    case None
    then have "cc_Type c \<notin> cc_Type ` set cs" by (simp add: findStatusCondition_None)
    then show ?thesis by (simp add: setCsrCondition_new)
  next
    case (Some i)
    from setCsrCondition_old[OF Some] obtain at' where
      eq: "setCsrCondition at cs c = cs[i := (cs ! i)\<lparr>cc_Status := cc_Status c,
        cc_LastTransitionTime := at', cc_Reason := cc_Reason c, cc_Message := cc_Message c\<rparr>]"
      by blast
    have "map cc_Type (setCsrCondition at cs c) = map cc_Type cs"
      by (simp add: eq map_update) (metis list_update_id map_update)
    with Some show ?thesis by (metis findStatusCondition_None option.distinct(1))
  qed
qed

end
