(* ===== verification/Webhook.thy ===== *)
theory Webhook
  imports Cluster_Endpoint Status_Conditions
begin

text \<open>
  \<open>api/v1alpha1/kubeconfig_webhook.go\<close>: the mutating webhook \<open>Default\<close> and the validating
  webhook of the Kubeconfig resource. The object arrives as a \<open>runtime.Object\<close>; its cast is
  \<open>None\<close> when the dynamic type is another one.
\<close>

subsection \<open>Default\<close>

definition localhost_endpoint :: string where
  "localhost_endpoint = ''https://localhost:6443''"

definition defaultServer :: "'w env \<Rightarrow> ClusterSpec \<Rightarrow> ('w go_state, ClusterSpec) go" where
  "defaultServer E cl =
    (if cl_Server cl = [] then
       go_bind (ClusterEndpoint E) (\<lambda>(ep, err).
         go_return (cl\<lparr>cl_Server := (case err of Some e \<Rightarrow> localhost_endpoint | None \<Rightarrow> ep)\<rparr>))
     else go_return cl)"

definition defaultClusterName :: "ClusterSpec \<Rightarrow> ClusterSpec" where
  "defaultClusterName cl = (if cl_Name cl = [] then cl\<lparr>cl_Name := ''kubernetes''\<rparr> else cl)"

definition defaultCluster :: "'w env \<Rightarrow> ClusterSpec option \<Rightarrow> ('w go_state, ClusterSpec) go" where
  "defaultCluster E c =
    (let cl = (case c of None \<Rightarrow> \<lparr>cl_Name = [], cl_Server = []\<rparr> | Some cl \<Rightarrow> cl)
     in go_bind (defaultServer E cl) (\<lambda>cl'. go_return (defaultClusterName cl')))"

definition defaultRoleRef :: "RoleRef option \<Rightarrow> RoleRef" where
  "defaultRoleRef r = (case r of
     None \<Rightarrow> \<lparr>rr_APIGroup = ''rbac.authorization.k8s.io'', rr_Kind = ''ClusterRole'',
              rr_Name = ''cluster-admin''\<rparr>
   | Some rr \<Rightarrow> rr)"

definition defaultCSR ::
  "CertificateSigningRequestSpec option \<Rightarrow> CertificateSigningRequestSpec" where
  "defaultCSR c =
    (let csr = (case c of None \<Rightarrow> \<lparr>SignatureAlg = SHA256WithRSA, AdditionalFields = zero_fields\<rparr>
                        | Some x \<Rightarrow> x)
     in if SignatureAlg csr = [] then csr\<lparr>SignatureAlg := SHA256WithRSA\<rparr> else csr)"

text \<open>One of the five blocks that add a missing condition with the status \<open>Unknown\<close>.\<close>

definition appendUnknown ::
  "'w env \<Rightarrow> Condition list \<Rightarrow> string \<Rightarrow> ('w go_state, Condition list) go" where
  "appendUnknown E cl t =
    (if meta_FindStatusCondition E cl t = None then
       go_bind (now E) (\<lambda>at.
         go_return (cl @ [new_condition t ConditionUnknown at ''Unknown'' ''n/a'']))
     else go_return cl)"

definition defaultConditions ::
  "'w env \<Rightarrow> Condition list \<Rightarrow> ('w go_state, Condition list) go" where
  "defaultConditions E cl =
     go_bind (appendUnknown E cl ConditionTypeCSRCreated) (\<lambda>cl.
     go_bind (appendUnknown E cl ConditionTypeCSRApproved) (\<lambda>cl.
     go_bind (appendUnknown E cl ConditionTypeUserSecretCreated) (\<lambda>cl.
     go_bind (appendUnknown E cl ConditionTypeUserSecretFinished) (\<lambda>cl.
       appendUnknown E cl ConditionTypeKubeconfigFinished))))"

text \<open>\<open>Default\<close> changes the object in place; the result is the object it leaves and the error.\<close>

definition Default ::
  "'w env \<Rightarrow> Kubeconfig option \<Rightarrow> ('w go_state, Kubeconfig \<times> go_error option) go" where
  "Default E obj =
     go_bind (go_deref obj) (\<lambda>kubeconfig.
     go_bind (defaultCluster E (SpecCluster (Spec kubeconfig))) (\<lambda>cluster.
     let spec = (Spec kubeconfig)
           \<lparr>SpecCluster := Some cluster,
            SpecRoleRef := Some (defaultRoleRef (SpecRoleRef (Spec kubeconfig))),
            SpecCSR := Some (defaultCSR (SpecCSR (Spec kubeconfig)))\<rparr>
     in go_bind (defaultConditions E (Conditions (Status kubeconfig))) (\<lambda>cl.
        go_return (kubeconfig\<lparr>Spec := spec,
          Status := (Status kubeconfig)\<lparr>Conditions := cl, Phase := PhasePending\<rparr>\<rparr>, None))))"

subsection \<open>Validation\<close>

datatype field_error = FieldForbidden "string list" string

text \<open>\<open>apierrors.NewForbidden\<close> of a group and resource, the object's name and the field errors.\<close>

datatype admission_error = NewForbidden string string string "field_error list"

definition ValidateCreate ::
  "Kubeconfig option \<Rightarrow> ('s, admission_error option) go" where
  "ValidateCreate obj = go_return None"

definition ValidateDelete ::
  "Kubeconfig option \<Rightarrow> ('s, admission_error option) go" where
  "ValidateDelete obj = go_return None"

definition update_errors :: "Kubeconfig \<Rightarrow> Kubeconfig \<Rightarrow> field_error list" where
  "update_errors oldKubeconfig newKubeconfig =
     (if ExistingCSR (Spec oldKubeconfig) \<noteq> ExistingCSR (Spec newKubeconfig)
      then [FieldForbidden [''spec'', ''existingCSR''] ''.spec.existingCSR is immutable''] else [])
   @ (if SpecCSR (Spec oldKubeconfig) \<noteq> SpecCSR (Spec newKubeconfig)
      then [FieldForbidden [''spec'', ''CSR''] ''.spec.csr is immutable''] else [])"

definition ValidateUpdate ::
  "Kubeconfig option \<Rightarrow> Kubeconfig option \<Rightarrow> ('s, admission_error option) go" where
  "ValidateUpdate old new =
     go_bind (go_deref old) (\<lambda>oldKubeconfig.
     go_bind (go_deref new) (\<lambda>newKubeconfig.
       let allErrs = update_errors oldKubeconfig newKubeconfig
       in if length allErrs = 0 then go_return None
          else go_return (Some (NewForbidden ''kubeconfig.k8s.zoomoid.dev'' ''Kubeconfig''
                 (Name (KMeta oldKubeconfig)) allErrs))))"

end
