(* ===== verification/Encoding.thy ===== *)
theory Encoding
  imports Prelude
begin

text \<open>
  The two encodings of the Go standard library that the operator's output rests on:
  \<open>base64.StdEncoding.EncodeToString\<close> (used for the data fields of the kubeconfig file) and
  \<open>pem.Encode\<close> of a block without headers (used for private keys and signing requests).
  A reference decoder shows that the base64 text determines the bytes.
\<close>

subsection \<open>Base64\<close>

definition b64_alphabet :: string where
  "b64_alphabet = ''ABCDEFGHIJKLMNOPQRSTUVWXYZabcdefghijklmnopqrstuvwxyz0123456789+/''"

definition b64_char :: "nat \<Rightarrow> char" where
  "b64_char i = b64_alphabet ! i"

definition b64_value :: "char \<Rightarrow> nat" where
  "b64_value c = length (takeWhile (\<lambda>d. d \<noteq> c) b64_alphabet)"

abbreviation byte :: "char \<Rightarrow> nat" where
  "byte c \<equiv> of_char c"

fun base64_encode :: "bytes \<Rightarrow> string" where
  "base64_encode [] = []"
| "base64_encode [a] =
     [b64_char (byte a div 4), b64_char (byte a mod 4 * 16), CHR ''='', CHR ''='']"
| "base64_encode [a, b] =
     [b64_char (byte a div 4), b64_char (byte a mod 4 * 16 + byte b div 16),
      b64_char (byte b mod 16 * 4), CHR ''='']"
| "base64_encode (a # b # c # r) =
     [b64_char (byte a div 4), b64_char (byte a mod 4 * 16 + byte b div 16),
      b64_char (byte b mod 16 * 4 + byte c div 64), b64_char (byte c mod 64)] @ base64_encode r"

fun base64_decode :: "string \<Rightarrow> bytes" where
  "base64_decode (w # x # y # z # r) =
     (if y = CHR ''='' then [char_of (b64_value w * 4 + b64_value x div 16)]
      else if z = CHR ''='' then
        [char_of (b64_value w * 4 + b64_value x div 16),
         char_of (b64_value x mod 16 * 16 + b64_value y div 4)]
      else
        [char_of (b64_value w * 4 + b64_value x div 16),
         char_of (b64_value x mod 16 * 16 + b64_value y div 4),
         char_of (b64_value y mod 4 * 64 + b64_value z)] @ base64_decode r)"
| "base64_decode s = []"

lemma b64_table:
  "list_all (\<lambda>i. b64_value (b64_char i) = i \<and> b64_char i \<noteq> CHR ''='') [0..<64]"
  by code_simp

lemma b64_value_char [simp]: "i < 64 \<Longrightarrow> b64_value (b64_char i) = i"
  using b64_table by (simp add: list_all_iff)

lemma b64_char_pad [simp]: "i < 64 \<Longrightarrow> b64_char i \<noteq> CHR ''=''"
  using b64_table by (simp add: list_all_iff)

lemma byte_bound: "byte c < 256"
  by simp

lemma byte_high [simp]:
  "byte c div 4 < 64" "byte c div 16 < 16" "byte c div 64 < 4"
  using byte_bound[of c] by (simp_all only: div_less_iff_less_mult)

lemma byte_join_16 [simp]: "byte a mod 4 * 16 + byte b div 16 < 64"
proof -
  have "byte a mod 4 < 4" by simp
  with byte_high(2)[of b] show ?thesis by linarith
qed

lemma byte_join_4 [simp]: "byte b mod 16 * 4 + byte c div 64 < 64"
proof -
  have "byte b mod 16 < 16" by simp
  with byte_high(3)[of c] show ?thesis by linarith
qed

lemma byte_small [simp]: "byte a mod 4 * 16 < 64" "byte a mod 16 * 4 < 64"
proof -
  have "byte a mod 4 < 4" "byte a mod 16 < 16" by simp_all
  then show "byte a mod 4 * 16 < 64" "byte a mod 16 * 4 < 64" by linarith+
qed

theorem base64_decode_encode: "base64_decode (base64_encode bs) = bs"
proof (induction bs rule: base64_encode.induct)
  case (4 a b c r)
  then show ?case by simp
qed simp_all

lemma base64_encode_inj: "base64_encode xs = base64_encode ys \<longleftrightarrow> xs = ys"
  by (metis base64_decode_encode)

lemma length_base64_encode: "length (base64_encode bs) = 4 * ((length bs + 2) div 3)"
proof (induction bs rule: base64_encode.induct)
  case (4 a b c r)
  have "(length (a # b # c # r) + 2) div 3 = Suc ((length r + 2) div 3)" by simp
  with 4 show ?case by simp
qed simp_all

subsection \<open>PEM\<close>

definition newline :: string where
  "newline = [CHR 0x0A]"

function pem_lines :: "string \<Rightarrow> string" where
  "pem_lines s = (if s = [] then [] else take 64 s @ newline @ pem_lines (drop 64 s))"
  by pat_completeness auto
termination
  by (relation "measure length") auto

declare pem_lines.simps [simp del]

definition pem_Encode :: "string \<Rightarrow> bytes \<Rightarrow> bytes" where
  "pem_Encode t b = ''-----BEGIN '' @ t @ ''-----'' @ newline
     @ pem_lines (base64_encode b)
     @ ''-----END '' @ t @ ''-----'' @ newline"

lemma pem_Encode_nonempty [simp]: "pem_Encode t b \<noteq> []"
  by (simp add: pem_Encode_def)

end
