(* ===== verification/Signing_Request.thy ===== *)
theory Signing_Request
  imports Runtime Encoding
begin

text \<open>
  \<open>controllers/utils.go\<close>: the helpers of the Kubeconfig reconciler. Key generation and
  signing are calls of the environment; which of them is made for which signature algorithm,
  and what is done with the results, is the code's.
\<close>

definition RSAKeyLength :: int where
  "RSAKeyLength = 4096"

definition ErrCertificateSigningRequestCreate :: go_error where
  "ErrCertificateSigningRequestCreate =
     StatusError ReasonInternalError ''Internal error occurred: failed to create CSR''"

definition labelsForSubresources :: "Kubeconfig \<Rightarrow> (string \<rightharpoonup> string)" where
  "labelsForSubresources kubeconfig =
     [''kubeconfig-operator.k8s.zoomoid.dev/for'' \<mapsto> Name (KMeta kubeconfig),
      ''kubeconfig-operator.k8s.zoomoid.dev/username'' \<mapsto> Username (Spec kubeconfig)]"

definition parseSignatureAlgorithm :: "SignatureAlgorithm \<Rightarrow> x509_SignatureAlgorithm" where
  "parseSignatureAlgorithm a =
    (if a = SHA256WithRSA then X509_SHA256WithRSA
     else if a = SHA384WithRSA then X509_SHA384WithRSA
     else if a = SHA512WithRSA then X509_SHA512WithRSA
     else if a = PureEd25519 then X509_PureEd25519
     else if a = ECDSAWithSHA512 then X509_ECDSAWithSHA512
     else if a = ECDSAWithSHA384 then X509_ECDSAWithSHA384
     else if a = ECDSAWithSHA256 then X509_ECDSAWithSHA256
     else if a = SHA256WithRSAPSS then X509_SHA256WithRSAPSS
     else if a = SHA384WithRSAPSS then X509_SHA384WithRSAPSS
     else if a = SHA512WithRSAPSS then X509_SHA512WithRSAPSS
     else X509_Unknown)"

text \<open>The loop of \<open>getCertApprovalCondition\<close>, its three named results as an accumulator.\<close>

fun approval_loop ::
  "bool \<times> bool \<times> bool \<Rightarrow> CsrCondition list \<Rightarrow> bool \<times> bool \<times> bool" where
  "approval_loop acc [] = acc"
| "approval_loop (approved, denied, failed) (c # cs) =
     approval_loop
       (if cc_Type c = CertificateApproved then True else approved,
        if cc_Type c = CertificateDenied then True else denied,
        if cc_Type c = CertificateFailed then True else failed) cs"

definition getCertApprovalCondition :: "CsrCondition list \<Rightarrow> bool \<times> bool \<times> bool" where
  "getCertApprovalCondition conditions = approval_loop (False, False, False) conditions"

lemma approval_loop_eq:
  "approval_loop (a, d, f) cs =
     (a \<or> CertificateApproved \<in> cc_Type ` set cs, d \<or> CertificateDenied \<in> cc_Type ` set cs,
      f \<or> CertificateFailed \<in> cc_Type ` set cs)"
  by (induction cs arbitrary: a d f) auto

lemma getCertApprovalCondition_eq:
  "getCertApprovalCondition cs =
     (CertificateApproved \<in> cc_Type ` set cs, CertificateDenied \<in> cc_Type ` set cs,
      CertificateFailed \<in> cc_Type ` set cs)"
  by (simp add: getCertApprovalCondition_def approval_loop_eq)

subsection \<open>Keys\<close>

text \<open>
  The errors of the generators are dropped by the code; a nil key then makes the
  marshalling function of the standard library panic.
\<close>

definition createRSAKey :: "'w env \<Rightarrow> ('w go_state, Signer \<times> bytes) go" where
  "createRSAKey E =
     go_bind (lib_call (rsa_GenerateKey E RSAKeyLength)) (\<lambda>priv.
     go_bind (go_deref priv) (\<lambda>k.
       go_return (RSAKey k, pem_Encode ''RSA PRIVATE KEY'' (x509_MarshalPKCS1PrivateKey E k))))"

definition createECDSAKey :: "'w env \<Rightarrow> ('w go_state, Signer \<times> bytes) go" where
  "createECDSAKey E =
     go_bind (lib_call (ecdsa_GenerateKey E ''P-521'')) (\<lambda>priv.
     go_bind (go_deref priv) (\<lambda>k.
       go_return (ECDSAKey k, pem_Encode ''EC PRIVATE KEY'' (x509_MarshalECPrivateKey E k))))"

definition createEd25519Key :: "'w env \<Rightarrow> ('w go_state, Signer \<times> bytes) go" where
  "createEd25519Key E =
     go_bind (lib_call (ed25519_GenerateKey E)) (\<lambda>priv.
     go_bind (go_deref priv) (\<lambda>k.
       go_return (Ed25519Key k, pem_Encode ''PRIVATE KEY'' (x509_MarshalPKCS8PrivateKey E k))))"

text \<open>
  The switch of \<open>createCSR\<close>: \<open>Inl\<close> is the early return with an error, \<open>Inr\<close> the two
  variables \<open>keyBytes\<close> and \<open>encoded\<close>, both nil when no case matches.
\<close>

definition unsupported_scheme :: go_error where
  "unsupported_scheme = PlainError ''unsupported signature scheme for key generation''"

definition generateKey ::
  "'w env \<Rightarrow> SignatureAlgorithm \<Rightarrow>
     ('w go_state, go_error + (Signer option \<times> bytes option)) go"
where
  "generateKey E sigScheme =
    (let both = (\<lambda>(k, enc). go_return (Inr (Some k, Some enc)))
     in if sigScheme \<in> {SHA256WithRSA, SHA384WithRSA, SHA512WithRSA,
                        SHA256WithRSAPSS, SHA384WithRSAPSS, SHA512WithRSAPSS}
        then go_bind (createRSAKey E) both
        else if sigScheme \<in> {ECDSAWithSHA256, ECDSAWithSHA384, ECDSAWithSHA512}
        then go_bind (createECDSAKey E) both
        else if sigScheme = PureEd25519 then go_bind (createEd25519Key E) both
        else if sigScheme = UnknownSignatureAlgorithm then go_return (Inl unsupported_scheme)
        else go_return (Inr (None, None)))"

subsection \<open>The signing request\<close>

definition csrTemplate :: "string \<Rightarrow> CertificateSigningRequestSpec \<Rightarrow> CertificateRequestTemplate" where
  "csrTemplate username csrSpec =
     (let fields = AdditionalFields csrSpec
      in \<lparr>tp_Subject = \<lparr>pk_CommonName = username, pk_Country = Country fields,
            pk_Province = Province fields, pk_Locality = Locality fields,
            pk_Organization = Organization fields,
            pk_OrganizationalUnit = OrganizationalUnit fields, pk_ExtraNames = Some []\<rparr>,
          tp_SignatureAlgorithm = parseSignatureAlgorithm (SignatureAlg csrSpec)\<rparr>)"

text \<open>\<open>createCSR\<close>: the buffers of the key and of the request (\<open>None\<close> for nil) and the error.\<close>

definition createCSR ::
  "'w env \<Rightarrow> Kubeconfig \<Rightarrow> ('w go_state, bytes option \<times> bytes option \<times> go_error option) go"
where
  "createCSR E kubeconfig =
     go_bind (go_deref (SpecCSR (Spec kubeconfig))) (\<lambda>csrSpec.
     go_bind (generateKey E (SignatureAlg csrSpec)) (\<lambda>r.
       case r of
         Inl err \<Rightarrow> go_return (None, None, Some err)
       | Inr (keyBytes, encoded) \<Rightarrow>
           go_bind (lib_call (x509_CreateCertificateRequest E
                     (csrTemplate (Username (Spec kubeconfig)) csrSpec) keyBytes)) (\<lambda>res.
             case res of
               Inl e \<Rightarrow> go_return (None, None, Some ErrCertificateSigningRequestCreate)
             | Inr csrBytes \<Rightarrow>
                 go_return (encoded, Some (pem_Encode ''CERTIFICATE REQUEST'' csrBytes), None))))"

subsection \<open>The terminal condition\<close>

definition isInTerminalCondition :: "'w env \<Rightarrow> Kubeconfig \<Rightarrow> bool" where
  "isInTerminalCondition E kubeconfig =
    (case meta_FindStatusCondition E (Conditions (Status kubeconfig))
            ConditionTypeKubeconfigFinished of
       None \<Rightarrow> False
     | Some f \<Rightarrow> c_Status f \<noteq> ConditionUnknown)"

subsection \<open>Key families\<close>

text \<open>The kind of key a signature algorithm of \<open>crypto/x509\<close> signs with.\<close>

datatype key_family = RSA | ECDSA | Ed25519

fun family_of_signer :: "Signer \<Rightarrow> key_family" where
  "family_of_signer (RSAKey k) = RSA"
| "family_of_signer (ECDSAKey k) = ECDSA"
| "family_of_signer (Ed25519Key k) = Ed25519"

fun family_of_algorithm :: "x509_SignatureAlgorithm \<Rightarrow> key_family option" where
  "family_of_algorithm X509_Unknown = None"
| "family_of_algorithm X509_PureEd25519 = Some Ed25519"
| "family_of_algorithm X509_ECDSAWithSHA256 = Some ECDSA"
| "family_of_algorithm X509_ECDSAWithSHA384 = Some ECDSA"
| "family_of_algorithm X509_ECDSAWithSHA512 = Some ECDSA"
| "family_of_algorithm X509_SHA256WithRSA = Some RSA"
| "family_of_algorithm X509_SHA384WithRSA = Some RSA"
| "family_of_algorithm X509_SHA512WithRSA = Some RSA"
| "family_of_algorithm X509_SHA256WithRSAPSS = Some RSA"
| "family_of_algorithm X509_SHA384WithRSAPSS = Some RSA"
| "family_of_algorithm X509_SHA512WithRSAPSS = Some RSA"

definition supported_algorithms :: "SignatureAlgorithm list" where
  "supported_algorithms = [SHA256WithRSA, SHA384WithRSA, SHA512WithRSA, ECDSAWithSHA256,
     ECDSAWithSHA384, ECDSAWithSHA512, SHA256WithRSAPSS, SHA384WithRSAPSS, SHA512WithRSAPSS,
     PureEd25519]"

lemma parse_unknown_iff:
  "parseSignatureAlgorithm a = X509_Unknown \<longleftrightarrow> a \<notin> set supported_algorithms"
  by (simp add: parseSignatureAlgorithm_def supported_algorithms_def)

lemma parse_inj: "inj_on parseSignatureAlgorithm (set supported_algorithms)"
  by (simp add: supported_algorithms_def inj_on_def parseSignatureAlgorithm_def)

text \<open>What a run of \<open>generateKey\<close> can yield, for every reply of the generators.\<close>

lemma wp_generateKeyI:
  assumes "\<And>w'. Q Panic \<lparr>world = w', calls = calls s\<rparr>"
    and "\<And>k enc w'. family_of_algorithm (parseSignatureAlgorithm a) = Some (family_of_signer k)
      \<Longrightarrow> enc \<noteq> [] \<Longrightarrow> Q (Ret (Inr (Some k, Some enc))) \<lparr>world = w', calls = calls s\<rparr>"
    and "a = UnknownSignatureAlgorithm \<Longrightarrow> Q (Ret (Inl unsupported_scheme)) s"
    and "a \<notin> set supported_algorithms \<Longrightarrow> a \<noteq> UnknownSignatureAlgorithm \<Longrightarrow>
      Q (Ret (Inr (None, None))) s"
  shows "wp (generateKey E a) Q s"
proof -
  consider (rsa) "a \<in> {SHA256WithRSA, SHA384WithRSA, SHA512WithRSA,
      SHA256WithRSAPSS, SHA384WithRSAPSS, SHA512WithRSAPSS}"
    | (ec) "a \<in> {ECDSAWithSHA256, ECDSAWithSHA384, ECDSAWithSHA512}"
    | (ed) "a = PureEd25519" | (unk) "a = UnknownSignatureAlgorithm"
    | (other) "a \<notin> set supported_algorithms" "a \<noteq> UnknownSignatureAlgorithm"
    by (auto simp: supported_algorithms_def)
  then show ?thesis
  proof cases
    case rsa
    then have "family_of_algorithm (parseSignatureAlgorithm a) = Some RSA"
      by (auto simp: parseSignatureAlgorithm_def)
    with rsa show ?thesis using assms(1,2)
      by (simp add: generateKey_def createRSAKey_def go_wp split: prod.splits option.splits)
  next
    case ec
    then have "family_of_algorithm (parseSignatureAlgorithm a) = Some ECDSA"
      by (auto simp: parseSignatureAlgorithm_def)
    with ec show ?thesis using assms(1,2)
      by (auto simp add: generateKey_def createECDSAKey_def go_wp split: prod.splits option.splits)
  next
    case ed
    then have "family_of_algorithm (parseSignatureAlgorithm a) = Some Ed25519"
      by (simp add: parseSignatureAlgorithm_def)
    with ed show ?thesis using assms(1,2)
      by (simp add: generateKey_def createEd25519Key_def go_wp split: prod.splits option.splits)
  next
    case unk
    then show ?thesis using assms(3) by (simp add: generateKey_def go_wp)
  next
    case other
    then show ?thesis using assms(4)
      by (simp add: generateKey_def go_wp supported_algorithms_def)
  qed
qed

text \<open>What a run of \<open>createCSR\<close> can yield.\<close>

lemma wp_createCSRI:
  assumes "\<And>w'. Q Panic \<lparr>world = w', calls = calls s\<rparr>"
    and "\<And>e w'. Q (Ret (None, None, Some e)) \<lparr>world = w', calls = calls s\<rparr>"
    and "\<And>enc b w'. Q (Ret (enc, Some (pem_Encode ''CERTIFICATE REQUEST'' b), None)) \<lparr>world = w', calls = calls s\<rparr>"
  shows "wp (createCSR E kc) Q s"
proof (cases "SpecCSR (Spec kc)")
  case None
  then show ?thesis using assms(1)[of "world s"] by (simp add: createCSR_def go_wp)
next
  case (Some csr)
  have p: "Q Panic s" using assms(1)[of "world s"] by simp
  have e: "Q (Ret (None, None, Some e)) s" for e using assms(2)[of e "world s"] by simp
  show ?thesis
    unfolding createCSR_def wp_bind wp_deref Some option.case outcome.case
    by (rule wp_generateKeyI)
      (auto simp: go_wp assms p e split: prod.splits sum.splits)
qed

text \<open>
  The file of a private key in its usual format: PKCS 1 for RSA, SEC 1 for elliptic curves and
  PKCS 8 for Ed25519, as a PEM block of that type. A generated key comes with its file, and a
  request with the key that has signed it.
\<close>

fun key_file :: "'w env \<Rightarrow> Signer \<Rightarrow> bytes" where
  "key_file E (RSAKey k) = pem_Encode ''RSA PRIVATE KEY'' (x509_MarshalPKCS1PrivateKey E k)"
| "key_file E (ECDSAKey k) = pem_Encode ''EC PRIVATE KEY'' (x509_MarshalECPrivateKey E k)"
| "key_file E (Ed25519Key k) = pem_Encode ''PRIVATE KEY'' (x509_MarshalPKCS8PrivateKey E k)"

lemma wp_generateKey_file:
  "wp (generateKey E a) (\<lambda>r s'. \<forall>k enc. r = Ret (Inr (k, enc)) \<longrightarrow>
     k = None \<and> enc = None \<or> (\<exists>key. k = Some key \<and> enc = Some (key_file E key))) s"
  by (auto simp: generateKey_def createRSAKey_def createECDSAKey_def createEd25519Key_def Let_def go_wp
      split: prod.splits option.splits)

lemma wp_createCSR_pair:
  "wp (createCSR E kc) (\<lambda>r s'. \<forall>key req. r = Ret (Some key, Some req, None) \<longrightarrow>
     (\<exists>csr k der w w'. SpecCSR (Spec kc) = Some csr \<and> key = key_file E k \<and>
        x509_CreateCertificateRequest E (csrTemplate (Username (Spec kc)) csr) (Some k) w = (Inr der, w') \<and>
        req = pem_Encode ''CERTIFICATE REQUEST'' der)) s"
proof (cases "SpecCSR (Spec kc)")
  case None
  then show ?thesis by (simp add: createCSR_def go_wp)
next
  case (Some csr)
  show ?thesis
    unfolding createCSR_def wp_bind wp_deref Some option.case outcome.case
    by (rule wp_mono[OF wp_generateKey_file]) (auto simp: go_wp split: prod.splits sum.splits outcome.splits, blast)
qed

lemma wp_createCSR_calls: "wp (createCSR E kc) (\<lambda>r s'. calls s' = calls s) s"
  by (rule wp_createCSRI) simp_all

end
