(* ===== verification/Resources.thy ===== *)
theory Resources
  imports Config_File Signing_Request
begin

text \<open>
  \<open>controllers/resources.go\<close> and \<open>controllers/client_cert.go\<close>: the objects the Kubeconfig
  reconciler creates, and the kubeconfig file it puts together from the cluster CA and the
  user secret.
\<close>

abbreviation CertificateSecretPrivKeyKey :: string where
  "CertificateSecretPrivKeyKey \<equiv> ''tls.key''"
abbreviation CertificateSecretCSRKey :: string where
  "CertificateSecretCSRKey \<equiv> ''tls.csr''"
abbreviation CertificateSecretCertKey :: string where
  "CertificateSecretCertKey \<equiv> ''tls.crt''"
abbreviation KubeconfigKey :: string where
  "KubeconfigKey \<equiv> ''kubeconfig''"

abbreviation CSRAutoApproveAnnotationKey :: string where
  "CSRAutoApproveAnnotationKey \<equiv> ''kubeconfig.k8s.zoomoid.dev/auto-approve''"
abbreviation KubeconfigOperatorAPIVersionV1Alpha1 :: string where
  "KubeconfigOperatorAPIVersionV1Alpha1 \<equiv> ''kubeconfig.k8s.zoomoid.dev/v1alpha1''"

subsection \<open>Objects to create\<close>

definition createClusterRoleBinding ::
  "Kubeconfig \<Rightarrow> NamespacedName \<Rightarrow> ('s, ClusterRoleBinding) go" where
  "createClusterRoleBinding kubeconfig obj =
     go_bind (go_deref (SpecRoleRef (Spec kubeconfig))) (\<lambda>roleRef.
       go_return \<lparr>CrbMeta = zero_meta\<lparr>Name := nn_Name obj,
                    Labels := labelsForSubresources kubeconfig\<rparr>,
         Subjects = [\<lparr>sub_Kind = ''User'', sub_APIGroup = ''rbac.authorization.k8s.io'',
                      sub_Name = Username (Spec kubeconfig)\<rparr>],
         CrbRoleRef = roleRef\<rparr>)"

text \<open>The error of \<open>SetControllerReference\<close> is dropped; the metadata it leaves is used.\<close>

definition set_owner :: "'w env \<Rightarrow> Kubeconfig \<Rightarrow> ObjectMeta \<Rightarrow> ObjectMeta" where
  "set_owner E kubeconfig m = snd (SetControllerReference E kubeconfig m)"

definition createUserSecret :: "'w env \<Rightarrow> Kubeconfig \<Rightarrow> NamespacedName \<Rightarrow> Secret" where
  "createUserSecret E kubeconfig obj =
     \<lparr>SMeta = set_owner E kubeconfig (zero_meta\<lparr>Name := nn_Name obj,
        Namespace := nn_Namespace obj, Labels := labelsForSubresources kubeconfig\<rparr>),
      SecretType = ''kubernetes.io/tls'',
      SecretData = None,
      StringData = Some [CertificateSecretPrivKeyKey \<mapsto> [], CertificateSecretCSRKey \<mapsto> [],
                         CertificateSecretCertKey \<mapsto> []]\<rparr>"

definition createCsr :: "'w env \<Rightarrow> Kubeconfig \<Rightarrow> bytes \<Rightarrow> Csr" where
  "createCsr E kubeconfig csrBuffer =
    (let annotations = (if AutoApproveCSR (Spec kubeconfig)
           then [CSRAutoApproveAnnotationKey \<mapsto> ''true''] else Map.empty)
     in \<lparr>CsrMeta = set_owner E kubeconfig (zero_meta\<lparr>Name := Name (KMeta kubeconfig),
           Labels := labelsForSubresources kubeconfig, Annotations := annotations\<rparr>),
         Request = csrBuffer, SignerName = ''kubernetes.io/kube-apiserver-client'',
         Usages = [''client auth''], CsrConditions = [], Certificate = []\<rparr>)"

subsection \<open>The kubeconfig file\<close>

definition kube_root_ca_name :: NamespacedName where
  "kube_root_ca_name = \<lparr>nn_Namespace = ''kube-public'', nn_Name = ''kube-root-ca.crt''\<rparr>"

definition ClusterCA :: "'w env \<Rightarrow> ('w go_state, string \<times> go_error option) go" where
  "ClusterCA E =
     go_bind (Get_ConfigMap E kube_root_ca_name zero_configmap) (\<lambda>(err, kubeRootCAConfigMap).
       case err of
         Some e \<Rightarrow> go_return ([], Some e)
       | None \<Rightarrow> go_return (gomap_index (ConfigData kubeRootCAConfigMap) ''ca.crt'', None))"

text \<open>
  \<open>ClientData\<close> returns the key, the certificate and the error; a missing certificate is
  only logged.
\<close>

definition ClientData :: "Secret \<Rightarrow> string \<times> string \<times> go_error option" where
  "ClientData object =
     (gomap_index (SecretData object) CertificateSecretPrivKeyKey,
      gomap_index (SecretData object) CertificateSecretCertKey, None)"

definition context_name :: "string \<Rightarrow> string \<Rightarrow> string" where
  "context_name username cluster = username @ ''@'' @ cluster"

text \<open>The configuration \<open>createKubeconfig\<close> fills in before it marshals it.\<close>

definition user_config :: "string \<Rightarrow> ClusterSpec \<Rightarrow> string \<Rightarrow> string \<Rightarrow> string \<Rightarrow> Config" where
  "user_config username cluster clusterCA clientCert clientKey =
    (let contextName = context_name username (cl_Name cluster)
     in NewBareConfig
          \<lparr>Clusters := Some [cl_Name cluster \<mapsto>
             \<lparr>CertificateAuthority = base64_encode clusterCA, Server = cl_Server cluster\<rparr>],
           Users := Some [username \<mapsto>
             \<lparr>ClientCertificate = base64_encode clientCert, ClientKey = base64_encode clientKey\<rparr>],
           Contexts := Some [contextName \<mapsto>
             \<lparr>ctx_Cluster = cl_Name cluster, ctx_Namespace = ''default'', ctx_User = username\<rparr>],
           CurrentContext := contextName\<rparr>)"

definition createKubeconfig ::
  "'w env \<Rightarrow> Kubeconfig \<Rightarrow> Secret \<Rightarrow> ('w go_state, bytes \<times> go_error option) go" where
  "createKubeconfig E kubeconfig secret =
     go_bind (ClusterCA E) (\<lambda>(clusterCA, err).
       case err of
         Some e \<Rightarrow> go_return ([], Some e)
       | None \<Rightarrow>
          (case ClientData secret of (clientKey, clientCert, err) \<Rightarrow>
             (case err of
                Some e \<Rightarrow> go_return ([], Some e)
              | None \<Rightarrow>
                 go_bind (go_deref (SpecCluster (Spec kubeconfig))) (\<lambda>cluster.
                   go_return (Marshal E (user_config (Username (Spec kubeconfig)) cluster
                     clusterCA clientCert clientKey), None)))))"

lemma wp_createKubeconfigI:
  assumes "\<And>err cm w'. client_Get_ConfigMap E kube_root_ca_name zero_configmap (world s) =
      ((err, cm), w') \<Longrightarrow>
    (case err of
       Some e \<Rightarrow> Q (Ret ([], Some e))
     | None \<Rightarrow>
         (case SpecCluster (Spec kc) of
            None \<Rightarrow> Q Panic
          | Some cl \<Rightarrow> Q (Ret (Marshal E (user_config (Username (Spec kc)) cl
              (gomap_index (ConfigData cm) ''ca.crt'')
              (gomap_index (SecretData sec) CertificateSecretCertKey)
              (gomap_index (SecretData sec) CertificateSecretPrivKeyKey)), None))))
      \<lparr>world = w', calls = calls s @ [GetConfigMap kube_root_ca_name err cm]\<rparr>"
  shows "wp (createKubeconfig E kc sec) Q s"
proof -
  obtain err cm w' where
    r: "client_Get_ConfigMap E kube_root_ca_name zero_configmap (world s) = ((err, cm), w')"
    by (metis surj_pair)
  show ?thesis using assms[OF r]
    by (simp add: createKubeconfig_def ClusterCA_def ClientData_def client_defs go_wp r
        split: option.splits)
qed

text \<open>
  A configuration is closed when its current context is one of its contexts and every
  context names a cluster and a user that are there.
\<close>

definition closed_config :: "Config \<Rightarrow> bool" where
  "closed_config c \<longleftrightarrow> gomap_lookup (Contexts c) (CurrentContext c) \<noteq> None \<and>
     (\<forall>x \<in> ran (gomap_lookup (Contexts c)).
        gomap_lookup (Clusters c) (ctx_Cluster x) \<noteq> None \<and>
        gomap_lookup (Users c) (ctx_User x) \<noteq> None)"

lemma user_config_closed: "closed_config (user_config u cl ca cert key)"
  by (simp add: closed_config_def user_config_def Let_def)

lemma user_config_finite: "finite_config (user_config u cl ca cert key)"
  by (simp add: finite_config_def user_config_def Let_def dom_def)

end
