(* ===== verification/Kubeconfig_Controller.thy ===== *)
theory Kubeconfig_Controller
  imports Resources Status_Conditions
begin

text \<open>
  \<open>controllers/kubeconfig_controller.go\<close>: \<open>KubeconfigReconciler.Reconcile\<close>, cut into the
  parts that its comments and early returns mark. The variables a part shares with the rest
  (the Kubeconfig object with its status in memory, the user secret) are its arguments and
  results; \<open>Inl\<close> is a return from the whole function.
\<close>

subsection \<open>Status updates in memory\<close>

text \<open>\<open>meta.SetStatusCondition(&kubeconfig.Status.Conditions, ...)\<close>\<close>

definition SetCondition ::
  "'w env \<Rightarrow> Kubeconfig \<Rightarrow> string \<Rightarrow> string \<Rightarrow> string \<Rightarrow> string \<Rightarrow> ('w go_state, Kubeconfig) go"
where
  "SetCondition E kubeconfig t status r m = go_bind (now E) (\<lambda>at.
     go_return (kubeconfig\<lparr>Status := (Status kubeconfig)\<lparr>Conditions :=
       meta_SetStatusCondition E at (Conditions (Status kubeconfig))
         (new_condition t status 0 r m)\<rparr>\<rparr>))"

definition SetPhase :: "Kubeconfig \<Rightarrow> string \<Rightarrow> Kubeconfig" where
  "SetPhase kubeconfig p = kubeconfig\<lparr>Status := (Status kubeconfig)\<lparr>Phase := p\<rparr>\<rparr>"

definition SetUserSecret :: "Kubeconfig \<Rightarrow> Secret \<Rightarrow> Kubeconfig" where
  "SetUserSecret kubeconfig userSecret =
     kubeconfig\<lparr>Status := (Status kubeconfig)\<lparr>UserSecret :=
       \<lparr>sr_Name = Name (SMeta userSecret), sr_Namespace = Namespace (SMeta userSecret)\<rparr>\<rparr>\<rparr>"

lemma wp_SetCondition [go_wp]:
  "wp (SetCondition E kc t st r m) Q s =
     Q (Ret (kc\<lparr>Status := (Status kc)\<lparr>Conditions :=
       meta_SetStatusCondition E (time_Now E (world s)) (Conditions (Status kc))
         (new_condition t st 0 r m)\<rparr>\<rparr>)) s"
  by (simp add: SetCondition_def go_wp)

subsection \<open>The user secret\<close>

definition user_secret_name :: "Kubeconfig \<Rightarrow> NamespacedName" where
  "user_secret_name kubeconfig = \<lparr>nn_Namespace = ''kubeconfig-operator-system'',
     nn_Name = Name (KMeta kubeconfig) @ ''-client-cert''\<rparr>"

text \<open>The predefined secret is noted in the status and the Kubeconfig made its owner.\<close>

definition adoptSecret :: "'w env \<Rightarrow> Kubeconfig \<Rightarrow> Secret \<Rightarrow> Kubeconfig \<times> Secret" where
  "adoptSecret E kubeconfig userSecret =
    (let kubeconfig = SetUserSecret kubeconfig userSecret
     in (kubeconfig, userSecret\<lparr>SMeta := set_owner E kubeconfig (SMeta userSecret)\<rparr>))"

definition reconcileExistingSecret ::
  "'w env \<Rightarrow> Kubeconfig \<Rightarrow> SecretRef \<Rightarrow>
     ('w go_state, reconcile_return + (Kubeconfig \<times> Secret)) go"
where
  "reconcileExistingSecret E kubeconfig ref =
     go_bind (Get_Secret E \<lparr>nn_Namespace = sr_Namespace ref, nn_Name = sr_Name ref\<rparr> zero_secret)
       (\<lambda>(err, userSecret).
          case err of
            Some e \<Rightarrow>
              if IsNotFound err then
                go_bind (record_event ''Warning'' ''NotFound''
                  (errorf ''Predefined secret for CSR could not be found'' e)) (\<lambda>_.
                  go_return (Inl (\<lparr>Requeue = True, RequeueAfter = 1 * time_Minute\<rparr>, err)))
              else go_return (Inr (adoptSecret E kubeconfig userSecret))
          | None \<Rightarrow> go_return (Inr (adoptSecret E kubeconfig userSecret)))"

definition reconcileOwnSecret ::
  "'w env \<Rightarrow> Kubeconfig \<Rightarrow> ('w go_state, reconcile_return + (Kubeconfig \<times> Secret)) go"
where
  "reconcileOwnSecret E kubeconfig =
     go_bind (Get_Secret E (user_secret_name kubeconfig) zero_secret) (\<lambda>(err, userSecret).
       if IsNotFound err then
         go_bind (Create_Secret E (createUserSecret E kubeconfig (user_secret_name kubeconfig)))
           (\<lambda>(err, userSecret).
             case err of
               Some e \<Rightarrow>
                 go_bind (record_event ''Warning'' ''UserSecretFailed''
                   (errorf ''Failed to create user secret'' e)) (\<lambda>_.
                 go_bind (SetCondition E kubeconfig ConditionTypeUserSecretCreated ConditionFalse
                   ''UserSecretCreateFailed''
                   (errorf ''Failed to create user secret'' e)) (\<lambda>kubeconfig.
                 go_bind (Status_Update_Kubeconfig E (SetPhase kubeconfig PhaseFailed)) (\<lambda>_.
                   go_return (Inl (empty_result, err)))))
             | None \<Rightarrow>
                 go_bind (SetCondition E (SetUserSecret kubeconfig userSecret)
                   ConditionTypeUserSecretCreated ConditionTrue
                   ''UserSecretCreated'' ''Created user secret'') (\<lambda>kubeconfig.
                   go_return (Inr (kubeconfig, userSecret))))
       else
         (case err of
            Some e \<Rightarrow> go_return (Inl (empty_result, err))
          | None \<Rightarrow> go_return (Inr (kubeconfig, userSecret))))"

definition reconcileUserSecret ::
  "'w env \<Rightarrow> Kubeconfig \<Rightarrow> ('w go_state, reconcile_return + (Kubeconfig \<times> Secret)) go"
where
  "reconcileUserSecret E kubeconfig =
    (case ExistingCSR (Spec kubeconfig) of
       Some ref \<Rightarrow> reconcileExistingSecret E kubeconfig ref
     | None \<Rightarrow> reconcileOwnSecret E kubeconfig)"

subsection \<open>No signing request yet: generate key and request\<close>

definition csr_created_failed :: "go_error \<Rightarrow> string" where
  "csr_created_failed e =
     errorf ''Failed to generate private key and certificate signing request'' e"

definition submitCSR ::
  "'w env \<Rightarrow> Kubeconfig \<Rightarrow> Secret \<Rightarrow> bytes \<Rightarrow> bytes \<Rightarrow> ('w go_state, reconcile_return) go"
where
  "submitCSR E kubeconfig userSecret key csrBuffer =
     go_bind (gomap_store (SecretData userSecret) CertificateSecretPrivKeyKey key) (\<lambda>d.
     go_bind (gomap_store d CertificateSecretCSRKey csrBuffer) (\<lambda>d.
     go_bind (Update_Secret E (userSecret\<lparr>SecretData := d\<rparr>)) (\<lambda>(err, userSecret).
       case err of
         Some e \<Rightarrow>
           go_bind (record_event ''Warning'' ''UserSecretUpdated''
             (errorf ''Failed to update user secret with private key and CSR'' e)) (\<lambda>_.
             go_return (empty_result, err))
       | None \<Rightarrow>
           go_bind (record_event ''Normal'' ''UserSecretUpdated''
             ''Added private key and CSR to user secret'') (\<lambda>_.
           let csr = createCsr E kubeconfig csrBuffer
           in go_bind (Create_Csr E csr) (\<lambda>(err, csr).
                case err of
                  Some e \<Rightarrow>
                    go_bind (record_event ''Warning'' ''CsrFailed''
                      (errorf ''Failed to create CSR'' e)) (\<lambda>_.
                      go_return (empty_result, err))
                | None \<Rightarrow>
                    go_bind (SetCondition E
                      (kubeconfig\<lparr>Status := (Status kubeconfig)\<lparr>StatusCsr :=
                         \<lparr>cr_Name = Name (CsrMeta csr)\<rparr>\<rparr>\<rparr>)
                      ConditionTypeCSRCreated ConditionTrue ''CsrCreated''
                      ''Created CSR for kubeconfig request'') (\<lambda>kubeconfig.
                    go_bind (record_event ''Normal'' ''Created''
                      ''Created user secret and CSR for kubeconfig'') (\<lambda>_.
                    go_bind (Status_Update_Kubeconfig E (SetPhase kubeconfig PhaseAwaitingApproval))
                      (\<lambda>_. go_return (empty_result, None)))))))))"

definition reconcileFreshCSR ::
  "'w env \<Rightarrow> Kubeconfig \<Rightarrow> Secret \<Rightarrow> ('w go_state, reconcile_return) go"
where
  "reconcileFreshCSR E kubeconfig userSecret =
     go_bind (record_event ''Normal'' ''Generating'' ''Generating CSR for kubeconfig'') (\<lambda>_.
     go_bind (createCSR E kubeconfig) (\<lambda>(keyBuffer, csrBuffer, err).
       case err of
         Some e \<Rightarrow>
           go_bind (SetCondition E kubeconfig ConditionTypeCSRCreated ConditionFalse
             ''CsrCreateFailed'' (csr_created_failed e)) (\<lambda>kubeconfig.
           let kubeconfig = SetPhase kubeconfig PhaseFailed
           in go_bind (record_event ''Warning'' ''CsrFailed'' (csr_created_failed e)) (\<lambda>_.
                go_return (empty_result, None)))
       | None \<Rightarrow>
           go_bind (go_deref keyBuffer) (\<lambda>key.
           go_bind (go_deref csrBuffer) (\<lambda>csrBytes.
             submitCSR E kubeconfig userSecret key csrBytes))))"

subsection \<open>Denied, failed or pending requests\<close>

definition reconcileDenied :: "'w env \<Rightarrow> Kubeconfig \<Rightarrow> ('w go_state, reconcile_return) go" where
  "reconcileDenied E kubeconfig =
     go_bind (SetCondition E kubeconfig ConditionTypeCSRApproved ConditionFalse
       ''CsrApproved'' ''CSR for the kubeconfig was denied or failed'') (\<lambda>kubeconfig.
     go_bind (SetCondition E kubeconfig ConditionTypeKubeconfigFinished ConditionFalse
       ''Failed'' ''Kubeconfig creation failed in CSR stage'') (\<lambda>kubeconfig.
     go_bind (Status_Update_Kubeconfig E (SetPhase kubeconfig PhaseFailed)) (\<lambda>_.
       go_return (empty_result, None))))"

subsection \<open>An approved request: kubeconfig and role binding\<close>

definition crb_name :: "Kubeconfig \<Rightarrow> NamespacedName" where
  "crb_name kubeconfig =
     \<lparr>nn_Namespace = [], nn_Name = Username (Spec kubeconfig) @ ''-kubeconfig''\<rparr>"

definition reconcileRoleBinding ::
  "'w env \<Rightarrow> Kubeconfig \<Rightarrow> ('w go_state, reconcile_return + unit) go" where
  "reconcileRoleBinding E kubeconfig =
     go_bind (Get_Crb E (crb_name kubeconfig) zero_crb) (\<lambda>(err, crb).
       case err of
         Some e \<Rightarrow>
           if IsNotFound err then
             go_bind (createClusterRoleBinding kubeconfig (crb_name kubeconfig)) (\<lambda>crb.
             go_bind (Create_Crb E crb) (\<lambda>(err, crb).
               case err of
                 Some e \<Rightarrow> go_return (Inl (\<lparr>Requeue = True, RequeueAfter = 0\<rparr>, err))
               | None \<Rightarrow> go_return (Inr ())))
           else
             go_bind (record_event ''Warning'' ''ClusterRoleBindingFailed''
               (errorf ''Failed to get clusterrolebinding'' e)) (\<lambda>_.
               go_return (Inl (empty_result, err)))
       | None \<Rightarrow> go_return (Inr ()))"

definition finishKubeconfig :: "'w env \<Rightarrow> Kubeconfig \<Rightarrow> ('w go_state, reconcile_return) go" where
  "finishKubeconfig E kubeconfig =
     go_bind (SetCondition E kubeconfig ConditionTypeKubeconfigFinished ConditionTrue
       ''Finished'' ''Finished kubeconfig creation'') (\<lambda>kubeconfig.
     go_bind (Status_Update_Kubeconfig E (SetPhase kubeconfig PhaseDone)) (\<lambda>_.
       go_return (empty_result, None)))"

text \<open>The part that stores the certificate and the kubeconfig in the user secret.\<close>

definition storeKubeconfig ::
  "'w env \<Rightarrow> Kubeconfig \<Rightarrow> Secret \<Rightarrow> bytes \<Rightarrow> ('w go_state, reconcile_return + Kubeconfig) go"
where
  "storeKubeconfig E kubeconfig userSecret cert =
     go_bind (gomap_store (SecretData userSecret) CertificateSecretCertKey cert) (\<lambda>d.
     let userSecret = userSecret\<lparr>SecretData := d\<rparr>
     in go_bind (createKubeconfig E kubeconfig userSecret) (\<lambda>(cfg, err).
          case err of
            Some e \<Rightarrow>
              go_bind (record_event ''Warning'' ''KubeconfigSecretFailed''
                (errorf ''Failed to template kubeconfig'' e)) (\<lambda>_.
                go_return (Inl (empty_result, err)))
          | None \<Rightarrow>
              let kubeconfig = kubeconfig\<lparr>Status := (Status kubeconfig)\<lparr>StatusKubeconfig := cfg\<rparr>\<rparr>
              in go_bind (gomap_store (SecretData userSecret) KubeconfigKey cfg) (\<lambda>d.
                 go_bind (Update_Secret E (userSecret\<lparr>SecretData := d\<rparr>)) (\<lambda>(err, userSecret).
                   case err of
                     Some e \<Rightarrow> go_return (Inl (empty_result, err))
                   | None \<Rightarrow>
                       go_bind (SetCondition E kubeconfig ConditionTypeUserSecretFinished
                         ConditionTrue ''Upserted''
                         ''Upserted user secret with certificate from approved CSR'')
                         (\<lambda>kubeconfig. go_return (Inr kubeconfig))))))"

definition reconcileApproved ::
  "'w env \<Rightarrow> Kubeconfig \<Rightarrow> Secret \<Rightarrow> Csr \<Rightarrow> ('w go_state, reconcile_return) go"
where
  "reconcileApproved E kubeconfig userSecret csr =
     go_bind (SetCondition E kubeconfig ConditionTypeCSRApproved ConditionTrue
       ''CsrApproved'' ''CSR for the kubeconfig was approved'') (\<lambda>kubeconfig.
       if length (Certificate csr) = 0 then
         go_bind (Status_Update_Kubeconfig E kubeconfig) (\<lambda>_.
           go_return (\<lparr>Requeue = True, RequeueAfter = 15 * time_Second\<rparr>, None))
       else
         go_then (storeKubeconfig E kubeconfig userSecret (Certificate csr)) (\<lambda>kubeconfig.
         go_then (reconcileRoleBinding E kubeconfig) (\<lambda>_.
           finishKubeconfig E kubeconfig)))"

definition reconcileExistingCSR ::
  "'w env \<Rightarrow> Kubeconfig \<Rightarrow> Secret \<Rightarrow> Csr \<Rightarrow> ('w go_state, reconcile_return) go"
where
  "reconcileExistingCSR E kubeconfig userSecret csr =
    (case getCertApprovalCondition (CsrConditions csr) of (approved, denied, failed) \<Rightarrow>
       if denied \<or> failed then reconcileDenied E kubeconfig
       else if \<not> approved then go_return (empty_result, None)
       else reconcileApproved E kubeconfig userSecret csr)"

subsection \<open>Reconcile\<close>

definition csr_name :: "Kubeconfig \<Rightarrow> NamespacedName" where
  "csr_name kubeconfig = \<lparr>nn_Namespace = [], nn_Name = Name (KMeta kubeconfig)\<rparr>"

definition reconcileCSR ::
  "'w env \<Rightarrow> Kubeconfig \<Rightarrow> Secret \<Rightarrow> ('w go_state, reconcile_return) go"
where
  "reconcileCSR E kubeconfig userSecret =
     go_bind (Get_Csr E (csr_name kubeconfig) zero_csr) (\<lambda>(err, csr).
       if IsNotFound err then reconcileFreshCSR E kubeconfig userSecret
       else (case err of
               Some e \<Rightarrow> go_return (empty_result, err)
             | None \<Rightarrow> reconcileExistingCSR E kubeconfig userSecret csr))"

definition Reconcile :: "'w env \<Rightarrow> NamespacedName \<Rightarrow> ('w go_state, reconcile_return) go" where
  "Reconcile E req =
     go_bind (Get_Kubeconfig E req zero_kubeconfig) (\<lambda>(err, kubeconfig).
       case err of
         Some e \<Rightarrow>
           if IsNotFound err then go_return (empty_result, None)
           else go_return (empty_result, err)
       | None \<Rightarrow>
           if isInTerminalCondition E kubeconfig then go_return (empty_result, None)
           else go_then (reconcileUserSecret E kubeconfig) (\<lambda>(kubeconfig, userSecret).
                  reconcileCSR E kubeconfig userSecret))"

text \<open>The first step of a run, from the reply to the read of the Kubeconfig.\<close>

lemma wp_Reconcile:
  assumes "client_Get_Kubeconfig E req zero_kubeconfig (world s) = ((err, kc), w')"
  shows "wp (Reconcile E req) Q s =
    (let s1 = \<lparr>world = w', calls = calls s @ [GetKubeconfig req err kc]\<rparr>
     in case err of
          Some e \<Rightarrow> Q (Ret (empty_result, if IsNotFound err then None else err)) s1
        | None \<Rightarrow>
            if isInTerminalCondition E kc then Q (Ret (empty_result, None)) s1
            else wp (go_then (reconcileUserSecret E kc)
                   (\<lambda>(kubeconfig, userSecret). reconcileCSR E kubeconfig userSecret)) Q s1)"
  by (simp add: Reconcile_def Get_Kubeconfig_def wp_bind wp_api_call wp_return assms Let_def
      split: option.splits)

lemma wp_reconcileCSR:
  assumes "client_Get_Csr E (csr_name kc) zero_csr (world s) = ((err, csr), w')"
  shows "wp (reconcileCSR E kc sec) Q s =
    (let s1 = \<lparr>world = w', calls = calls s @ [GetCsr (csr_name kc) err csr]\<rparr>
     in if IsNotFound err then wp (reconcileFreshCSR E kc sec) Q s1
        else case err of
               Some e \<Rightarrow> Q (Ret (empty_result, err)) s1
             | None \<Rightarrow> wp (reconcileExistingCSR E kc sec csr) Q s1)"
  by (simp add: reconcileCSR_def Get_Csr_def wp_bind wp_api_call wp_return assms Let_def
      split: option.splits)

text \<open>A run of \<open>reconcileFreshCSR\<close>: the three ways it can go on.\<close>

definition generating_event :: call where
  "generating_event = Event ''Normal'' ''Generating'' ''Generating CSR for kubeconfig''"

lemma wp_reconcileFreshCSRI:
  assumes panic: "\<And>w'. Q Panic \<lparr>world = w', calls = calls s @ [generating_event]\<rparr>"
    and failed: "\<And>e w'. Q (Ret (empty_result, None)) \<lparr>world = w', calls = calls s @
      [generating_event, Event ''Warning'' ''CsrFailed'' (csr_created_failed e)]\<rparr>"
    and submit: "\<And>key req w'. wp (submitCSR E kc sec key req) Q
      \<lparr>world = w', calls = calls s @ [generating_event]\<rparr>"
  shows "wp (reconcileFreshCSR E kc sec) Q s"
  unfolding reconcileFreshCSR_def wp_bind wp_record_event outcome.case
proof (rule wp_createCSRI, goal_cases)
  case (1 w')
  show ?case using panic[of w'] by (simp add: generating_event_def)
next
  case (2 e w')
  show ?case using failed[of w' e] by (simp add: go_wp generating_event_def Let_def)
next
  case (3 enc b w')
  show ?case
    using panic[of w'] submit[of _ "pem_Encode ''CERTIFICATE REQUEST'' b" w']
    by (simp add: go_wp generating_event_def split: option.split)
qed

end
