(* ===== verification/Kubeconfig_Safety.thy ===== *)
theory Kubeconfig_Safety
  imports Kubeconfig_Controller
begin

text \<open>
  What every run of the Kubeconfig reconciler respects, whatever the API server, the
  libraries and the other actors of the cluster do: the order in which it writes. The
  statements are about the trace of calls; they have no hypothesis on the environment.
\<close>

subsection \<open>What the trace shows\<close>

text \<open>The user secret has been stored with this request and with a private key.\<close>

fun stores_request :: "bytes \<Rightarrow> call \<Rightarrow> bool" where
  "stores_request req (UpdateSecret sec None) =
     (gomap_lookup (SecretData sec) CertificateSecretCSRKey = Some req \<and>
      gomap_lookup (SecretData sec) CertificateSecretPrivKeyKey \<noteq> None)"
| "stores_request req c = False"

text \<open>The user secret has been stored with this certificate and with a kubeconfig.\<close>

fun stores_certificate :: "bytes \<Rightarrow> call \<Rightarrow> bool" where
  "stores_certificate cert (UpdateSecret sec None) =
     (gomap_lookup (SecretData sec) CertificateSecretCertKey = Some cert \<and>
      gomap_lookup (SecretData sec) KubeconfigKey \<noteq> None)"
| "stores_certificate cert c = False"

text \<open>A request that has been approved, not denied, not failed, and signed.\<close>

definition grantable :: "Csr \<Rightarrow> bool" where
  "grantable csr \<longleftrightarrow> CertificateApproved \<in> cc_Type ` set (CsrConditions csr) \<and>
     CertificateDenied \<notin> cc_Type ` set (CsrConditions csr) \<and>
     CertificateFailed \<notin> cc_Type ` set (CsrConditions csr) \<and> Certificate csr \<noteq> []"

fun saw_grantable :: "(Csr \<Rightarrow> bool) \<Rightarrow> call \<Rightarrow> bool" where
  "saw_grantable P (GetCsr n None csr) = (grantable csr \<and> P csr)"
| "saw_grantable P c = False"

fun binding_there :: "call \<Rightarrow> bool" where
  "binding_there (GetCrb n None b) = True"
| "binding_there (CreateCrb b None) = True"
| "binding_there c = False"

fun created_csr :: "call \<Rightarrow> bool" where
  "created_csr (CreateCsr csr None) = True"
| "created_csr c = False"

text \<open>A refusal: the request was denied or failed, or the user secret could not be created.\<close>

fun refused :: "call \<Rightarrow> bool" where
  "refused (GetCsr n None csr) = (CertificateDenied \<in> cc_Type ` set (CsrConditions csr) \<or>
     CertificateFailed \<in> cc_Type ` set (CsrConditions csr))"
| "refused (CreateSecret sec (Some e)) = True"
| "refused c = False"

fun read_phase :: "string \<Rightarrow> call \<Rightarrow> bool" where
  "read_phase p (GetKubeconfig n None kc) = (Phase (Status kc) = p)"
| "read_phase p c = False"

fun read_text :: "string \<Rightarrow> call \<Rightarrow> bool" where
  "read_text t (GetKubeconfig n None kc) = (StatusKubeconfig (Status kc) = t)"
| "read_text t c = False"

text \<open>The user secret has been stored with this text as its kubeconfig.\<close>

fun stores_kubeconfig :: "string \<Rightarrow> call \<Rightarrow> bool" where
  "stores_kubeconfig t (UpdateSecret sec None) =
     (gomap_lookup (SecretData sec) KubeconfigKey = Some t)"
| "stores_kubeconfig t c = False"

text \<open>The certificate of a granted request is stored, together with the kubeconfig made of it.\<close>

definition credentials_stored :: "call list \<Rightarrow> bool" where
  "credentials_stored before \<longleftrightarrow>
     list_ex (saw_grantable (\<lambda>csr. list_ex (stores_certificate (Certificate csr)) before)) before"

text \<open>The guard of each kind of write.\<close>

definition csr_guard :: "call list \<Rightarrow> call \<Rightarrow> bool" where
  "csr_guard before c = (case c of
     CreateCsr csr e \<Rightarrow> list_ex (stores_request (Request csr)) before | _ \<Rightarrow> True)"

definition binding_guard :: "call list \<Rightarrow> call \<Rightarrow> bool" where
  "binding_guard before c = (case c of
     CreateCrb b e \<Rightarrow> credentials_stored before | _ \<Rightarrow> True)"

text \<open>
  A status update either keeps the phase that was read, or moves to \<open>Done\<close> with the
  credentials stored and the binding in place, to \<open>Awaiting Approval\<close> with the request
  created, or to \<open>Failed\<close> after a refusal.
\<close>

definition phase_guard :: "call list \<Rightarrow> call \<Rightarrow> bool" where
  "phase_guard before c = (case c of
     UpdateKubeconfigStatus kc e \<Rightarrow>
       (let p = Phase (Status kc)
        in list_ex (read_phase p) before
         \<or> p = PhaseDone \<and> credentials_stored before \<and> list_ex binding_there before
         \<or> p = PhaseAwaitingApproval \<and> list_ex created_csr before
         \<or> p = PhaseFailed \<and> list_ex refused before)
   | _ \<Rightarrow> True)"

text \<open>The kubeconfig in the status is the one that was read or one that has been stored.\<close>

definition text_guard :: "call list \<Rightarrow> call \<Rightarrow> bool" where
  "text_guard before c = (case c of
     UpdateKubeconfigStatus kc e \<Rightarrow>
       (let t = StatusKubeconfig (Status kc)
        in list_ex (read_text t) before \<or> list_ex (stores_kubeconfig t) before)
   | _ \<Rightarrow> True)"

text \<open>What a run knows of the Kubeconfig it works on: the phase and the text it has read.\<close>

definition as_read :: "Kubeconfig \<Rightarrow> call list \<Rightarrow> bool" where
  "as_read kc cs \<longleftrightarrow> list_ex (read_phase (Phase (Status kc))) cs \<and>
     list_ex (read_text (StatusKubeconfig (Status kc))) cs"

definition order_guard :: "call list \<Rightarrow> call \<Rightarrow> bool" where
  "order_guard before c \<longleftrightarrow> csr_guard before c \<and> binding_guard before c \<and>
     phase_guard before c \<and> text_guard before c"

lemmas guard_defs = order_guard_def csr_guard_def binding_guard_def phase_guard_def
  text_guard_def Let_def

text \<open>From \<open>s\<close> to \<open>s'\<close> the trace only grows, and it keeps the order.\<close>

definition ordered_from :: "'w go_state \<Rightarrow> 'w go_state \<Rightarrow> bool" where
  "ordered_from s s' \<longleftrightarrow> guarded order_guard (calls s') \<and> (\<exists>new. calls s' = calls s @ new)"

lemma as_read_from: "ordered_from s s' \<Longrightarrow> as_read kc (calls s) \<Longrightarrow> as_read kc (calls s')"
  by (auto simp: ordered_from_def as_read_def)

lemma credentials_storedI:
  "GetCsr n None csr \<in> set cs \<Longrightarrow> grantable csr \<Longrightarrow>
     list_ex (stores_certificate (Certificate csr)) cs \<Longrightarrow> credentials_stored cs"
  unfolding credentials_stored_def list_ex_iff by (rule bexI) simp_all

lemma saw_grantable_mono:
  "saw_grantable P c \<Longrightarrow> (\<And>csr. P csr \<Longrightarrow> Q csr) \<Longrightarrow> saw_grantable Q c"
  by (induction P c rule: saw_grantable.induct) auto

lemma credentials_stored_append: "credentials_stored cs \<Longrightarrow> credentials_stored (cs @ ds)"
  unfolding credentials_stored_def by (auto simp: list_ex_iff intro: saw_grantable_mono)

lemma ordered_from_guarded: "ordered_from s s' \<Longrightarrow> guarded order_guard (calls s')"
  by (simp add: ordered_from_def)

lemma ordered_from_trans: "ordered_from s s' \<Longrightarrow> ordered_from s' s'' \<Longrightarrow> ordered_from s s''"
  by (auto simp: ordered_from_def)

lemma ordered_from_mem: "ordered_from s s' \<Longrightarrow> c \<in> set (calls s) \<Longrightarrow> c \<in> set (calls s')"
  by (auto simp: ordered_from_def)

lemma ordered_from_ex: "ordered_from s s' \<Longrightarrow> list_ex P (calls s) \<Longrightarrow> list_ex P (calls s')"
  by (auto simp: ordered_from_def list_ex_iff)

subsection \<open>The parts keep the order\<close>

lemma order_reconcileExistingSecret:
  assumes "guarded order_guard (calls s)" and "as_read kc (calls s)"
  shows "wp (reconcileExistingSecret E kc ref) (\<lambda>r s'. ordered_from s s' \<and>
    (\<forall>kc' sec. r = Ret (Inr (kc', sec)) \<longrightarrow> as_read kc' (calls s'))) s"
  using assms
  by (simp add: reconcileExistingSecret_def adoptSecret_def client_defs go_wp guard_defs
      ordered_from_def
      as_read_def SetUserSecret_def split: prod.splits option.splits)

lemma order_reconcileOwnSecret:
  assumes "guarded order_guard (calls s)" and "as_read kc (calls s)"
  shows "wp (reconcileOwnSecret E kc) (\<lambda>r s'. ordered_from s s' \<and>
    (\<forall>kc' sec. r = Ret (Inr (kc', sec)) \<longrightarrow> as_read kc' (calls s'))) s"
  using assms
  by (simp add: reconcileOwnSecret_def client_defs go_wp guard_defs ordered_from_def
      as_read_def SetUserSecret_def SetPhase_def split: prod.splits option.splits)

lemma order_reconcileUserSecret:
  assumes "guarded order_guard (calls s)" and "as_read kc (calls s)"
  shows "wp (reconcileUserSecret E kc) (\<lambda>r s'. ordered_from s s' \<and>
    (\<forall>kc' sec. r = Ret (Inr (kc', sec)) \<longrightarrow> as_read kc' (calls s'))) s"
  using order_reconcileExistingSecret[OF assms] order_reconcileOwnSecret[OF assms]
  by (cases "ExistingCSR (Spec kc)") (simp_all add: reconcileUserSecret_def)

lemma order_submitCSR:
  assumes "guarded order_guard (calls s)" and "as_read kc (calls s)"
  shows "wp (submitCSR E kc sec key req) (\<lambda>r s'. ordered_from s s') s"
  using assms
  by (simp add: submitCSR_def client_defs go_wp guard_defs ordered_from_def as_read_def createCsr_def
      SetPhase_def split: prod.splits option.splits)

lemma order_reconcileFreshCSR:
  fixes s :: "'w go_state"
  assumes "guarded order_guard (calls s)" and "as_read kc (calls s)"
  shows "wp (reconcileFreshCSR E kc sec) (\<lambda>r s'. ordered_from s s') s"
proof (rule wp_reconcileFreshCSRI)
  fix key req and w' :: 'w
  let ?s = "\<lparr>world = w', calls = calls s @ [generating_event]\<rparr>"
  have s: "ordered_from s ?s"
    using assms by (simp add: ordered_from_def as_read_def guard_defs generating_event_def)
  show "wp (submitCSR E kc sec key req) (\<lambda>r. ordered_from s) ?s"
    using order_submitCSR[OF ordered_from_guarded[OF s] as_read_from[OF s assms(2)]]
    by (rule wp_mono) (rule ordered_from_trans[OF s])
qed (use assms in \<open>simp_all add: guard_defs ordered_from_def as_read_def generating_event_def\<close>)

lemma order_reconcileDenied:
  assumes "guarded order_guard (calls s)" and "as_read kc (calls s)" and "list_ex refused (calls s)"
  shows "wp (reconcileDenied E kc) (\<lambda>r s'. ordered_from s s') s"
  using assms
  by (simp add: reconcileDenied_def client_defs go_wp guard_defs ordered_from_def as_read_def SetPhase_def
      split: prod.splits)

lemma order_storeKubeconfig:
  assumes "guarded order_guard (calls s)"
  shows "wp (storeKubeconfig E kc sec cert) (\<lambda>r s'. ordered_from s s' \<and>
    (\<forall>kc'. r = Ret (Inr kc') \<longrightarrow> list_ex (stores_certificate cert) (calls s') \<and>
      list_ex (stores_kubeconfig (StatusKubeconfig (Status kc'))) (calls s'))) s"
  unfolding storeKubeconfig_def wp_bind wp_store Let_def
  using assms
  by (cases "SecretData sec")
    (auto intro!: wp_createKubeconfigI simp: client_defs go_wp guard_defs ordered_from_def
      split: prod.splits option.splits)

lemma order_reconcileRoleBinding:
  assumes "guarded order_guard (calls s)" and "credentials_stored (calls s)"
  shows "wp (reconcileRoleBinding E kc) (\<lambda>r s'. ordered_from s s' \<and>
    (r = Ret (Inr ()) \<longrightarrow> list_ex binding_there (calls s'))) s"
  using assms credentials_stored_append[OF assms(2)]
  by (simp add: reconcileRoleBinding_def createClusterRoleBinding_def client_defs go_wp
      guard_defs ordered_from_def split: prod.splits option.splits)

lemma order_finishKubeconfig:
  assumes "guarded order_guard (calls s)" and "credentials_stored (calls s)"
    and "list_ex binding_there (calls s)"
    and "list_ex (stores_kubeconfig (StatusKubeconfig (Status kc))) (calls s)"
  shows "wp (finishKubeconfig E kc) (\<lambda>r s'. ordered_from s s') s"
  using assms
  by (simp add: finishKubeconfig_def client_defs go_wp guard_defs ordered_from_def SetPhase_def
      split: prod.splits)

subsection \<open>The whole reconciler\<close>

lemma ordered_then:
  assumes "wp m (\<lambda>r s'. ordered_from s s' \<and> (\<forall>a. r = Ret (Inr a) \<longrightarrow> R a s')) s"
    and "\<And>a s'. ordered_from s s' \<Longrightarrow> R a s' \<Longrightarrow> wp (f a) (\<lambda>r. ordered_from s') s'"
  shows "wp (go_then m f) (\<lambda>r. ordered_from s) s"
proof (rule wp_thenI[where R = "\<lambda>a s'. ordered_from s s' \<and> R a s'"])
  show "wp m (\<lambda>r s'. (\<forall>a. r = Ret (Inr a) \<longrightarrow> ordered_from s s' \<and> R a s') \<and>
      (\<forall>y. r = Ret (Inl y) \<longrightarrow> ordered_from s s') \<and> (r = Panic \<longrightarrow> ordered_from s s')) s"
    using assms(1) by (rule wp_mono) blast
  fix a s'
  assume o: "ordered_from s s' \<and> R a s'"
  then have "wp (f a) (\<lambda>r. ordered_from s') s'" by (blast intro: assms(2))
  then show "wp (f a) (\<lambda>r. ordered_from s) s'"
    by (rule wp_mono) (use o in \<open>blast intro: ordered_from_trans\<close>)
qed

lemma order_reconcileApproved:
  assumes g: "guarded order_guard (calls s)" and p: "as_read kc (calls s)"
    and csr: "GetCsr n None csr \<in> set (calls s)" "Certificate csr \<noteq> [] \<Longrightarrow> grantable csr"
  shows "wp (reconcileApproved E kc sec csr) (\<lambda>r s'. ordered_from s s') s"
proof (cases "Certificate csr = []")
  case True
  with g p show ?thesis
    by (simp add: reconcileApproved_def client_defs go_wp guard_defs ordered_from_def as_read_def
        split: prod.splits)
next
  case False
  let ?cert = "Certificate csr"
  let ?text = "\<lambda>kc' s'. list_ex (stores_kubeconfig (StatusKubeconfig (Status kc'))) (calls s')"
  have stored: "credentials_stored (calls s')"
    if "ordered_from s s'" "list_ex (stores_certificate ?cert) (calls s')" for s'
    using credentials_storedI[OF ordered_from_mem[OF that(1) csr(1)] csr(2)[OF False] that(2)] .
  have finish: "wp (finishKubeconfig E kc') (\<lambda>r. ordered_from s'') s''"
    if "ordered_from s s'" "list_ex (stores_certificate ?cert) (calls s')"
      "ordered_from s' s''" "list_ex binding_there (calls s'')" "?text kc' s'" for kc' s' s''
    using order_finishKubeconfig[OF ordered_from_guarded[OF that(3)] _ that(4)
        ordered_from_ex[OF that(3,5)]] stored[OF ordered_from_trans[OF that(1,3)] ordered_from_ex[OF that(3,2)]] .
  have bind: "wp (go_then (reconcileRoleBinding E kc') (\<lambda>_. finishKubeconfig E kc'))
      (\<lambda>r. ordered_from s') s'"
    if "ordered_from s s'" "list_ex (stores_certificate ?cert) (calls s')" "?text kc' s'" for kc' s'
    by (rule ordered_then[where R = "\<lambda>_ s''. list_ex binding_there (calls s'')"])
      (use order_reconcileRoleBinding[OF ordered_from_guarded[OF that(1)] stored[OF that(1,2)]]
        finish[OF that(1,2)] that(3) in simp_all)
  have "wp (go_then (storeKubeconfig E kc' sec ?cert)
      (\<lambda>kc'. go_then (reconcileRoleBinding E kc') (\<lambda>_. finishKubeconfig E kc')))
      (\<lambda>r. ordered_from s) s" for kc'
    by (rule ordered_then[where
          R = "\<lambda>kc' s'. list_ex (stores_certificate ?cert) (calls s') \<and> ?text kc' s'"])
      (use order_storeKubeconfig[OF g] bind in simp_all)
  with False show ?thesis by (simp add: reconcileApproved_def wp_bind wp_SetCondition)
qed

lemma order_reconcileExistingCSR:
  assumes "guarded order_guard (calls s)" and "as_read kc (calls s)"
    and "GetCsr n None csr \<in> set (calls s)"
  shows "wp (reconcileExistingCSR E kc sec csr) (\<lambda>r s'. ordered_from s s') s"
proof -
  have "list_ex refused (calls s)"
    if "CertificateDenied \<in> cc_Type ` set (CsrConditions csr) \<or>
      CertificateFailed \<in> cc_Type ` set (CsrConditions csr)"
    using assms(3) that by (force simp: list_ex_iff)
  moreover have "ordered_from s s" using assms(1) by (simp add: ordered_from_def)
  ultimately show ?thesis
    using order_reconcileDenied[OF assms(1,2)]
      order_reconcileApproved[OF assms(1,2,3)]
    by (simp add: reconcileExistingCSR_def getCertApprovalCondition_eq wp_return grantable_def)
qed

lemma order_reconcileCSR:
  fixes s :: "'w go_state"
  assumes g: "guarded order_guard (calls s)" and p: "as_read kc (calls s)"
  shows "wp (reconcileCSR E kc sec) (\<lambda>r s'. ordered_from s s') s"
proof -
  obtain err csr w' where
    r: "client_Get_Csr E (csr_name kc) zero_csr (world s) = ((err, csr), w')"
    by (metis surj_pair)
  let ?s = "\<lparr>world = w', calls = calls s @ [GetCsr (csr_name kc) err csr]\<rparr>"
  have s: "ordered_from s ?s" using g by (simp add: ordered_from_def guard_defs)
  note g' = ordered_from_guarded[OF s] and p' = as_read_from[OF s p]
  have "wp (reconcileFreshCSR E kc sec) (\<lambda>r. ordered_from s) ?s"
    using order_reconcileFreshCSR[OF g' p'] by (rule wp_mono) (rule ordered_from_trans[OF s])
  moreover have "wp (reconcileExistingCSR E kc sec csr) (\<lambda>r. ordered_from s) ?s" if "err = None"
  proof -
    have "GetCsr (csr_name kc) None csr \<in> set (calls ?s)" using that by simp
    from order_reconcileExistingCSR[OF g' p' this] show ?thesis
      by (rule wp_mono) (rule ordered_from_trans[OF s])
  qed
  ultimately show ?thesis
    using s by (cases err) (simp_all add: wp_reconcileCSR[OF r] Let_def)
qed

lemma Reconcile_ordered:
  fixes E :: "'w env"
  shows "guarded order_guard (calls (snd (Reconcile E req (start w))))"
proof -
  obtain err kc w' where
    r: "client_Get_Kubeconfig E req zero_kubeconfig w = ((err, kc), w')"
    by (metis surj_pair)
  let ?s = "\<lparr>world = w', calls = [GetKubeconfig req err kc]\<rparr>"
  have g: "guarded order_guard (calls ?s)" by (simp add: guarded_def guard_defs)
  have "wp (go_then (reconcileUserSecret E kc) (\<lambda>(kc', sec). reconcileCSR E kc' sec))
      (\<lambda>r. ordered_from ?s) ?s" if "err = None"
  proof (rule ordered_then[where R = "\<lambda>a s'. as_read (fst a) (calls s')"])
    have "as_read kc (calls ?s)" using that by (simp add: as_read_def)
    from order_reconcileUserSecret[OF g this]
    show "wp (reconcileUserSecret E kc) (\<lambda>r s'. ordered_from ?s s' \<and>
        (\<forall>a. r = Ret (Inr a) \<longrightarrow> as_read (fst a) (calls s'))) ?s" by simp
    fix a :: "Kubeconfig \<times> Secret" and s' :: "'w go_state"
    assume "ordered_from ?s s'" "as_read (fst a) (calls s')"
    then show "wp (case a of (kc', sec) \<Rightarrow> reconcileCSR E kc' sec) (\<lambda>r. ordered_from s') s'"
      by (auto intro: order_reconcileCSR ordered_from_guarded split: prod.splits)
  qed
  then have "wp (go_then (reconcileUserSecret E kc) (\<lambda>(kc', sec). reconcileCSR E kc' sec))
      (\<lambda>r s'. guarded order_guard (calls s')) ?s" if "err = None"
    by (rule wp_mono) (use that in \<open>simp_all add: ordered_from_guarded\<close>)
  with g have "wp (Reconcile E req) (\<lambda>r s'. guarded order_guard (calls s')) (start w)"
    by (cases err) (simp_all add: wp_Reconcile[of E req "start w", simplified, OF r] Let_def)
  then show ?thesis by (simp add: wp_iff)
qed

subsection \<open>The order of the writes\<close>

text \<open>
  C11: In every run of the Kubeconfig reconciler, whatever the API server and the libraries
  reply, a certificate signing request is submitted only after the user secret has been
  updated successfully with that very request and with a private key: no request is ever
  signed whose key is not stored.
\<close>

theorem request_after_key_stored:
  "guarded csr_guard (calls (snd (Reconcile E req (start w))))"
  using Reconcile_ordered by (rule guarded_mono) (simp add: order_guard_def)

text \<open>
  C12: In every run, a cluster role binding is created only after the run has read a request
  that is approved, neither denied nor failed, and signed, and has stored that request's
  certificate and a kubeconfig in the user secret: no rights are granted without approval.
\<close>

theorem binding_after_approval:
  "guarded binding_guard (calls (snd (Reconcile E req (start w))))"
  using Reconcile_ordered by (rule guarded_mono) (simp add: order_guard_def)

text \<open>
  C13: In every run, each status update keeps the phase that was read, or moves to
  \<open>Done\<close> with the credentials stored and the role binding in place, to
  \<open>Awaiting Approval\<close> after the request was created, or to \<open>Failed\<close> after the request was
  denied or failed or the user secret could not be created.
\<close>

theorem phase_transitions:
  "guarded phase_guard (calls (snd (Reconcile E req (start w))))"
  using Reconcile_ordered by (rule guarded_mono) (simp add: order_guard_def)

text \<open>
  In every run, the kubeconfig text of each status update is the text that was read, or
  one that the run has stored in the user secret before: the status never shows a kubeconfig
  that the user secret does not hold.
\<close>

theorem status_text_stored:
  "guarded text_guard (calls (snd (Reconcile E req (start w))))"
  using Reconcile_ordered by (rule guarded_mono) (simp add: order_guard_def)

end
