(* ===== verification/Sample_Cluster.thy ===== *)
theory Sample_Cluster
  imports Runtime "HOL-Library.List_Lexorder" "HOL-Library.Char_ord"
begin

text \<open>
  A concrete environment for the witnesses: a small in-memory object store behind the
  client, with the replies Kubernetes documents (NotFound and AlreadyExists, \<open>stringData\<close>
  merged into \<open>data\<close> on writes, the status subresources writing only what they own), a
  deterministic key generator and an unsigned "signature". It is an instance of the
  environment that shows that the hypotheses of the theorems can hold together; no
  definition of the operator's model depends on it.
\<close>

record cluster =
  kubeconfigs :: "string \<rightharpoonup> Kubeconfig"
  secrets :: "string \<times> string \<rightharpoonup> Secret"
  csrs :: "string \<rightharpoonup> Csr"
  crbs :: "string \<rightharpoonup> ClusterRoleBinding"
  configmaps :: "string \<times> string \<rightharpoonup> ConfigMap"

definition not_found :: go_error where
  "not_found = StatusError ReasonNotFound ''not found''"

definition already_exists :: go_error where
  "already_exists = StatusError ReasonAlreadyExists ''already exists''"

definition store_get :: "'o option \<Rightarrow> 'o \<Rightarrow> cluster \<Rightarrow> (go_error option \<times> 'o) \<times> cluster" where
  "store_get found obj w = (case found of
     None \<Rightarrow> ((Some not_found, obj), w) | Some x \<Rightarrow> ((None, x), w))"

text \<open>A TLS secret always carries data: the API server rejects one without its keys.\<close>

definition with_data :: "Secret \<Rightarrow> Secret" where
  "with_data s = s\<lparr>SecretData := Some (gomap_lookup (SecretData s))\<rparr>"

definition secret_key :: "Secret \<Rightarrow> string \<times> string" where
  "secret_key s = (Namespace (SMeta s), Name (SMeta s))"

text \<open>\<open>stringData\<close> is merged into \<open>data\<close> when a secret is written.\<close>

definition merge_string_data :: "Secret \<Rightarrow> Secret" where
  "merge_string_data s = (case StringData s of
     None \<Rightarrow> s
   | Some m \<Rightarrow> s\<lparr>SecretData := Some (gomap_lookup (SecretData s) ++ m), StringData := None\<rparr>)"

fun sample_create_secret where
  "sample_create_secret s w = (case secrets w (secret_key s) of
     Some x \<Rightarrow> ((Some already_exists, s), w)
   | None \<Rightarrow> (let s' = merge_string_data s
              in ((None, s'), w\<lparr>secrets := (secrets w)(secret_key s \<mapsto> s')\<rparr>)))"

fun sample_update_secret where
  "sample_update_secret s w = (case secrets w (secret_key s) of
     None \<Rightarrow> ((Some not_found, s), w)
   | Some x \<Rightarrow> (let s' = merge_string_data s
                in ((None, s'), w\<lparr>secrets := (secrets w)(secret_key s \<mapsto> s')\<rparr>)))"

fun sample_create_csr where
  "sample_create_csr c w = (case csrs w (Name (CsrMeta c)) of
     Some x \<Rightarrow> ((Some already_exists, c), w)
   | None \<Rightarrow> (let c' = c\<lparr>CsrConditions := [], Certificate := []\<rparr>
              in ((None, c'), w\<lparr>csrs := (csrs w)(Name (CsrMeta c) \<mapsto> c')\<rparr>)))"

fun sample_create_crb where
  "sample_create_crb b w = (case crbs w (Name (CrbMeta b)) of
     Some x \<Rightarrow> ((Some already_exists, b), w)
   | None \<Rightarrow> ((None, b), w\<lparr>crbs := (crbs w)(Name (CrbMeta b) \<mapsto> b)\<rparr>))"

fun sample_update_kubeconfig_status where
  "sample_update_kubeconfig_status k w = (case kubeconfigs w (Name (KMeta k)) of
     None \<Rightarrow> ((Some not_found, k), w)
   | Some x \<Rightarrow> (let k' = x\<lparr>Status := Status k\<rparr>
                in ((None, k'), w\<lparr>kubeconfigs := (kubeconfigs w)(Name (KMeta k) \<mapsto> k')\<rparr>)))"

fun sample_update_csr_conditions where
  "sample_update_csr_conditions c w = (case csrs w (Name (CsrMeta c)) of
     None \<Rightarrow> ((Some not_found, c), w)
   | Some x \<Rightarrow> (let c' = x\<lparr>CsrConditions := CsrConditions c\<rparr>
                in ((None, c'), w\<lparr>csrs := (csrs w)(Name (CsrMeta c) \<mapsto> c')\<rparr>)))"

definition sample_set_condition :: "time \<Rightarrow> Condition list \<Rightarrow> Condition \<Rightarrow> Condition list" where
  "sample_set_condition at cs c =
    (if c_Type c \<in> c_Type ` set cs then map (\<lambda>d. if c_Type d = c_Type c then c else d) cs
     else cs @ [c])"

definition sample_find_condition :: "Condition list \<Rightarrow> string \<Rightarrow> Condition option" where
  "sample_find_condition cs t = List.find (\<lambda>c. c_Type c = t) cs"

definition operator_reference :: "Kubeconfig \<Rightarrow> OwnerReference" where
  "operator_reference k = \<lparr>or_APIVersion = ''kubeconfig.k8s.zoomoid.dev/v1alpha1'',
     or_Kind = ''Kubeconfig'', or_Name = Name (KMeta k), or_UID = UID (KMeta k),
     or_Controller = True\<rparr>"

definition sample_env :: "cluster env" where
  "sample_env = \<lparr>
     client_Get_Kubeconfig = (\<lambda>n obj w. store_get (kubeconfigs w (nn_Name n)) obj w),
     client_Get_Secret = (\<lambda>n obj w. store_get
        (map_option with_data (secrets w (nn_Namespace n, nn_Name n))) obj w),
     client_Get_Csr = (\<lambda>n obj w. store_get (csrs w (nn_Name n)) obj w),
     client_Get_Crb = (\<lambda>n obj w. store_get (crbs w (nn_Name n)) obj w),
     client_Get_ConfigMap = (\<lambda>n obj w. store_get (configmaps w (nn_Namespace n, nn_Name n)) obj w),
     client_Create_Secret = sample_create_secret,
     client_Create_Csr = sample_create_csr,
     client_Create_Crb = sample_create_crb,
     client_Update_Secret = sample_update_secret,
     client_Status_Update_Kubeconfig = sample_update_kubeconfig_status,
     client_Status_Update_Csr = sample_update_csr_conditions,
     clientset_UpdateApproval = sample_update_csr_conditions,
     meta_SetStatusCondition = sample_set_condition,
     meta_FindStatusCondition = sample_find_condition,
     SetControllerReference = (\<lambda>k m. (None,
        m\<lparr>OwnerReferences := OwnerReferences m @ [operator_reference k]\<rparr>)),
     time_Now = (\<lambda>w. 1),
     rsa_GenerateKey = (\<lambda>n w. (Some ''rsa'', w)),
     ecdsa_GenerateKey = (\<lambda>c w. (Some ''ecdsa'', w)),
     ed25519_GenerateKey = (\<lambda>w. (Some ''ed25519'', w)),
     x509_MarshalPKCS1PrivateKey = (\<lambda>k. k),
     x509_MarshalECPrivateKey = (\<lambda>k. k),
     x509_MarshalPKCS8PrivateKey = (\<lambda>k. k),
     x509_CreateCertificateRequest = (\<lambda>t k w. (case k of
        None \<Rightarrow> Inl (PlainError ''x509: certificate private key does not implement crypto.Signer'')
      | Some s \<Rightarrow> Inr (pk_CommonName (tp_Subject t)), w)),
     x509_ParseCertificateRequest = (\<lambda>b. Inr
       \<lparr>tp_Subject = \<lparr>pk_CommonName = b, pk_Country = None, pk_Province = None,
          pk_Locality = None, pk_Organization = None, pk_OrganizationalUnit = None,
          pk_ExtraNames = None\<rparr>, tp_SignatureAlgorithm = X509_Unknown\<rparr>),
     pem_Decode = (\<lambda>b. (Some \<lparr>pem_Type = ''CERTIFICATE REQUEST'', pem_Bytes = b\<rparr>, [])),
     yaml_Marshal = (\<lambda>s. s_CurrentContext s),
     yaml_Unmarshal = (\<lambda>b. Inl (PlainError ''yaml'')),
     range_order = sorted_list_of_set\<rparr>"

lemma sample_env_sel [simp]:
  "client_Get_Kubeconfig sample_env = (\<lambda>n obj w. store_get (kubeconfigs w (nn_Name n)) obj w)"
  "client_Get_Secret sample_env = (\<lambda>n obj w. store_get (map_option with_data (secrets w (nn_Namespace n, nn_Name n))) obj w)"
  "client_Get_Csr sample_env = (\<lambda>n obj w. store_get (csrs w (nn_Name n)) obj w)"
  "client_Get_Crb sample_env = (\<lambda>n obj w. store_get (crbs w (nn_Name n)) obj w)"
  "client_Get_ConfigMap sample_env = (\<lambda>n obj w. store_get (configmaps w (nn_Namespace n, nn_Name n)) obj w)"
  "client_Create_Secret sample_env = sample_create_secret"
  "client_Create_Csr sample_env = sample_create_csr"
  "client_Create_Crb sample_env = sample_create_crb"
  "client_Update_Secret sample_env = sample_update_secret"
  "client_Status_Update_Kubeconfig sample_env = sample_update_kubeconfig_status"
  "client_Status_Update_Csr sample_env = sample_update_csr_conditions"
  "clientset_UpdateApproval sample_env = sample_update_csr_conditions"
  "meta_SetStatusCondition sample_env = sample_set_condition"
  "meta_FindStatusCondition sample_env = sample_find_condition"
  "SetControllerReference sample_env = (\<lambda>k m. (None, m\<lparr>OwnerReferences := OwnerReferences m @ [operator_reference k]\<rparr>))"
  "time_Now sample_env = (\<lambda>w. 1)"
  "rsa_GenerateKey sample_env = (\<lambda>n w. (Some ''rsa'', w))"
  "ecdsa_GenerateKey sample_env = (\<lambda>c w. (Some ''ecdsa'', w))"
  "ed25519_GenerateKey sample_env = (\<lambda>w. (Some ''ed25519'', w))"
  "x509_MarshalPKCS1PrivateKey sample_env = (\<lambda>k. k)"
  "x509_MarshalECPrivateKey sample_env = (\<lambda>k. k)"
  "x509_MarshalPKCS8PrivateKey sample_env = (\<lambda>k. k)"
  "x509_CreateCertificateRequest sample_env = (\<lambda>t k w. (case k of None \<Rightarrow> Inl (PlainError ''x509: certificate private key does not implement crypto.Signer'') | Some s \<Rightarrow> Inr (pk_CommonName (tp_Subject t)), w))"
  "x509_ParseCertificateRequest sample_env = (\<lambda>b. Inr \<lparr>tp_Subject = \<lparr>pk_CommonName = b, pk_Country = None, pk_Province = None, pk_Locality = None, pk_Organization = None, pk_OrganizationalUnit = None, pk_ExtraNames = None\<rparr>, tp_SignatureAlgorithm = X509_Unknown\<rparr>)"
  "pem_Decode sample_env = (\<lambda>b. (Some \<lparr>pem_Type = ''CERTIFICATE REQUEST'', pem_Bytes = b\<rparr>, []))"
  "yaml_Marshal sample_env = (\<lambda>s. s_CurrentContext s)"
  "yaml_Unmarshal sample_env = (\<lambda>b. Inl (PlainError ''yaml''))"
  "range_order sample_env = sorted_list_of_set"
  by (simp_all add: sample_env_def)

subsection \<open>Sample objects\<close>

text \<open>A request that the API server has granted, and one that was denied.\<close>

definition finished_kubeconfig :: Kubeconfig where
  "finished_kubeconfig = zero_kubeconfig\<lparr>KMeta := zero_meta\<lparr>Name := ''kc''\<rparr>,
     Status := (Status zero_kubeconfig)\<lparr>Conditions :=
       [new_condition ConditionTypeKubeconfigFinished ConditionTrue 1 ''Finished'' ''done'']\<rparr>\<rparr>"

definition request_kc :: NamespacedName where
  "request_kc = \<lparr>nn_Namespace = [], nn_Name = ''kc''\<rparr>"

definition empty_cluster :: cluster where
  "empty_cluster = \<lparr>kubeconfigs = Map.empty, secrets = Map.empty, csrs = Map.empty,
     crbs = Map.empty, configmaps = Map.empty\<rparr>"

definition finished_cluster :: cluster where
  "finished_cluster = empty_cluster\<lparr>kubeconfigs := [''kc'' \<mapsto> finished_kubeconfig]\<rparr>"

definition new_kubeconfig :: Kubeconfig where
  "new_kubeconfig = zero_kubeconfig\<lparr>KMeta := zero_meta\<lparr>Name := ''kc''\<rparr>,
     Spec := \<lparr>Username = ''jane'', ExistingCSR = None, AutoApproveCSR = True,
       SpecCSR = Some \<lparr>SignatureAlg = SHA256WithRSA, AdditionalFields = zero_fields\<rparr>,
       SpecCluster = Some \<lparr>cl_Name = ''kubernetes'', cl_Server = ''https://k8s:6443''\<rparr>,
       SpecRoleRef = Some \<lparr>rr_APIGroup = ''rbac.authorization.k8s.io'',
         rr_Kind = ''ClusterRole'', rr_Name = ''view''\<rparr>\<rparr>\<rparr>"

definition new_cluster :: cluster where
  "new_cluster = empty_cluster\<lparr>kubeconfigs := [''kc'' \<mapsto> new_kubeconfig]\<rparr>"

definition new_secret :: Secret where
  "new_secret = \<lparr>SMeta = zero_meta\<lparr>Name := ''kc-client-cert'', Namespace := ''kubeconfig-operator-system''\<rparr>,
     SecretType = ''kubernetes.io/tls'',
     SecretData = Some [''tls.key'' \<mapsto> ''key'', ''tls.csr'' \<mapsto> ''request'', ''tls.crt'' \<mapsto> []],
     StringData = None\<rparr>"

definition sample_condition :: "string \<Rightarrow> CsrCondition" where
  "sample_condition t = \<lparr>cc_Type = t, cc_Status = ConditionTrue, cc_Reason = [], cc_Message = [],
     cc_LastUpdateTime = 0, cc_LastTransitionTime = 1\<rparr>"

definition sample_csr :: "string \<Rightarrow> bytes \<Rightarrow> Csr" where
  "sample_csr t cert = zero_csr\<lparr>CsrMeta := zero_meta\<lparr>Name := ''kc''\<rparr>,
     Request := ''request'', CsrConditions := [sample_condition t], Certificate := cert\<rparr>"

definition root_ca :: ConfigMap where
  "root_ca = \<lparr>CMeta = zero_meta, ConfigData = Some [''ca.crt'' \<mapsto> ''ca'']\<rparr>"

definition requested_cluster :: "Csr \<Rightarrow> cluster" where
  "requested_cluster csr = new_cluster
     \<lparr>secrets := [(''kubeconfig-operator-system'', ''kc-client-cert'') \<mapsto> new_secret],
      csrs := [''kc'' \<mapsto> csr],
      configmaps := [(''kube-public'', ''kube-root-ca.crt'') \<mapsto> root_ca]\<rparr>"

definition denied_cluster :: cluster where
  "denied_cluster = requested_cluster (sample_csr CertificateDenied [])"

definition granted_cluster :: cluster where
  "granted_cluster = requested_cluster (sample_csr CertificateApproved ''cert'')"

end
