(* ===== verification/Kubeconfig_Status.thy ===== *)
theory Kubeconfig_Status
  imports Kubeconfig_Safety Sample_Cluster
begin

text \<open>
  The terminal condition of the status, under the contract of condition lists for the
  implementation of apimachinery: a status the reconciler writes is terminal exactly if the
  run has seen the request refused or the role binding in place. Together with the skipping
  of terminal resources this is why the reconciler neither stops too early nor runs on.
\<close>

subsection \<open>The contract of apimachinery's condition lists\<close>

definition conditions_law :: "'w env \<Rightarrow> bool" where
  "conditions_law E \<longleftrightarrow> (\<forall>at. condition_list c_Type c_Status
     (meta_FindStatusCondition E) (meta_SetStatusCondition E at))"

definition terminal_conditions :: "'w env \<Rightarrow> Condition list \<Rightarrow> bool" where
  "terminal_conditions E cs = (case meta_FindStatusCondition E cs ConditionTypeKubeconfigFinished of
     None \<Rightarrow> False | Some f \<Rightarrow> c_Status f \<noteq> ConditionUnknown)"

lemma isInTerminalCondition_eq:
  "isInTerminalCondition E kc = terminal_conditions E (Conditions (Status kc))"
  by (simp add: isInTerminalCondition_def terminal_conditions_def)

lemma terminal_status_of:
  assumes "condition_list c_Type c_Status (meta_FindStatusCondition E) set_cond"
  shows "terminal_conditions E cs \<longleftrightarrow>
    (\<exists>st. condition_list.status_of c_Status (meta_FindStatusCondition E) cs
       ConditionTypeKubeconfigFinished = Some st \<and> st \<noteq> ConditionUnknown)"
  by (auto simp: terminal_conditions_def condition_list.status_of_def[OF assms]
      split: option.splits)

lemma terminal_conditions_set:
  assumes "conditions_law E"
  shows "terminal_conditions E (meta_SetStatusCondition E at cs c) =
    (if c_Type c = ConditionTypeKubeconfigFinished then c_Status c \<noteq> ConditionUnknown
     else terminal_conditions E cs)"
proof -
  have law: "condition_list c_Type c_Status (meta_FindStatusCondition E) (meta_SetStatusCondition E at)"
    using assms by (simp add: conditions_law_def)
  show ?thesis
    by (simp add: terminal_status_of[OF law] condition_list.status_of_set[OF law])
qed

subsection \<open>The guard\<close>

fun csr_refused :: "call \<Rightarrow> bool" where
  "csr_refused (GetCsr n None csr) = (CertificateDenied \<in> cc_Type ` set (CsrConditions csr) \<or>
     CertificateFailed \<in> cc_Type ` set (CsrConditions csr))"
| "csr_refused c = False"

text \<open>The run has seen how the request ends: refused, or granted and bound.\<close>

definition verdict :: "call list \<Rightarrow> bool" where
  "verdict cs \<longleftrightarrow> list_ex csr_refused cs \<or> list_ex binding_there cs"

definition terminal_guard :: "'w env \<Rightarrow> call list \<Rightarrow> call \<Rightarrow> bool" where
  "terminal_guard E before c = (case c of
     UpdateKubeconfigStatus kc e \<Rightarrow> isInTerminalCondition E kc \<longleftrightarrow> verdict before
   | _ \<Rightarrow> True)"

lemma verdict_simps [simp]:
  "\<not> verdict []"
  "verdict (xs @ ys) \<longleftrightarrow> verdict xs \<or> verdict ys"
  "verdict (c # cs) \<longleftrightarrow> csr_refused c \<or> binding_there c \<or> verdict cs"
  by (auto simp: verdict_def)

lemmas terminal_defs = terminal_guard_def isInTerminalCondition_eq terminal_conditions_set

text \<open>The state of a run before the verdict.\<close>

definition open_run :: "'w env \<Rightarrow> Kubeconfig \<Rightarrow> 'w go_state \<Rightarrow> bool" where
  "open_run E kc s \<longleftrightarrow> guarded (terminal_guard E) (calls s) \<and> \<not> verdict (calls s) \<and>
     \<not> terminal_conditions E (Conditions (Status kc))"

subsection \<open>The parts\<close>

lemma terminal_reconcileUserSecret:
  assumes "conditions_law E" and "open_run E kc s"
  shows "wp (reconcileUserSecret E kc) (\<lambda>r s'. guarded (terminal_guard E) (calls s') \<and>
    (\<forall>a. r = Ret (Inr a) \<longrightarrow> open_run E (fst a) s')) s"
  using assms
  by (cases "ExistingCSR (Spec kc)")
    (simp_all add: reconcileUserSecret_def reconcileExistingSecret_def adoptSecret_def
      Let_def reconcileOwnSecret_def
      client_defs go_wp terminal_defs open_run_def SetUserSecret_def SetPhase_def
      split: prod.splits option.splits)

lemma terminal_submitCSR:
  assumes "conditions_law E" and "open_run E kc s"
  shows "wp (submitCSR E kc sec key req) (\<lambda>r s'. guarded (terminal_guard E) (calls s')) s"
  using assms
  by (simp add: submitCSR_def client_defs go_wp Let_def terminal_defs open_run_def SetPhase_def
      split: prod.splits option.splits)

lemma terminal_reconcileFreshCSR:
  assumes "conditions_law E" and "open_run E kc s"
  shows "wp (reconcileFreshCSR E kc sec) (\<lambda>r s'. guarded (terminal_guard E) (calls s')) s"
proof (rule wp_reconcileFreshCSRI)
  fix key req w'
  have "open_run E kc \<lparr>world = w', calls = calls s @ [generating_event]\<rparr>"
    using assms(2) by (simp add: open_run_def terminal_defs generating_event_def)
  then show "wp (submitCSR E kc sec key req) (\<lambda>r s'. guarded (terminal_guard E) (calls s'))
      \<lparr>world = w', calls = calls s @ [generating_event]\<rparr>"
    by (rule terminal_submitCSR[OF assms(1)])
qed (use assms in \<open>simp_all add: open_run_def terminal_defs generating_event_def\<close>)

lemma terminal_reconcileDenied:
  assumes "conditions_law E" and "guarded (terminal_guard E) (calls s)" and "verdict (calls s)"
  shows "wp (reconcileDenied E kc) (\<lambda>r s'. guarded (terminal_guard E) (calls s')) s"
  using assms
  by (simp add: reconcileDenied_def client_defs go_wp terminal_defs SetPhase_def
      split: prod.splits)

lemma terminal_storeKubeconfig:
  assumes "conditions_law E" and "open_run E kc s"
  shows "wp (storeKubeconfig E kc sec cert) (\<lambda>r s'. guarded (terminal_guard E) (calls s') \<and>
    (\<forall>kc'. r = Ret (Inr kc') \<longrightarrow> open_run E kc' s')) s"
  unfolding storeKubeconfig_def wp_bind wp_store Let_def
  using assms
  by (cases "SecretData sec")
    (auto intro!: wp_createKubeconfigI simp: client_defs go_wp open_run_def terminal_defs
      split: prod.splits option.splits)

lemma terminal_reconcileRoleBinding:
  assumes "open_run E kc s"
  shows "wp (reconcileRoleBinding E kc) (\<lambda>r s'. guarded (terminal_guard E) (calls s') \<and>
    (r = Ret (Inr ()) \<longrightarrow> verdict (calls s'))) s"
  using assms
  by (simp add: reconcileRoleBinding_def createClusterRoleBinding_def client_defs go_wp
      open_run_def terminal_defs split: prod.splits option.splits)

lemma terminal_finishKubeconfig:
  assumes "conditions_law E" and "guarded (terminal_guard E) (calls s)" and "verdict (calls s)"
  shows "wp (finishKubeconfig E kc) (\<lambda>r s'. guarded (terminal_guard E) (calls s')) s"
  using assms
  by (simp add: finishKubeconfig_def client_defs go_wp terminal_defs SetPhase_def
      split: prod.splits)

lemma terminal_then:
  assumes "wp m (\<lambda>r s'. guarded (terminal_guard E) (calls s') \<and>
      (\<forall>a. r = Ret (Inr a) \<longrightarrow> R a s')) s"
    and "\<And>a s'. guarded (terminal_guard E) (calls s') \<Longrightarrow> R a s' \<Longrightarrow>
      wp (f a) (\<lambda>r s''. guarded (terminal_guard E) (calls s'')) s'"
  shows "wp (go_then m f) (\<lambda>r s'. guarded (terminal_guard E) (calls s')) s"
proof (rule wp_thenI[where R = "\<lambda>a s'. guarded (terminal_guard E) (calls s') \<and> R a s'"])
  show "wp m (\<lambda>r s'. (\<forall>a. r = Ret (Inr a) \<longrightarrow> guarded (terminal_guard E) (calls s') \<and> R a s') \<and>
      (\<forall>y. r = Ret (Inl y) \<longrightarrow> guarded (terminal_guard E) (calls s')) \<and>
      (r = Panic \<longrightarrow> guarded (terminal_guard E) (calls s'))) s"
    using assms(1) by (rule wp_mono) blast
qed (blast intro: assms(2))

lemma terminal_reconcileApproved:
  assumes "conditions_law E" and "open_run E kc s"
  shows "wp (reconcileApproved E kc sec csr) (\<lambda>r s'. guarded (terminal_guard E) (calls s')) s"
proof -
  have bind: "wp (go_then (reconcileRoleBinding E kc') (\<lambda>_. finishKubeconfig E kc'))
      (\<lambda>r s''. guarded (terminal_guard E) (calls s'')) s'" if "open_run E kc' s'" for kc' s'
    by (rule terminal_then[where R = "\<lambda>_ s''. verdict (calls s'')"])
      (use terminal_reconcileRoleBinding[OF that] terminal_finishKubeconfig[OF assms(1)]
        in simp_all)
  have "wp (go_then (storeKubeconfig E kc' sec cert)
      (\<lambda>kc'. go_then (reconcileRoleBinding E kc') (\<lambda>_. finishKubeconfig E kc')))
      (\<lambda>r s'. guarded (terminal_guard E) (calls s')) s" if "open_run E kc' s" for kc' cert
    by (rule terminal_then[OF terminal_storeKubeconfig[OF assms(1) that]]) (rule bind)
  then show ?thesis
    using assms
    by (simp add: reconcileApproved_def client_defs go_wp open_run_def terminal_defs
        split: prod.splits)
qed

lemma terminal_reconcileCSR:
  assumes "conditions_law E" and "open_run E kc s"
  shows "wp (reconcileCSR E kc sec) (\<lambda>r s'. guarded (terminal_guard E) (calls s')) s"
proof -
  obtain err csr w' where
    r: "client_Get_Csr E (csr_name kc) zero_csr (world s) = ((err, csr), w')"
    by (metis surj_pair)
  let ?s = "\<lparr>world = w', calls = calls s @ [GetCsr (csr_name kc) err csr]\<rparr>"
  have g: "guarded (terminal_guard E) (calls ?s)"
    using assms(2) by (simp add: open_run_def terminal_guard_def)
  show ?thesis
  proof (cases "csr_refused (GetCsr (csr_name kc) err csr)")
    case True
    then have "err = None" by (cases err) simp_all
    with True terminal_reconcileDenied[OF assms(1) g] show ?thesis
      by (simp add: wp_reconcileCSR[OF r] reconcileExistingCSR_def getCertApprovalCondition_eq)
  next
    case False
    with g assms(2) have o: "open_run E kc ?s" by (simp add: open_run_def)
    show ?thesis
      using False g terminal_reconcileFreshCSR[OF assms(1) o] terminal_reconcileApproved[OF assms(1) o]
      by (cases err) (simp_all add: wp_reconcileCSR[OF r] Let_def reconcileExistingCSR_def
          getCertApprovalCondition_eq go_wp)
  qed
qed

text \<open>
  C15: If \<open>meta.SetStatusCondition\<close> and \<open>meta.FindStatusCondition\<close> obey the contract of
  condition lists, then in every run a status that is written is terminal if and only if the
  run has read the request as denied or failed, or has found or created the role binding.
\<close>

theorem status_terminal_iff_verdict:
  assumes "conditions_law E"
  shows "guarded (terminal_guard E) (calls (snd (Reconcile E req (start w))))"
proof -
  obtain err kc w' where
    r: "client_Get_Kubeconfig E req zero_kubeconfig (world (start w)) = ((err, kc), w')"
    by (metis surj_pair)
  let ?s = "\<lparr>world = w', calls = [GetKubeconfig req err kc]\<rparr>"
  have g: "guarded (terminal_guard E) (calls ?s)" by (simp add: guarded_def terminal_guard_def)
  have "wp (go_then (reconcileUserSecret E kc) (\<lambda>(kc', sec). reconcileCSR E kc' sec))
      (\<lambda>r s'. guarded (terminal_guard E) (calls s')) ?s" if "\<not> isInTerminalCondition E kc"
    by (rule terminal_then[where R = "\<lambda>a s'. open_run E (fst a) s'",
          OF terminal_reconcileUserSecret[OF assms]])
      (use g that terminal_reconcileCSR[OF assms]
        in \<open>auto simp: open_run_def isInTerminalCondition_eq split: prod.splits\<close>)
  with g have "wp (Reconcile E req) (\<lambda>r s'. guarded (terminal_guard E) (calls s')) (start w)"
    by (cases err) (simp_all add: wp_Reconcile[OF r] Let_def)
  then show ?thesis by (simp add: wp_iff)
qed

text \<open>The sample environment obeys the contract.\<close>

lemma sample_conditions:
  "condition_list c_Type c_Status sample_find_condition (sample_set_condition at)"
proof
  fix cs t
  show "sample_find_condition cs t = None \<longleftrightarrow> t \<notin> c_Type ` set cs"
    by (auto simp: sample_find_condition_def find_None_iff)
next
  fix cs c t
  show "sample_find_condition (cs @ [c]) t = (case sample_find_condition cs t of
      Some d \<Rightarrow> Some d | None \<Rightarrow> if c_Type c = t then Some c else None)"
    by (simp add: sample_find_condition_def find_snoc)
next
  fix cs c
  show "map_option c_Status (sample_find_condition (sample_set_condition at cs c) (c_Type c)) =
      Some (c_Status c)"
  proof (cases "c_Type c \<in> c_Type ` set cs")
    case True
    have "List.find (\<lambda>d. c_Type d = c_Type c)
        (map (\<lambda>d. if c_Type d = c_Type c then c else d) cs) = Some c"
      using True by (induction cs) auto
    with True show ?thesis by (simp add: sample_set_condition_def sample_find_condition_def)
  next
    case False
    then have "List.find (\<lambda>d. c_Type d = c_Type c) cs = None" by (induction cs) auto
    with False show ?thesis
      by (simp add: sample_set_condition_def sample_find_condition_def find_snoc)
  qed
next
  fix t cs and c :: Condition
  assume t: "t \<noteq> c_Type c"
  have "List.find (\<lambda>d. c_Type d = t) (map (\<lambda>d. if c_Type d = c_Type c then c else d) cs) =
      List.find (\<lambda>d. c_Type d = t) cs"
    using t by (induction cs) auto
  with t show "sample_find_condition (sample_set_condition at cs c) t = sample_find_condition cs t"
    by (simp add: sample_set_condition_def sample_find_condition_def find_snoc split: option.split)
next
  fix cs and c :: Condition
  show "map c_Type (sample_set_condition at cs c) =
      (if c_Type c \<in> c_Type ` set cs then map c_Type cs else map c_Type cs @ [c_Type c])"
    by (simp add: sample_set_condition_def o_def)
qed

lemma sample_conditions_law: "conditions_law sample_env"
  by (simp add: conditions_law_def sample_env_def sample_conditions)

theorem status_terminal_iff_verdict_witness:
  "guarded (terminal_guard sample_env)
     (calls (snd (Reconcile sample_env request_kc (start denied_cluster))))"
  by (rule status_terminal_iff_verdict[OF sample_conditions_law])

end
