(* ===== verification/Webhook_Laws.thy ===== *)
theory Webhook_Laws
  imports Webhook Kubeconfig_Status
begin

text \<open>
  What the webhooks guarantee: defaulting always admits, completes the specification without
  overriding the user, writes nothing and is idempotent; validation rejects exactly the
  changes of the two fields it checks; and the two fit together.
\<close>

subsection \<open>The default values\<close>

definition condition_types :: "string list" where
  "condition_types = [ConditionTypeCSRCreated, ConditionTypeCSRApproved,
     ConditionTypeUserSecretCreated, ConditionTypeUserSecretFinished,
     ConditionTypeKubeconfigFinished]"

definition addUnknown :: "'w env \<Rightarrow> time \<Rightarrow> Condition list \<Rightarrow> string \<Rightarrow> Condition list" where
  "addUnknown E at cl t = (if meta_FindStatusCondition E cl t = None
     then cl @ [new_condition t ConditionUnknown at ''Unknown'' ''n/a''] else cl)"

definition addMissing :: "'w env \<Rightarrow> time \<Rightarrow> Condition list \<Rightarrow> Condition list" where
  "addMissing E at cl = foldl (addUnknown E at) cl condition_types"

lemma appendUnknown_run:
  "appendUnknown E cl t s = (Ret (addUnknown E (time_Now E (world s)) cl t), s)"
  by (simp add: appendUnknown_def addUnknown_def now_def go_bind_def go_return_def)

lemma defaultConditions_run:
  "defaultConditions E cl s = (Ret (addMissing E (time_Now E (world s)) cl), s)"
  by (simp add: defaultConditions_def addMissing_def condition_types_def appendUnknown_run
      go_bind_def)

lemma defaultServer_run:
  "\<exists>srv s'. defaultServer E cl s = (Ret (cl\<lparr>cl_Server := srv\<rparr>), s') \<and>
     (cl_Server cl \<noteq> [] \<longrightarrow> srv = cl_Server cl \<and> s' = s) \<and>
     (\<exists>new. calls s' = calls s @ new \<and> writes new = [] \<and> length new \<le> 1)"
proof (cases "cl_Server cl = []")
  case False
  then show ?thesis by (auto simp: defaultServer_def go_return_def intro!: exI[of _ "cl_Server cl"])
next
  case True
  have "wp (defaultServer E cl) (\<lambda>r s'. (\<exists>srv. r = Ret (cl\<lparr>cl_Server := srv\<rparr>)) \<and>
      (\<exists>new. calls s' = calls s @ new \<and> writes new = [] \<and> length new \<le> 1)) s"
    using True by (auto simp: defaultServer_def wp_bind wp_return intro!: wp_ClusterEndpointI
        split: prod.split)
  then show ?thesis using True by (auto simp: wp_iff) (metis prod.collapse)
qed

text \<open>The specification \<open>Default\<close> leaves, given the server it settled on.\<close>

definition completed_spec :: "KubeconfigSpec \<Rightarrow> string \<Rightarrow> KubeconfigSpec" where
  "completed_spec sp srv = sp
     \<lparr>SpecCluster := Some (defaultClusterName
        ((case SpecCluster sp of None \<Rightarrow> \<lparr>cl_Name = [], cl_Server = []\<rparr> | Some cl \<Rightarrow> cl)
           \<lparr>cl_Server := srv\<rparr>)),
      SpecRoleRef := Some (defaultRoleRef (SpecRoleRef sp)),
      SpecCSR := Some (defaultCSR (SpecCSR sp))\<rparr>"

definition given_server :: "KubeconfigSpec \<Rightarrow> string" where
  "given_server sp = (case SpecCluster sp of None \<Rightarrow> [] | Some cl \<Rightarrow> cl_Server cl)"

lemma Default_run:
  "\<exists>srv s'. Default E (Some kc) s = (Ret (kc\<lparr>Spec := completed_spec (Spec kc) srv,
       Status := (Status kc)\<lparr>Conditions := addMissing E (time_Now E (world s'))
         (Conditions (Status kc)), Phase := PhasePending\<rparr>\<rparr>, None), s') \<and>
     (given_server (Spec kc) \<noteq> [] \<longrightarrow> srv = given_server (Spec kc) \<and> s' = s) \<and>
     (\<exists>new. calls s' = calls s @ new \<and> writes new = [] \<and> length new \<le> 1)"
proof -
  let ?cl = "case SpecCluster (Spec kc) of None \<Rightarrow> \<lparr>cl_Name = [], cl_Server = []\<rparr> | Some cl \<Rightarrow> cl"
  have g: "cl_Server ?cl = given_server (Spec kc)"
    by (simp add: given_server_def split: option.split)
  obtain srv s' where "defaultServer E ?cl s = (Ret (?cl\<lparr>cl_Server := srv\<rparr>), s')"
    and "given_server (Spec kc) \<noteq> [] \<longrightarrow> srv = given_server (Spec kc) \<and> s' = s"
    and "\<exists>new. calls s' = calls s @ new \<and> writes new = [] \<and> length new \<le> 1"
    using defaultServer_run[of E ?cl s] unfolding g by blast
  then show ?thesis
    by (intro exI[of _ srv] exI[of _ s'])
      (simp add: Default_def go_deref_def defaultCluster_def Let_def go_bind_def go_return_def
        defaultConditions_run completed_spec_def)
qed

lemma defaultCSR_alg: "SignatureAlg (defaultCSR c) \<noteq> []"
  by (simp add: defaultCSR_def Let_def split: option.split)

lemma defaultCSR_idem: "defaultCSR (Some (defaultCSR c)) = defaultCSR c"
  by (simp add: defaultCSR_alg defaultCSR_def[of "Some (defaultCSR c)"])

lemma completed_spec_sel [simp]:
  "Username (completed_spec sp srv) = Username sp"
  "ExistingCSR (completed_spec sp srv) = ExistingCSR sp"
  "AutoApproveCSR (completed_spec sp srv) = AutoApproveCSR sp"
  "SpecCSR (completed_spec sp srv) = Some (defaultCSR (SpecCSR sp))"
  "SpecRoleRef (completed_spec sp srv) = Some (defaultRoleRef (SpecRoleRef sp))"
  by (simp_all add: completed_spec_def)

lemma completed_spec_cluster:
  "\<exists>cl. SpecCluster (completed_spec sp srv) = Some cl \<and> cl_Name cl \<noteq> [] \<and> cl_Server cl = srv"
  by (auto simp: completed_spec_def defaultClusterName_def split: option.split)

lemma completed_spec_server [simp]: "given_server (completed_spec sp srv) = srv"
  by (simp add: given_server_def completed_spec_def defaultClusterName_def split: option.split)

lemma completed_spec_idem: "completed_spec (completed_spec sp srv) srv = completed_spec sp srv"
proof -
  have "SpecCluster (completed_spec (completed_spec sp srv) srv) = SpecCluster (completed_spec sp srv)"
    by (simp add: completed_spec_def defaultClusterName_def split: option.split)
  then show ?thesis by (simp add: completed_spec_def defaultCSR_idem defaultRoleRef_def)
qed

subsection \<open>The conditions\<close>

lemma addUnknown_prefix: "\<exists>ys. addUnknown E at cl t = cl @ ys \<and> (\<forall>c \<in> set ys. c_Status c = ConditionUnknown)"
  by (simp add: addUnknown_def)

lemma addMissing_prefix:
  "\<exists>ys. addMissing E at cl = cl @ ys \<and> (\<forall>c \<in> set ys. c_Status c = ConditionUnknown)"
proof -
  have "\<exists>ys. foldl (addUnknown E at) cl ts = cl @ ys \<and> (\<forall>c \<in> set ys. c_Status c = ConditionUnknown)"
    for ts
  proof (induction ts rule: rev_induct)
    case (snoc t ts)
    then obtain ys where "foldl (addUnknown E at) cl ts = cl @ ys"
      and "\<forall>c \<in> set ys. c_Status c = ConditionUnknown" by blast
    moreover obtain zs where "addUnknown E at (cl @ ys) t = (cl @ ys) @ zs"
      and "\<forall>c \<in> set zs. c_Status c = ConditionUnknown" using addUnknown_prefix by blast
    ultimately have "foldl (addUnknown E at) cl (ts @ [t]) = cl @ (ys @ zs)"
      and "\<forall>c \<in> set (ys @ zs). c_Status c = ConditionUnknown" by auto
    then show ?case by blast
  qed simp
  then show ?thesis by (simp add: addMissing_def)
qed

context condition_list
begin

lemma find_prefix: "find cs t = Some c \<Longrightarrow> find (cs @ ds) t = Some c"
  by (induction ds rule: rev_induct) (simp_all add: find_append flip: append_assoc)

lemma find_suffix: "find cs t = None \<Longrightarrow> find (cs @ ds) t = Some c \<Longrightarrow> c \<in> set ds"
  by (auto simp: find_eq find_Some_iff nth_append find_None_iff split: if_splits)

end

lemma types_addUnknown:
  assumes "condition_list c_Type c_Status (meta_FindStatusCondition E) set_cond"
  shows "c_Type ` set (addUnknown E at cl t) = insert t (c_Type ` set cl)"
  using condition_list.find_None[OF assms] by (auto simp: addUnknown_def)

lemma types_addMissing:
  assumes "condition_list c_Type c_Status (meta_FindStatusCondition E) set_cond"
  shows "c_Type ` set (addMissing E at cl) = set condition_types \<union> c_Type ` set cl"
proof -
  have "c_Type ` set (foldl (addUnknown E at) cl ts) = set ts \<union> c_Type ` set cl" for ts
    by (induction ts arbitrary: cl) (simp_all add: types_addUnknown[OF assms])
  then show ?thesis by (simp add: addMissing_def)
qed

lemma addMissing_complete:
  assumes "condition_list c_Type c_Status (meta_FindStatusCondition E) set_cond"
    and "set condition_types \<subseteq> c_Type ` set cl"
  shows "addMissing E at cl = cl"
proof -
  have "foldl (addUnknown E at) cl ts = cl" if "set ts \<subseteq> c_Type ` set cl" for ts
    using that
  proof (induction ts)
    case (Cons t ts)
    then have "addUnknown E at cl t = cl"
      using condition_list.find_None[OF assms(1)] by (simp add: addUnknown_def)
    with Cons show ?case by simp
  qed simp
  with assms(2) show ?thesis by (simp add: addMissing_def)
qed

lemma terminal_addMissing:
  assumes "condition_list c_Type c_Status (meta_FindStatusCondition E) set_cond"
  shows "terminal_conditions E (addMissing E at cl) = terminal_conditions E cl"
proof -
  obtain ys where ys: "addMissing E at cl = cl @ ys" "\<forall>c \<in> set ys. c_Status c = ConditionUnknown"
    using addMissing_prefix by blast
  show ?thesis
  proof (cases "meta_FindStatusCondition E cl ConditionTypeKubeconfigFinished")
    case None
    then have "c_Status c = ConditionUnknown"
      if "meta_FindStatusCondition E (cl @ ys) ConditionTypeKubeconfigFinished = Some c" for c
      using condition_list.find_suffix[OF assms None that] ys(2) by blast
    with None ys(1) show ?thesis by (simp add: terminal_conditions_def split: option.split)
  next
    case (Some c)
    with condition_list.find_prefix[OF assms Some] ys(1) show ?thesis
      by (simp add: terminal_conditions_def)
  qed
qed

subsection \<open>Defaulting\<close>

text \<open>A specification that the reconciler can work on without following a nil pointer.\<close>

definition spec_usable :: "KubeconfigSpec \<Rightarrow> bool" where
  "spec_usable sp \<longleftrightarrow> (\<exists>cl. SpecCluster sp = Some cl \<and> cl_Name cl \<noteq> []) \<and> SpecRoleRef sp \<noteq> None \<and>
     (\<exists>csr. SpecCSR sp = Some csr \<and> SignatureAlg csr \<noteq> [])"

text \<open>
  The mutating webhook admits every Kubeconfig, whatever the API server replies: it
  returns no error and does not panic, writes nothing and makes at most one call; afterwards
  the cluster with a name, the role reference and the request with an algorithm are present
  and the phase is \<open>Pending\<close>.
\<close>

theorem Default_admits:
  "\<exists>kc' s'. Default E (Some kc) s = (Ret (kc', None), s') \<and> spec_usable (Spec kc') \<and>
     Phase (Status kc') = PhasePending \<and>
     (\<exists>new. calls s' = calls s @ new \<and> writes new = [] \<and> length new \<le> 1)"
proof -
  have "spec_usable (completed_spec (Spec kc) srv)" for srv
    using completed_spec_cluster[of "Spec kc" srv] by (auto simp: spec_usable_def defaultCSR_alg)
  with Default_run[of E kc s] show ?thesis by fastforce
qed

text \<open>What the user has set, as far as the fields that have defaults go.\<close>

definition keeps_spec :: "KubeconfigSpec \<Rightarrow> KubeconfigSpec \<Rightarrow> bool" where
  "keeps_spec sp sp' \<longleftrightarrow> Username sp' = Username sp \<and> ExistingCSR sp' = ExistingCSR sp \<and>
     AutoApproveCSR sp' = AutoApproveCSR sp \<and>
     (\<forall>r. SpecRoleRef sp = Some r \<longrightarrow> SpecRoleRef sp' = Some r) \<and>
     (\<forall>cl. SpecCluster sp = Some cl \<longrightarrow> (\<exists>cl'. SpecCluster sp' = Some cl' \<and>
        (cl_Name cl \<noteq> [] \<longrightarrow> cl_Name cl' = cl_Name cl) \<and>
        (cl_Server cl \<noteq> [] \<longrightarrow> cl_Server cl' = cl_Server cl))) \<and>
     (\<forall>c. SpecCSR sp = Some c \<longrightarrow> (\<exists>c'. SpecCSR sp' = Some c' \<and>
        AdditionalFields c' = AdditionalFields c \<and>
        (SignatureAlg c \<noteq> [] \<longrightarrow> SignatureAlg c' = SignatureAlg c)))"

lemma completed_spec_keeps:
  assumes "given_server sp \<noteq> [] \<longrightarrow> srv = given_server sp"
  shows "keeps_spec sp (completed_spec sp srv)"
  using assms
  by (auto simp: keeps_spec_def defaultRoleRef_def completed_spec_def defaultClusterName_def
      given_server_def defaultCSR_def Let_def split: option.splits)

text \<open>
  C30: Defaulting never overrides the user: the metadata, the user name, the predefined
  secret, the approval flag and every field with a default that the user has set are kept;
  so are the references and the kubeconfig in the status and all its conditions, to which
  only conditions with status Unknown are appended.
\<close>

theorem Default_respects_user:
  assumes "Default E (Some kc) s = (Ret (kc', err), s')"
  shows "KMeta kc' = KMeta kc \<and> keeps_spec (Spec kc) (Spec kc') \<and>
    UserSecret (Status kc') = UserSecret (Status kc) \<and>
    StatusCsr (Status kc') = StatusCsr (Status kc) \<and>
    StatusKubeconfig (Status kc') = StatusKubeconfig (Status kc) \<and>
    (\<exists>ys. Conditions (Status kc') = Conditions (Status kc) @ ys \<and>
       (\<forall>c \<in> set ys. c_Status c = ConditionUnknown))"
proof -
  obtain srv where "given_server (Spec kc) \<noteq> [] \<longrightarrow> srv = given_server (Spec kc)"
    and kc': "kc' = kc\<lparr>Spec := completed_spec (Spec kc) srv,
       Status := (Status kc)\<lparr>Conditions := addMissing E (time_Now E (world s'))
         (Conditions (Status kc)), Phase := PhasePending\<rparr>\<rparr>"
    using Default_run[of E kc s] assms by auto
  from completed_spec_keeps[OF this(1)] addMissing_prefix show ?thesis by (simp add: kc')
qed

theorem Default_respects_user_witness:
  "KMeta (case Default sample_env (Some new_kubeconfig) (start empty_cluster) of
      (Ret (k, err), s') \<Rightarrow> k | (Panic, s') \<Rightarrow> zero_kubeconfig) = KMeta new_kubeconfig"
proof -
  obtain k s' where "Default sample_env (Some new_kubeconfig) (start empty_cluster) = (Ret (k, None), s')"
    using Default_run[of sample_env new_kubeconfig "start empty_cluster"] by blast
  from Default_respects_user[OF this] this show ?thesis by simp
qed

text \<open>
  Under the contract of condition lists, defaulting a Kubeconfig that has been defaulted
  and whose server is known changes nothing and calls nothing, at any later time: the
  webhook is idempotent, as the API server requires of it.
\<close>

theorem Default_idempotent:
  assumes "conditions_law E"
    and "Default E (Some kc) s = (Ret (kc', err), s1)" and "given_server (Spec kc') \<noteq> []"
  shows "Default E (Some kc') s2 = (Ret (kc', None), s2)"
proof -
  obtain srv where kc': "kc' = kc\<lparr>Spec := completed_spec (Spec kc) srv,
       Status := (Status kc)\<lparr>Conditions := addMissing E (time_Now E (world s1))
         (Conditions (Status kc)), Phase := PhasePending\<rparr>\<rparr>"
    using Default_run[of E kc s] assms(2) by auto
  have srv: "srv \<noteq> []" using assms(3) by (simp add: kc')
  have law: "condition_list c_Type c_Status (meta_FindStatusCondition E)
      (meta_SetStatusCondition E 0)"
    using assms(1) by (simp add: conditions_law_def)
  have "set condition_types \<subseteq> c_Type ` set (Conditions (Status kc'))"
    by (simp add: kc' types_addMissing[OF law])
  from addMissing_complete[OF law this]
  have "addMissing E at (Conditions (Status kc')) = Conditions (Status kc')" for at .
  with Default_run[of E kc' s2] srv show ?thesis
    by (auto simp: kc' completed_spec_idem)
qed

theorem Default_idempotent_witness:
  "\<exists>kc'. fst (Default sample_env (Some new_kubeconfig) (start empty_cluster)) = Ret (kc', None) \<and>
     Default sample_env (Some kc') (start empty_cluster) = (Ret (kc', None), start empty_cluster)"
proof -
  have g: "given_server (Spec new_kubeconfig) = ''https://k8s:6443''"
    by (simp add: given_server_def new_kubeconfig_def)
  obtain k where k: "Default sample_env (Some new_kubeconfig) (start empty_cluster) =
      (Ret (k, None), start empty_cluster)"
    and "Spec k = completed_spec (Spec new_kubeconfig) ''https://k8s:6443''"
    using Default_run[of sample_env new_kubeconfig "start empty_cluster"] g by auto
  with Default_idempotent[OF sample_conditions_law k] show ?thesis by auto
qed

text \<open>
  Under the contract of condition lists, defaulting adds every condition type that is
  missing and does not change whether the Kubeconfig counts as finished for the reconciler.
\<close>

theorem Default_conditions:
  assumes "conditions_law E" and "Default E (Some kc) s = (Ret (kc', err), s1)"
  shows "c_Type ` set (Conditions (Status kc')) =
      set condition_types \<union> c_Type ` set (Conditions (Status kc)) \<and>
    isInTerminalCondition E kc' = isInTerminalCondition E kc"
proof -
  have law: "condition_list c_Type c_Status (meta_FindStatusCondition E)
      (meta_SetStatusCondition E 0)"
    using assms(1) by (simp add: conditions_law_def)
  obtain srv where "kc' = kc\<lparr>Spec := completed_spec (Spec kc) srv,
       Status := (Status kc)\<lparr>Conditions := addMissing E (time_Now E (world s1))
         (Conditions (Status kc)), Phase := PhasePending\<rparr>\<rparr>"
    using Default_run[of E kc s] assms(2) by auto
  then show ?thesis
    by (simp add: types_addMissing[OF law] isInTerminalCondition_eq terminal_addMissing[OF law])
qed

theorem Default_conditions_witness:
  "\<exists>kc'. fst (Default sample_env (Some finished_kubeconfig) (start empty_cluster)) = Ret (kc', None) \<and>
     isInTerminalCondition sample_env kc'"
proof -
  obtain k s' where k: "Default sample_env (Some finished_kubeconfig) (start empty_cluster) =
      (Ret (k, None), s')"
    using Default_run[of sample_env finished_kubeconfig "start empty_cluster"] by blast
  have "isInTerminalCondition sample_env finished_kubeconfig"
    by (simp add: isInTerminalCondition_def sample_find_condition_def finished_kubeconfig_def)
  with Default_conditions[OF sample_conditions_law k] k show ?thesis by simp
qed

subsection \<open>Validation\<close>

lemma ValidateUpdate_run:
  "ValidateUpdate (Some old) (Some new) s = (Ret (if update_errors old new = [] then None
     else Some (NewForbidden ''kubeconfig.k8s.zoomoid.dev'' ''Kubeconfig''
       (Name (KMeta old)) (update_errors old new))), s)"
  by (simp add: ValidateUpdate_def go_deref_def go_return_run Let_def)

lemma update_errors_Nil:
  "update_errors old new = [] \<longleftrightarrow> ExistingCSR (Spec old) = ExistingCSR (Spec new) \<and>
     SpecCSR (Spec old) = SpecCSR (Spec new)"
  by (simp add: update_errors_def)

text \<open>
  The versions of a Kubeconfig: a user submits one, the mutating webhook completes it and the
  validating webhook compares it with the version that is stored. (The status is not the user's.)
\<close>

inductive updated :: "'w env \<Rightarrow> Kubeconfig \<Rightarrow> Kubeconfig \<Rightarrow> bool" for E k where
  created: "updated E k k"
| changed: "updated E k k1 \<Longrightarrow> Default E (Some kc) s = (Ret (kc', e), s') \<Longrightarrow>
    fst (ValidateUpdate (Some k1) (Some kc') ()) = Ret None \<Longrightarrow> updated E k (kc'\<lparr>Status := st\<rparr>)"

lemma updated_keeps:
  "updated E k k1 \<Longrightarrow> ExistingCSR (Spec k1) = ExistingCSR (Spec k) \<and> SpecCSR (Spec k1) = SpecCSR (Spec k)"
  by (induction rule: updated.induct) (auto simp: ValidateUpdate_run update_errors_Nil split: if_splits)

lemma defaulted_spec:
  assumes "Default E (Some kc) s = (Ret (kc', e), s')"
  shows "ExistingCSR (Spec kc') = ExistingCSR (Spec kc)" "SpecCSR (Spec kc') = Some (defaultCSR (SpecCSR (Spec kc)))"
    "AutoApproveCSR (Spec kc') = AutoApproveCSR (Spec kc)"
  using Default_run[of E kc s] assms by auto

text \<open>
  C31: However often a Kubeconfig is updated through the two webhooks, it keeps the reference to its predefined
  secret and its request. A version submitted next is accepted exactly if, after defaulting, it has both as
  in the first version; otherwise the answer is Forbidden for the object's name with an error for each
  of the two that differs. The answer does not depend on the flag for automatic approval, so every
  accepted update may change it: the comment of the type, by which the flag is immutable
  and the validating webhook enforces this, is not what the code does.
\<close>

theorem updates_keep_request_not_approval:
  assumes "updated E k k1" and "Default E (Some kc) s = (Ret (kc', e), s')"
  shows "ExistingCSR (Spec k1) = ExistingCSR (Spec k) \<and> SpecCSR (Spec k1) = SpecCSR (Spec k) \<and>
    AutoApproveCSR (Spec kc') = AutoApproveCSR (Spec kc) \<and>
    (\<exists>r. ValidateUpdate (Some k1) (Some kc') () = (Ret r, ()) \<and>
      (r = None \<longleftrightarrow> ExistingCSR (Spec kc) = ExistingCSR (Spec k) \<and> Some (defaultCSR (SpecCSR (Spec kc))) = SpecCSR (Spec k)) \<and>
      (r = None \<longrightarrow> updated E k kc') \<and>
      (\<forall>g kind n errs. r = Some (NewForbidden g kind n errs) \<longrightarrow> n = Name (KMeta k1) \<and>
        (FieldForbidden [''spec'', ''existingCSR''] ''.spec.existingCSR is immutable'' \<in> set errs \<longleftrightarrow>
           ExistingCSR (Spec kc) \<noteq> ExistingCSR (Spec k)) \<and>
        (FieldForbidden [''spec'', ''CSR''] ''.spec.csr is immutable'' \<in> set errs \<longleftrightarrow>
           Some (defaultCSR (SpecCSR (Spec kc))) \<noteq> SpecCSR (Spec k))) \<and>
      (\<forall>b. ValidateUpdate (Some k1) (Some (kc'\<lparr>Spec := (Spec kc')\<lparr>AutoApproveCSR := b\<rparr>\<rparr>)) () = (Ret r, ())))"
proof -
  note keep = updated_keeps[OF assms(1)] and sp = defaulted_spec[OF assms(2)]
  have "updated E k (kc'\<lparr>Status := Status kc'\<rparr>)" if "update_errors k1 kc' = []"
    by (rule updated.changed[OF assms]) (simp add: ValidateUpdate_run that)
  then have "update_errors k1 kc' = [] \<longrightarrow> updated E k kc'" by simp
  moreover have "update_errors k1 (kc'\<lparr>Spec := (Spec kc')\<lparr>AutoApproveCSR := b\<rparr>\<rparr>) = update_errors k1 kc'" for b
    by (simp add: update_errors_def)
  ultimately show ?thesis
    using keep sp by (simp add: ValidateUpdate_run) (auto simp: update_errors_def)
qed

text \<open>A Kubeconfig as it was submitted and completed, and the same one later approved automatically.\<close>

theorem updates_keep_request_not_approval_witness:
  "\<exists>k kc'. updated sample_env k kc' \<and> \<not> AutoApproveCSR (Spec k) \<and> AutoApproveCSR (Spec kc') \<and> SpecCSR (Spec kc') = SpecCSR (Spec k)"
proof -
  let ?flagged = "zero_kubeconfig\<lparr>Spec := (Spec zero_kubeconfig)\<lparr>AutoApproveCSR := True\<rparr>\<rparr>"
  obtain k s where k: "Default sample_env (Some zero_kubeconfig) (start empty_cluster) = (Ret (k, None), s)"
    using Default_run[of sample_env zero_kubeconfig "start empty_cluster"] by blast
  obtain kc s' where kc: "Default sample_env (Some ?flagged) (start empty_cluster) = (Ret (kc, None), s')"
    using Default_run[of sample_env ?flagged "start empty_cluster"] by blast
  show ?thesis
    using updates_keep_request_not_approval[OF updated.created[of sample_env k] kc] defaulted_spec[OF k] defaulted_spec[OF kc]
    by (intro exI[of _ k] exI[of _ kc]) (auto simp: zero_kubeconfig_def)
qed

text \<open>
  Any change of the approval flag, the user name, the cluster and the role reference is
  accepted, also while the request waits for approval. (The comment on
  \<open>automaticApproval\<close> says that the field is immutable and that the validating webhook
  enforces it.)
\<close>

theorem ValidateUpdate_ignores_approval:
  "ValidateUpdate (Some old) (Some (old\<lparr>Spec := (Spec old)\<lparr>AutoApproveCSR := b, Username := u,
     SpecCluster := cl, SpecRoleRef := role\<rparr>\<rparr>)) s = (Ret None, s)"
  by (simp add: ValidateUpdate_run update_errors_Nil)

text \<open>
  The two webhooks fit together: whatever the API server replied when the two versions
  were defaulted, an update is accepted exactly if the versions the user submitted name the
  same predefined secret and have requests with the same defaults filled in. So submitting
  the same manifest again is accepted, and so is spelling out a default.
\<close>

theorem resubmission_accepted:
  assumes "Default E (Some k1) s1 = (Ret (k1', e1), s1')"
    and "Default E (Some k2) s2 = (Ret (k2', e2), s2')"
  shows "ValidateUpdate (Some k1') (Some k2') s = (Ret None, s) \<longleftrightarrow>
    ExistingCSR (Spec k1) = ExistingCSR (Spec k2) \<and>
    defaultCSR (SpecCSR (Spec k1)) = defaultCSR (SpecCSR (Spec k2))"
  using Default_run[of E k1 s1] Default_run[of E k2 s2] assms
  by (auto simp: ValidateUpdate_run update_errors_Nil)

theorem resubmission_accepted_witness:
  "\<exists>k. fst (Default sample_env (Some zero_kubeconfig) (start empty_cluster)) = Ret (k, None) \<and>
     ValidateUpdate (Some k) (Some k) () = (Ret None, ())"
proof -
  obtain k s' where k: "Default sample_env (Some zero_kubeconfig) (start empty_cluster) =
      (Ret (k, None), s')"
    using Default_run[of sample_env zero_kubeconfig "start empty_cluster"] by blast
  from resubmission_accepted[OF k k, of "()"] k show ?thesis by simp
qed

end
