(* ===== verification/Csr_Controller.thy ===== *)
theory Csr_Controller
  imports Resources Status_Conditions
begin

text \<open>
  \<open>controllers/csr_controller.go\<close>: the controller that approves the signing requests of the
  operator that carry the auto-approve annotation.
\<close>

subsection \<open>Guards\<close>

definition hasAutoApproveAnnotation :: "Csr \<Rightarrow> bool" where
  "hasAutoApproveAnnotation csr =
    (case Annotations (CsrMeta csr) CSRAutoApproveAnnotationKey of
       Some v \<Rightarrow> v = ''true'' | None \<Rightarrow> False)"

fun owned_by_kubeconfig :: "OwnerReference list \<Rightarrow> bool" where
  "owned_by_kubeconfig [] = False"
| "owned_by_kubeconfig (r # rs) =
     (if or_Kind r = ''Kubeconfig'' \<and> or_APIVersion r = KubeconfigOperatorAPIVersionV1Alpha1
      then True else owned_by_kubeconfig rs)"

definition isKubeconfigV1Alpha1CSR :: "Csr \<Rightarrow> bool" where
  "isKubeconfigV1Alpha1CSR csr = owned_by_kubeconfig (OwnerReferences (CsrMeta csr))"

lemma owned_by_kubeconfig_iff:
  "owned_by_kubeconfig rs \<longleftrightarrow> (\<exists>r \<in> set rs. or_Kind r = ''Kubeconfig'' \<and>
     or_APIVersion r = KubeconfigOperatorAPIVersionV1Alpha1)"
  by (induction rs) auto

subsection \<open>Approval\<close>

definition wrong_pem_type :: go_error where
  "wrong_pem_type = PlainError ''PEM block type must be CERTIFICATE REQUEST''"

definition parseCSR :: "'w env \<Rightarrow> bytes \<Rightarrow> go_error + CertificateRequestTemplate" where
  "parseCSR E pemBytes =
    (case fst (pem_Decode E pemBytes) of
       None \<Rightarrow> Inl wrong_pem_type
     | Some block \<Rightarrow>
        if pem_Type block \<noteq> ''CERTIFICATE REQUEST'' then Inl wrong_pem_type
        else (case x509_ParseCertificateRequest E (pem_Bytes block) of
                Inl err \<Rightarrow> Inl err | Inr csr \<Rightarrow> Inr csr))"

definition csr_condition :: "string \<Rightarrow> string \<Rightarrow> string \<Rightarrow> CsrCondition" where
  "csr_condition t r m = \<lparr>cc_Type = t, cc_Status = ConditionTrue, cc_Reason = r,
     cc_Message = m, cc_LastUpdateTime = 0, cc_LastTransitionTime = 0\<rparr>"

definition set_csr_condition :: "'w env \<Rightarrow> Csr \<Rightarrow> CsrCondition \<Rightarrow> ('w go_state, Csr) go" where
  "set_csr_condition E csr c = go_bind (now E) (\<lambda>at.
     go_return (csr\<lparr>CsrConditions := setCsrCondition at (CsrConditions csr) c\<rparr>))"

text \<open>
  \<open>ApproveCSR\<close> gets a pointer: the conditions it sets are visible to the caller, so the
  result is the caller's object and the error. The object that \<open>UpdateApproval\<close> returns
  replaces only the local variable.
\<close>

definition ApproveCSR :: "'w env \<Rightarrow> Csr \<Rightarrow> ('w go_state, Csr \<times> go_error option) go" where
  "ApproveCSR E csr =
    (case parseCSR E (Request csr) of
       Inl err \<Rightarrow>
         go_bind (set_csr_condition E csr
                    (csr_condition CertificateFailed ''Failed'' (error_text err)))
           (\<lambda>csr. go_return (csr, Some err))
     | Inr _ \<Rightarrow>
         go_bind (set_csr_condition E csr
                    (csr_condition CertificateApproved ''KubeconfigControllerApprove''
                       ''The CSR was auto-approved by the kubeconfig operator''))
           (\<lambda>csr. go_bind (UpdateApproval E csr) (\<lambda>(err, csr').
              case err of Some e \<Rightarrow> go_return (csr, Some e) | None \<Rightarrow> go_return (csr, None))))"

subsection \<open>Reconcile\<close>

definition ReconcileCsr :: "'w env \<Rightarrow> NamespacedName \<Rightarrow> ('w go_state, reconcile_return) go" where
  "ReconcileCsr E req =
     go_bind (Get_Csr E req zero_csr) (\<lambda>(err, csr).
       case err of
         Some e \<Rightarrow>
           if IsNotFound err then go_return (empty_result, None)
           else go_return (empty_result, err)
       | None \<Rightarrow>
           if \<not> isKubeconfigV1Alpha1CSR csr then go_return (empty_result, None)
           else
             (case getCertApprovalCondition (CsrConditions csr) of (approved, denied, failed) \<Rightarrow>
                let isPending = (\<not> approved \<and> \<not> denied \<and> \<not> failed)
                in if hasAutoApproveAnnotation csr \<and> isPending then
                     go_bind (ApproveCSR E csr) (\<lambda>(csr, err).
                       case err of
                         Some e \<Rightarrow>
                           go_bind (record_event ''Warning'' ''Failed''
                                      (errorf ''Failed to approve CSR'' e)) (\<lambda>_.
                           go_bind (Status_Update_Csr E csr) (\<lambda>_.
                             go_return (empty_result, Some e)))
                       | None \<Rightarrow> go_return (empty_result, None))
                   else if \<not> approved then go_return (empty_result, None)
                   else go_return (empty_result, None)))"

lemma wp_set_csr_condition [go_wp]:
  "wp (set_csr_condition E csr c) Q s =
     Q (Ret (csr\<lparr>CsrConditions :=
          setCsrCondition (time_Now E (world s)) (CsrConditions csr) c\<rparr>)) s"
  by (simp add: set_csr_condition_def go_wp)

text \<open>When the controller touches a request at all.\<close>

definition to_approve :: "Csr \<Rightarrow> bool" where
  "to_approve csr \<longleftrightarrow> isKubeconfigV1Alpha1CSR csr \<and> hasAutoApproveAnnotation csr \<and>
     cc_Type ` set (CsrConditions csr) \<inter>
       {CertificateApproved, CertificateDenied, CertificateFailed} = {}"

end
