(* ===== verification/Csr_Approval.thy ===== *)
theory Csr_Approval
  imports Csr_Controller Sample_Cluster
begin

text \<open>
  What the approving controller does: it touches exactly the pending requests of the
  operator that carry the auto-approve annotation, it approves them if they parse and fails
  them if not, and a request it has written is never touched again. The contract of
  condition lists (interpretation \<open>csr_conditions\<close>) carries these proofs.
\<close>

subsection \<open>One decision per request\<close>

lemma to_approve_conditions:
  "to_approve csr \<longleftrightarrow> isKubeconfigV1Alpha1CSR csr \<and> hasAutoApproveAnnotation csr \<and>
     getCertApprovalCondition (CsrConditions csr) = (False, False, False)"
  by (auto simp: to_approve_def getCertApprovalCondition_eq)

text \<open>The branch of \<open>ReconcileCsr\<close> that decides on a request.\<close>

definition decide :: "'w env \<Rightarrow> Csr \<Rightarrow> ('w go_state, reconcile_return) go" where
  "decide E csr = go_bind (ApproveCSR E csr) (\<lambda>(csr, err). case err of
       Some e \<Rightarrow> go_bind (record_event ''Warning'' ''Failed'' (errorf ''Failed to approve CSR'' e))
         (\<lambda>_. go_bind (Status_Update_Csr E csr) (\<lambda>_. go_return (empty_result, Some e)))
     | None \<Rightarrow> go_return (empty_result, None))"

lemma ReconcileCsr_eq:
  "ReconcileCsr E req = go_bind (Get_Csr E req zero_csr) (\<lambda>(err, csr).
     if err = None \<and> to_approve csr then decide E csr
     else go_return (empty_result, if IsNotFound err then None else err))"
  unfolding ReconcileCsr_def
  by (rule arg_cong[where f = "go_bind (Get_Csr E req zero_csr)"], rule ext)
    (simp add: to_approve_conditions decide_def Let_def split: prod.split option.split)

lemma wp_ReconcileCsr:
  assumes "client_Get_Csr E req zero_csr (world s) = ((err, csr), w1)"
  shows "wp (ReconcileCsr E req) Q s =
    (if err = None \<and> to_approve csr
     then wp (decide E csr) Q \<lparr>world = w1, calls = calls s @ [GetCsr req err csr]\<rparr>
     else Q (Ret (empty_result, if IsNotFound err then None else err))
            \<lparr>world = w1, calls = calls s @ [GetCsr req err csr]\<rparr>)"
  by (simp add: ReconcileCsr_eq Get_Csr_def go_wp assms)

text \<open>
  A request that cannot be read, is not owned by a Kubeconfig, lacks the annotation, or
  already is approved, denied or failed is left alone: the run ends after the read, with the
  error of the read (nil if the request is gone).
\<close>

theorem other_requests_untouched:
  assumes "client_Get_Csr E req zero_csr w = ((err, csr), w1)"
    and "\<not> (err = None \<and> to_approve csr)"
  shows "ReconcileCsr E req (start w) = (Ret (empty_result, if IsNotFound err then None else err),
    \<lparr>world = w1, calls = [GetCsr req err csr]\<rparr>)"
proof -
  have "wp (ReconcileCsr E req) (\<lambda>r s'. r = Ret (empty_result, if IsNotFound err then None else err) \<and>
      s' = \<lparr>world = w1, calls = [GetCsr req err csr]\<rparr>) (start w)"
    using assms(2) by (subst wp_ReconcileCsr[of E req "start w", simplified, OF assms(1)]) auto
  then show ?thesis by (simp add: wp_iff prod_eq_iff)
qed

theorem other_requests_untouched_witness:
  "ReconcileCsr sample_env request_kc (start granted_cluster) = (Ret (empty_result, None),
     \<lparr>world = granted_cluster,
      calls = [GetCsr request_kc None (sample_csr CertificateApproved ''cert'')]\<rparr>)"
proof -
  have "client_Get_Csr sample_env request_kc zero_csr granted_cluster =
      ((None, sample_csr CertificateApproved ''cert''), granted_cluster)"
    by (simp add: store_get_def granted_cluster_def requested_cluster_def request_kc_def)
  moreover have "\<not> to_approve (sample_csr CertificateApproved ''cert'')"
    by (simp add: to_approve_def sample_csr_def sample_condition_def)
  ultimately show ?thesis
    using other_requests_untouched[of sample_env request_kc granted_cluster None
        "sample_csr CertificateApproved ''cert''" granted_cluster] by simp
qed

text \<open>The request with one more condition, as the controller writes it.\<close>

definition with_verdict :: "Csr \<Rightarrow> time \<Rightarrow> string \<Rightarrow> string \<Rightarrow> string \<Rightarrow> Csr" where
  "with_verdict csr at t r m = csr\<lparr>CsrConditions := CsrConditions csr @
     [(csr_condition t r m)\<lparr>cc_LastTransitionTime := at\<rparr>]\<rparr>"

lemma set_verdict:
  assumes "to_approve csr" and "t \<in> {CertificateApproved, CertificateDenied, CertificateFailed}"
  shows "csr\<lparr>CsrConditions := setCsrCondition at (CsrConditions csr) (csr_condition t r m)\<rparr> =
    with_verdict csr at t r m"
proof -
  have "cc_Type (csr_condition t r m) \<notin> cc_Type ` set (CsrConditions csr)"
    using assms by (force simp: to_approve_def csr_condition_def)
  from setCsrCondition_new[OF this] show ?thesis
    by (simp add: with_verdict_def csr_condition_def IsZero_def)
qed

lemma with_verdict_settled:
  assumes "t \<in> {CertificateApproved, CertificateDenied, CertificateFailed}"
  shows "\<not> to_approve (with_verdict csr at t r m)"
  using assms by (auto simp: to_approve_def with_verdict_def csr_condition_def)

lemma ReconcileCsr_approves:
  assumes "client_Get_Csr E req zero_csr w = ((None, csr), w1)" and "to_approve csr"
    and "parseCSR E (Request csr) = Inr tmpl"
    and "sent = with_verdict csr (time_Now E w1) CertificateApproved ''KubeconfigControllerApprove''
      ''The CSR was auto-approved by the kubeconfig operator''"
    and "clientset_UpdateApproval E sent w1 = ((None, reply), w2)"
  shows "ReconcileCsr E req (start w) = (Ret (empty_result, None),
    \<lparr>world = w2, calls = [GetCsr req None csr, UpdateCsrApproval sent None]\<rparr>)"
proof -
  have "wp (ReconcileCsr E req) (\<lambda>r s'. r = Ret (empty_result, None) \<and>
      s' = \<lparr>world = w2, calls = [GetCsr req None csr, UpdateCsrApproval sent None]\<rparr>) (start w)"
    using assms(2-5)
    by (subst wp_ReconcileCsr[of E req "start w", simplified, OF assms(1)])
      (simp add: decide_def ApproveCSR_def go_wp set_verdict UpdateApproval_def Let_def)
  then show ?thesis by (simp add: wp_iff prod_eq_iff)
qed

text \<open>
  C21: A request that is to be approved and whose PEM block parses is sent to the approval
  endpoint once, unchanged but for an Approved condition at the end of its conditions,
  stamped with the current time; the run succeeds if the endpoint accepts it.
\<close>

theorem valid_request_approved:
  assumes "client_Get_Csr E req zero_csr w = ((None, csr), w1)" and "to_approve csr"
    and "parseCSR E (Request csr) = Inr tmpl"
    and "sent = with_verdict csr (time_Now E w1) CertificateApproved ''KubeconfigControllerApprove''
      ''The CSR was auto-approved by the kubeconfig operator''"
    and "clientset_UpdateApproval E sent w1 = ((None, reply), w2)"
  shows "ReconcileCsr E req (start w) = (Ret (empty_result, None),
    \<lparr>world = w2, calls = [GetCsr req None csr, UpdateCsrApproval sent None]\<rparr>)"
  by (rule ReconcileCsr_approves[OF assms])

text \<open>A request as the operator creates it, pending.\<close>

definition pending_csr :: Csr where
  "pending_csr = zero_csr\<lparr>CsrMeta := zero_meta\<lparr>Name := ''kc'',
       Annotations := [CSRAutoApproveAnnotationKey \<mapsto> ''true''],
       OwnerReferences := [operator_reference new_kubeconfig]\<rparr>, Request := ''request''\<rparr>"

definition pending_cluster :: cluster where
  "pending_cluster = requested_cluster pending_csr"

lemma pending_to_approve: "to_approve pending_csr"
  by (simp add: to_approve_def pending_csr_def isKubeconfigV1Alpha1CSR_def operator_reference_def
      hasAutoApproveAnnotation_def zero_csr_def zero_meta_def)

lemma pending_read:
  "store_get (csrs pending_cluster (nn_Name request_kc)) zero_csr pending_cluster =
     ((None, pending_csr), pending_cluster)"
  by (simp add: store_get_def pending_cluster_def requested_cluster_def request_kc_def)

lemma pending_key: "csrs pending_cluster (Name (CsrMeta pending_csr)) = Some pending_csr"
  by (simp add: pending_cluster_def requested_cluster_def) (simp add: pending_csr_def zero_meta_def)

theorem valid_request_approved_witness:
  "\<exists>sent w'. ReconcileCsr sample_env request_kc (start pending_cluster) = (Ret (empty_result, None),
     \<lparr>world = w', calls = [GetCsr request_kc None pending_csr, UpdateCsrApproval sent None]\<rparr>)"
proof -
  obtain reply w2 where "clientset_UpdateApproval sample_env (with_verdict pending_csr 1 CertificateApproved
      ''KubeconfigControllerApprove'' ''The CSR was auto-approved by the kubeconfig operator'') pending_cluster =
      ((None, reply), w2)"
    by (simp add: with_verdict_def pending_key Let_def)
  with valid_request_approved[of sample_env request_kc pending_cluster pending_csr pending_cluster,
      OF _ pending_to_approve _ refl] pending_read show ?thesis
    by (simp add: parseCSR_def)
qed

text \<open>
  C22: A request that is to be approved and does not parse is never sent to the approval
  endpoint: an event is recorded, its status is updated with a Failed condition that carries
  the error, and the run returns that error, whether the update succeeds or not.
\<close>

theorem invalid_request_failed:
  assumes "client_Get_Csr E req zero_csr w = ((None, csr), w1)" and "to_approve csr"
    and "parseCSR E (Request csr) = Inl e"
    and "sent = with_verdict csr (time_Now E w1) CertificateFailed ''Failed'' (error_text e)"
    and "client_Status_Update_Csr E sent w1 = ((err, reply), w2)"
  shows "ReconcileCsr E req (start w) = (Ret (empty_result, Some e),
    \<lparr>world = w2, calls = [GetCsr req None csr,
       Event ''Warning'' ''Failed'' (errorf ''Failed to approve CSR'' e), UpdateCsrStatus sent err]\<rparr>)"
proof -
  have "wp (ReconcileCsr E req) (\<lambda>r s'. r = Ret (empty_result, Some e) \<and>
      s' = \<lparr>world = w2, calls = [GetCsr req None csr,
       Event ''Warning'' ''Failed'' (errorf ''Failed to approve CSR'' e), UpdateCsrStatus sent err]\<rparr>) (start w)"
    using assms(2-5)
    by (subst wp_ReconcileCsr[of E req "start w", simplified, OF assms(1)])
      (simp add: decide_def ApproveCSR_def go_wp set_verdict Status_Update_Csr_def Let_def)
  then show ?thesis by (simp add: wp_iff prod_eq_iff)
qed

definition strict_env :: "cluster env" where
  "strict_env = sample_env\<lparr>pem_Decode := \<lambda>b. (None, b)\<rparr>"

theorem invalid_request_failed_witness:
  "\<exists>sent err w'. ReconcileCsr strict_env request_kc (start pending_cluster) =
     (Ret (empty_result, Some wrong_pem_type),
      \<lparr>world = w', calls = [GetCsr request_kc None pending_csr,
        Event ''Warning'' ''Failed'' (errorf ''Failed to approve CSR'' wrong_pem_type),
        UpdateCsrStatus sent err]\<rparr>)"
proof -
  obtain err reply w2 where "client_Status_Update_Csr strict_env (with_verdict pending_csr
      (time_Now strict_env pending_cluster) CertificateFailed ''Failed'' (error_text wrong_pem_type))
      pending_cluster = ((err, reply), w2)"
    by (metis surj_pair)
  with invalid_request_failed[of strict_env request_kc pending_cluster pending_csr pending_cluster,
      OF _ pending_to_approve _ refl] pending_read show ?thesis
    by (fastforce simp: strict_env_def parseCSR_def)
qed

subsection \<open>Whatever happens\<close>

text \<open>
  What a run of this controller may write: a request it has read as one to approve, changed
  only in its conditions, whose verdict is settled by what is written.
\<close>

fun settles :: "call list \<Rightarrow> call \<Rightarrow> bool" where
  "settles before (UpdateCsrApproval x e) = (\<not> to_approve x \<and>
     list_ex (\<lambda>c. case c of GetCsr n None csr \<Rightarrow> to_approve csr \<and>
        x = csr\<lparr>CsrConditions := CsrConditions x\<rparr> | _ \<Rightarrow> False) before)"
| "settles before (UpdateCsrStatus x e) = (\<not> to_approve x \<and>
     list_ex (\<lambda>c. case c of GetCsr n None csr \<Rightarrow> to_approve csr \<and>
        x = csr\<lparr>CsrConditions := CsrConditions x\<rparr> | _ \<Rightarrow> False) before)"
| "settles before c = (\<not> is_write c)"

text \<open>
  C20: Whatever the API server replies, the only objects a run writes are requests it has
  read as requests to approve, changed in nothing but their conditions, and with the written
  conditions they are no longer to be approved: once a write is accepted the controller does
  not touch the request again.
\<close>

theorem approval_settles: "guarded settles (calls (snd (ReconcileCsr E req (start w))))"
proof -
  obtain err csr w1 where r: "client_Get_Csr E req zero_csr (world (start w)) = ((err, csr), w1)"
    by (metis surj_pair)
  have cond: "csr = csr\<lparr>CsrConditions := CsrConditions csr\<rparr>" for csr :: Csr by simp
  have verdict: "with_verdict csr at t q m =
      csr\<lparr>CsrConditions := CsrConditions (with_verdict csr at t q m)\<rparr>" for at t q m
    by (simp add: with_verdict_def)
  note settled = with_verdict_settled[of CertificateApproved] with_verdict_settled[of CertificateFailed]
  have "wp (ReconcileCsr E req) (\<lambda>r s'. guarded settles (calls s')) (start w)"
    by (simp add: wp_ReconcileCsr[OF r] decide_def ApproveCSR_def go_wp set_verdict client_defs
        guarded_def settled flip: verdict split: sum.splits prod.splits option.splits)
  then show ?thesis by (simp add: wp_iff)
qed

end
