(* ===== verification/Signing_Laws.thy ===== *)
theory Signing_Laws
  imports Csr_Controller Sample_Cluster
begin

text \<open>
  Keys and requests: the key that is generated fits the signature algorithm, algorithms are
  never confused, and what one controller writes into a request the other controller can
  read: it parses, and it is to be approved exactly if the Kubeconfig asks for approval.
\<close>

subsection \<open>Algorithms and keys\<close>

text \<open>
  The names of signature algorithms are translated without confusion: two supported
  names never give the same algorithm, and the unknown algorithm results exactly for the
  names that are not supported.
\<close>

theorem signature_algorithms_distinct:
  "inj_on parseSignatureAlgorithm (set supported_algorithms) \<and>
   (parseSignatureAlgorithm a = X509_Unknown \<longleftrightarrow> a \<notin> set supported_algorithms)"
  by (simp add: parse_inj parse_unknown_iff)

text \<open>
  Whatever the generators reply, a key that is generated is of the kind the signature
  algorithm of the request needs (RSA, ECDSA or Ed25519) and comes with a non-empty
  encoding; there is an error only for the name \<open>Unknown\<close>, and no key and no error only for
  a name that is not supported.
\<close>

theorem key_fits_algorithm:
  "case fst (generateKey E a s) of
     Ret (Inr (Some k, enc)) \<Rightarrow>
       family_of_algorithm (parseSignatureAlgorithm a) = Some (family_of_signer k) \<and>
       enc \<noteq> None \<and> enc \<noteq> Some []
   | Ret (Inr (None, enc)) \<Rightarrow> enc = None \<and> a \<notin> set supported_algorithms
   | Ret (Inl e) \<Rightarrow> a = UnknownSignatureAlgorithm
   | Panic \<Rightarrow> True"
proof -
  have "wp (generateKey E a) (\<lambda>r s'. case r of
       Ret (Inr (Some k, enc)) \<Rightarrow>
         family_of_algorithm (parseSignatureAlgorithm a) = Some (family_of_signer k) \<and>
         enc \<noteq> None \<and> enc \<noteq> Some []
     | Ret (Inr (None, enc)) \<Rightarrow> enc = None \<and> a \<notin> set supported_algorithms
     | Ret (Inl e) \<Rightarrow> a = UnknownSignatureAlgorithm
     | Panic \<Rightarrow> True) s"
    by (rule wp_generateKeyI) simp_all
  then show ?thesis by (simp add: wp_iff)
qed

subsection \<open>PEM blocks read back\<close>

text \<open>
  A decoder for blocks without headers, which shows that \<open>pem_Encode\<close> loses nothing: it
  drops the line that names the type, takes the text up to the next dash, and decodes it
  without its line ends.
\<close>

definition pem_header :: "string \<Rightarrow> string" where
  "pem_header t = ''-----BEGIN '' @ t @ ''-----'' @ newline"

definition pem_reference_decode :: "string \<Rightarrow> bytes \<Rightarrow> PemBlock option" where
  "pem_reference_decode t b =
    (if take (length (pem_header t)) b = pem_header t
     then Some \<lparr>pem_Type = t, pem_Bytes = base64_decode (filter (\<lambda>c. c \<noteq> CHR 0x0A)
       (takeWhile (\<lambda>c. c \<noteq> CHR ''-'') (drop (length (pem_header t)) b)))\<rparr>
     else None)"

definition b64_text :: "char \<Rightarrow> bool" where
  "b64_text c \<longleftrightarrow> c \<noteq> CHR ''-'' \<and> c \<noteq> CHR 0x0A"

lemma b64_text_table: "list_all (\<lambda>i. b64_text (b64_char i)) [0..<64]"
  by code_simp

lemma b64_text_char [simp]: "i < 64 \<Longrightarrow> b64_text (b64_char i)"
  using b64_text_table by (simp add: list_all_iff)

lemma b64_text_pad [simp]: "b64_text (CHR ''='')"
  by (simp add: b64_text_def)

lemma base64_text: "list_all b64_text (base64_encode bs)"
  by (induction bs rule: base64_encode.induct) simp_all

lemma pem_lines_text:
  "list_all b64_text s \<Longrightarrow> filter (\<lambda>c. c \<noteq> CHR 0x0A) (pem_lines s) = s \<and>
     list_all (\<lambda>c. c \<noteq> CHR ''-'') (pem_lines s)"
proof (induction s rule: pem_lines.induct)
  case (1 s)
  show ?case
  proof (cases "s = []")
    case True
    then show ?thesis by (simp add: pem_lines.simps[of "[]"])
  next
    case False
    have "list_all b64_text (take 64 s)" "list_all b64_text (drop 64 s)"
      using 1(2) by (metis append_take_drop_id list_all_append)+
    moreover have "filter (\<lambda>c. c \<noteq> CHR 0x0A) (take 64 s) = take 64 s"
      using \<open>list_all b64_text (take 64 s)\<close> by (simp add: filter_id_conv list_all_iff b64_text_def)
    moreover have "list_all (\<lambda>c. c \<noteq> CHR ''-'') (take 64 s)"
      using \<open>list_all b64_text (take 64 s)\<close> by (simp add: list_all_iff b64_text_def)
    ultimately show ?thesis
      using 1(1)[OF False] False
      by (simp add: pem_lines.simps[of s] newline_def)
  qed
qed

lemma takeWhile_all: "list_all P xs \<Longrightarrow> \<not> P y \<Longrightarrow> takeWhile P (xs @ y # ys) = xs"
  by (induction xs) simp_all

lemma pem_decode_encode:
  "pem_reference_decode t (pem_Encode t b) = Some \<lparr>pem_Type = t, pem_Bytes = b\<rparr>"
proof -
  let ?body = "pem_lines (base64_encode b)"
  have e: "pem_Encode t b = pem_header t @ ?body @ CHR ''-'' # ''----END '' @ t @ ''-----'' @ newline"
    by (simp add: pem_Encode_def pem_header_def)
  have "takeWhile (\<lambda>c. c \<noteq> CHR ''-'') (?body @ CHR ''-'' # ''----END '' @ t @ ''-----'' @ newline) = ?body"
    using pem_lines_text[OF base64_text[of b]] by (intro takeWhile_all) simp_all
  then show ?thesis
    using pem_lines_text[OF base64_text[of b]]
    by (simp add: pem_reference_decode_def e base64_decode_encode)
qed

subsection \<open>One controller writes what the other reads\<close>

text \<open>
  What the code relies on: \<open>pem.Decode\<close> reads the block of a request that
  \<open>pem.Encode\<close> wrote, and a certificate
  request that \<open>x509.CreateCertificateRequest\<close> made can be parsed and names the subject of
  its template.
\<close>

definition pem_law :: "'w env \<Rightarrow> bool" where
  "pem_law E \<longleftrightarrow> (\<forall>b. fst (pem_Decode E (pem_Encode ''CERTIFICATE REQUEST'' b)) =
     Some \<lparr>pem_Type = ''CERTIFICATE REQUEST'', pem_Bytes = b\<rparr>)"

definition x509_law :: "'w env \<Rightarrow> bool" where
  "x509_law E \<longleftrightarrow> (\<forall>t k w b w'. x509_CreateCertificateRequest E t k w = (Inr b, w') \<longrightarrow>
     (\<exists>t'. x509_ParseCertificateRequest E b = Inr t' \<and>
        pk_CommonName (tp_Subject t') = pk_CommonName (tp_Subject t)))"

lemma wp_createCSR_request:
  "wp (createCSR E kc) (\<lambda>r s'. \<forall>k req. r = Ret (k, Some req, None) \<longrightarrow>
     (\<exists>csr key b w w'. SpecCSR (Spec kc) = Some csr \<and> req = pem_Encode ''CERTIFICATE REQUEST'' b \<and>
        x509_CreateCertificateRequest E (csrTemplate (Username (Spec kc)) csr) key w = (Inr b, w'))) s"
proof (cases "SpecCSR (Spec kc)")
  case None
  then show ?thesis by (simp add: createCSR_def go_wp)
next
  case (Some csr)
  show ?thesis
    unfolding createCSR_def wp_bind wp_deref Some option.case outcome.case
    by (rule wp_generateKeyI) (auto simp: go_wp split: prod.splits sum.splits)
qed

lemma parse_generated:
  assumes "pem_law E" and "x509_law E"
    and "createCSR E kc s = (Ret (key, Some req, None), s')"
  shows "\<exists>t. parseCSR E req = Inr t \<and> pk_CommonName (tp_Subject t) = Username (Spec kc)"
proof -
  from wp_createCSR_request[of E kc s] assms(3)
  obtain csr k b w w' where req: "req = pem_Encode ''CERTIFICATE REQUEST'' b"
    and x: "x509_CreateCertificateRequest E (csrTemplate (Username (Spec kc)) csr) k w = (Inr b, w')"
    by (auto simp: wp_def)
  from assms(2) x obtain t where "x509_ParseCertificateRequest E b = Inr t"
    and "pk_CommonName (tp_Subject t) = Username (Spec kc)"
    unfolding x509_law_def by (fastforce simp: csrTemplate_def Let_def)
  with assms(1) show ?thesis by (simp add: parseCSR_def req pem_law_def)
qed

text \<open>
  C24: Every request the Kubeconfig reconciler generates is accepted by the parser of the
  approving controller, and the identity it asks for is the user name of the Kubeconfig.
\<close>

theorem generated_request_parses:
  assumes "pem_law E" and "x509_law E"
    and "createCSR E kc s = (Ret (key, Some req, None), s')"
  shows "\<exists>t. parseCSR E req = Inr t \<and> pk_CommonName (tp_Subject t) = Username (Spec kc)"
  by (rule parse_generated[OF assms])

definition pem_env :: "cluster env" where
  "pem_env = sample_env\<lparr>pem_Decode := \<lambda>b. (pem_reference_decode ''CERTIFICATE REQUEST'' b, [])\<rparr>"

lemma pem_env_laws: "pem_law pem_env" "x509_law pem_env"
  by (auto simp: pem_law_def x509_law_def pem_env_def pem_decode_encode split: option.splits)

lemma pem_env_createCSR:
  "\<exists>key req. createCSR pem_env new_kubeconfig (start empty_cluster) =
     (Ret (key, Some req, None), start empty_cluster)"
  by (simp add: createCSR_def go_deref_def go_bind_def go_return_def new_kubeconfig_def
      generateKey_def createRSAKey_def lib_call_def pem_env_def start_def csrTemplate_def Let_def)

theorem generated_request_parses_witness:
  "\<exists>key req t. fst (createCSR pem_env new_kubeconfig (start empty_cluster)) = Ret (key, Some req, None) \<and>
     parseCSR pem_env req = Inr t \<and> pk_CommonName (tp_Subject t) = ''jane''"
proof -
  obtain key req where k: "createCSR pem_env new_kubeconfig (start empty_cluster) =
      (Ret (key, Some req, None), start empty_cluster)"
    using pem_env_createCSR by blast
  have "Username (Spec new_kubeconfig) = ''jane''" by (simp add: new_kubeconfig_def)
  with generated_request_parses[OF pem_env_laws k] k show ?thesis by simp
qed

text \<open>
  What the code relies on: \<open>SetControllerReference\<close> succeeds, that is, it adds the reference
  to the Kubeconfig and leaves the annotations alone.
\<close>

definition owner_law :: "'w env \<Rightarrow> Kubeconfig \<Rightarrow> bool" where
  "owner_law E kc \<longleftrightarrow> (\<forall>m. Annotations (set_owner E kc m) = Annotations m \<and>
     owned_by_kubeconfig (OwnerReferences (set_owner E kc m)))"

lemma to_approve_createCsr:
  assumes "owner_law E kc"
  shows "to_approve (createCsr E kc req) \<longleftrightarrow> AutoApproveCSR (Spec kc)"
  using assms
  by (simp add: owner_law_def to_approve_def createCsr_def Let_def isKubeconfigV1Alpha1CSR_def
      hasAutoApproveAnnotation_def zero_meta_def)

text \<open>
  A request the Kubeconfig reconciler creates is one that the approving controller
  approves if the Kubeconfig asks for automatic approval, and one that it never touches if
  not: the annotation, the owner reference and the initial conditions of the one controller
  match the guards of the other.
\<close>

theorem own_request_approved_iff:
  assumes "owner_law E kc"
  shows "to_approve (createCsr E kc req) \<longleftrightarrow> AutoApproveCSR (Spec kc)"
  by (rule to_approve_createCsr[OF assms])

lemma sample_owner_law: "owner_law sample_env kc"
proof -
  have "owned_by_kubeconfig (rs @ [operator_reference kc])" for rs
    by (simp add: owned_by_kubeconfig_iff operator_reference_def)
  then show ?thesis by (simp add: owner_law_def set_owner_def)
qed

theorem own_request_approved_iff_witness:
  "to_approve (createCsr sample_env new_kubeconfig ''request'')"
  using own_request_approved_iff[OF sample_owner_law, of new_kubeconfig "''request''"]
  by (simp add: new_kubeconfig_def)

text \<open>
  If the owner reference cannot be set (its error is dropped) and nothing else owns the
  request, the request is created all the same and is never approved automatically.
\<close>

theorem unowned_request_not_approved:
  assumes "\<And>m. SetControllerReference E kc m = (Some e, m)"
  shows "\<not> to_approve (createCsr E kc req)"
  using assms
  by (simp add: to_approve_def createCsr_def Let_def isKubeconfigV1Alpha1CSR_def set_owner_def
      zero_meta_def)

theorem unowned_request_not_approved_witness:
  "\<not> to_approve (createCsr (sample_env\<lparr>SetControllerReference :=
     \<lambda>k m. (Some (PlainError ''already owned''), m)\<rparr>) new_kubeconfig ''request'')"
  by (rule unowned_request_not_approved) simp

end
