(* ===== verification/Config_Laws.thy ===== *)
theory Config_Laws
  imports Webhook Resources Sample_Cluster
begin

text \<open>
  Kubeconfig files: writing and reading them back, what a file with repeated names means,
  the file made for a user, and the endpoint read from the file in \<open>cluster-info\<close>. The YAML
  library is used through one law: what it wrote it reads back, up to the untyped field
  \<open>preferences\<close>.
\<close>

definition yaml_law :: "'w env \<Rightarrow> bool" where
  "yaml_law E \<longleftrightarrow> (\<forall>sc. \<exists>p. yaml_Unmarshal E (yaml_Marshal E sc) = Inr (sc\<lparr>s_Preferences := p\<rparr>))"

text \<open>The same configuration, whether a map that is empty is nil or not, up to preferences.\<close>

definition same_config :: "Config \<Rightarrow> Config \<Rightarrow> bool" where
  "same_config c c' \<longleftrightarrow> CurrentContext c' = CurrentContext c \<and>
     gomap_lookup (Clusters c') = gomap_lookup (Clusters c) \<and>
     gomap_lookup (Contexts c') = gomap_lookup (Contexts c) \<and>
     gomap_lookup (Users c') = gomap_lookup (Users c)"

lemma Unmarshal_Marshal:
  assumes "yaml_law E" and "range_law E" and "finite_config c"
  shows "\<exists>c'. Unmarshal E (Marshal E c) = Inr c' \<and> same_config c c'"
proof -
  obtain p where "yaml_Unmarshal E (yaml_Marshal E (serializeConfig E c)) =
      Inr ((serializeConfig E c)\<lparr>s_Preferences := p\<rparr>)"
    using assms(1) unfolding yaml_law_def by blast
  then show ?thesis
    by (simp add: Unmarshal_def Marshal_def deserialize_serialize[OF assms(2,3)] same_config_def)
qed

subsection \<open>A reference encoding of the file\<close>

text \<open>
  A concrete encoding that satisfies the law, for the witnesses: strings and lists with their
  length in unary.
\<close>

definition enc_nat :: "nat \<Rightarrow> string" where
  "enc_nat n = replicate n (CHR ''1'') @ [CHR ''0'']"

definition dec_nat :: "string \<Rightarrow> nat \<times> string" where
  "dec_nat b = (length (takeWhile (\<lambda>c. c = CHR ''1'') b), tl (dropWhile (\<lambda>c. c = CHR ''1'') b))"

definition enc_str :: "string \<Rightarrow> string" where
  "enc_str s = enc_nat (length s) @ s"

definition dec_str :: "string \<Rightarrow> string \<times> string" where
  "dec_str b = (let (n, r) = dec_nat b in (take n r, drop n r))"

fun dec_times :: "nat \<Rightarrow> (string \<Rightarrow> 'a \<times> string) \<Rightarrow> string \<Rightarrow> 'a list \<times> string" where
  "dec_times 0 d b = ([], b)"
| "dec_times (Suc n) d b = (let (x, r) = d b; (xs, r') = dec_times n d r in (x # xs, r'))"

definition enc_list :: "('a \<Rightarrow> string) \<Rightarrow> 'a list \<Rightarrow> string" where
  "enc_list f xs = enc_nat (length xs) @ concat (map f xs)"

definition dec_list :: "(string \<Rightarrow> 'a \<times> string) \<Rightarrow> string \<Rightarrow> 'a list \<times> string" where
  "dec_list d b = (let (n, r) = dec_nat b in dec_times n d r)"

lemma dec_nat_enc [simp]: "dec_nat (enc_nat n @ r) = (n, r)"
  by (induction n) (simp_all add: dec_nat_def enc_nat_def)

lemma dec_str_enc [simp]: "dec_str (enc_str s @ r) = (s, r)"
  by (simp add: dec_str_def enc_str_def)

lemma dec_times_enc:
  "(\<And>x r. d (f x @ r) = (x, r)) \<Longrightarrow> dec_times (length xs) d (concat (map f xs) @ r) = (xs, r)"
  by (induction xs) simp_all

lemma dec_list_enc:
  "(\<And>x r. d (f x @ r) = (x, r)) \<Longrightarrow> dec_list d (enc_list f xs @ r) = (xs, r)"
  by (simp add: dec_list_def enc_list_def dec_times_enc)

definition enc_entry :: "('a \<Rightarrow> string list) \<Rightarrow> 'a \<Rightarrow> string" where
  "enc_entry f x = concat (map enc_str (f x))"

definition dec_entry :: "nat \<Rightarrow> (string list \<Rightarrow> 'a) \<Rightarrow> string \<Rightarrow> 'a \<times> string" where
  "dec_entry n g b = (let (fs, r) = dec_times n dec_str b in (g fs, r))"

lemma dec_entry_enc:
  assumes "\<And>x. length (f x) = n" and "\<And>x. g (f x) = x"
  shows "dec_entry n g (enc_entry f x @ r) = (x, r)"
  using dec_times_enc[of dec_str enc_str "f x" r] assms
  by (simp add: dec_entry_def enc_entry_def)

definition cluster_fields :: "clusterEntry \<Rightarrow> string list" where
  "cluster_fields e = [ce_Name e, CertificateAuthority (ce_Cluster e), Server (ce_Cluster e)]"

definition context_fields :: "contextEntry \<Rightarrow> string list" where
  "context_fields e = [xe_Name e, ctx_Cluster (xe_Context e), ctx_Namespace (xe_Context e),
     ctx_User (xe_Context e)]"

definition user_fields :: "userEntry \<Rightarrow> string list" where
  "user_fields e = [ue_Name e, ClientCertificate (ue_User e), ClientKey (ue_User e)]"

definition cluster_of :: "string list \<Rightarrow> clusterEntry" where
  "cluster_of fs = \<lparr>ce_Name = fs ! 0, ce_Cluster = \<lparr>CertificateAuthority = fs ! 1, Server = fs ! 2\<rparr>\<rparr>"

definition context_of :: "string list \<Rightarrow> contextEntry" where
  "context_of fs = \<lparr>xe_Name = fs ! 0, xe_Context = \<lparr>ctx_Cluster = fs ! 1, ctx_Namespace = fs ! 2,
     ctx_User = fs ! 3\<rparr>\<rparr>"

definition user_of :: "string list \<Rightarrow> userEntry" where
  "user_of fs = \<lparr>ue_Name = fs ! 0, ue_User = \<lparr>ClientCertificate = fs ! 1, ClientKey = fs ! 2\<rparr>\<rparr>"

definition coded_Marshal :: "serializedConfig \<Rightarrow> bytes" where
  "coded_Marshal sc = enc_str (s_APIVersion sc) @ enc_str (s_Kind sc) @ enc_str (s_CurrentContext sc) @
     enc_list (enc_entry cluster_fields) (s_Clusters sc) @
     enc_list (enc_entry context_fields) (s_Contexts sc) @
     enc_list (enc_entry user_fields) (s_Users sc)"

definition coded_Unmarshal :: "bytes \<Rightarrow> go_error + serializedConfig" where
  "coded_Unmarshal b =
     (let (v, b) = dec_str b; (k, b) = dec_str b; (cc, b) = dec_str b;
          (cls, b) = dec_list (dec_entry 3 cluster_of) b;
          (cxs, b) = dec_list (dec_entry 4 context_of) b;
          (us, b) = dec_list (dec_entry 3 user_of) b
      in Inr \<lparr>s_APIVersion = v, s_Kind = k, s_Preferences = PrefDecoded [], s_CurrentContext = cc,
              s_Clusters = cls, s_Contexts = cxs, s_Users = us\<rparr>)"

definition coded_env :: "cluster env" where
  "coded_env = sample_env\<lparr>yaml_Marshal := coded_Marshal, yaml_Unmarshal := coded_Unmarshal\<rparr>"

lemma dec_entries [simp]:
  "dec_list (dec_entry 3 cluster_of) (enc_list (enc_entry cluster_fields) cls @ r) = (cls, r)"
  "dec_list (dec_entry 4 context_of) (enc_list (enc_entry context_fields) cxs @ r) = (cxs, r)"
  "dec_list (dec_entry 3 user_of) (enc_list (enc_entry user_fields) us @ r) = (us, r)"
  by (rule dec_list_enc, rule dec_entry_enc,
      simp_all add: cluster_fields_def cluster_of_def context_fields_def context_of_def
        user_fields_def user_of_def)+

lemma coded_Unmarshal_Marshal:
  "coded_Unmarshal (coded_Marshal sc) = Inr (sc\<lparr>s_Preferences := PrefDecoded []\<rparr>)"
  using dec_entries(3)[of "s_Users sc" "[]"] by (simp add: coded_Unmarshal_def coded_Marshal_def)

lemma coded_laws: "yaml_law coded_env" "range_law coded_env"
  by (auto simp: yaml_law_def coded_env_def coded_Unmarshal_Marshal range_law_def)

lemma coded_env_map [simp]:
  "client_Get_ConfigMap coded_env n obj w = store_get (configmaps w (nn_Namespace n, nn_Name n)) obj w"
  by (simp add: coded_env_def)

subsection \<open>Round trip and duplicates\<close>

text \<open>
  C32: Reading back a configuration that was written gives the same clusters, contexts, users
  and current context, in whatever order the maps were ranged over when writing.
\<close>

theorem config_roundtrip:
  assumes "yaml_law E" and "range_law E" and "finite_config c"
  shows "\<exists>c'. Unmarshal E (Marshal E c) = Inr c' \<and> same_config c c'"
  by (rule Unmarshal_Marshal[OF assms])

theorem config_roundtrip_witness:
  "\<exists>c'. Unmarshal coded_env (Marshal coded_env (user_config ''jane'' \<lparr>cl_Name = ''k'', cl_Server = ''s''\<rparr>
       ''ca'' ''cert'' ''key'')) = Inr c' \<and>
     same_config (user_config ''jane'' \<lparr>cl_Name = ''k'', cl_Server = ''s''\<rparr> ''ca'' ''cert'' ''key'') c'"
  by (rule config_roundtrip[OF coded_laws user_config_finite])

text \<open>
  A file that parses as YAML is always accepted, whatever its version and kind say; the
  configuration read has version \<open>v1\<close> and kind \<open>Config\<close>, and where a name is repeated among
  the clusters, contexts or users the last entry counts.
\<close>

theorem Unmarshal_last_entry:
  assumes "yaml_Unmarshal E text = Inr sc"
  shows "\<exists>c. Unmarshal E text = Inr c \<and> APIVersion c = ''v1'' \<and> Kind c = ''Config'' \<and>
    gomap_lookup (Clusters c) = map_of (rev (map (\<lambda>e. (ce_Name e, ce_Cluster e)) (s_Clusters sc))) \<and>
    gomap_lookup (Contexts c) = map_of (rev (map (\<lambda>e. (xe_Name e, xe_Context e)) (s_Contexts sc))) \<and>
    gomap_lookup (Users c) = map_of (rev (map (\<lambda>e. (ue_Name e, ue_User e)) (s_Users sc)))"
  using assms
  by (simp add: Unmarshal_def deserializeConfig_def cluster_entries.collect_map_of
      context_entries.collect_map_of user_entries.collect_map_of)

theorem Unmarshal_last_entry_witness:
  "\<exists>c. Unmarshal coded_env (coded_Marshal \<lparr>s_APIVersion = ''v2'', s_Kind = ''List'',
       s_Preferences = PrefDecoded [], s_CurrentContext = [], s_Clusters =
       [\<lparr>ce_Name = [], ce_Cluster = \<lparr>CertificateAuthority = [], Server = ''a''\<rparr>\<rparr>,
        \<lparr>ce_Name = [], ce_Cluster = \<lparr>CertificateAuthority = [], Server = ''b''\<rparr>\<rparr>],
       s_Contexts = [], s_Users = []\<rparr>) = Inr c \<and>
     gomap_lookup (Clusters c) [] = Some \<lparr>CertificateAuthority = [], Server = ''b''\<rparr>"
proof -
  let ?sc = "\<lparr>s_APIVersion = ''v2'', s_Kind = ''List'',
       s_Preferences = PrefDecoded [], s_CurrentContext = [], s_Clusters =
       [\<lparr>ce_Name = [], ce_Cluster = \<lparr>CertificateAuthority = [], Server = ''a''\<rparr>\<rparr>,
        \<lparr>ce_Name = [], ce_Cluster = \<lparr>CertificateAuthority = [], Server = ''b''\<rparr>\<rparr>],
       s_Contexts = [], s_Users = []\<rparr>"
  have "yaml_Unmarshal coded_env (coded_Marshal ?sc) = Inr ?sc"
    by (simp add: coded_env_def coded_Unmarshal_Marshal)
  from Unmarshal_last_entry[OF this] show ?thesis by force
qed

subsection \<open>The file of a user\<close>

text \<open>The data a client finds in the file: that of the current context, decoded.\<close>

definition usable_as :: "Config \<Rightarrow> string \<Rightarrow> string \<Rightarrow> bytes \<Rightarrow> bytes \<Rightarrow> bytes \<Rightarrow> bool" where
  "usable_as c user server ca cert key \<longleftrightarrow>
    (\<exists>ctx cl u. gomap_lookup (Contexts c) (CurrentContext c) = Some ctx \<and> ctx_User ctx = user \<and>
       gomap_lookup (Clusters c) (ctx_Cluster ctx) = Some cl \<and> Server cl = server \<and>
       base64_decode (CertificateAuthority cl) = ca \<and>
       gomap_lookup (Users c) (ctx_User ctx) = Some u \<and>
       base64_decode (ClientCertificate u) = cert \<and> base64_decode (ClientKey u) = key)"

lemma user_config_usable:
  "usable_as (user_config u cl ca cert key) u (cl_Server cl) ca cert key"
  by (simp add: usable_as_def user_config_def Let_def base64_decode_encode)

lemma usable_as_cong: "same_config c c' \<Longrightarrow> usable_as c u s ca cert key \<Longrightarrow> usable_as c' u s ca cert key"
  by (simp add: same_config_def usable_as_def)

lemma closed_config_cong: "same_config c c' \<Longrightarrow> closed_config c \<Longrightarrow> closed_config c'"
  by (simp add: same_config_def closed_config_def)

text \<open>
  C25: If the cluster CA can be read and the specification names a cluster, the kubeconfig
  made for a user is a file that reads back as a closed configuration (its current context
  and all names it mentions are defined) through whose current context a client finds the
  user, the server, and, base64-decoded, exactly the CA of the cluster and the certificate
  and key of the user secret.
\<close>

theorem createKubeconfig_usable:
  assumes "yaml_law E" and "range_law E"
    and "client_Get_ConfigMap E kube_root_ca_name zero_configmap w = ((None, cm), w1)"
    and "SpecCluster (Spec kc) = Some cl"
  shows "\<exists>text c. createKubeconfig E kc sec (start w) =
      (Ret (text, None), \<lparr>world = w1, calls = [GetConfigMap kube_root_ca_name None cm]\<rparr>) \<and>
    Unmarshal E text = Inr c \<and> closed_config c \<and>
    usable_as c (Username (Spec kc)) (cl_Server cl) (gomap_index (ConfigData cm) ''ca.crt'')
      (gomap_index (SecretData sec) ''tls.crt'') (gomap_index (SecretData sec) ''tls.key'')"
proof -
  let ?c = "user_config (Username (Spec kc)) cl (gomap_index (ConfigData cm) ''ca.crt'')
    (gomap_index (SecretData sec) ''tls.crt'') (gomap_index (SecretData sec) ''tls.key'')"
  have "wp (createKubeconfig E kc sec) (\<lambda>r s'. r = Ret (Marshal E ?c, None) \<and>
      s' = \<lparr>world = w1, calls = [GetConfigMap kube_root_ca_name None cm]\<rparr>) (start w)"
    by (rule wp_createKubeconfigI) (use assms(3,4) in simp)
  then have "createKubeconfig E kc sec (start w) = (Ret (Marshal E ?c, None),
      \<lparr>world = w1, calls = [GetConfigMap kube_root_ca_name None cm]\<rparr>)"
    by (simp add: wp_iff prod_eq_iff)
  moreover obtain c' where "Unmarshal E (Marshal E ?c) = Inr c'" and c': "same_config ?c c'"
    using Unmarshal_Marshal[OF assms(1,2) user_config_finite] by blast
  ultimately show ?thesis
    using closed_config_cong[OF c' user_config_closed] usable_as_cong[OF c' user_config_usable]
    by auto
qed

theorem createKubeconfig_usable_witness:
  "\<exists>text c. fst (createKubeconfig coded_env new_kubeconfig new_secret (start granted_cluster)) =
      Ret (text, None) \<and> Unmarshal coded_env text = Inr c \<and>
    usable_as c ''jane'' ''https://k8s:6443'' ''ca'' [] ''key''"
proof -
  have cm: "client_Get_ConfigMap coded_env kube_root_ca_name zero_configmap granted_cluster =
      ((None, root_ca), granted_cluster)"
    by (simp add: store_get_def kube_root_ca_name_def granted_cluster_def requested_cluster_def)
  have cl: "SpecCluster (Spec new_kubeconfig) =
      Some \<lparr>cl_Name = ''kubernetes'', cl_Server = ''https://k8s:6443''\<rparr>"
    by (simp add: new_kubeconfig_def)
  have "Username (Spec new_kubeconfig) = ''jane''" "gomap_index (ConfigData root_ca) ''ca.crt'' = ''ca''"
    "gomap_index (SecretData new_secret) ''tls.crt'' = []" "gomap_index (SecretData new_secret) ''tls.key'' = ''key''"
    by (simp_all add: new_kubeconfig_def root_ca_def new_secret_def gomap_index_def)
  then show ?thesis
    using createKubeconfig_usable[OF coded_laws cm cl, of new_secret] by fastforce
qed

subsection \<open>The endpoint of the cluster\<close>

text \<open>
  If the config map \<open>cluster-info\<close> holds a kubeconfig that was written from a
  configuration with a cluster under the empty name, \<open>ClusterEndpoint\<close> returns that cluster's
  server, with one read.
\<close>

theorem endpoint_of_default_cluster:
  assumes "yaml_law E" and "range_law E" and "finite_config c"
    and "client_Get_ConfigMap E cluster_info_name zero_configmap w = ((None, cm), w1)"
    and "gomap_lookup (ConfigData cm) ''kubeconfig'' = Some (Marshal E c)"
    and "gomap_lookup (Clusters c) [] = Some cl"
  shows "ClusterEndpoint E (start w) =
    (Ret (Server cl, None), \<lparr>world = w1, calls = [GetConfigMap cluster_info_name None cm]\<rparr>)"
proof -
  have "endpoint_of_cluster_info E cm = (Server cl, None)"
    using Unmarshal_Marshal[OF assms(1-3)] assms(5,6)
    by (auto simp: endpoint_of_cluster_info_def same_config_def)
  then have "wp (ClusterEndpoint E) (\<lambda>r s'. r = Ret (Server cl, None) \<and>
      s' = \<lparr>world = w1, calls = [GetConfigMap cluster_info_name None cm]\<rparr>) (start w)"
    by (intro wp_ClusterEndpointI) (use assms(4) in simp)
  then show ?thesis by (simp add: wp_iff prod_eq_iff)
qed

definition info_config :: Config where
  "info_config = NewBareConfig\<lparr>Clusters := Some [[] \<mapsto>
     \<lparr>CertificateAuthority = [], Server = ''https://api:6443''\<rparr>]\<rparr>"

definition info_map :: ConfigMap where
  "info_map = \<lparr>CMeta = zero_meta, ConfigData = Some [''kubeconfig'' \<mapsto> Marshal coded_env info_config]\<rparr>"

definition info_cluster :: cluster where
  "info_cluster = empty_cluster\<lparr>configmaps := [(''kube-public'', ''cluster-info'') \<mapsto> info_map]\<rparr>"

theorem endpoint_of_default_cluster_witness:
  "fst (ClusterEndpoint coded_env (start info_cluster)) = Ret (''https://api:6443'', None)"
  by (subst endpoint_of_default_cluster[OF coded_laws, where c = info_config and cm = info_map and
        ?w1.0 = info_cluster and cl = "\<lparr>CertificateAuthority = [], Server = ''https://api:6443''\<rparr>"])
    (simp_all add: finite_config_def info_config_def NewBareConfig_def store_get_def
      cluster_info_name_def info_cluster_def info_map_def)

text \<open>
  When the server is not given and the endpoint cannot be determined, for whatever
  reason (the config map cannot be read, it has no kubeconfig, the text does not parse, or
  there is no cluster under the empty name), the mutating webhook sets the server to
  \<open>https://localhost:6443\<close> and goes on.
\<close>

theorem unknown_endpoint_defaults_to_localhost:
  assumes "ClusterEndpoint E s = (Ret (ep, Some e), s')" and "cl_Server cl = []"
  shows "defaultServer E cl s = (Ret (cl\<lparr>cl_Server := ''https://localhost:6443''\<rparr>), s') \<and> ep = []"
proof -
  have "wp (ClusterEndpoint E) (\<lambda>r s'. \<forall>ep e. r = Ret (ep, Some e) \<longrightarrow> ep = []) s"
    by (rule wp_ClusterEndpointI) (auto dest: endpoint_error_empty split: option.splits)
  with assms show ?thesis
    by (simp add: wp_iff defaultServer_def go_bind_def go_return_def localhost_endpoint_def)
qed

theorem unknown_endpoint_defaults_to_localhost_witness:
  "fst (defaultServer sample_env \<lparr>cl_Name = [], cl_Server = []\<rparr> (start empty_cluster)) =
     Ret \<lparr>cl_Name = [], cl_Server = ''https://localhost:6443''\<rparr>"
proof -
  have "ClusterEndpoint sample_env (start empty_cluster) = (Ret ([], Some not_found),
      \<lparr>world = empty_cluster, calls = [GetConfigMap cluster_info_name (Some not_found) zero_configmap]\<rparr>)"
    by (simp add: ClusterEndpoint_def Get_ConfigMap_def api_call_def go_bind_def go_return_def
        store_get_def empty_cluster_def)
  from unknown_endpoint_defaults_to_localhost[OF this, of "\<lparr>cl_Name = [], cl_Server = []\<rparr>"]
  show ?thesis by simp
qed

end
