(* ===== verification/Kubeconfig_Errors.thy ===== *)
theory Kubeconfig_Errors
  imports Kubeconfig_Controller
begin

text \<open>
  Which errors of the API server a run of the Kubeconfig reconciler reports, so that
  controller-runtime tries again, and which it drops. Errors of reads and of creations and updates of the
  objects it manages are returned; a NotFound of a read means "create it", except for a predefined secret,
  which the user has to provide. Dropped are the errors of the status updates, and every error but NotFound
  of the read of a predefined secret. No other error is ever returned.
\<close>

subsection \<open>The errors of a trace\<close>

text \<open>
  The error a call obliges the run to return, where \<open>kc\<close> is the Kubeconfig that the run has read: for the
  user secret of a Kubeconfig without a predefined one every error but NotFound, for a predefined
  secret NotFound.
\<close>

fun error_of :: "Kubeconfig \<Rightarrow> call \<Rightarrow> go_error option" where
  "error_of kc (GetKubeconfig n e x) = (if IsNotFound e then None else e)"
| "error_of kc (GetSecret n e y) =
     (if ExistingCSR (Spec kc) = None \<longleftrightarrow> IsNotFound e then None else e)"
| "error_of kc (GetCsr n e z) = (if IsNotFound e then None else e)"
| "error_of kc (GetCrb n e b) = (if IsNotFound e then None else e)"
| "error_of kc (GetConfigMap n e c) = e"
| "error_of kc (CreateSecret s e) = e"
| "error_of kc (CreateCsr c e) = e"
| "error_of kc (CreateCrb b e) = e"
| "error_of kc (UpdateSecret s e) = e"
| "error_of kc c = None"

definition clean :: "Kubeconfig \<Rightarrow> call list \<Rightarrow> bool" where
  "clean kc cs = list_all (\<lambda>c. error_of kc c = None) cs"

text \<open>What is returned is the error of one of the calls or nil, and no other call has an error that has to be returned.\<close>

definition surfaces :: "Kubeconfig \<Rightarrow> reconcile_return outcome \<Rightarrow> call list \<Rightarrow> bool" where
  "surfaces kc r cs = (case r of
     Ret (res, err) \<Rightarrow> list_all (\<lambda>c. error_of kc c = None \<or> error_of kc c = err) cs \<and>
       (err = None \<or> list_ex (\<lambda>c. error_of kc c = err) cs)
   | Panic \<Rightarrow> True)"

lemma clean_simps [simp]:
  "clean kc []"
  "clean kc (xs @ ys) \<longleftrightarrow> clean kc xs \<and> clean kc ys"
  "clean kc (c # cs) \<longleftrightarrow> error_of kc c = None \<and> clean kc cs"
  by (simp_all add: clean_def)

lemma clean_surfaces: "clean kc cs \<Longrightarrow> surfaces kc (Ret (res, None)) cs"
  by (auto simp: clean_def surfaces_def list_all_iff)

lemma surfaces_snoc:
  "clean kc cs \<Longrightarrow> surfaces kc (Ret (res, err)) (cs @ ds) \<longleftrightarrow>
     list_all (\<lambda>c. error_of kc c = None \<or> error_of kc c = err) ds \<and>
     (err = None \<or> list_ex (\<lambda>c. error_of kc c = err) ds)"
  by (auto simp: clean_def surfaces_def list_all_iff list_ex_iff)

lemma surfaces_Panic [simp]: "surfaces kc Panic cs"
  by (simp add: surfaces_def)

text \<open>A part that falls through has met no error; one that returns has reported it.\<close>

definition part_surfaces :: "Kubeconfig \<Rightarrow> (reconcile_return + 'a) outcome \<Rightarrow> call list \<Rightarrow> bool" where
  "part_surfaces kc r cs = (case r of
     Ret (Inl y) \<Rightarrow> surfaces kc (Ret y) cs | Ret (Inr a) \<Rightarrow> clean kc cs | Panic \<Rightarrow> True)"

lemma part_surfaces_simps [simp]:
  "part_surfaces kc (Ret (Inl y)) cs = surfaces kc (Ret y) cs"
  "part_surfaces kc (Ret (Inr a)) cs = clean kc cs"
  "part_surfaces kc Panic cs"
  by (simp_all add: part_surfaces_def)

lemma surfaces_then:
  assumes "wp m (\<lambda>r s'. part_surfaces kc r (calls s')) s"
    and "\<And>a s'. clean kc (calls s') \<Longrightarrow> wp (f a) (\<lambda>r s''. surfaces kc r (calls s'')) s'"
  shows "wp (go_then m f) (\<lambda>r s'. surfaces kc r (calls s')) s"
proof (rule wp_thenI[where R = "\<lambda>_ s'. clean kc (calls s')"])
  show "wp m (\<lambda>r s'. (\<forall>a. r = Ret (Inr a) \<longrightarrow> clean kc (calls s')) \<and>
      (\<forall>y. r = Ret (Inl y) \<longrightarrow> surfaces kc (Ret y) (calls s')) \<and>
      (r = Panic \<longrightarrow> surfaces kc Panic (calls s'))) s"
    using assms(1) by (rule wp_mono) auto
qed (rule assms(2))

subsection \<open>The parts\<close>

lemma errors_reconcileUserSecret:
  assumes "clean kc (calls s)"
  shows "wp (reconcileUserSecret E kc) (\<lambda>r s'. part_surfaces kc r (calls s')) s"
  using assms
  by (cases "ExistingCSR (Spec kc)")
    (simp_all add: reconcileUserSecret_def reconcileExistingSecret_def adoptSecret_def
      Let_def reconcileOwnSecret_def
      client_defs go_wp surfaces_snoc split: prod.splits option.splits)

lemma errors_submitCSR:
  assumes "clean k0 (calls s)"
  shows "wp (submitCSR E kc sec key req) (\<lambda>r s'. surfaces k0 r (calls s')) s"
  using assms
  by (simp add: submitCSR_def client_defs go_wp Let_def surfaces_snoc
      split: prod.splits option.splits)

lemma errors_reconcileFreshCSR:
  assumes "clean k0 (calls s)"
  shows "wp (reconcileFreshCSR E kc sec) (\<lambda>r s'. surfaces k0 r (calls s')) s"
  by (rule wp_reconcileFreshCSRI)
    (use assms in \<open>simp_all add: surfaces_snoc errors_submitCSR generating_event_def\<close>)

lemma errors_storeKubeconfig:
  assumes "clean k0 (calls s)"
  shows "wp (storeKubeconfig E kc sec cert) (\<lambda>r s'. part_surfaces k0 r (calls s')) s"
  unfolding storeKubeconfig_def wp_bind wp_store Let_def
  using assms
  by (cases "SecretData sec")
    (auto intro!: wp_createKubeconfigI simp: client_defs go_wp surfaces_snoc
      split: prod.splits option.splits)

lemma errors_reconcileRoleBinding:
  assumes "clean k0 (calls s)"
  shows "wp (reconcileRoleBinding E kc) (\<lambda>r s'. part_surfaces k0 r (calls s')) s"
  using assms
  by (simp add: reconcileRoleBinding_def createClusterRoleBinding_def client_defs go_wp
      surfaces_snoc split: prod.splits option.splits)

lemma errors_finishKubeconfig:
  assumes "clean k0 (calls s)"
  shows "wp (finishKubeconfig E kc) (\<lambda>r s'. surfaces k0 r (calls s')) s"
  using assms
  by (simp add: finishKubeconfig_def client_defs go_wp surfaces_snoc split: prod.splits)

lemma errors_reconcileExistingCSR:
  assumes "clean k0 (calls s)"
  shows "wp (reconcileExistingCSR E kc sec csr) (\<lambda>r s'. surfaces k0 r (calls s')) s"
proof -
  have "wp (go_then (storeKubeconfig E kc' sec cert)
      (\<lambda>kc'. go_then (reconcileRoleBinding E kc') (\<lambda>_. finishKubeconfig E kc')))
      (\<lambda>r s'. surfaces k0 r (calls s')) s" for kc' cert
    by (rule surfaces_then[OF errors_storeKubeconfig[OF assms]],
        rule surfaces_then[OF errors_reconcileRoleBinding], assumption,
        rule errors_finishKubeconfig)
  then show ?thesis
    using assms clean_surfaces[OF assms]
    by (simp add: reconcileExistingCSR_def reconcileApproved_def reconcileDenied_def client_defs
        go_wp surfaces_snoc split: prod.splits)
qed

lemma errors_reconcileCSR:
  assumes "clean k0 (calls s)"
  shows "wp (reconcileCSR E kc sec) (\<lambda>r s'. surfaces k0 r (calls s')) s"
proof -
  obtain err csr w' where
    r: "client_Get_Csr E (csr_name kc) zero_csr (world s) = ((err, csr), w')"
    by (metis surj_pair)
  show ?thesis
    using assms
    by (cases err) (simp_all add: wp_reconcileCSR[OF r] Let_def surfaces_snoc
        errors_reconcileFreshCSR errors_reconcileExistingCSR)
qed

text \<open>
  C18: In every run that returns, the error it returns is the error of one of its calls, and every
  error of a call that has to be returned is this one, so that controller-runtime tries again. These are:
  the errors other than NotFound of the reads of the Kubeconfig, the request, the role binding and
  the Kubeconfig's own user secret; NotFound for a predefined secret; every error of the read of the
  cluster CA; and every error of the creation or update of a secret, request or
  role binding. Not among them, and never returned: the errors of status updates, and of the read of
  a predefined secret all but NotFound.
\<close>

theorem errors_surface:
  "surfaces (snd (fst (client_Get_Kubeconfig E req zero_kubeconfig w)))
     (fst (Reconcile E req (start w))) (calls (snd (Reconcile E req (start w))))"
proof -
  obtain err kc w' where
    r: "client_Get_Kubeconfig E req zero_kubeconfig (world (start w)) = ((err, kc), w')"
    by (metis surj_pair)
  have "wp (go_then (reconcileUserSecret E kc) (\<lambda>(kc', sec). reconcileCSR E kc' sec))
      (\<lambda>r s'. surfaces kc r (calls s')) s" if "clean kc (calls s)" for s
    by (rule surfaces_then[OF errors_reconcileUserSecret[OF that]])
      (auto intro: errors_reconcileCSR split: prod.splits)
  then have "wp (Reconcile E req) (\<lambda>r s'. surfaces kc r (calls s')) (start w)"
    using surfaces_snoc[of kc "[]"]
    by (cases err) (simp_all add: wp_Reconcile[OF r] Let_def)
  then show ?thesis using r by (simp add: wp_iff)
qed

end
