(* ===== verification/Kubeconfig_Objects.thy ===== *)
theory Kubeconfig_Objects
  imports Kubeconfig_Controller Sample_Cluster
begin

text \<open>
  Which objects a run of the Kubeconfig reconciler touches: those named after the Kubeconfig
  it has read, created with the content its specification asks for; and the specification and
  metadata of the Kubeconfig itself never change.
\<close>

subsection \<open>The objects of a Kubeconfig\<close>

text \<open>The same resource, up to its status.\<close>

definition same_resource :: "Kubeconfig \<Rightarrow> Kubeconfig \<Rightarrow> bool" where
  "same_resource kc kc' \<longleftrightarrow> KMeta kc' = KMeta kc \<and> Spec kc' = Spec kc"

text \<open>The role binding a Kubeconfig with this role reference asks for; it names no owner.\<close>

definition wanted_binding :: "Kubeconfig \<Rightarrow> RoleRef \<Rightarrow> ClusterRoleBinding" where
  "wanted_binding kc role =
     \<lparr>CrbMeta = \<lparr>Name = Username (Spec kc) @ ''-kubeconfig'', Namespace = [], UID = [],
        Labels = [''kubeconfig-operator.k8s.zoomoid.dev/for'' \<mapsto> Name (KMeta kc),
                  ''kubeconfig-operator.k8s.zoomoid.dev/username'' \<mapsto> Username (Spec kc)],
        Annotations = Map.empty, OwnerReferences = []\<rparr>,
      Subjects = [\<lparr>sub_Kind = ''User'', sub_APIGroup = ''rbac.authorization.k8s.io'',
        sub_Name = Username (Spec kc)\<rparr>],
      CrbRoleRef = role\<rparr>"

text \<open>
  The user secret and the signing request it asks for: names, labels, annotation and
  contents written out; the library adds the reference to the owner.
\<close>

definition wanted_secret :: "'w env \<Rightarrow> Kubeconfig \<Rightarrow> Secret" where
  "wanted_secret E kc =
     \<lparr>SMeta = snd (SetControllerReference E kc
        \<lparr>Name = Name (KMeta kc) @ ''-client-cert'', Namespace = ''kubeconfig-operator-system'', UID = [],
         Labels = [''kubeconfig-operator.k8s.zoomoid.dev/for'' \<mapsto> Name (KMeta kc),
                   ''kubeconfig-operator.k8s.zoomoid.dev/username'' \<mapsto> Username (Spec kc)],
         Annotations = Map.empty, OwnerReferences = []\<rparr>),
      SecretType = ''kubernetes.io/tls'', SecretData = None,
      StringData = Some [''tls.key'' \<mapsto> [], ''tls.csr'' \<mapsto> [], ''tls.crt'' \<mapsto> []]\<rparr>"

definition wanted_request :: "'w env \<Rightarrow> Kubeconfig \<Rightarrow> bytes \<Rightarrow> Csr" where
  "wanted_request E kc request =
     \<lparr>CsrMeta = snd (SetControllerReference E kc
        \<lparr>Name = Name (KMeta kc), Namespace = [], UID = [],
         Labels = [''kubeconfig-operator.k8s.zoomoid.dev/for'' \<mapsto> Name (KMeta kc),
                   ''kubeconfig-operator.k8s.zoomoid.dev/username'' \<mapsto> Username (Spec kc)],
         Annotations = (\<lambda>a. if a = ''kubeconfig.k8s.zoomoid.dev/auto-approve'' \<and> AutoApproveCSR (Spec kc)
           then Some ''true'' else None),
         OwnerReferences = []\<rparr>),
      Request = request, SignerName = ''kubernetes.io/kube-apiserver-client'', Usages = [''client auth''],
      CsrConditions = [], Certificate = []\<rparr>"

fun belongs_to :: "'w env \<Rightarrow> Kubeconfig \<Rightarrow> call \<Rightarrow> bool" where
  "belongs_to E kc (GetSecret n e y) =
     (n = (case ExistingCSR (Spec kc) of
             None \<Rightarrow> \<lparr>nn_Namespace = ''kubeconfig-operator-system'', nn_Name = Name (KMeta kc) @ ''-client-cert''\<rparr>
           | Some ref \<Rightarrow> \<lparr>nn_Namespace = sr_Namespace ref, nn_Name = sr_Name ref\<rparr>))"
| "belongs_to E kc (GetCsr n e z) = (n = \<lparr>nn_Namespace = [], nn_Name = Name (KMeta kc)\<rparr>)"
| "belongs_to E kc (GetCrb n e b) =
     (n = \<lparr>nn_Namespace = [], nn_Name = Username (Spec kc) @ ''-kubeconfig''\<rparr>)"
| "belongs_to E kc (CreateSecret sec e) =
     (ExistingCSR (Spec kc) = None \<and> sec = wanted_secret E kc)"
| "belongs_to E kc (CreateCsr csr e) =
     (\<exists>kc'. same_resource kc kc' \<and> csr = wanted_request E kc' (Request csr))"
| "belongs_to E kc (CreateCrb b e) =
     (\<exists>role. SpecRoleRef (Spec kc) = Some role \<and> b = wanted_binding kc role)"
| "belongs_to E kc (UpdateKubeconfigStatus kc' e) = same_resource kc kc'"
| "belongs_to E kc (UpdateCsrStatus csr e) = False"
| "belongs_to E kc (UpdateCsrApproval csr e) = False"
| "belongs_to E kc c = True"

text \<open>
  A secret with this metadata comes from a read or a creation of this run; if it was read it
  may have been given the Kubeconfig as owner.
\<close>

fun gives_secret :: "'w env \<Rightarrow> Kubeconfig \<Rightarrow> ObjectMeta \<Rightarrow> call \<Rightarrow> bool" where
  "gives_secret E kc m (GetSecret n e sec) =
     (m = SMeta sec \<or> (\<exists>kc'. same_resource kc kc' \<and> m = set_owner E kc' (SMeta sec)))"
| "gives_secret E kc m (CreateSecret sec None) = True"
| "gives_secret E kc m c = False"

definition belongs_guard :: "'w env \<Rightarrow> Kubeconfig \<Rightarrow> call list \<Rightarrow> call \<Rightarrow> bool" where
  "belongs_guard E kc before c \<longleftrightarrow> belongs_to E kc c \<and>
     (case c of UpdateSecret sec e \<Rightarrow> list_ex (gives_secret E kc (SMeta sec)) before | _ \<Rightarrow> True)"

definition all_belong :: "'w env \<Rightarrow> Kubeconfig \<Rightarrow> call list \<Rightarrow> bool" where
  "all_belong E kc cs = guarded (belongs_guard E kc) cs"

text \<open>The secret a part of a run works on is one that the run has got.\<close>

definition secret_given :: "'w env \<Rightarrow> Kubeconfig \<Rightarrow> Secret \<Rightarrow> call list \<Rightarrow> bool" where
  "secret_given E kc sec cs = list_ex (gives_secret E kc (SMeta sec)) cs"

lemma all_belong_Nil [simp]: "all_belong E kc []"
  by (simp add: all_belong_def)

lemma all_belong_append [simp]:
  "all_belong E kc (cs @ ds) \<longleftrightarrow> all_belong E kc cs \<and> guarded_from cs (belongs_guard E kc) ds"
  by (simp add: all_belong_def)

lemma secret_given_append [simp]:
  "secret_given E kc sec (cs @ ds) \<longleftrightarrow> secret_given E kc sec cs \<or> secret_given E kc sec ds"
  by (simp add: secret_given_def)

lemma secret_given_data [simp]:
  "secret_given E kc (sec\<lparr>SecretData := d\<rparr>) cs = secret_given E kc sec cs"
  by (simp add: secret_given_def)

lemmas belongs_defs = belongs_guard_def secret_given_def same_resource_def

lemma createClusterRoleBinding_wanted:
  assumes "same_resource kc kc'"
  shows "createClusterRoleBinding kc' (crb_name kc') =
    (case SpecRoleRef (Spec kc) of None \<Rightarrow> go_panic
     | Some role \<Rightarrow> go_return (wanted_binding kc role))"
  using assms
  by (auto simp: createClusterRoleBinding_def same_resource_def go_deref_def crb_name_def
      wanted_binding_def zero_meta_def labelsForSubresources_def split: option.split)

lemma user_secret_wanted:
  "createUserSecret E kc \<lparr>nn_Namespace = ''kubeconfig-operator-system'', nn_Name = Name (KMeta kc) @ ''-client-cert''\<rparr> =
    wanted_secret E kc"
  by (simp add: createUserSecret_def wanted_secret_def set_owner_def zero_meta_def labelsForSubresources_def)

lemma createCsr_wanted: "createCsr E kc req = wanted_request E kc req"
proof -
  have "(if AutoApproveCSR (Spec kc) then [CSRAutoApproveAnnotationKey \<mapsto> ''true''] else Map.empty) =
      (\<lambda>a. if a = ''kubeconfig.k8s.zoomoid.dev/auto-approve'' \<and> AutoApproveCSR (Spec kc) then Some ''true'' else None)"
    by (simp add: fun_eq_iff)
  then show ?thesis
    by (simp only: createCsr_def wanted_request_def set_owner_def labelsForSubresources_def Let_def) (simp add: zero_meta_def)
qed

lemma same_names:
  assumes "same_resource kc kc'"
  shows "csr_name kc' = \<lparr>nn_Namespace = [], nn_Name = Name (KMeta kc)\<rparr>"
    and "crb_name kc' = \<lparr>nn_Namespace = [], nn_Name = Username (Spec kc) @ ''-kubeconfig''\<rparr>"
  using assms by (simp_all add: same_resource_def csr_name_def crb_name_def)

text \<open>The postcondition of a part: the calls belong, and what it hands on satisfies \<open>R\<close>.\<close>

definition part_belongs ::
  "'w env \<Rightarrow> Kubeconfig \<Rightarrow> ('a \<Rightarrow> call list \<Rightarrow> bool) \<Rightarrow> (reconcile_return + 'a) outcome \<Rightarrow>
     call list \<Rightarrow> bool"
where
  "part_belongs E kc R r cs \<longleftrightarrow> all_belong E kc cs \<and> (\<forall>a. r = Ret (Inr a) \<longrightarrow> R a cs)"

lemma belongs_then:
  assumes "wp m (\<lambda>r s'. part_belongs E kc R r (calls s')) s"
    and "\<And>a s'. all_belong E kc (calls s') \<Longrightarrow> R a (calls s') \<Longrightarrow>
      wp (k a) (\<lambda>r s''. all_belong E kc (calls s'')) s'"
  shows "wp (go_then m k) (\<lambda>r s'. all_belong E kc (calls s')) s"
proof (rule wp_thenI[where R = "\<lambda>a s'. all_belong E kc (calls s') \<and> R a (calls s')"])
  show "wp m (\<lambda>r s'. (\<forall>a. r = Ret (Inr a) \<longrightarrow> all_belong E kc (calls s') \<and> R a (calls s')) \<and>
      (\<forall>y. r = Ret (Inl y) \<longrightarrow> all_belong E kc (calls s')) \<and>
      (r = Panic \<longrightarrow> all_belong E kc (calls s'))) s"
    using assms(1) by (rule wp_mono) (auto simp: part_belongs_def)
qed (blast intro: assms(2))

subsection \<open>The parts\<close>

lemma adopted:
  assumes "adoptSecret E kc sec = (kc', sec')"
  shows "KMeta kc' = KMeta kc" "Spec kc' = Spec kc"
    "gives_secret E kc (SMeta sec') (GetSecret n e sec)"
proof -
  have "same_resource kc (SetUserSecret kc sec)" by (simp add: same_resource_def SetUserSecret_def)
  with assms show "KMeta kc' = KMeta kc" "Spec kc' = Spec kc"
    "gives_secret E kc (SMeta sec') (GetSecret n e sec)"
    by (auto simp: adoptSecret_def Let_def SetUserSecret_def)
qed

text \<open>What the first part hands on.\<close>

abbreviation handed_on :: "'w env \<Rightarrow> Kubeconfig \<Rightarrow> Kubeconfig \<times> Secret \<Rightarrow> call list \<Rightarrow> bool" where
  "handed_on E kc a cs \<equiv> same_resource kc (fst a) \<and> secret_given E kc (snd a) cs"

lemma belongs_reconcileExistingSecret:
  assumes "all_belong E kc (calls s)" and "ExistingCSR (Spec kc) = Some ref"
  shows "wp (reconcileExistingSecret E kc ref) (\<lambda>r s'. part_belongs E kc (handed_on E kc) r (calls s')) s"
  using assms
  by (auto simp: reconcileExistingSecret_def client_defs go_wp part_belongs_def belongs_defs
      adopted simp del: gives_secret.simps(1) split: prod.splits option.splits)

lemma belongs_reconcileOwnSecret:
  assumes "all_belong E kc (calls s)" and "ExistingCSR (Spec kc) = None"
  shows "wp (reconcileOwnSecret E kc) (\<lambda>r s'. part_belongs E kc (handed_on E kc) r (calls s')) s"
  using assms
  by (simp add: reconcileOwnSecret_def client_defs go_wp part_belongs_def belongs_defs
      SetUserSecret_def SetPhase_def user_secret_name_def user_secret_wanted split: prod.splits option.splits)

lemma belongs_reconcileUserSecret:
  assumes "all_belong E kc (calls s)"
  shows "wp (reconcileUserSecret E kc) (\<lambda>r s'. part_belongs E kc (handed_on E kc) r (calls s')) s"
  using belongs_reconcileExistingSecret[OF assms] belongs_reconcileOwnSecret[OF assms]
  by (cases "ExistingCSR (Spec kc)") (simp_all add: reconcileUserSecret_def)

lemma Request_createCsr [simp]: "Request (createCsr E kc req) = req"
  by (simp add: createCsr_def Let_def)

lemma belongs_submitCSR:
  assumes "all_belong E kc (calls s)" and "same_resource kc kc'"
    and "secret_given E kc sec (calls s)"
  shows "wp (submitCSR E kc' sec key req) (\<lambda>r s'. all_belong E kc (calls s')) s"
proof -
  have "\<exists>k. same_resource kc k \<and> createCsr E kc' req = wanted_request E k req"
    using assms(2) createCsr_wanted by blast
  with assms show ?thesis
    by (simp add: submitCSR_def client_defs go_wp Let_def belongs_defs SetPhase_def
        split: prod.splits option.splits)
qed

lemma belongs_reconcileFreshCSR:
  assumes "all_belong E kc (calls s)" and "same_resource kc kc'"
    and "secret_given E kc sec (calls s)"
  shows "wp (reconcileFreshCSR E kc' sec) (\<lambda>r s'. all_belong E kc (calls s')) s"
  by (rule wp_reconcileFreshCSRI)
    (use assms in \<open>simp_all add: belongs_submitCSR generating_event_def belongs_guard_def\<close>)

lemma belongs_reconcileDenied:
  assumes "all_belong E kc (calls s)" and "same_resource kc kc'"
  shows "wp (reconcileDenied E kc') (\<lambda>r s'. all_belong E kc (calls s')) s"
  using assms
  by (simp add: reconcileDenied_def client_defs go_wp belongs_defs SetPhase_def
      split: prod.splits)

lemma belongs_storeKubeconfig:
  assumes "all_belong E kc (calls s)" and "same_resource kc kc'"
    and "secret_given E kc sec (calls s)"
  shows "wp (storeKubeconfig E kc' sec cert) (\<lambda>r s'. part_belongs E kc (\<lambda>k _. same_resource kc k) r (calls s')) s"
  unfolding storeKubeconfig_def wp_bind wp_store Let_def
  using assms
  by (cases "SecretData sec")
    (auto intro!: wp_createKubeconfigI simp: client_defs go_wp part_belongs_def belongs_defs
      split: prod.splits option.splits)

lemma belongs_reconcileRoleBinding:
  assumes "all_belong E kc (calls s)" and "same_resource kc kc'"
  shows "wp (reconcileRoleBinding E kc')
    (\<lambda>r s'. part_belongs E kc (\<lambda>_ _. same_resource kc kc') r (calls s')) s"
  using assms
  by (simp add: reconcileRoleBinding_def createClusterRoleBinding_wanted[OF assms(2), unfolded same_names(2)[OF assms(2)]]
      same_names[OF assms(2)] client_defs go_wp part_belongs_def belongs_guard_def
      split: prod.splits option.splits)

lemma belongs_finishKubeconfig:
  assumes "all_belong E kc (calls s)" and "same_resource kc kc'"
  shows "wp (finishKubeconfig E kc') (\<lambda>r s'. all_belong E kc (calls s')) s"
  using assms
  by (simp add: finishKubeconfig_def client_defs go_wp belongs_defs SetPhase_def
      split: prod.splits)

lemma belongs_reconcileApproved:
  assumes "all_belong E kc (calls s)" and "same_resource kc kc'"
    and "secret_given E kc sec (calls s)"
  shows "wp (reconcileApproved E kc' sec csr) (\<lambda>r s'. all_belong E kc (calls s')) s"
proof -
  have bind: "wp (go_then (reconcileRoleBinding E k) (\<lambda>_. finishKubeconfig E k))
      (\<lambda>r s''. all_belong E kc (calls s'')) s'"
    if "all_belong E kc (calls s')" "same_resource kc k" for k s'
    by (rule belongs_then[OF belongs_reconcileRoleBinding[OF that]])
      (rule belongs_finishKubeconfig)
  have "wp (go_then (storeKubeconfig E k sec cert)
      (\<lambda>k. go_then (reconcileRoleBinding E k) (\<lambda>_. finishKubeconfig E k)))
      (\<lambda>r s'. all_belong E kc (calls s')) s" if "same_resource kc k" for k cert
    by (rule belongs_then[OF belongs_storeKubeconfig[OF assms(1) that assms(3)]]) (rule bind)
  with assms show ?thesis
    by (simp add: reconcileApproved_def client_defs go_wp belongs_defs split: prod.splits)
qed

lemma belongs_reconcileCSR:
  assumes "all_belong E kc (calls s)" and "same_resource kc kc'"
    and "secret_given E kc sec (calls s)"
  shows "wp (reconcileCSR E kc' sec) (\<lambda>r s'. all_belong E kc (calls s')) s"
proof -
  obtain err csr w' where
    r: "client_Get_Csr E (csr_name kc') zero_csr (world s) = ((err, csr), w')"
    by (metis surj_pair)
  let ?s = "\<lparr>world = w', calls = calls s @ [GetCsr (csr_name kc') err csr]\<rparr>"
  have b: "all_belong E kc (calls ?s)" and g: "secret_given E kc sec (calls ?s)"
    using assms(1,3) same_names(1)[OF assms(2)] by (simp_all add: belongs_guard_def)
  note parts = belongs_reconcileFreshCSR[OF b assms(2) g] belongs_reconcileDenied[OF b assms(2)]
    belongs_reconcileApproved[OF b assms(2) g]
  show ?thesis
    using b parts
    by (cases err) (simp_all add: wp_reconcileCSR[OF r] Let_def reconcileExistingCSR_def go_wp
        split: prod.splits)
qed



end
