(* ===== verification/Kubeconfig_Secrets.thy ===== *)
theory Kubeconfig_Secrets
  imports Kubeconfig_Safety Sample_Cluster
begin

text \<open>
  What the Kubeconfig reconciler puts where: the content of the user secret and of the role
  binding, the complete successful run of a granted request, and three branches whose
  behaviour differs from what the documentation says (a predefined secret, a failed read of
  it, a failed generation of the request).
\<close>

subsection \<open>The successful run\<close>

definition role_binding :: "Kubeconfig \<Rightarrow> RoleRef \<Rightarrow> ClusterRoleBinding" where
  "role_binding kc role = \<lparr>CrbMeta = zero_meta\<lparr>Name := Username (Spec kc) @ ''-kubeconfig'',
       Labels := labelsForSubresources kc\<rparr>,
     Subjects = [\<lparr>sub_Kind = ''User'', sub_APIGroup = ''rbac.authorization.k8s.io'',
       sub_Name = Username (Spec kc)\<rparr>],
     CrbRoleRef = role\<rparr>"

text \<open>The parts of the run, each from the replies to its calls.\<close>

lemma go_then_run: "m s = (Ret (Inr a), s') \<Longrightarrow> go_then m f s = f a s'"
  by (simp add: go_then_def go_bind_def)

lemma go_bind_run: "m s = (Ret a, s') \<Longrightarrow> go_bind m f s = f a s'"
  by (simp add: go_bind_def)

lemma api_call_run:
  "f (world s) = ((err, obj), w') \<Longrightarrow>
     api_call f ev s = (Ret (err, obj), \<lparr>world = w', calls = calls s @ [ev err obj]\<rparr>)"
  by (simp add: api_call_def)

lemma createKubeconfig_run:
  assumes "client_Get_ConfigMap E kube_root_ca_name zero_configmap (world s) = ((None, cm), w4)"
    and "SpecCluster (Spec kc) = Some cl"
  shows "createKubeconfig E kc sec s =
    (Ret (Marshal E (user_config (Username (Spec kc)) cl (gomap_index (ConfigData cm) ''ca.crt'')
        (gomap_index (SecretData sec) CertificateSecretCertKey)
        (gomap_index (SecretData sec) CertificateSecretPrivKeyKey)), None),
     \<lparr>world = w4, calls = calls s @ [GetConfigMap kube_root_ca_name None cm]\<rparr>)"
  using assms
  by (simp add: createKubeconfig_def ClusterCA_def ClientData_def client_defs go_bind_def
      api_call_def go_return_def go_deref_def)

lemma storeKubeconfig_run:
  assumes "client_Get_ConfigMap E kube_root_ca_name zero_configmap (world s) = ((None, cm), w4)"
    and "SpecCluster (Spec kc) = Some cl" and "SecretData sec = Some d"
    and "cfg = Marshal E (user_config (Username (Spec kc)) cl (gomap_index (ConfigData cm) ''ca.crt'')
      cert (gomap_index (Some d) ''tls.key''))"
    and "sec' = sec\<lparr>SecretData := Some (d(''tls.crt'' \<mapsto> cert, ''kubeconfig'' \<mapsto> cfg))\<rparr>"
    and "client_Update_Secret E sec' w4 = ((None, sec2), w5)"
  shows "\<exists>kc'. storeKubeconfig E kc sec cert s = (Ret (Inr kc'), \<lparr>world = w5, calls = calls s @
      [GetConfigMap kube_root_ca_name None cm, UpdateSecret sec' None]\<rparr>) \<and>
    KMeta kc' = KMeta kc \<and> Spec kc' = Spec kc \<and> StatusKubeconfig (Status kc') = cfg"
proof -
  have gi: "gomap_index (Some (d(''tls.crt'' \<mapsto> c))) ''tls.key'' = gomap_index (Some d) ''tls.key''"
    "gomap_index (Some (d(''tls.crt'' \<mapsto> c))) ''tls.crt'' = c" for c
    by (simp_all add: gomap_index_def)
  note k = createKubeconfig_run[OF assms(1,2), of "sec\<lparr>SecretData := Some (d(''tls.crt'' \<mapsto> cert))\<rparr>",
      simplified, unfolded gi, folded assms(4)]
  show ?thesis
    using assms(6)
    by (simp add: storeKubeconfig_def assms(3,5) gomap_store_def Let_def go_bind_def k
        Update_Secret_def api_call_def SetCondition_def now_def go_return_def)
qed

lemma reconcileRoleBinding_run:
  assumes "client_Get_Crb E (crb_name kc) zero_crb (world s) = ((Some e, crb), w6)"
    and "IsNotFound (Some e)" and "SpecRoleRef (Spec kc) = Some role"
    and "client_Create_Crb E (role_binding kc role) w6 = ((None, crb2), w7)"
  shows "reconcileRoleBinding E kc s = (Ret (Inr ()), \<lparr>world = w7, calls = calls s @
    [GetCrb (crb_name kc) (Some e) crb, CreateCrb (role_binding kc role) None]\<rparr>)"
proof -
  have "createClusterRoleBinding kc (crb_name kc) =
      (go_return (role_binding kc role) :: ('a go_state, ClusterRoleBinding) go)"
    using assms(3)
    by (simp add: createClusterRoleBinding_def role_binding_def crb_name_def go_deref_def)
  with assms show ?thesis
    by (simp add: reconcileRoleBinding_def Get_Crb_def Create_Crb_def go_bind_def api_call_def
        go_return_def)
qed

lemma finishKubeconfig_run:
  "\<exists>kc' err w'. finishKubeconfig E kc s = (Ret (empty_result, None),
      \<lparr>world = w', calls = calls s @ [UpdateKubeconfigStatus kc' err]\<rparr>) \<and>
    KMeta kc' = KMeta kc \<and> Spec kc' = Spec kc \<and> Phase (Status kc') = PhaseDone \<and>
    StatusKubeconfig (Status kc') = StatusKubeconfig (Status kc)"
  by (simp add: finishKubeconfig_def SetCondition_def now_def go_bind_def go_return_def
      Status_Update_Kubeconfig_def api_call_def SetPhase_def split: prod.split)

text \<open>
  C14: The successful run. If the Kubeconfig is not finished, its user secret holds data, its
  request is granted and signed, the cluster CA can be read, the secret can be updated and
  the role binding is missing and can be created, then the run makes exactly these calls:
  the secret is updated with the certificate and with the kubeconfig made of the CA, the
  certificate and the stored key, all other entries kept; the binding of the user to the role
  is created; and the status is set to \<open>Done\<close> with that same kubeconfig. The run returns
  neither an error nor a request to run again.
\<close>

theorem granted_run:
  assumes "client_Get_Kubeconfig E req zero_kubeconfig w = ((None, kc), w1)"
    and "\<not> isInTerminalCondition E kc"
    and "ExistingCSR (Spec kc) = None" and "SpecCluster (Spec kc) = Some cl"
    and "SpecRoleRef (Spec kc) = Some role"
    and "client_Get_Secret E (user_secret_name kc) zero_secret w1 = ((None, sec), w2)"
    and "SecretData sec = Some d"
    and "client_Get_Csr E (csr_name kc) zero_csr w2 = ((None, csr), w3)" and "grantable csr"
    and "client_Get_ConfigMap E kube_root_ca_name zero_configmap w3 = ((None, cm), w4)"
    and "cfg = Marshal E (user_config (Username (Spec kc)) cl (gomap_index (ConfigData cm) ''ca.crt'')
      (Certificate csr) (gomap_index (Some d) ''tls.key''))"
    and "sec' = sec\<lparr>SecretData := Some (d(''tls.crt'' \<mapsto> Certificate csr, ''kubeconfig'' \<mapsto> cfg))\<rparr>"
    and "client_Update_Secret E sec' w4 = ((None, sec2), w5)"
    and "client_Get_Crb E (crb_name kc) zero_crb w5 = ((Some e, crb), w6)" and "IsNotFound (Some e)"
    and "client_Create_Crb E (role_binding kc role) w6 = ((None, crb2), w7)"
  shows "\<exists>kc' err w8. Reconcile E req (start w) = (Ret (empty_result, None), \<lparr>world = w8, calls =
      [GetKubeconfig req None kc, GetSecret (user_secret_name kc) None sec,
       GetCsr (csr_name kc) None csr, GetConfigMap kube_root_ca_name None cm,
       UpdateSecret sec' None, GetCrb (crb_name kc) (Some e) crb,
       CreateCrb (role_binding kc role) None, UpdateKubeconfigStatus kc' err]\<rparr>) \<and>
    KMeta kc' = KMeta kc \<and> Spec kc' = Spec kc \<and> Phase (Status kc') = PhaseDone \<and>
    StatusKubeconfig (Status kc') = cfg"
proof -
  let ?s = "\<lparr>world = w3, calls = [GetKubeconfig req None kc, GetSecret (user_secret_name kc) None sec,
    GetCsr (csr_name kc) None csr]\<rparr>"
  let ?kc = "kc\<lparr>Status := (Status kc)\<lparr>Conditions := meta_SetStatusCondition E (time_Now E w3)
    (Conditions (Status kc)) (new_condition ConditionTypeCSRApproved ConditionTrue 0
      ''CsrApproved'' ''CSR for the kubeconfig was approved'')\<rparr>\<rparr>"
  have sec: "reconcileUserSecret E kc \<lparr>world = w1, calls = cs\<rparr> =
      (Ret (Inr (kc, sec)), \<lparr>world = w2, calls = cs @ [GetSecret (user_secret_name kc) None sec]\<rparr>)" for cs
    using assms(3,6)
    by (simp add: reconcileUserSecret_def reconcileOwnSecret_def Get_Secret_def go_bind_def
        api_call_def go_return_def)
  have "Reconcile E req (start w) = reconcileApproved E kc sec csr ?s"
    using assms(1,2,8,9)
    by (simp add: Reconcile_def go_then_run[of "reconcileUserSecret E kc", OF sec] reconcileCSR_def Get_Kubeconfig_def Get_Csr_def
        go_bind_run[OF api_call_run] reconcileExistingCSR_def getCertApprovalCondition_eq
        grantable_def)
  also have "\<dots> = go_then (storeKubeconfig E ?kc sec (Certificate csr)) (\<lambda>kc'.
      go_then (reconcileRoleBinding E kc') (\<lambda>_. finishKubeconfig E kc')) ?s"
    using assms(9)
    by (simp add: reconcileApproved_def SetCondition_def now_def go_bind_def go_return_def
        grantable_def)
  finally have run: "Reconcile E req (start w) = \<dots>" .
  obtain kc1 where st: "storeKubeconfig E ?kc sec (Certificate csr) ?s =
      (Ret (Inr kc1), \<lparr>world = w5, calls = calls ?s @
        [GetConfigMap kube_root_ca_name None cm, UpdateSecret sec' None]\<rparr>)"
    and kc1: "KMeta kc1 = KMeta kc" "Spec kc1 = Spec kc" "StatusKubeconfig (Status kc1) = cfg"
    using storeKubeconfig_run[of E ?s cm w4 ?kc cl sec d cfg "Certificate csr" sec' sec2 w5] assms
    by auto
  have names: "crb_name kc1 = crb_name kc" "role_binding kc1 role = role_binding kc role"
    using kc1 by (simp_all add: crb_name_def role_binding_def labelsForSubresources_def)
  have bind: "reconcileRoleBinding E kc1 \<lparr>world = w5, calls = cs\<rparr> = (Ret (Inr ()), \<lparr>world = w7,
      calls = cs @ [GetCrb (crb_name kc) (Some e) crb, CreateCrb (role_binding kc role) None]\<rparr>)" for cs
    using reconcileRoleBinding_run[of E kc1 "\<lparr>world = w5, calls = cs\<rparr>" e crb w6 role crb2 w7]
      assms(5,14-16) kc1 names by simp
  show ?thesis
    unfolding run go_then_run[of "storeKubeconfig E ?kc sec (Certificate csr)", OF st]
    using finishKubeconfig_run[of E kc1 "\<lparr>world = w7, calls = calls ?s @
        [GetConfigMap kube_root_ca_name None cm, UpdateSecret sec' None,
         GetCrb (crb_name kc) (Some e) crb, CreateCrb (role_binding kc role) None]\<rparr>"] kc1
    by (subst go_then_run[of "reconcileRoleBinding E kc1", OF bind]) simp
qed

lemma sample_stores [simp]:
  "kubeconfigs granted_cluster = [''kc'' \<mapsto> new_kubeconfig]"
  "secrets granted_cluster = [(''kubeconfig-operator-system'', ''kc-client-cert'') \<mapsto> new_secret]"
  "csrs granted_cluster = [''kc'' \<mapsto> sample_csr CertificateApproved ''cert'']"
  "crbs granted_cluster = Map.empty"
  "configmaps granted_cluster = [(''kube-public'', ''kube-root-ca.crt'') \<mapsto> root_ca]"
  by (simp_all add: granted_cluster_def requested_cluster_def new_cluster_def empty_cluster_def)

lemma sample_names [simp]:
  "user_secret_name new_kubeconfig =
     \<lparr>nn_Namespace = ''kubeconfig-operator-system'', nn_Name = ''kc-client-cert''\<rparr>"
  "csr_name new_kubeconfig = \<lparr>nn_Namespace = [], nn_Name = ''kc''\<rparr>"
  "crb_name new_kubeconfig = \<lparr>nn_Namespace = [], nn_Name = ''jane-kubeconfig''\<rparr>"
  "Username (Spec new_kubeconfig) = ''jane''" "ExistingCSR (Spec new_kubeconfig) = None"
  "SpecCluster (Spec new_kubeconfig) =
     Some \<lparr>cl_Name = ''kubernetes'', cl_Server = ''https://k8s:6443''\<rparr>"
  "SpecRoleRef (Spec new_kubeconfig) = Some \<lparr>rr_APIGroup = ''rbac.authorization.k8s.io'',
     rr_Kind = ''ClusterRole'', rr_Name = ''view''\<rparr>"
  "\<not> isInTerminalCondition sample_env new_kubeconfig"
  by (simp_all add: user_secret_name_def csr_name_def crb_name_def new_kubeconfig_def
      isInTerminalCondition_def zero_kubeconfig_def sample_find_condition_def)

lemma sample_contents [simp]:
  "SecretData new_secret = Some [''tls.key'' \<mapsto> ''key'', ''tls.csr'' \<mapsto> ''request'', ''tls.crt'' \<mapsto> []]"
  "with_data new_secret = new_secret"
  "grantable (sample_csr CertificateApproved ''cert'')"
  "Certificate (sample_csr t cert) = cert"
  "ConfigData root_ca = Some [''ca.crt'' \<mapsto> ''ca'']"
  by (simp_all add: new_secret_def with_data_def grantable_def sample_csr_def sample_condition_def
      root_ca_def)

theorem granted_run_witness:
  "fst (Reconcile sample_env request_kc (start granted_cluster)) = Ret (empty_result, None)"
proof -
  let ?d = "[''tls.key'' \<mapsto> ''key'', ''tls.csr'' \<mapsto> ''request'', ''tls.crt'' \<mapsto> []]"
  let ?cl = "\<lparr>cl_Name = ''kubernetes'', cl_Server = ''https://k8s:6443''\<rparr>"
  let ?role = "\<lparr>rr_APIGroup = ''rbac.authorization.k8s.io'', rr_Kind = ''ClusterRole'', rr_Name = ''view''\<rparr>"
  define cfg where "cfg = Marshal sample_env (user_config ''jane'' ?cl ''ca'' ''cert'' ''key'')"
  define sec' where "sec' = new_secret\<lparr>SecretData := Some (?d(''tls.crt'' \<mapsto> ''cert'', ''kubeconfig'' \<mapsto> cfg))\<rparr>"
  have key: "secret_key sec' = (''kubeconfig-operator-system'', ''kc-client-cert'')"
    and merged: "merge_string_data sec' = sec'"
    by (simp_all add: secret_key_def sec'_def new_secret_def zero_meta_def merge_string_data_def)
  obtain w5 where up: "client_Update_Secret sample_env sec' granted_cluster = ((None, sec'), w5)"
    and w5: "crbs w5 = Map.empty"
    by (simp add: key merged Let_def)
  have role: "Name (CrbMeta (role_binding new_kubeconfig ?role)) = ''jane-kubeconfig''"
    by (simp add: role_binding_def new_kubeconfig_def zero_meta_def)
  obtain w7 where cr: "client_Create_Crb sample_env (role_binding new_kubeconfig ?role) w5 =
      ((None, role_binding new_kubeconfig ?role), w7)"
    by (simp add: w5)
  have "\<exists>kc' err w8. Reconcile sample_env request_kc (start granted_cluster) =
      (Ret (empty_result, None), \<lparr>world = w8, calls =
      [GetKubeconfig request_kc None new_kubeconfig, GetSecret (user_secret_name new_kubeconfig) None new_secret,
       GetCsr (csr_name new_kubeconfig) None (sample_csr CertificateApproved ''cert''),
       GetConfigMap kube_root_ca_name None root_ca,
       UpdateSecret sec' None, GetCrb (crb_name new_kubeconfig) (Some not_found) zero_crb,
       CreateCrb (role_binding new_kubeconfig ?role) None, UpdateKubeconfigStatus kc' err]\<rparr>) \<and>
    KMeta kc' = KMeta new_kubeconfig \<and> Spec kc' = Spec new_kubeconfig \<and>
    Phase (Status kc') = PhaseDone \<and> StatusKubeconfig (Status kc') = cfg"
  proof (rule granted_run[where ?w1.0 = granted_cluster and ?w2.0 = granted_cluster and
        ?w3.0 = granted_cluster and d = ?d, OF _ _ _ _ _ _ _ _ _ _ _ _ up _ _ cr])
    show "cfg = Marshal sample_env (user_config (Username (Spec new_kubeconfig)) ?cl
        (gomap_index (ConfigData root_ca) ''ca.crt'')
        (Certificate (sample_csr CertificateApproved ''cert'')) (gomap_index (Some ?d) ''tls.key''))"
      by (simp add: cfg_def gomap_index_def)
    show "sec' = new_secret\<lparr>SecretData := Some (?d(''tls.crt'' \<mapsto>
        Certificate (sample_csr CertificateApproved ''cert''), ''kubeconfig'' \<mapsto> cfg))\<rparr>"
      by (simp add: sec'_def)
  qed (simp_all add: store_get_def request_kc_def kube_root_ca_name_def w5 not_found_def)
  then show ?thesis by auto
qed

subsection \<open>A predefined secret\<close>

lemma submitCSR_ignores_stored_key:
  "submitCSR E kc (sec\<lparr>SecretData := Some (d(''tls.key'' \<mapsto> k, ''tls.csr'' \<mapsto> c))\<rparr>) key req =
     submitCSR E kc (sec\<lparr>SecretData := Some d\<rparr>) key req"
proof -
  have "d(''tls.key'' \<mapsto> k, ''tls.csr'' \<mapsto> c, ''tls.key'' \<mapsto> key, ''tls.csr'' \<mapsto> req) =
      d(''tls.key'' \<mapsto> key, ''tls.csr'' \<mapsto> req)"
    by (simp add: fun_eq_iff)
  then show ?thesis by (simp add: submitCSR_def gomap_store_def)
qed

text \<open>
  Where there is no signing request yet, the private key and the request that the user
  secret already holds have no influence on what the reconciler does: it behaves exactly as
  if they were not there, generates new ones and overwrites them. (The documentation of
  \<open>existingCSR\<close> says that the referenced secret contains the key and the request to use.)
\<close>

theorem stored_key_is_ignored:
  "reconcileFreshCSR E kc (sec\<lparr>SecretData := Some (d(''tls.key'' \<mapsto> k, ''tls.csr'' \<mapsto> c))\<rparr>) =
     reconcileFreshCSR E kc (sec\<lparr>SecretData := Some d\<rparr>)"
  by (simp only: reconcileFreshCSR_def submitCSR_ignores_stored_key)

lemma fresh_without_data:
  assumes "SecretData sec = None" and "writes (calls s) = []"
  shows "wp (reconcileFreshCSR E kc sec) (\<lambda>r s'. writes (calls s') = [] \<and>
    (r = Panic \<or> r = Ret (empty_result, None))) s"
  by (rule wp_reconcileFreshCSRI)
    (use assms in \<open>simp_all add: generating_event_def submitCSR_def wp_bind wp_store\<close>)

text \<open>
  If the predefined secret cannot be read for another reason than that it is missing
  (no permission, the API server is down) and there is no request yet, the run does not
  report the error: it panics on the nil data of the empty secret object, or, if the request
  cannot be generated either, ends as if it had succeeded. Nothing is written.
\<close>

theorem predefined_secret_error_is_lost:
  assumes "client_Get_Kubeconfig E req zero_kubeconfig w = ((None, kc), w1)"
    and "\<not> isInTerminalCondition E kc" and "ExistingCSR (Spec kc) = Some ref"
    and "client_Get_Secret E \<lparr>nn_Namespace = sr_Namespace ref, nn_Name = sr_Name ref\<rparr> zero_secret w1 =
      ((Some e, zero_secret), w2)"
    and "\<not> IsNotFound (Some e)"
    and "client_Get_Csr E (csr_name kc) zero_csr w2 = ((Some e2, csr), w3)" and "IsNotFound (Some e2)"
  shows "writes (calls (snd (Reconcile E req (start w)))) = [] \<and>
    fst (Reconcile E req (start w)) \<in> {Panic, Ret (empty_result, None)}"
proof -
  let ?kc = "SetUserSecret kc zero_secret"
  let ?sec = "zero_secret\<lparr>SMeta := set_owner E ?kc (SMeta zero_secret)\<rparr>"
  let ?Q = "\<lambda>r s'. writes (calls s') = [] \<and> (r = Panic \<or> r = Ret (empty_result, None))"
  have data: "SecretData ?sec = None" by (simp add: zero_secret_def)
  have csr: "client_Get_Csr E (csr_name ?kc) zero_csr (world \<lparr>world = w2, calls = cs\<rparr>) =
      ((Some e2, csr), w3)" for cs
    using assms(6) by (simp add: csr_name_def SetUserSecret_def)
  have "wp (reconcileCSR E ?kc ?sec) ?Q \<lparr>world = w2, calls = cs\<rparr>" if "writes cs = []" for cs
  proof -
    have "wp (reconcileFreshCSR E ?kc ?sec) ?Q
        \<lparr>world = w3, calls = cs @ [GetCsr (csr_name ?kc) (Some e2) csr]\<rparr>"
      by (rule fresh_without_data[OF data]) (simp add: that)
    then show ?thesis by (simp only: wp_reconcileCSR[OF csr] Let_def assms(7) if_True go_state.simps)
  qed
  then have "wp (Reconcile E req) ?Q (start w)"
    using assms(2-5)
    by (simp add: wp_Reconcile[of E req "start w", simplified, OF assms(1)] Let_def
        reconcileUserSecret_def reconcileExistingSecret_def adoptSecret_def client_defs go_wp)
  then show ?thesis by (auto simp: wp_iff)
qed

definition forbidden :: go_error where
  "forbidden = StatusError ReasonForbidden ''forbidden''"

definition predefined_kubeconfig :: Kubeconfig where
  "predefined_kubeconfig = new_kubeconfig\<lparr>Spec := (Spec new_kubeconfig)
     \<lparr>ExistingCSR := Some \<lparr>sr_Name = ''mine'', sr_Namespace = ''default''\<rparr>\<rparr>\<rparr>"

definition predefined_cluster :: cluster where
  "predefined_cluster = empty_cluster\<lparr>kubeconfigs := [''kc'' \<mapsto> predefined_kubeconfig]\<rparr>"

definition forbidding_env :: "cluster env" where
  "forbidding_env = sample_env\<lparr>client_Get_Secret := \<lambda>n obj w. ((Some forbidden, obj), w)\<rparr>"

theorem predefined_secret_error_is_lost_witness:
  "writes (calls (snd (Reconcile forbidding_env request_kc (start predefined_cluster)))) = [] \<and>
   fst (Reconcile forbidding_env request_kc (start predefined_cluster)) \<in>
     {Panic, Ret (empty_result, None)}"
  by (rule predefined_secret_error_is_lost[where kc = predefined_kubeconfig and
        ?w1.0 = predefined_cluster and ?w2.0 = predefined_cluster and ?w3.0 = predefined_cluster
        and ?e2.0 = not_found and csr = zero_csr and e = forbidden and
        ref = "\<lparr>sr_Name = ''mine'', sr_Namespace = ''default''\<rparr>"])
    (simp_all add: forbidding_env_def store_get_def predefined_cluster_def request_kc_def
      predefined_kubeconfig_def isInTerminalCondition_def new_kubeconfig_def zero_kubeconfig_def
      sample_find_condition_def forbidden_def IsNotFound_ne not_found_def empty_cluster_def)

subsection \<open>A request that cannot be generated\<close>

lemma unsupported_generateKey:
  assumes "a \<notin> set supported_algorithms"
  shows "\<exists>r. generateKey E a s = (Ret r, s) \<and> (r = Inl unsupported_scheme \<or> r = Inr (None, None))"
  using assms
  by (simp add: generateKey_def supported_algorithms_def go_return_def)

lemma unsupported_createCSR:
  assumes "SpecCSR (Spec kc) = Some c" and "SignatureAlg c \<notin> set supported_algorithms"
    and "\<And>t w. \<exists>e w'. x509_CreateCertificateRequest E t None w = (Inl e, w')"
  shows "wp (createCSR E kc) (\<lambda>r s'. calls s' = calls s \<and> (\<exists>e. r = Ret (None, None, Some e))) s"
proof -
  obtain e w' where no_key: "x509_CreateCertificateRequest E
      (csrTemplate (Username (Spec kc)) c) None (world s) = (Inl e, w')"
    using assms(3) by blast
  obtain r where "generateKey E (SignatureAlg c) s = (Ret r, s)"
    and "r = Inl unsupported_scheme \<or> r = Inr (None, None)"
    using unsupported_generateKey[OF assms(2)] by blast
  then show ?thesis
    using no_key by (auto simp: createCSR_def wp_def go_bind_def assms(1) go_deref_def
        go_return_def lib_call_def)
qed

lemma unsupported_fresh:
  assumes "SpecCSR (Spec kc) = Some c" and "SignatureAlg c \<notin> set supported_algorithms"
    and "\<And>t w. \<exists>e w'. x509_CreateCertificateRequest E t None w = (Inl e, w')"
    and "writes (calls s) = []"
  shows "wp (reconcileFreshCSR E kc sec) (\<lambda>r s'. writes (calls s') = [] \<and>
    r = Ret (empty_result, None)) s"
  unfolding reconcileFreshCSR_def wp_bind wp_record_event outcome.case
  by (rule wp_mono[OF unsupported_createCSR[OF assms(1-3)]])
    (use assms(4) in \<open>auto simp: go_wp Let_def\<close>)

text \<open>
  If the Kubeconfig asks for a signature algorithm that is not supported and nothing can
  be signed without a key, the run that should generate the request ends without an error
  and without writing anything: the failure condition and the phase \<open>Failed\<close> it sets stay in
  memory, the resource keeps its phase, and the run is not repeated.
\<close>

theorem failed_generation_not_recorded:
  assumes "client_Get_Kubeconfig E req zero_kubeconfig w = ((None, kc), w1)"
    and "\<not> isInTerminalCondition E kc" and "ExistingCSR (Spec kc) = None"
    and "client_Get_Secret E (user_secret_name kc) zero_secret w1 = ((None, sec), w2)"
    and "client_Get_Csr E (csr_name kc) zero_csr w2 = ((Some e, csr), w3)" and "IsNotFound (Some e)"
    and "SpecCSR (Spec kc) = Some c" and "SignatureAlg c \<notin> set supported_algorithms"
    and "\<And>t w. \<exists>e w'. x509_CreateCertificateRequest E t None w = (Inl e, w')"
  shows "writes (calls (snd (Reconcile E req (start w)))) = [] \<and>
    fst (Reconcile E req (start w)) = Ret (empty_result, None)"
proof -
  let ?Q = "\<lambda>r s'. writes (calls s') = [] \<and> r = Ret (empty_result, None)"
  have csr: "client_Get_Csr E (csr_name kc) zero_csr (world \<lparr>world = w2, calls = cs\<rparr>) =
      ((Some e, csr), w3)" for cs
    using assms(5) by simp
  have "wp (reconcileCSR E kc sec) ?Q \<lparr>world = w2, calls = cs\<rparr>" if "writes cs = []" for cs
  proof -
    have "wp (reconcileFreshCSR E kc sec) ?Q
        \<lparr>world = w3, calls = cs @ [GetCsr (csr_name kc) (Some e) csr]\<rparr>"
      by (rule unsupported_fresh[OF assms(7-9)]) (simp add: that)
    then show ?thesis by (simp only: wp_reconcileCSR[OF csr] Let_def assms(6) if_True go_state.simps)
  qed
  then have "wp (Reconcile E req) ?Q (start w)"
    using assms(2-4)
    by (simp add: wp_Reconcile[of E req "start w", simplified, OF assms(1)] Let_def
        reconcileUserSecret_def reconcileOwnSecret_def client_defs go_wp)
  then show ?thesis by (simp add: wp_iff)
qed

definition md5_kubeconfig :: Kubeconfig where
  "md5_kubeconfig = new_kubeconfig\<lparr>Spec := (Spec new_kubeconfig)
     \<lparr>SpecCSR := Some \<lparr>SignatureAlg = ''MD5WithRSA'', AdditionalFields = zero_fields\<rparr>\<rparr>\<rparr>"

definition md5_cluster :: cluster where
  "md5_cluster = empty_cluster\<lparr>kubeconfigs := [''kc'' \<mapsto> md5_kubeconfig],
     secrets := [(''kubeconfig-operator-system'', ''kc-client-cert'') \<mapsto> new_secret]\<rparr>"

theorem failed_generation_not_recorded_witness:
  "writes (calls (snd (Reconcile sample_env request_kc (start md5_cluster)))) = [] \<and>
   fst (Reconcile sample_env request_kc (start md5_cluster)) = Ret (empty_result, None)"
  by (rule failed_generation_not_recorded[where kc = md5_kubeconfig and ?w1.0 = md5_cluster and
        ?w2.0 = md5_cluster and ?w3.0 = md5_cluster and e = not_found and csr = zero_csr and
        sec = new_secret and c = "\<lparr>SignatureAlg = ''MD5WithRSA'', AdditionalFields = zero_fields\<rparr>"])
    (simp_all add: store_get_def md5_cluster_def request_kc_def md5_kubeconfig_def
      isInTerminalCondition_def new_kubeconfig_def zero_kubeconfig_def user_secret_name_def
      sample_find_condition_def not_found_def empty_cluster_def supported_algorithms_def)

end
