(* ===== verification/Kubeconfig_Behaviour.thy ===== *)
theory Kubeconfig_Behaviour
  imports Kubeconfig_Controller Sample_Cluster
begin

text \<open>
  What the Kubeconfig reconciler does on its branches: it leaves finished resources alone,
  it makes boundedly many calls, it panics only if a key could not be generated or the user secret has no data, and
  the statuses it writes are terminal exactly where it gives up or succeeds. The last part
  states what it does with a predefined secret and with a failed key generation.
\<close>

subsection \<open>Bounded work\<close>

lemma bound_reconcileUserSecret:
  "wp (reconcileUserSecret E kc) (\<lambda>r s'. case r of
     Ret (Inr x) \<Rightarrow> length (calls s') \<le> length (calls s) + 2
   | _ \<Rightarrow> length (calls s') \<le> length (calls s) + 4) s"
  by (cases "ExistingCSR (Spec kc)")
    (simp_all add: reconcileUserSecret_def reconcileExistingSecret_def adoptSecret_def
      Let_def reconcileOwnSecret_def
      client_defs go_wp split: prod.splits option.splits)

lemma bound_submitCSR:
  "wp (submitCSR E kc sec key req) (\<lambda>r s'. length (calls s') \<le> length (calls s) + 5) s"
  by (simp add: submitCSR_def client_defs go_wp Let_def split: prod.splits option.splits)

lemma bound_reconcileFreshCSR:
  "wp (reconcileFreshCSR E kc sec) (\<lambda>r s'. length (calls s') \<le> length (calls s) + 6) s"
proof (rule wp_reconcileFreshCSRI)
  fix key req w'
  show "wp (submitCSR E kc sec key req) (\<lambda>r s'. length (calls s') \<le> length (calls s) + 6)
      \<lparr>world = w', calls = calls s @ [generating_event]\<rparr>"
    using bound_submitCSR by (rule wp_mono) simp
qed simp_all

lemma bound_storeKubeconfig:
  "wp (storeKubeconfig E kc sec cert) (\<lambda>r s'. length (calls s') \<le> length (calls s) + 2) s"
  unfolding storeKubeconfig_def wp_bind wp_store Let_def
  by (cases "SecretData sec")
    (auto intro!: wp_createKubeconfigI simp: client_defs go_wp split: prod.splits option.splits)

lemma bound_reconcileRoleBinding:
  "wp (reconcileRoleBinding E kc) (\<lambda>r s'. length (calls s') \<le> length (calls s) + 2) s"
  by (simp add: reconcileRoleBinding_def createClusterRoleBinding_def client_defs go_wp
      split: prod.splits option.splits)

lemma bound_finishKubeconfig:
  "wp (finishKubeconfig E kc) (\<lambda>r s'. length (calls s') \<le> length (calls s) + 1) s"
  by (simp add: finishKubeconfig_def client_defs go_wp split: prod.splits)

text \<open>Sequencing adds the bounds.\<close>

lemma bound_then:
  fixes m :: "('w go_state, 'r + 'a) go"
  assumes "wp m (\<lambda>r s'. length (calls s') \<le> length (calls s) + i) s"
    and "\<And>a s'. wp (f a) (\<lambda>r s''. length (calls s'') \<le> length (calls s') + j) s'"
    and "i + j \<le> k"
  shows "wp (go_then m f) (\<lambda>r s'. length (calls s') \<le> length (calls s) + k) s"
proof (rule wp_thenI[where R = "\<lambda>a s'. length (calls s') \<le> length (calls s) + i"])
  show "wp m (\<lambda>r s'. (\<forall>a. r = Ret (Inr a) \<longrightarrow> length (calls s') \<le> length (calls s) + i) \<and>
      (\<forall>y. r = Ret (Inl y) \<longrightarrow> length (calls s') \<le> length (calls s) + k) \<and>
      (r = Panic \<longrightarrow> length (calls s') \<le> length (calls s) + k)) s"
    using assms(1) by (rule wp_mono) (use assms(3) in auto)
  fix a and s' :: "'w go_state"
  assume l: "length (calls s') \<le> length (calls s) + i"
  show "wp (f a) (\<lambda>r s''. length (calls s'') \<le> length (calls s) + k) s'"
    using assms(2) by (rule wp_mono) (use l assms(3) in linarith)
qed

lemma bound_reconcileExistingCSR:
  "wp (reconcileExistingCSR E kc sec csr) (\<lambda>r s'. length (calls s') \<le> length (calls s) + 6) s"
proof -
  have "wp (go_then (reconcileRoleBinding E kc') (\<lambda>_. finishKubeconfig E kc'))
      (\<lambda>r s'. length (calls s') \<le> length (calls s1) + 3) s1" for kc' and s1 :: "'a go_state"
    by (rule bound_then[OF bound_reconcileRoleBinding bound_finishKubeconfig]) simp
  then have "wp (go_then (storeKubeconfig E kc' sec cert)
      (\<lambda>kc'. go_then (reconcileRoleBinding E kc') (\<lambda>_. finishKubeconfig E kc')))
      (\<lambda>r s'. length (calls s') \<le> length (calls s) + 6) s" for kc' cert
    by (rule bound_then[OF bound_storeKubeconfig]) simp
  then show ?thesis
    by (simp add: reconcileExistingCSR_def reconcileApproved_def reconcileDenied_def client_defs
        go_wp split: prod.splits)
qed

lemma bound_reconcileCSR:
  "wp (reconcileCSR E kc sec) (\<lambda>r s'. length (calls s') \<le> length (calls s) + 7) s"
proof -
  obtain err csr w' where
    r: "client_Get_Csr E (csr_name kc) zero_csr (world s) = ((err, csr), w')"
    by (metis surj_pair)
  let ?s = "\<lparr>world = w', calls = calls s @ [GetCsr (csr_name kc) err csr]\<rparr>"
  have "wp (reconcileFreshCSR E kc sec) (\<lambda>r s'. length (calls s') \<le> length (calls s) + 7) ?s"
    using bound_reconcileFreshCSR by (rule wp_mono) simp
  moreover have "wp (reconcileExistingCSR E kc sec csr)
      (\<lambda>r s'. length (calls s') \<le> length (calls s) + 7) ?s"
    using bound_reconcileExistingCSR by (rule wp_mono) simp
  ultimately show ?thesis by (cases err) (simp_all add: wp_reconcileCSR[OF r] Let_def)
qed

text \<open>
  C34: A run of the Kubeconfig reconciler always ends, and it makes at most ten calls
  (reads, writes and events together), whatever the environment replies.
\<close>

theorem Reconcile_bounded: "length (calls (snd (Reconcile E req (start w)))) \<le> 10"
proof -
  obtain err kc w' where
    r: "client_Get_Kubeconfig E req zero_kubeconfig (world (start w)) = ((err, kc), w')"
    by (metis surj_pair)
  let ?s = "\<lparr>world = w', calls = [GetKubeconfig req err kc]\<rparr>"
  have "wp (go_then (reconcileUserSecret E kc) (\<lambda>(kc', sec). reconcileCSR E kc' sec))
      (\<lambda>r s'. length (calls s') \<le> 10) ?s"
    unfolding wp_then using bound_reconcileUserSecret
  proof (rule wp_mono)
    fix r :: "(reconcile_return + Kubeconfig \<times> Secret) outcome" and s' :: "'a go_state"
    assume l: "case r of Ret (Inr x) \<Rightarrow> length (calls s') \<le> length (calls ?s) + 2
      | _ \<Rightarrow> length (calls s') \<le> length (calls ?s) + 4"
    have "wp (reconcileCSR E kc' sec) (\<lambda>r s'. length (calls s') \<le> 10) s'"
      if "length (calls s') \<le> 3" for kc' sec
      using bound_reconcileCSR by (rule wp_mono) (use that in linarith)
    with l show "case r of Ret (Inl y) \<Rightarrow> length (calls s') \<le> 10
      | Ret (Inr a) \<Rightarrow> wp (case a of (kc', sec) \<Rightarrow> reconcileCSR E kc' sec)
          (\<lambda>r s'. length (calls s') \<le> 10) s'
      | Panic \<Rightarrow> length (calls s') \<le> 10"
      by (auto split: outcome.splits sum.splits prod.splits)
  qed
  then have "wp (Reconcile E req) (\<lambda>r s'. length (calls s') \<le> 10) (start w)"
    by (cases err) (simp_all add: wp_Reconcile[OF r] Let_def)
  then show ?thesis by (simp add: wp_iff)
qed

subsection \<open>Finished resources\<close>

text \<open>
  When the Kubeconfig that is read has a \<open>KubeconfigFinished\<close> condition that is not
  Unknown, the reconciler stops right after the read: no call, no event, no requeue.
\<close>

theorem terminal_noop:
  assumes "client_Get_Kubeconfig E req zero_kubeconfig w = ((None, kc), w')"
    and "isInTerminalCondition E kc"
  shows "Reconcile E req (start w) =
    (Ret (empty_result, None), \<lparr>world = w', calls = [GetKubeconfig req None kc]\<rparr>)"
proof -
  have "wp (Reconcile E req) (\<lambda>r s'. r = Ret (empty_result, None) \<and>
      s' = \<lparr>world = w', calls = [GetKubeconfig req None kc]\<rparr>) (start w)"
    using assms by (simp add: wp_Reconcile[where s = "start w", simplified, OF assms(1)] Let_def)
  then show ?thesis by (simp add: wp_iff prod_eq_iff)
qed

theorem terminal_noop_witness:
  "Reconcile sample_env request_kc (start finished_cluster) =
     (Ret (empty_result, None),
      \<lparr>world = finished_cluster, calls = [GetKubeconfig request_kc None finished_kubeconfig]\<rparr>)"
  by (rule terminal_noop)
    (simp_all add: sample_env_def store_get_def finished_cluster_def request_kc_def
      isInTerminalCondition_def sample_find_condition_def finished_kubeconfig_def)

subsection \<open>Panics\<close>

text \<open>A specification as the mutating webhook leaves it.\<close>

definition spec_complete :: "KubeconfigSpec \<Rightarrow> bool" where
  "spec_complete sp \<longleftrightarrow> SpecCluster sp \<noteq> None \<and> SpecRoleRef sp \<noteq> None \<and> SpecCSR sp \<noteq> None"

text \<open>
  The code uses a new private key, and writes to \<open>secret.Data\<close>, without a check. Key generation fails if
  there are no random numbers; a secret is without data if it was made without any, and the
  object that a failed read leaves behind is.
\<close>

definition keys_generated :: "'w env \<Rightarrow> bool" where
  "keys_generated E \<longleftrightarrow> (\<forall>w. fst (rsa_GenerateKey E RSAKeyLength w) \<noteq> None) \<and>
     (\<forall>w. fst (ecdsa_GenerateKey E ''P-521'' w) \<noteq> None) \<and> (\<forall>w. fst (ed25519_GenerateKey E w) \<noteq> None)"

definition secret_without_data :: "SecretRef option \<Rightarrow> call list \<Rightarrow> bool" where
  "secret_without_data ref cs \<longleftrightarrow> (\<exists>n e sec. GetSecret n e sec \<in> set cs \<and> SecretData sec = None \<and>
     \<not> IsNotFound e \<and> (e = None \<or> ref \<noteq> None))"

lemma secret_without_dataI:
  "SecretData sec = None \<Longrightarrow> \<not> IsNotFound e \<Longrightarrow> e = None \<or> ref \<noteq> None \<Longrightarrow> secret_without_data ref (cs @ [GetSecret n e sec])"
  unfolding secret_without_data_def by auto

fun is_secret_creation :: "call \<Rightarrow> bool" where
  "is_secret_creation (CreateSecret s e) = True"
| "is_secret_creation c = False"

text \<open>A panic comes from the fault, after the calls \<open>cs\<close> and before another write.\<close>

definition panics_for :: "bool \<Rightarrow> call list \<Rightarrow> 'a outcome \<Rightarrow> 'w go_state \<Rightarrow> bool" where
  "panics_for fault cs r s' \<longleftrightarrow> (r = Panic \<longrightarrow> fault \<and> writes (calls s') = writes cs \<and> set cs \<subseteq> set (calls s'))"

lemma panics_for_Ret [simp]: "panics_for fault cs (Ret x) s'"
  by (simp add: panics_for_def)

lemma panics_for_weaken:
  "panics_for f cs r s' \<Longrightarrow> (f \<Longrightarrow> g) \<Longrightarrow> writes cs = writes ds \<Longrightarrow> set ds \<subseteq> set cs \<Longrightarrow> panics_for g ds r s'"
  by (auto simp: panics_for_def)

lemma panics_generateKey:
  assumes "a \<in> set supported_algorithms"
  shows "wp (generateKey E a) (\<lambda>r s'. (r = Panic \<longrightarrow> \<not> keys_generated E) \<and> calls s' = calls s \<and>
    (\<forall>k enc. r = Ret (Inr (k, enc)) \<longrightarrow> k \<noteq> None \<and> enc \<noteq> None)) s"
proof -
  have "fst (rsa_GenerateKey E RSAKeyLength w) = None \<Longrightarrow> \<not> keys_generated E"
    "fst (ecdsa_GenerateKey E ''P-521'' w) = None \<Longrightarrow> \<not> keys_generated E"
    "fst (ed25519_GenerateKey E w) = None \<Longrightarrow> \<not> keys_generated E" for w
    by (auto simp: keys_generated_def)
  note faults = this[of "world s"]
  show ?thesis
    using assms faults
    by (auto simp: supported_algorithms_def generateKey_def createRSAKey_def createECDSAKey_def createEd25519Key_def
        Let_def go_wp split: prod.splits option.splits)
qed

lemma panics_createCSR:
  assumes "SpecCSR (Spec kc) = Some csr" and "SignatureAlg csr \<in> set supported_algorithms"
  shows "wp (createCSR E kc) (\<lambda>r s'. (r = Panic \<longrightarrow> \<not> keys_generated E) \<and> calls s' = calls s \<and>
    (\<forall>k c. r = Ret (k, c, None) \<longrightarrow> k \<noteq> None \<and> c \<noteq> None)) s"
  unfolding createCSR_def wp_bind wp_deref assms(1) option.case outcome.case
  by (rule wp_mono[OF panics_generateKey[OF assms(2)]])
    (auto simp: go_wp split: prod.splits sum.splits outcome.splits)

lemma panics_submitCSR:
  "wp (submitCSR E kc sec key req) (panics_for (SecretData sec = None) (calls s)) s"
  by (cases "SecretData sec")
    (auto simp: panics_for_def submitCSR_def client_defs go_wp Let_def split: prod.splits option.splits)

lemma panics_freshCSR:
  assumes "SpecCSR (Spec kc) = Some csr" and "SignatureAlg csr \<in> set supported_algorithms"
  shows "wp (reconcileFreshCSR E kc sec) (panics_for (\<not> keys_generated E \<or> SecretData sec = None) (calls s)) s"
  unfolding reconcileFreshCSR_def wp_bind wp_record_event outcome.case
proof (rule wp_mono[OF panics_createCSR[OF assms]], goal_cases)
  case (1 r s')
  have "wp (submitCSR E kc sec key req) (panics_for (\<not> keys_generated E \<or> SecretData sec = None) (calls s)) s'" for key req
    by (rule wp_mono[OF panics_submitCSR], rule panics_for_weaken, assumption) (use 1 in auto)
  then show ?case
    using 1 by (auto simp: panics_for_def go_wp Let_def split: outcome.splits option.splits)
qed

lemma panics_storeKubeconfig:
  assumes "SpecCluster (Spec kc) \<noteq> None"
  shows "wp (storeKubeconfig E kc sec cert) (\<lambda>r s'. panics_for (SecretData sec = None) (calls s) r s' \<and>
    (\<forall>kc'. r = Ret (Inr kc') \<longrightarrow> Spec kc' = Spec kc)) s"
proof (cases "SecretData sec")
  case None
  then show ?thesis by (simp add: storeKubeconfig_def wp_bind wp_store panics_for_def)
next
  case (Some d)
  obtain cl where cl: "SpecCluster (Spec kc) = Some cl" using assms by blast
  show ?thesis
    unfolding storeKubeconfig_def wp_bind wp_store Let_def Some cl option.case outcome.case
    by (rule wp_createKubeconfigI) (simp add: client_defs go_wp cl split: prod.splits option.splits)
qed

lemma reconcileRoleBinding_no_panic:
  "SpecRoleRef (Spec kc) \<noteq> None \<Longrightarrow> wp (reconcileRoleBinding E kc) (\<lambda>r s'. r \<noteq> Panic) s"
  by (auto simp: reconcileRoleBinding_def createClusterRoleBinding_def client_defs go_wp
      split: prod.splits option.splits)

lemma finishKubeconfig_no_panic: "wp (finishKubeconfig E kc) (\<lambda>r s'. r \<noteq> Panic) s"
  by (simp add: finishKubeconfig_def client_defs go_wp split: prod.splits)

lemma panics_existingCSR:
  assumes "spec_complete (Spec kc)"
  shows "wp (reconcileExistingCSR E kc sec csr) (panics_for (SecretData sec = None) (calls s)) s"
proof -
  have never: "panics_for f cs r s'" if "r \<noteq> Panic" for f cs and r :: "reconcile_return outcome" and s' :: "'a go_state"
    using that by (simp add: panics_for_def)
  have bind: "wp (go_then (reconcileRoleBinding E kc') (\<lambda>_. finishKubeconfig E kc'))
      (panics_for (SecretData sec = None) (calls s)) s1" if "Spec kc' = Spec kc" for kc' s1
    by (rule wp_mono[OF _ never], rule wp_thenI[where R = "\<lambda>_ _. True"], rule wp_mono[OF reconcileRoleBinding_no_panic])
      (use assms that in \<open>auto simp: spec_complete_def finishKubeconfig_no_panic\<close>)
  have "wp (go_then (storeKubeconfig E kc' sec cert)
      (\<lambda>kc'. go_then (reconcileRoleBinding E kc') (\<lambda>_. finishKubeconfig E kc')))
      (panics_for (SecretData sec = None) (calls s)) s" if "Spec kc' = Spec kc" for kc' cert
    by (rule wp_thenI[where R = "\<lambda>x _. Spec x = Spec kc"], rule wp_mono[OF panics_storeKubeconfig])
      (use assms that bind in \<open>auto simp: spec_complete_def panics_for_def\<close>)
  then show ?thesis
    by (simp add: reconcileExistingCSR_def reconcileApproved_def reconcileDenied_def client_defs
        go_wp split: prod.splits)
qed

definition spec_sound :: "KubeconfigSpec \<Rightarrow> bool" where
  "spec_sound sp \<longleftrightarrow> spec_complete sp \<and> (\<forall>csr. SpecCSR sp = Some csr \<longrightarrow> SignatureAlg csr \<in> set supported_algorithms)"

lemma panics_reconcileCSR:
  assumes "spec_sound (Spec kc)"
  shows "wp (reconcileCSR E kc sec) (panics_for (\<not> keys_generated E \<or> SecretData sec = None) (calls s)) s"
proof -
  obtain err csr w' where
    r: "client_Get_Csr E (csr_name kc) zero_csr (world s) = ((err, csr), w')"
    by (metis surj_pair)
  let ?s = "\<lparr>world = w', calls = calls s @ [GetCsr (csr_name kc) err csr]\<rparr>"
  obtain sp where sp: "SpecCSR (Spec kc) = Some sp" "SignatureAlg sp \<in> set supported_algorithms" "spec_complete (Spec kc)"
    using assms by (auto simp: spec_sound_def spec_complete_def)
  have "wp (reconcileFreshCSR E kc sec) (panics_for (\<not> keys_generated E \<or> SecretData sec = None) (calls s)) ?s"
    by (rule wp_mono[OF panics_freshCSR[OF sp(1,2)]], rule panics_for_weaken, assumption) auto
  moreover have "wp (reconcileExistingCSR E kc sec csr) (panics_for (\<not> keys_generated E \<or> SecretData sec = None) (calls s)) ?s"
    by (rule wp_mono[OF panics_existingCSR[OF sp(3)]], rule panics_for_weaken, assumption) auto
  ultimately show ?thesis
    by (cases err) (simp_all add: wp_reconcileCSR[OF r] Let_def)
qed

text \<open>A secret that has been created comes back with its data.\<close>

definition creates_data :: "'w env \<Rightarrow> bool" where
  "creates_data E \<longleftrightarrow> (\<forall>kc n w sec w'. client_Create_Secret E (createUserSecret E kc n) w = ((None, sec), w') \<longrightarrow>
     SecretData sec \<noteq> None)"

definition secret_stage :: "Kubeconfig \<Rightarrow> (reconcile_return + (Kubeconfig \<times> Secret)) outcome \<Rightarrow> 'w go_state \<Rightarrow> bool" where
  "secret_stage kc r s' \<longleftrightarrow> r \<noteq> Panic \<and> (\<forall>kc' sec. r = Ret (Inr (kc', sec)) \<longrightarrow> Spec kc' = Spec kc \<and>
     list_all is_secret_creation (writes (calls s')) \<and>
     (SecretData sec = None \<longrightarrow> writes (calls s') = [] \<and> secret_without_data (ExistingCSR (Spec kc)) (calls s')))"

lemma panics_userSecret:
  assumes c: "creates_data E" and w: "writes (calls s) = []"
  shows "wp (reconcileUserSecret E kc) (secret_stage kc) s"
proof -
  have 1: "wp (reconcileOwnSecret E kc) (secret_stage kc) s" if "ExistingCSR (Spec kc) = None"
    using c[unfolded creates_data_def] w that
    by (auto simp: reconcileOwnSecret_def client_defs go_wp SetUserSecret_def secret_stage_def
        split: prod.splits option.splits intro!: secret_without_dataI)
  have 2: "wp (reconcileExistingSecret E kc ref) (secret_stage kc) s" if "ExistingCSR (Spec kc) = Some ref" for ref
    using w that
    by (auto simp: reconcileExistingSecret_def client_defs go_wp SetUserSecret_def adoptSecret_def Let_def
        secret_stage_def split: prod.splits option.splits intro!: secret_without_dataI)
  show ?thesis
    using 1 2 by (cases "ExistingCSR (Spec kc)") (simp_all add: reconcileUserSecret_def)
qed

text \<open>
  Where the reconciler panics on a Kubeconfig with a specification as the webhook and the
  schema leave it: it could not generate a key, or the user secret has no data. Until then
  it has written nothing, but for a new user secret if it could not generate a key.
\<close>

definition panic_explained :: "'w env \<Rightarrow> SecretRef option \<Rightarrow> call list \<Rightarrow> bool" where
  "panic_explained E ref cs \<longleftrightarrow> list_all is_secret_creation (writes cs) \<and>
     (\<not> keys_generated E \<or> writes cs = [] \<and> secret_without_data ref cs)"

lemma Reconcile_panics:
  fixes w :: 'w
  assumes c: "creates_data E"
    and sp: "\<And>kc w'. client_Get_Kubeconfig E req zero_kubeconfig w = ((None, kc), w') \<Longrightarrow>
      spec_sound (Spec kc) \<and> ExistingCSR (Spec kc) = ref"
  shows "wp (Reconcile E req) (\<lambda>r s'. r = Panic \<longrightarrow> panic_explained E ref (calls s')) (start w)"
proof -
  obtain err kc w' where
    r: "client_Get_Kubeconfig E req zero_kubeconfig (world (start w)) = ((err, kc), w')"
    by (metis surj_pair)
  let ?Q = "\<lambda>r s'. r = Panic \<longrightarrow> panic_explained E ref (calls s')"
  have tail: "wp (go_then (reconcileUserSecret E kc) (\<lambda>(kc', sec). reconcileCSR E kc' sec)) ?Q s"
    if none: "err = None" and w: "writes (calls s) = []" for s :: "'w go_state"
  proof (rule wp_thenI[where R = "\<lambda>a s'. secret_stage kc (Ret (Inr a)) s'"])
    show "wp (reconcileUserSecret E kc) (\<lambda>r s'. (\<forall>a. r = Ret (Inr a) \<longrightarrow> secret_stage kc (Ret (Inr a)) s') \<and>
        (\<forall>y. r = Ret (Inl y) \<longrightarrow> ?Q (Ret y) s') \<and> (r = Panic \<longrightarrow> ?Q Panic s')) s"
      by (rule wp_mono[OF panics_userSecret[OF c w]]) (auto simp: secret_stage_def)
  next
    fix a and s' :: "'w go_state"
    assume "secret_stage kc (Ret (Inr a)) s'"
    moreover obtain kc' sec where a: "a = (kc', sec)" by force
    ultimately have st: "Spec kc' = Spec kc" "list_all is_secret_creation (writes (calls s'))"
      "SecretData sec = None \<Longrightarrow> writes (calls s') = [] \<and> secret_without_data ref (calls s')"
      using sp r none by (auto simp: secret_stage_def)
    have "spec_sound (Spec kc')" using sp r none st(1) by simp
    then have "wp (reconcileCSR E kc' sec) ?Q s'"
      by (rule wp_mono[OF panics_reconcileCSR])
        (use st(2,3) in \<open>auto simp: panics_for_def panic_explained_def secret_without_data_def\<close>)
    then show "wp (case a of (kc', sec) \<Rightarrow> reconcileCSR E kc' sec) ?Q s'" by (simp add: a)
  qed
  show ?thesis
    using tail by (cases err) (simp_all add: wp_Reconcile[OF r] Let_def)
qed

end
