(* ===== verification/Api_Store.thy ===== *)
theory Api_Store
  imports Kubeconfig_Controller Csr_Controller
begin

text \<open>
  What the API server promises its clients, as a law for the environment: behind the opaque
  world is a store of objects; a call reads the store as it is at one moment, or changes one
  object of it, or fails. Before and after that moment other parties may change the store;
  which changes they make is the relation \<open>Env\<close>. A failed write may have been done or not (the
  reply may have been lost).

  The client of \<open>main.go\<close> reads Kubeconfigs from the API server and everything else from a cache
  that may be behind. So there are two laws: by \<open>store_law\<close> every read is up to date, by the weaker
  \<open>client_law\<close> a read of a secret or a signing request may be answered from the past. It leaves
  a note if it is.
\<close>

subsection \<open>The store\<close>

text \<open>
  Secrets are their data; everything else is the object itself. The field \<open>incidents\<close> is a history
  variable: it is no state of the API server and no operation reads it, but it notes what has gone
  wrong outside the operator, so that a property can say what it does not hold for. Which events
  are noted is said where they happen: in \<open>client_law\<close> below and in \<open>System\<close>.
\<close>

datatype incident =
    SecretIncident "string \<times> string"
  | RequestIncident string
  | KubeconfigIncident string

record store =
  kubeconfig_at :: "string \<rightharpoonup> Kubeconfig"
  secret_at :: "string \<times> string \<rightharpoonup> (string \<rightharpoonup> bytes)"
  request_at :: "string \<rightharpoonup> Csr"
  binding_at :: "string \<rightharpoonup> ClusterRoleBinding"
  config_at :: "string \<times> string \<rightharpoonup> (string \<rightharpoonup> string)"
  incidents :: "incident set"

definition nn_key :: "NamespacedName \<Rightarrow> string \<times> string" where
  "nn_key n = (nn_Namespace n, nn_Name n)"

definition object_key :: "ObjectMeta \<Rightarrow> string \<times> string" where
  "object_key m = (Namespace m, Name m)"

text \<open>\<open>stringData\<close> is merged into \<open>data\<close> by the API server.\<close>

definition merged :: "Secret \<Rightarrow> (string \<rightharpoonup> bytes)" where
  "merged s = gomap_lookup (SecretData s) ++ gomap_lookup (StringData s)"

lemma merged_plain: "StringData s = None \<Longrightarrow> merged s = gomap_lookup (SecretData s)"
  by (simp add: merged_def)

definition secret_read :: "string \<times> string \<Rightarrow> store \<Rightarrow> Secret \<Rightarrow> bool" where
  "secret_read key c s \<longleftrightarrow> secret_at c key = Some (gomap_lookup (SecretData s)) \<and>
     object_key (SMeta s) = key \<and> StringData s = None"

subsection \<open>Calls\<close>

definition read_law :: "(store \<Rightarrow> store \<Rightarrow> bool) \<Rightarrow> ('w \<Rightarrow> store) \<Rightarrow>
    (store \<Rightarrow> 'o \<Rightarrow> bool) \<Rightarrow> (store \<Rightarrow> bool) \<Rightarrow> ('w, 'o) reply \<Rightarrow> bool" where
  "read_law Env obs found missing f \<longleftrightarrow> (\<forall>w err obj w'. f w = ((err, obj), w') \<longrightarrow>
     (\<exists>c. Env (obs w) c \<and> Env c (obs w') \<and> (err = None \<longrightarrow> found c obj) \<and>
        (IsNotFound err \<longrightarrow> missing c)))"

definition write_law :: "(store \<Rightarrow> store \<Rightarrow> bool) \<Rightarrow> ('w \<Rightarrow> store) \<Rightarrow>
    (store \<Rightarrow> bool) \<Rightarrow> (store \<Rightarrow> store) \<Rightarrow> ('o \<Rightarrow> bool) \<Rightarrow> ('w, 'o) reply \<Rightarrow> bool" where
  "write_law Env obs possible effect returned f \<longleftrightarrow> (\<forall>w err obj w'. f w = ((err, obj), w') \<longrightarrow>
     (\<exists>c c'. Env (obs w) c \<and> Env c' (obs w') \<and>
        (c' = c \<and> err \<noteq> None \<or> possible c \<and> c' = effect c \<and> (err = None \<longrightarrow> returned obj))))"

text \<open>A library call takes time: others may act, the operator does not.\<close>

definition lib_law :: "(store \<Rightarrow> store \<Rightarrow> bool) \<Rightarrow> ('w \<Rightarrow> store) \<Rightarrow> ('w \<Rightarrow> 'a \<times> 'w) \<Rightarrow> bool" where
  "lib_law Env obs f \<longleftrightarrow> (\<forall>w x w'. f w = (x, w') \<longrightarrow> Env (obs w) (obs w'))"

definition update_conditions :: "Csr \<Rightarrow> store \<Rightarrow> store" where
  "update_conditions q c = c\<lparr>request_at := (request_at c)(Name (CsrMeta q) \<mapsto>
     (the (request_at c (Name (CsrMeta q))))\<lparr>CsrConditions := CsrConditions q\<rparr>)\<rparr>"

definition update_status :: "Kubeconfig \<Rightarrow> store \<Rightarrow> store" where
  "update_status k c = c\<lparr>kubeconfig_at := (kubeconfig_at c)(Name (KMeta k) \<mapsto>
     (the (kubeconfig_at c (Name (KMeta k))))\<lparr>Status := Status k\<rparr>)\<rparr>"

definition put_secret :: "Secret \<Rightarrow> store \<Rightarrow> store" where
  "put_secret s c = c\<lparr>secret_at := (secret_at c)(object_key (SMeta s) \<mapsto> merged s)\<rparr>"

definition put_request :: "Csr \<Rightarrow> store \<Rightarrow> store" where
  "put_request q c = c\<lparr>request_at := (request_at c)(Name (CsrMeta q) \<mapsto>
     q\<lparr>CsrConditions := [], Certificate := []\<rparr>)\<rparr>"

definition put_binding :: "ClusterRoleBinding \<Rightarrow> store \<Rightarrow> store" where
  "put_binding b c = c\<lparr>binding_at := (binding_at c)(Name (CrbMeta b) \<mapsto> b)\<rparr>"

definition store_reads :: "'w env \<Rightarrow> ('w \<Rightarrow> store) \<Rightarrow> (store \<Rightarrow> store \<Rightarrow> bool) \<Rightarrow> bool" where
  "store_reads E obs Env \<longleftrightarrow>
    (\<forall>n obj. read_law Env obs
       (\<lambda>c k. kubeconfig_at c (nn_Name n) = Some k \<and> Name (KMeta k) = nn_Name n)
       (\<lambda>c. kubeconfig_at c (nn_Name n) = None) (client_Get_Kubeconfig E n obj)) \<and>
    (\<forall>n obj. read_law Env obs (secret_read (nn_key n)) (\<lambda>c. secret_at c (nn_key n) = None)
       (client_Get_Secret E n obj)) \<and>
    (\<forall>n obj. read_law Env obs
       (\<lambda>c q. request_at c (nn_Name n) = Some q \<and> Name (CsrMeta q) = nn_Name n)
       (\<lambda>c. request_at c (nn_Name n) = None) (client_Get_Csr E n obj)) \<and>
    (\<forall>n obj. read_law Env obs (\<lambda>c b. binding_at c (nn_Name n) = Some b)
       (\<lambda>c. binding_at c (nn_Name n) = None) (client_Get_Crb E n obj)) \<and>
    (\<forall>n obj. read_law Env obs (\<lambda>c m. config_at c (nn_key n) = Some (gomap_lookup (ConfigData m)))
       (\<lambda>c. config_at c (nn_key n) = None) (client_Get_ConfigMap E n obj))"

definition store_writes :: "'w env \<Rightarrow> ('w \<Rightarrow> store) \<Rightarrow> (store \<Rightarrow> store \<Rightarrow> bool) \<Rightarrow> bool" where
  "store_writes E obs Env \<longleftrightarrow>
    (\<forall>s. write_law Env obs (\<lambda>c. secret_at c (object_key (SMeta s)) = None) (put_secret s)
       (\<lambda>s'. gomap_lookup (SecretData s') = merged s \<and> object_key (SMeta s') = object_key (SMeta s) \<and>
          StringData s' = None) (client_Create_Secret E s)) \<and>
    (\<forall>s. write_law Env obs (\<lambda>c. secret_at c (object_key (SMeta s)) \<noteq> None) (put_secret s)
       (\<lambda>s'. True) (client_Update_Secret E s)) \<and>
    (\<forall>q. write_law Env obs (\<lambda>c. request_at c (Name (CsrMeta q)) = None) (put_request q)
       (\<lambda>q'. Name (CsrMeta q') = Name (CsrMeta q)) (client_Create_Csr E q)) \<and>
    (\<forall>b. write_law Env obs (\<lambda>c. binding_at c (Name (CrbMeta b)) = None) (put_binding b)
       (\<lambda>b'. True) (client_Create_Crb E b)) \<and>
    (\<forall>k. write_law Env obs (\<lambda>c. kubeconfig_at c (Name (KMeta k)) \<noteq> None) (update_status k)
       (\<lambda>k'. True) (client_Status_Update_Kubeconfig E k)) \<and>
    (\<forall>q. write_law Env obs (\<lambda>c. request_at c (Name (CsrMeta q)) \<noteq> None) (update_conditions q)
       (\<lambda>q'. True) (client_Status_Update_Csr E q)) \<and>
    (\<forall>q. write_law Env obs (\<lambda>c. request_at c (Name (CsrMeta q)) \<noteq> None) (update_conditions q)
       (\<lambda>q'. True) (clientset_UpdateApproval E q))"

text \<open>
  The reads of a client with a cache: an answer about a secret or a request is what is there, or
  something else, and then that is noted as an incident of this object. The answer has the name
  and the namespace that were asked for. Nothing is relied on about role bindings and the certificate
  of the cluster.
\<close>

definition client_reads :: "'w env \<Rightarrow> ('w \<Rightarrow> store) \<Rightarrow> (store \<Rightarrow> store \<Rightarrow> bool) \<Rightarrow> bool" where
  "client_reads E obs Env \<longleftrightarrow>
    (\<forall>n obj. read_law Env obs
       (\<lambda>c k. kubeconfig_at c (nn_Name n) = Some k \<and> Name (KMeta k) = nn_Name n)
       (\<lambda>c. kubeconfig_at c (nn_Name n) = None) (client_Get_Kubeconfig E n obj)) \<and>
    (\<forall>n obj. read_law Env obs
       (\<lambda>c s. object_key (SMeta s) = nn_key n \<and> StringData s = None \<and>
          (SecretIncident (nn_key n) \<in> incidents c \<or> secret_read (nn_key n) c s))
       (\<lambda>c. SecretIncident (nn_key n) \<in> incidents c \<or> secret_at c (nn_key n) = None) (client_Get_Secret E n obj)) \<and>
    (\<forall>n obj. read_law Env obs
       (\<lambda>c q. Name (CsrMeta q) = nn_Name n \<and>
          (RequestIncident (nn_Name n) \<in> incidents c \<or> request_at c (nn_Name n) = Some q))
       (\<lambda>c. RequestIncident (nn_Name n) \<in> incidents c \<or> request_at c (nn_Name n) = None) (client_Get_Csr E n obj)) \<and>
    (\<forall>n obj. read_law Env obs (\<lambda>c b. True) (\<lambda>c. True) (client_Get_Crb E n obj)) \<and>
    (\<forall>n obj. read_law Env obs (\<lambda>c m. True) (\<lambda>c. True) (client_Get_ConfigMap E n obj))"

definition client_law :: "'w env \<Rightarrow> ('w \<Rightarrow> store) \<Rightarrow> (store \<Rightarrow> store \<Rightarrow> bool) \<Rightarrow> bool" where
  "client_law E obs Env \<longleftrightarrow> client_reads E obs Env \<and> store_writes E obs Env \<and>
    (\<forall>n. lib_law Env obs (rsa_GenerateKey E n)) \<and> (\<forall>n. lib_law Env obs (ecdsa_GenerateKey E n)) \<and>
    lib_law Env obs (ed25519_GenerateKey E) \<and>
    (\<forall>t k. lib_law Env obs (x509_CreateCertificateRequest E t k))"

definition store_law :: "'w env \<Rightarrow> ('w \<Rightarrow> store) \<Rightarrow> (store \<Rightarrow> store \<Rightarrow> bool) \<Rightarrow> bool" where
  "store_law E obs Env \<longleftrightarrow> store_reads E obs Env \<and> store_writes E obs Env \<and>
    (\<forall>n. lib_law Env obs (rsa_GenerateKey E n)) \<and> (\<forall>n. lib_law Env obs (ecdsa_GenerateKey E n)) \<and>
    lib_law Env obs (ed25519_GenerateKey E) \<and>
    (\<forall>t k. lib_law Env obs (x509_CreateCertificateRequest E t k))"

subsection \<open>Rules\<close>

lemma wp_read:
  assumes "read_law Env obs found missing f"
    and "\<And>err obj w' c. Env (obs (world s)) c \<Longrightarrow> Env c (obs w') \<Longrightarrow> (err = None \<longrightarrow> found c obj) \<Longrightarrow>
      (IsNotFound err \<longrightarrow> missing c) \<Longrightarrow>
      Q (Ret (err, obj)) \<lparr>world = w', calls = calls s @ [ev err obj]\<rparr>"
  shows "wp (api_call f ev) Q s"
  using assms unfolding read_law_def by (intro wp_api_callI) blast

lemma wp_write:
  assumes "write_law Env obs possible effect returned f"
    and "\<And>err obj w' c c'. Env (obs (world s)) c \<Longrightarrow> Env c' (obs w') \<Longrightarrow>
      (c' = c \<and> err \<noteq> None) \<or> (possible c \<and> c' = effect c \<and> (err = None \<longrightarrow> returned obj)) \<Longrightarrow>
      Q (Ret (err, obj)) \<lparr>world = w', calls = calls s @ [ev err obj]\<rparr>"
  shows "wp (api_call f ev) Q s"
proof (rule wp_api_callI)
  fix err obj w'
  assume "f (world s) = ((err, obj), w')"
  then obtain c c' where "Env (obs (world s)) c" "Env c' (obs w')"
    "(c' = c \<and> err \<noteq> None) \<or> (possible c \<and> c' = effect c \<and> (err = None \<longrightarrow> returned obj))"
    using assms(1) unfolding write_law_def by meson
  then show "Q (Ret (err, obj)) \<lparr>world = w', calls = calls s @ [ev err obj]\<rparr>"
    by (rule assms(2))
qed

lemma wp_lib:
  assumes "lib_law Env obs f"
    and "\<And>x w'. Env (obs (world s)) (obs w') \<Longrightarrow> Q (Ret x) \<lparr>world = w', calls = calls s\<rparr>"
  shows "wp (lib_call f) Q s"
  using assms by (intro wp_lib_callI) (auto simp: lib_law_def)

text \<open>
  An assertion on the store that no step of the others invalidates holds after every call of
  the library, and after a write if the write itself keeps it.
\<close>

definition stable :: "(store \<Rightarrow> store \<Rightarrow> bool) \<Rightarrow> (store \<Rightarrow> bool) \<Rightarrow> bool" where
  "stable Env P \<longleftrightarrow> (\<forall>c c'. Env c c' \<longrightarrow> P c \<longrightarrow> P c')"

lemma stableD: "stable Env P \<Longrightarrow> Env c c' \<Longrightarrow> P c \<Longrightarrow> P c'"
  by (auto simp: stable_def)

lemma stable_conj: "stable Env P \<Longrightarrow> stable Env R \<Longrightarrow> stable Env (\<lambda>c. P c \<and> R c)"
  by (auto simp: stable_def)

lemma wp_read_stable:
  assumes "read_law Env obs found missing f" and "stable Env P" and "P (obs (world s))"
    and "\<And>err obj w' c. P c \<Longrightarrow> Env c (obs w') \<Longrightarrow> P (obs w') \<Longrightarrow> (err = None \<longrightarrow> found c obj) \<Longrightarrow>
      (IsNotFound err \<longrightarrow> missing c) \<Longrightarrow>
      Q (Ret (err, obj)) \<lparr>world = w', calls = calls s @ [ev err obj]\<rparr>"
  shows "wp (api_call f ev) Q s"
proof (rule wp_read[OF assms(1)])
  fix err :: "go_error option" and obj w' c
  assume e: "Env (obs (world s)) c" "Env c (obs w')"
    and r: "err = None \<longrightarrow> found c obj" "IsNotFound err \<longrightarrow> missing c"
  have P: "P c" by (rule stableD[OF assms(2) e(1) assms(3)])
  show "Q (Ret (err, obj)) \<lparr>world = w', calls = calls s @ [ev err obj]\<rparr>"
    by (rule assms(4)[OF P e(2) stableD[OF assms(2) e(2) P] r])
qed

lemma wp_write_stable:
  assumes "write_law Env obs possible effect returned f" and "stable Env P" and "P (obs (world s))"
    and R: "stable Env R" "\<And>c. P c \<Longrightarrow> possible c \<Longrightarrow> R (effect c)"
    and failed: "\<And>e obj w'. P (obs w') \<or> R (obs w') \<Longrightarrow>
      Q (Ret (Some e, obj)) \<lparr>world = w', calls = calls s @ [ev (Some e) obj]\<rparr>"
    and success: "\<And>obj w'. R (obs w') \<Longrightarrow> returned obj \<Longrightarrow>
      Q (Ret (None, obj)) \<lparr>world = w', calls = calls s @ [ev None obj]\<rparr>"
  shows "wp (api_call f ev) Q s"
proof (rule wp_write[OF assms(1)])
  fix err :: "go_error option" and obj w' c c'
  assume e: "Env (obs (world s)) c" "Env c' (obs w')"
    and eff: "(c' = c \<and> err \<noteq> None) \<or> (possible c \<and> c' = effect c \<and> (err = None \<longrightarrow> returned obj))"
  have P: "P c" by (rule stableD[OF assms(2) e(1) assms(3)])
  have final: "R (obs w')" if "possible c" "c' = effect c"
    using stableD[OF R(1) e(2)] R(2)[OF P] that by simp
  show "Q (Ret (err, obj)) \<lparr>world = w', calls = calls s @ [ev err obj]\<rparr>"
  proof (cases err)
    case None
    then show ?thesis using eff final success by blast
  next
    case (Some e1)
    have "P (obs w') \<or> R (obs w')"
      using eff final stableD[OF assms(2) e(2)] P by blast
    then show ?thesis using failed Some by blast
  qed
qed

lemma wp_lib_stable:
  assumes "lib_law Env obs f" and "stable Env P" and "P (obs (world s))"
    and "\<And>x w'. P (obs w') \<Longrightarrow> Q (Ret x) \<lparr>world = w', calls = calls s\<rparr>"
  shows "wp (lib_call f) Q s"
  by (rule wp_lib[OF assms(1)], rule assms(4)) (rule stableD[OF assms(2) _ assms(3)])

text \<open>The same for a call with what follows it.\<close>

lemma bind_read:
  assumes "read_law Env obs found missing f" and "stable Env P" and "P (obs (world s))"
    and "\<And>err obj w' c. P c \<Longrightarrow> Env c (obs w') \<Longrightarrow> P (obs w') \<Longrightarrow> (err = None \<longrightarrow> found c obj) \<Longrightarrow>
      (IsNotFound err \<longrightarrow> missing c) \<Longrightarrow>
      wp (k (err, obj)) Q \<lparr>world = w', calls = calls s @ [ev err obj]\<rparr>"
  shows "wp (go_bind (api_call f ev) k) Q s"
  unfolding wp_bind by (rule wp_read_stable[OF assms(1,2,3)]) (use assms(4) in auto)

lemma bind_write:
  assumes "write_law Env obs possible effect returned f" and "stable Env P" and "P (obs (world s))"
    and "stable Env R" "\<And>c. P c \<Longrightarrow> possible c \<Longrightarrow> R (effect c)"
    and "\<And>e obj w'. P (obs w') \<or> R (obs w') \<Longrightarrow>
      wp (k (Some e, obj)) Q \<lparr>world = w', calls = calls s @ [ev (Some e) obj]\<rparr>"
    and "\<And>obj w'. R (obs w') \<Longrightarrow> returned obj \<Longrightarrow>
      wp (k (None, obj)) Q \<lparr>world = w', calls = calls s @ [ev None obj]\<rparr>"
  shows "wp (go_bind (api_call f ev) k) Q s"
  unfolding wp_bind by (rule wp_write_stable[OF assms(1,2,3,4)]) (use assms(5-7) in auto)

lemma bind_event:
  "wp k Q \<lparr>world = world s, calls = calls s @ [Event t r m]\<rparr> \<Longrightarrow>
     wp (go_bind (record_event t r m) (\<lambda>_. k)) Q s"
  by (simp add: wp_bind wp_record_event)

text \<open>A failed \<open>Get\<close> of client-go leaves the object it was given as it was.\<close>

definition failed_get_law :: "'w env \<Rightarrow> bool" where
  "failed_get_law E \<longleftrightarrow> (\<forall>n obj w e obj' w'. client_Get_Secret E n obj w = ((Some e, obj'), w') \<longrightarrow> obj' = obj)"

lemma bind_get_secret:
  assumes law: "read_law Env obs found missing (client_Get_Secret E n s0)" and err: "failed_get_law E"
    and st: "stable Env P" and P: "P (obs (world s))"
    and next_step: "\<And>err sec w' c. P c \<Longrightarrow> Env c (obs w') \<Longrightarrow> P (obs w') \<Longrightarrow> (err = None \<longrightarrow> found c sec) \<Longrightarrow>
      (IsNotFound err \<longrightarrow> missing c) \<Longrightarrow> (err \<noteq> None \<longrightarrow> sec = s0) \<Longrightarrow>
      wp (k (err, sec)) Q \<lparr>world = w', calls = calls s @ [GetSecret n err sec]\<rparr>"
  shows "wp (go_bind (Get_Secret E n s0) k) Q s"
  unfolding Get_Secret_def wp_bind
proof (rule wp_api_callI)
  fix err sec w'
  assume f: "client_Get_Secret E n s0 (world s) = ((err, sec), w')"
  then obtain c where c: "Env (obs (world s)) c" "Env c (obs w')" "err = None \<longrightarrow> found c sec"
    "IsNotFound err \<longrightarrow> missing c"
    using law unfolding read_law_def by meson
  have "P c" by (rule stableD[OF st c(1) P])
  moreover have "err \<noteq> None \<longrightarrow> sec = s0" using err f unfolding failed_get_law_def by blast
  ultimately show "case Ret (err, sec) of Ret x \<Rightarrow> wp (k x) Q \<lparr>world = w', calls = calls s @ [GetSecret n err sec]\<rparr>
      | Panic \<Rightarrow> Q Panic \<lparr>world = w', calls = calls s @ [GetSecret n err sec]\<rparr>"
    using next_step[OF _ c(2) stableD[OF st c(2)] c(3,4)] by simp
qed

text \<open>Generating key and request makes library calls only, so it keeps every stable assertion.\<close>

lemma read_law_weaken:
  assumes "read_law Env obs found missing f" and "\<And>c x. found c x \<Longrightarrow> found' c x" and "\<And>c. missing c \<Longrightarrow> missing' c"
  shows "read_law Env obs found' missing' f"
  using assms unfolding read_law_def by meson

lemma store_client_law:
  assumes "store_law E obs Env"
  shows "client_law E obs Env"
proof -
  note reads = conjunct1[OF assms[unfolded store_law_def], unfolded store_reads_def]
  have "client_reads E obs Env"
    unfolding client_reads_def
  proof (intro conjI allI, goal_cases)
    case (1 n obj)
    show ?case using reads by blast
  next
    case (2 n obj)
    show ?case
      by (rule read_law_weaken[OF reads[THEN conjunct2, THEN conjunct1, rule_format]]) (simp_all add: secret_read_def)
  next
    case (3 n obj)
    show ?case
      by (rule read_law_weaken[OF reads[THEN conjunct2, THEN conjunct2, THEN conjunct1, rule_format]]) simp_all
  next
    case (4 n obj)
    show ?case
      by (rule read_law_weaken[OF reads[THEN conjunct2, THEN conjunct2, THEN conjunct2, THEN conjunct1, rule_format]]) simp_all
  next
    case (5 n obj)
    show ?case
      by (rule read_law_weaken[OF reads[THEN conjunct2, THEN conjunct2, THEN conjunct2, THEN conjunct2, rule_format]]) simp_all
  qed
  then show ?thesis using assms by (simp add: client_law_def store_law_def)
qed

lemma fresh_csr_law:
  assumes "store_law E obs Env"
  shows "read_law Env obs
      (\<lambda>c q. request_at c (nn_Name n) = Some q \<and> Name (CsrMeta q) = nn_Name n)
      (\<lambda>c. request_at c (nn_Name n) = None) (client_Get_Csr E n q0)"
  using assms by (simp add: store_law_def store_reads_def)

lemma client_law_keys:
  assumes "client_law E obs Env"
  shows "lib_law Env obs (rsa_GenerateKey E n)" "lib_law Env obs (ecdsa_GenerateKey E c)"
    "lib_law Env obs (ed25519_GenerateKey E)" "lib_law Env obs (x509_CreateCertificateRequest E t k)"
  using assms by (simp_all add: client_law_def)

lemma client_lawD:
  assumes "client_law E obs Env"
  shows get_kubeconfig_law: "read_law Env obs
      (\<lambda>c k. kubeconfig_at c (nn_Name n) = Some k \<and> Name (KMeta k) = nn_Name n)
      (\<lambda>c. kubeconfig_at c (nn_Name n) = None) (client_Get_Kubeconfig E n k0)"
    and get_secret_law: "read_law Env obs
      (\<lambda>c s. object_key (SMeta s) = nn_key n \<and> StringData s = None \<and>
         (SecretIncident (nn_key n) \<in> incidents c \<or> secret_read (nn_key n) c s))
      (\<lambda>c. SecretIncident (nn_key n) \<in> incidents c \<or> secret_at c (nn_key n) = None) (client_Get_Secret E n s0)"
    and get_csr_law: "read_law Env obs
      (\<lambda>c q. Name (CsrMeta q) = nn_Name n \<and>
         (RequestIncident (nn_Name n) \<in> incidents c \<or> request_at c (nn_Name n) = Some q))
      (\<lambda>c. RequestIncident (nn_Name n) \<in> incidents c \<or> request_at c (nn_Name n) = None) (client_Get_Csr E n q0)"
    and get_crb_law: "read_law Env obs (\<lambda>c b. True) (\<lambda>c. True) (client_Get_Crb E n b0)"
    and get_configmap_law: "read_law Env obs (\<lambda>c m. True) (\<lambda>c. True) (client_Get_ConfigMap E n m0)"
    and create_secret_law: "write_law Env obs (\<lambda>c. secret_at c (object_key (SMeta s)) = None) (put_secret s)
      (\<lambda>s'. gomap_lookup (SecretData s') = merged s \<and> object_key (SMeta s') = object_key (SMeta s) \<and>
         StringData s' = None) (client_Create_Secret E s)"
    and update_secret_law: "write_law Env obs (\<lambda>c. secret_at c (object_key (SMeta s)) \<noteq> None) (put_secret s)
      (\<lambda>s'. True) (client_Update_Secret E s)"
    and create_csr_law: "write_law Env obs (\<lambda>c. request_at c (Name (CsrMeta q)) = None) (put_request q)
      (\<lambda>q'. Name (CsrMeta q') = Name (CsrMeta q)) (client_Create_Csr E q)"
    and create_crb_law: "write_law Env obs (\<lambda>c. binding_at c (Name (CrbMeta b)) = None) (put_binding b)
      (\<lambda>b'. True) (client_Create_Crb E b)"
    and update_kubeconfig_law: "write_law Env obs (\<lambda>c. kubeconfig_at c (Name (KMeta k)) \<noteq> None)
      (update_status k) (\<lambda>k'. True) (client_Status_Update_Kubeconfig E k)"
    and update_csr_law: "write_law Env obs (\<lambda>c. request_at c (Name (CsrMeta q)) \<noteq> None)
      (update_conditions q) (\<lambda>q'. True) (client_Status_Update_Csr E q)"
    and approval_law: "write_law Env obs (\<lambda>c. request_at c (Name (CsrMeta q)) \<noteq> None)
      (update_conditions q) (\<lambda>q'. True) (clientset_UpdateApproval E q)"
  using assms by (simp_all add: client_law_def client_reads_def store_writes_def)

definition keeps :: "('w \<Rightarrow> store) \<Rightarrow> (store \<Rightarrow> bool) \<Rightarrow> ('w go_state, 'a) go \<Rightarrow> bool" where
  "keeps obs P m \<longleftrightarrow> (\<forall>s. P (obs (world s)) \<longrightarrow> wp m (\<lambda>r s'. P (obs (world s'))) s)"

lemma keepsD: "keeps obs P m \<Longrightarrow> P (obs (world s)) \<Longrightarrow> wp m (\<lambda>r s'. P (obs (world s'))) s"
  by (simp add: keeps_def)

lemma keeps_bind: "keeps obs P m \<Longrightarrow> (\<And>x. keeps obs P (f x)) \<Longrightarrow> keeps obs P (go_bind m f)"
  unfolding keeps_def wp_bind by (auto split: outcome.split elim!: wp_mono)

lemma keeps_basic:
  "keeps obs P (go_return x)" "keeps obs P go_panic" "keeps obs P (go_deref p)"
  "keeps obs P (record_event t r m)" "keeps obs P (now E)" "keeps obs P (gomap_store g k v)"
  by (auto simp: keeps_def go_wp split: option.split)

lemma keeps_lib: "lib_law Env obs f \<Longrightarrow> stable Env P \<Longrightarrow> keeps obs P (lib_call f)"
  by (auto simp: keeps_def intro: wp_lib_stable)

lemma keeps_read: "read_law Env obs found missing f \<Longrightarrow> stable Env P \<Longrightarrow> keeps obs P (api_call f ev)"
  unfolding keeps_def by (auto intro!: wp_read_stable)

lemma keeps_if: "keeps obs P m \<Longrightarrow> keeps obs P m' \<Longrightarrow> keeps obs P (if b then m else m')"
  by simp

lemma keeps_case:
  "(\<And>a b. keeps obs P (f a b)) \<Longrightarrow> keeps obs P (case x of (a, b) \<Rightarrow> f a b)"
  "(\<And>a. keeps obs P (g a)) \<Longrightarrow> (\<And>a. keeps obs P (h a)) \<Longrightarrow> keeps obs P (case y of Inl a \<Rightarrow> g a | Inr a \<Rightarrow> h a)"
  "keeps obs P m \<Longrightarrow> (\<And>a. keeps obs P (k a)) \<Longrightarrow> keeps obs P (case z of None \<Rightarrow> m | Some a \<Rightarrow> k a)"
  by (auto split: prod.split sum.split option.split)

lemmas keeps_rules = keeps_bind keeps_basic keeps_if keeps_case

lemma createCSR_keeps:
  assumes "client_law E obs Env" and "stable Env P"
  shows "keeps obs P (createCSR E kc)"
  unfolding createCSR_def generateKey_def Let_def createRSAKey_def createECDSAKey_def createEd25519Key_def
  by (intro keeps_rules keeps_lib[OF client_law_keys(1)[OF assms(1)] assms(2)]
      keeps_lib[OF client_law_keys(2)[OF assms(1)] assms(2)]
      keeps_lib[OF client_law_keys(3)[OF assms(1)] assms(2)]
      keeps_lib[OF client_law_keys(4)[OF assms(1)] assms(2)])

end
