(* ===== verification/System.thy ===== *)
theory System
  imports Api_Store Kubeconfig_Status
begin

text \<open>
  The operator at work in a cluster: runs of both controllers, in any order and number, any of
  them failing anywhere, between and inside steps of all other parties. The invariant that the
  whole rests on: the private key in the user secret belongs to the signing request that
  is under way, and a finished Kubeconfig has a complete user secret whose key, request,
  certificate and kubeconfig file belong together; unless an incident has been noted for this
  Kubeconfig.
\<close>

subsection \<open>The invariant\<close>

definition user_key :: "string \<Rightarrow> string \<times> string" where
  "user_key n = (''kubeconfig-operator-system'', n @ ''-client-cert'')"

text \<open>
  What those who write Kubeconfigs keep to: for each name, which predefined secret, if any, the
  field \<open>existingCSR\<close> refers to (\<open>ValidateUpdate\<close> keeps that field fixed), and for which users
  Kubeconfigs of that name are (nothing keeps this fixed; all user names if nothing is promised).
\<close>

record promises =
  predefined :: "string \<rightharpoonup> SecretRef"
  users :: "string \<Rightarrow> string set"

definition promised :: "promises \<Rightarrow> string \<Rightarrow> Kubeconfig \<Rightarrow> bool" where
  "promised pre n k \<longleftrightarrow> ExistingCSR (Spec k) = predefined pre n \<and> Username (Spec k) \<in> users pre n"

lemma promised_update [simp]: "promised pre n (k\<lparr>Status := st\<rparr>) = promised pre n k"
  by (simp add: promised_def)

text \<open>
  Where the secret of a Kubeconfig is. No two Kubeconfigs may share a secret; what happens if
  they do is a theorem of \<open>Name_Clashes\<close>.
\<close>

definition secret_place :: "promises \<Rightarrow> string \<Rightarrow> string \<times> string" where
  "secret_place pre n = (case predefined pre n of None \<Rightarrow> user_key n | Some ref \<Rightarrow> (sr_Namespace ref, sr_Name ref))"

definition distinct_secrets :: "promises \<Rightarrow> bool" where
  "distinct_secrets pre \<longleftrightarrow> inj (secret_place pre)"

lemma secret_place_eq: "distinct_secrets pre \<Longrightarrow> secret_place pre m = secret_place pre n \<longleftrightarrow> m = n"
  by (auto simp: distinct_secrets_def dest: injD)

lemma secret_place_own [simp]: "predefined pre n = None \<Longrightarrow> secret_place pre n = user_key n"
  by (simp add: secret_place_def)

lemma own_secrets_distinct: "predefined pre = Map.empty \<Longrightarrow> distinct_secrets pre"
  by (simp add: distinct_secrets_def inj_def user_key_def)

text \<open>The status says that the kubeconfig was created.\<close>

definition finished :: "'w env \<Rightarrow> Kubeconfig \<Rightarrow> bool" where
  "finished E k \<longleftrightarrow> (\<exists>f. meta_FindStatusCondition E (Conditions (Status k)) ConditionTypeKubeconfigFinished = Some f \<and>
     c_Status f = ConditionTrue)"

text \<open>
  The request is a PEM block that has been signed with a private key, for one of the users, and \<open>key\<close> is
  the file of that private key.
\<close>

definition issued :: "'w env \<Rightarrow> promises \<Rightarrow> string \<Rightarrow> bytes \<Rightarrow> bytes \<Rightarrow> bool" where
  "issued E pre n key request \<longleftrightarrow> (\<exists>k t der w w'. pk_CommonName (tp_Subject t) \<in> users pre n \<and>
     x509_CreateCertificateRequest E t (Some k) w = (Inr der, w') \<and>
     key = key_file E k \<and> request = pem_Encode ''CERTIFICATE REQUEST'' der)"

lemma generated_issued:
  assumes "createCSR E kc s = (Ret (Some key, Some req, None), s')" and "Username (Spec kc) \<in> users pre n"
  shows "issued E pre n key req"
proof -
  obtain csr k der w w' where "key = key_file E k" "req = pem_Encode ''CERTIFICATE REQUEST'' der"
    "x509_CreateCertificateRequest E (csrTemplate (Username (Spec kc)) csr) (Some k) w = (Inr der, w')"
    using wp_createCSR_pair[of E kc s] assms(1) by (auto simp: wp_def)
  moreover have "pk_CommonName (tp_Subject (csrTemplate (Username (Spec kc)) csr)) = Username (Spec kc)"
    by (simp add: csrTemplate_def Let_def)
  ultimately show ?thesis using assms(2) unfolding issued_def by metis
qed

definition keys_match :: "'w env \<Rightarrow> promises \<Rightarrow> string \<Rightarrow> bytes \<Rightarrow> (string \<rightharpoonup> bytes) \<Rightarrow> bool" where
  "keys_match E pre n request d \<longleftrightarrow> (\<exists>key. d CertificateSecretPrivKeyKey = Some key \<and>
     d CertificateSecretCSRKey = Some request \<and> issued E pre n key request)"

text \<open>A user secret that serves: the certificate of the granted request for its key, and a file with both for one of the users.\<close>

definition complete :: "'w env \<Rightarrow> promises \<Rightarrow> string \<Rightarrow> (string \<rightharpoonup> bytes) \<Rightarrow> bool" where
  "complete E pre n d \<longleftrightarrow> (\<exists>key csr user cluster ca. d CertificateSecretPrivKeyKey = Some key \<and>
     d CertificateSecretCSRKey = Some (Request csr) \<and> issued E pre n key (Request csr) \<and>
     grantable csr \<and> d CertificateSecretCertKey = Some (Certificate csr) \<and>
     d KubeconfigKey = Some (Marshal E (user_config user cluster ca (Certificate csr) key)) \<and> user \<in> users pre n)"

text \<open>
  Something has happened to the objects of \<open>n\<close> that the operator cannot repair: another party (which a
  second replica of the operator is too) has changed its secret, created or changed its request or
  declared it finished, or a read of its secret or its request was not up to date.
\<close>

definition disturbed :: "promises \<Rightarrow> string \<Rightarrow> store \<Rightarrow> bool" where
  "disturbed pre n c \<longleftrightarrow> SecretIncident (secret_place pre n) \<in> incidents c \<or>
     RequestIncident n \<in> incidents c \<or> KubeconfigIncident n \<in> incidents c"

definition sound :: "'w env \<Rightarrow> promises \<Rightarrow> string \<Rightarrow> store \<Rightarrow> bool" where
  "sound E pre n c \<longleftrightarrow>
    (\<forall>q. request_at c n = Some q \<longrightarrow>
       (\<exists>d. secret_at c (secret_place pre n) = Some d \<and> keys_match E pre n (Request q) d)) \<and>
    (\<forall>k. kubeconfig_at c n = Some k \<and> finished E k \<longrightarrow>
       (\<exists>d. secret_at c (secret_place pre n) = Some d \<and> complete E pre n d))"

definition healthy :: "'w env \<Rightarrow> promises \<Rightarrow> string \<Rightarrow> store \<Rightarrow> bool" where
  "healthy E pre n c \<longleftrightarrow> (\<forall>k. kubeconfig_at c n = Some k \<longrightarrow> promised pre n k) \<and>
    (disturbed pre n c \<or> sound E pre n c)"

definition safe :: "'w env \<Rightarrow> promises \<Rightarrow> store \<Rightarrow> bool" where
  "safe E pre c \<longleftrightarrow> (\<forall>n. healthy E pre n c)"

subsection \<open>Other parties\<close>

text \<open>
  What the others may do to the objects of one Kubeconfig: whatever they like with its secret, its
  request and its conditions, but it is noted as an incident if they touch the secret once it is there,
  create a request or change what it requests (approving, denying, signing and deleting it is
  theirs), or declare the Kubeconfig finished. They do not break what is promised for its specification.
\<close>

definition others :: "'w env \<Rightarrow> promises \<Rightarrow> string \<Rightarrow> store \<Rightarrow> store \<Rightarrow> bool" where
  "others E pre n c c' \<longleftrightarrow>
    (\<forall>k'. kubeconfig_at c' n = Some k' \<longrightarrow>
       promised pre n k' \<or> (\<exists>k. kubeconfig_at c n = Some k \<and> \<not> promised pre n k)) \<and>
    (disturbed pre n c' \<or>
      (secret_at c (secret_place pre n) \<noteq> None \<longrightarrow>
         secret_at c' (secret_place pre n) = secret_at c (secret_place pre n)) \<and>
      (\<forall>q'. request_at c' n = Some q' \<longrightarrow> (\<exists>q. request_at c n = Some q \<and> Request q' = Request q)) \<and>
      (\<forall>k'. kubeconfig_at c' n = Some k' \<longrightarrow> finished E k' \<longrightarrow> (\<exists>k. kubeconfig_at c n = Some k \<and> finished E k)))"

definition interference :: "'w env \<Rightarrow> promises \<Rightarrow> store \<Rightarrow> store \<Rightarrow> bool" where
  "interference E pre c c' \<longleftrightarrow> incidents c \<subseteq> incidents c' \<and> (\<forall>n. others E pre n c c')"

lemma others_refl: "others E pre n c c"
  by (auto simp: others_def)

lemma interference_refl: "interference E pre c c"
  by (simp add: interference_def others_refl)

lemma disturbed_mono: "incidents c \<subseteq> incidents c' \<Longrightarrow> disturbed pre n c \<Longrightarrow> disturbed pre n c'"
  by (auto simp: disturbed_def)

lemma interferenceD:
  assumes "interference E pre c c'"
  shows "others E pre n c c'" "disturbed pre n c \<Longrightarrow> disturbed pre n c'"
  using assms disturbed_mono by (auto simp: interference_def)

lemma others_healthy:
  assumes o: "others E pre n c c'" and i: "disturbed pre n c \<Longrightarrow> disturbed pre n c'" and h: "healthy E pre n c"
  shows "healthy E pre n c'"
proof -
  have "sound E pre n c'" if nd: "\<not> disturbed pre n c'"
  proof -
    have s: "sound E pre n c" using h i nd by (auto simp: healthy_def)
    show ?thesis
      unfolding sound_def
    proof (intro conjI allI impI)
      fix q' assume "request_at c' n = Some q'"
      then obtain q where "request_at c n = Some q" "Request q' = Request q"
        using o nd by (auto simp: others_def)
      then show "\<exists>d. secret_at c' (secret_place pre n) = Some d \<and> keys_match E pre n (Request q') d"
        using o s nd by (auto simp: others_def sound_def)
    next
      fix k assume "kubeconfig_at c' n = Some k \<and> finished E k"
      then obtain k0 where "kubeconfig_at c n = Some k0" "finished E k0"
        using o nd by (auto simp: others_def)
      then show "\<exists>d. secret_at c' (secret_place pre n) = Some d \<and> complete E pre n d"
        using o s nd by (auto simp: others_def sound_def)
    qed
  qed
  moreover have "promised pre n k" if "kubeconfig_at c' n = Some k" for k
    using o h that by (auto simp: others_def healthy_def)
  ultimately show ?thesis by (auto simp: healthy_def)
qed

lemma stable_safe: "stable (interference E pre) (safe E pre)"
  unfolding stable_def safe_def using others_healthy interferenceD by blast

text \<open>The state of a run on the Kubeconfig \<open>n\<close>, before and after the user secret is at hand.\<close>

definition active :: "'w env \<Rightarrow> promises \<Rightarrow> string \<Rightarrow> store \<Rightarrow> bool" where
  "active E pre n c \<longleftrightarrow> safe E pre c \<and>
     (disturbed pre n c \<or> (\<forall>k. kubeconfig_at c n = Some k \<longrightarrow> \<not> finished E k))"

definition ready :: "'w env \<Rightarrow> promises \<Rightarrow> string \<Rightarrow> (string \<rightharpoonup> bytes) \<Rightarrow> store \<Rightarrow> bool" where
  "ready E pre n d c \<longleftrightarrow> active E pre n c \<and> (disturbed pre n c \<or> secret_at c (secret_place pre n) = Some d)"

definition unrequested :: "'w env \<Rightarrow> promises \<Rightarrow> string \<Rightarrow> (string \<rightharpoonup> bytes) \<Rightarrow> store \<Rightarrow> bool" where
  "unrequested E pre n d c \<longleftrightarrow> ready E pre n d c \<and> (disturbed pre n c \<or> request_at c n = None)"

text \<open>A fact about the data, unless there was an incident.\<close>

definition held :: "'w env \<Rightarrow> promises \<Rightarrow> string \<Rightarrow> (string \<rightharpoonup> bytes) \<Rightarrow> bool \<Rightarrow> store \<Rightarrow> bool" where
  "held E pre n d A c \<longleftrightarrow> ready E pre n d c \<and> (disturbed pre n c \<or> A)"

definition mine :: "'w env \<Rightarrow> promises \<Rightarrow> string \<Rightarrow> Kubeconfig \<Rightarrow> bool" where
  "mine E pre n kc \<longleftrightarrow> Name (KMeta kc) = n \<and> Username (Spec kc) \<in> users pre n \<and> \<not> finished E kc"

definition in_hand :: "promises \<Rightarrow> string \<Rightarrow> Secret \<Rightarrow> bool" where
  "in_hand pre n sec \<longleftrightarrow> object_key (SMeta sec) = secret_place pre n \<and> StringData sec = None"

lemma stable_or_disturbed:
  assumes "stable (interference E pre) P" and "\<And>c c'. interference E pre c c' \<Longrightarrow> \<not> disturbed pre n c' \<Longrightarrow> P c \<Longrightarrow> R c \<Longrightarrow> R c'"
  shows "stable (interference E pre) (\<lambda>c. P c \<and> (disturbed pre n c \<or> R c))"
  using assms interferenceD(2) unfolding stable_def by blast

lemma stable_active: "stable (interference E pre) (active E pre n)"
  unfolding active_def using interferenceD(1)[where n = n]
  by (intro stable_or_disturbed[OF stable_safe]) (force simp: others_def)

lemma stable_ready: "stable (interference E pre) (ready E pre n d)"
  unfolding ready_def using interferenceD(1)[where n = n]
  by (intro stable_or_disturbed[OF stable_active]) (force simp: others_def)

lemma stable_unrequested: "stable (interference E pre) (unrequested E pre n d)"
  unfolding unrequested_def
proof (rule stable_or_disturbed[OF stable_ready])
  fix c c' assume "interference E pre c c'" "\<not> disturbed pre n c'" "request_at c n = None"
  then show "request_at c' n = None"
    using interferenceD(1)[of E pre c c' n] by (cases "request_at c' n") (auto simp: others_def)
qed

lemma stable_held: "stable (interference E pre) (held E pre n d A)"
  unfolding held_def by (rule stable_or_disturbed[OF stable_ready])

lemma active_safe: "active E pre n c \<Longrightarrow> safe E pre c"
  by (simp add: active_def)

lemma ready_safe: "ready E pre n d c \<Longrightarrow> safe E pre c"
  by (simp add: ready_def active_def)

lemma unrequested_safe: "unrequested E pre n d c \<Longrightarrow> safe E pre c"
  by (simp add: unrequested_def ready_def active_def)

lemma held_safe: "held E pre n d A c \<Longrightarrow> safe E pre c"
  by (auto simp: held_def ready_safe)

lemma held_ready: "held E pre n d A c \<Longrightarrow> ready E pre n d c"
  by (simp add: held_def)

lemma disturbed_writes [simp]:
  "disturbed pre n (put_secret s c) = disturbed pre n c" "disturbed pre n (put_request q c) = disturbed pre n c"
  "disturbed pre n (put_binding b c) = disturbed pre n c" "disturbed pre n (update_status k c) = disturbed pre n c"
  "disturbed pre n (update_conditions q c) = disturbed pre n c"
  by (simp_all add: disturbed_def put_secret_def put_request_def put_binding_def update_status_def update_conditions_def)

subsection \<open>What the operator's own writes do\<close>

lemma finished_update [simp]:
  "finished E (k\<lparr>Status := Status k'\<rparr>) = finished E k'" "finished E (k'\<lparr>Spec := sp\<rparr>) = finished E k'"
  "finished E (k'\<lparr>KMeta := m\<rparr>) = finished E k'"
  by (simp_all add: finished_def)

lemma put_secret_safe:
  assumes ds: "distinct_secrets pre" and "active E pre n c" and "object_key (SMeta s) = secret_place pre n"
    and "\<And>q. \<not> disturbed pre n c \<Longrightarrow> request_at c n = Some q \<Longrightarrow> keys_match E pre n (Request q) (merged s)"
  shows "active E pre n (put_secret s c)"
proof -
  have "healthy E pre m (put_secret s c)" for m
  proof (cases "m = n")
    case True
    have "sound E pre n (put_secret s c)" if "\<not> disturbed pre n c"
      using assms(2-4) that by (auto simp: active_def sound_def) (simp_all add: put_secret_def)
    then show ?thesis using True assms(2) by (auto simp: active_def safe_def healthy_def) (auto simp: put_secret_def)
  next
    case False
    then have "secret_place pre m \<noteq> secret_place pre n" using secret_place_eq[OF ds] by simp
    then have "sound E pre m (put_secret s c) = sound E pre m c"
      using assms(3) by (auto simp: sound_def put_secret_def)
    then show ?thesis using assms(2) by (auto simp: active_def safe_def healthy_def) (auto simp: put_secret_def)
  qed
  then show ?thesis using assms(2) by (auto simp: active_def safe_def) (simp add: put_secret_def)
qed

lemma put_request_safe:
  assumes "ready E pre n d c" and "Name (CsrMeta q) = n" and "keys_match E pre n (Request q) d"
  shows "ready E pre n d (put_request q c)"
proof -
  have "healthy E pre m (put_request q c)" for m
  proof -
    have "sound E pre m (put_request q c)" if "\<not> disturbed pre m c"
      using assms that by (cases "m = n") (auto simp: ready_def active_def safe_def healthy_def sound_def put_request_def)
    then show ?thesis using assms(1) by (auto simp: ready_def active_def safe_def healthy_def) (auto simp: put_request_def)
  qed
  then show ?thesis using assms(1) by (auto simp: ready_def active_def safe_def) (simp_all add: put_request_def)
qed

lemma update_status_safe:
  assumes "safe E pre c" and "kubeconfig_at c n \<noteq> None" and "Name (KMeta k) = n"
    and "\<not> disturbed pre n c \<Longrightarrow> finished E k \<Longrightarrow> \<exists>d. secret_at c (secret_place pre n) = Some d \<and> complete E pre n d"
  shows "safe E pre (update_status k c)"
proof -
  have "healthy E pre m (update_status k c)" for m
  proof -
    have "healthy E pre m c" using assms(1) by (simp add: safe_def)
    moreover have "sound E pre m (update_status k c)" if "\<not> disturbed pre m c" "sound E pre m c"
      using assms(2-4) that by (cases "m = n") (auto simp: sound_def update_status_def)
    ultimately show ?thesis using assms(2,3) by (auto simp: healthy_def) (auto simp: update_status_def split: if_splits)
  qed
  then show ?thesis by (simp add: safe_def)
qed

lemma put_binding_interference: "interference E pre c (put_binding b c)"
  by (auto simp: interference_def others_def put_binding_def)

lemma update_conditions_interference:
  "request_at c (Name (CsrMeta q)) \<noteq> None \<Longrightarrow> interference E pre c (update_conditions q c)"
  by (auto simp: interference_def others_def update_conditions_def)

subsection \<open>Runs of the Kubeconfig reconciler\<close>

text \<open>
  What the runs rely on: the store, condition lists, owner references that change no name, reads
  that do not touch the object when they fail, and Kubeconfigs that do not share a secret.
\<close>

definition owner_names :: "'w env \<Rightarrow> bool" where
  "owner_names E \<longleftrightarrow> (\<forall>k m. Name (set_owner E k m) = Name m \<and> Namespace (set_owner E k m) = Namespace m)"

definition cluster_law :: "'w env \<Rightarrow> promises \<Rightarrow> ('w \<Rightarrow> store) \<Rightarrow> bool" where
  "cluster_law E pre obs \<longleftrightarrow> client_law E obs (interference E pre) \<and> conditions_law E \<and> owner_names E \<and>
     failed_get_law E \<and> distinct_secrets pre"

lemma cluster_lawD:
  assumes "cluster_law E pre obs"
  shows "client_law E obs (interference E pre)" "conditions_law E" "owner_names E" "failed_get_law E"
    "distinct_secrets pre"
  using assms by (simp_all add: cluster_law_def)

lemma finished_set:
  assumes "conditions_law E"
  shows "finished E (k\<lparr>Status := st\<lparr>Conditions := meta_SetStatusCondition E at cs c\<rparr>\<rparr>) \<longleftrightarrow>
    (if c_Type c = ConditionTypeKubeconfigFinished then c_Status c = ConditionTrue
     else finished E (k\<lparr>Status := st\<lparr>Conditions := cs\<rparr>\<rparr>))"
proof -
  have law: "condition_list c_Type c_Status (meta_FindStatusCondition E) (meta_SetStatusCondition E at)"
    using assms by (simp add: conditions_law_def)
  have "(\<exists>f. meta_FindStatusCondition E cs' ConditionTypeKubeconfigFinished = Some f \<and> c_Status f = ConditionTrue)
      \<longleftrightarrow> condition_list.status_of c_Status (meta_FindStatusCondition E) cs' ConditionTypeKubeconfigFinished = Some ConditionTrue" for cs'
    by (auto simp: condition_list.status_of_def[OF law])
  then show ?thesis by (auto simp: finished_def condition_list.status_of_set[OF law])
qed

lemma mine_fields:
  "mine E pre n (kc\<lparr>Status := (Status kc)\<lparr>Phase := p\<rparr>\<rparr>) = mine E pre n kc"
  "mine E pre n (kc\<lparr>Status := (Status kc)\<lparr>UserSecret := u\<rparr>\<rparr>) = mine E pre n kc"
  "mine E pre n (kc\<lparr>Status := (Status kc)\<lparr>StatusCsr := r\<rparr>\<rparr>) = mine E pre n kc"
  "mine E pre n (kc\<lparr>Status := (Status kc)\<lparr>StatusKubeconfig := t\<rparr>\<rparr>) = mine E pre n kc"
  by (simp_all add: mine_def finished_def)

lemma bind_condition:
  assumes "conditions_law E" and "mine E pre n kc" and "t \<noteq> ConditionTypeKubeconfigFinished \<or> st \<noteq> ConditionTrue"
    and "\<And>kc'. mine E pre n kc' \<Longrightarrow> Spec kc' = Spec kc \<Longrightarrow> wp (k kc') Q s"
  shows "wp (go_bind (SetCondition E kc t st r m) k) Q s"
  unfolding wp_bind wp_SetCondition outcome.case
proof (rule assms(4))
  let ?kc = "kc\<lparr>Status := (Status kc)\<lparr>Conditions := meta_SetStatusCondition E (time_Now E (world s))
    (Conditions (Status kc)) (new_condition t st 0 r m)\<rparr>\<rparr>"
  have "finished E (kc\<lparr>Status := (Status kc)\<lparr>Conditions := Conditions (Status kc)\<rparr>\<rparr>) = finished E kc"
    by (simp add: finished_def)
  then show "mine E pre n ?kc"
    using assms(2,3) by (auto simp: mine_def finished_set[OF assms(1)])
qed simp

text \<open>Writing a status that is not finished.\<close>

lemma bind_status:
  assumes law: "cluster_law E pre obs" and "mine E pre n kc" and "safe E pre (obs (world s))"
    and "\<And>x w'. safe E pre (obs w') \<Longrightarrow> wp (k x) Q
      \<lparr>world = w', calls = calls s @ [UpdateKubeconfigStatus kc (fst x)]\<rparr>"
  shows "wp (go_bind (Status_Update_Kubeconfig E kc) k) Q s"
  unfolding Status_Update_Kubeconfig_def
proof (rule bind_write[OF update_kubeconfig_law[OF cluster_lawD(1)[OF law]] stable_safe assms(3) stable_safe])
  fix c assume "safe E pre c" and "kubeconfig_at c (Name (KMeta kc)) \<noteq> None"
  then show "safe E pre (update_status kc c)"
    using assms(2) by (intro update_status_safe[where n = n]) (auto simp: mine_def)
next
  fix e obj w' assume "safe E pre (obs w') \<or> safe E pre (obs w')"
  then show "wp (k (Some e, obj)) Q \<lparr>world = w', calls = calls s @ [UpdateKubeconfigStatus kc (Some e)]\<rparr>"
    using assms(4)[of w' "(Some e, obj)"] by simp
next
  fix obj w' assume "safe E pre (obs w')"
  then show "wp (k (None, obj)) Q \<lparr>world = w', calls = calls s @ [UpdateKubeconfigStatus kc None]\<rparr>"
    using assms(4)[of w' "(None, obj)"] by simp
qed

text \<open>The user secret: read, or created with three empty entries while no request exists.\<close>

lemma user_secret_key:
  "Name (KMeta kc) = n \<Longrightarrow> nn_key (user_secret_name kc) = user_key n"
  "owner_names E \<Longrightarrow> Name (KMeta kc) = n \<Longrightarrow>
     object_key (SMeta (createUserSecret E kc (user_secret_name kc))) = user_key n"
  by (simp_all add: nn_key_def user_secret_name_def user_key_def createUserSecret_def object_key_def
      owner_names_def)

text \<open>
  What the part that looks for the secret hands on: the secret of this Kubeconfig as it is stored,
  or, after a failed read of a predefined secret, an object without data.
\<close>

definition secret_done :: "'w env \<Rightarrow> promises \<Rightarrow> ('w \<Rightarrow> store) \<Rightarrow> string \<Rightarrow> KubeconfigSpec \<Rightarrow>
    (reconcile_return + (Kubeconfig \<times> Secret)) outcome \<Rightarrow> 'w go_state \<Rightarrow> bool" where
  "secret_done E pre obs n spec r s \<longleftrightarrow> safe E pre (obs (world s)) \<and>
    (\<forall>kc sec. r = Ret (Inr (kc, sec)) \<longrightarrow> mine E pre n kc \<and> Spec kc = spec \<and>
       (SecretData sec = None \<or>
        in_hand pre n sec \<and> ready E pre n (gomap_lookup (SecretData sec)) (obs (world s))))"

lemma put_secret_ready:
  "active E pre n (put_secret s c) \<Longrightarrow> object_key (SMeta s) = secret_place pre n \<Longrightarrow> merged s = d \<Longrightarrow>
     ready E pre n d (put_secret s c)"
  by (simp add: ready_def) (simp add: put_secret_def)

lemma put_new_secret:
  assumes "distinct_secrets pre" and "active E pre n c" and "object_key (SMeta s) = secret_place pre n"
    and "secret_at c (secret_place pre n) = None"
  shows "ready E pre n (merged s) (put_secret s c)"
proof -
  have "healthy E pre n c" using assms(2) by (simp add: active_def safe_def)
  then have "\<not> disturbed pre n c \<Longrightarrow> request_at c n = None"
    using assms(4) by (cases "request_at c n") (auto simp: healthy_def sound_def)
  then show ?thesis
    using put_secret_safe[OF assms(1-3)] assms(3) by (simp add: ready_def) (simp add: put_secret_def)
qed

lemma read_ready:
  assumes "active E pre n c" and "object_key (SMeta sec) = secret_place pre n \<and> StringData sec = None \<and>
      (SecretIncident (secret_place pre n) \<in> incidents c \<or> secret_read (secret_place pre n) c sec)"
  shows "in_hand pre n sec \<and> ready E pre n (gomap_lookup (SecretData sec)) c"
  using assms by (auto simp: in_hand_def ready_def disturbed_def secret_read_def)

lemma own_secret_safe:
  assumes law: "cluster_law E pre obs" and m: "mine E pre n kc" and a: "active E pre n (obs (world s))"
    and own: "predefined pre n = None"
  shows "wp (reconcileOwnSecret E kc) (secret_done E pre obs n (Spec kc)) s"
proof -
  note L = cluster_lawD(1)[OF law] and C = cluster_lawD(2)[OF law]
  let ?new = "createUserSecret E kc (user_secret_name kc)"
  have key: "object_key (SMeta ?new) = secret_place pre n" "nn_key (user_secret_name kc) = secret_place pre n"
    using user_secret_key cluster_lawD(3)[OF law] m own by (auto simp: mine_def)
  show ?thesis
    unfolding reconcileOwnSecret_def Get_Secret_def
  proof (rule bind_read[OF get_secret_law[OF L] stable_active a], goal_cases)
    case (1 err sec w' c)
    show ?case
    proof (cases "IsNotFound err")
      case True
      show ?thesis
        unfolding prod.case if_P[OF True] Create_Secret_def
      proof (rule bind_write[OF create_secret_law[OF L] stable_active[of E pre n] _
            stable_ready[of E pre n "merged ?new"]], goal_cases)
        case 1
        show ?case using \<open>active E pre n (obs w')\<close> by simp
      next
        case (2 c)
        then show ?case using put_new_secret[OF cluster_lawD(5)[OF law] _ key(1)] key(1) by simp
      next
        case (3 e obj w')
        then have "safe E pre (obs w')" using active_safe ready_safe by blast
        then show ?case
          unfolding prod.case option.case
          by (intro bind_event bind_condition[OF C m] bind_status[OF law, where n = n])
            (auto simp: SetPhase_def mine_fields wp_return secret_done_def)
      next
        case (4 obj w')
        then show ?case
          unfolding prod.case option.case
          by (intro bind_condition[OF C])
            (use m key in \<open>auto simp: SetUserSecret_def mine_fields wp_return secret_done_def in_hand_def ready_safe\<close>)
      qed
    next
      case False
      show ?thesis
      proof (cases err)
        case None
        then have "in_hand pre n sec \<and> ready E pre n (gomap_lookup (SecretData sec)) c"
          using 1 key by (intro read_ready) simp_all
        then have "ready E pre n (gomap_lookup (SecretData sec)) (obs w')" "in_hand pre n sec"
          using stableD[OF stable_ready 1(2)] by auto
        then show ?thesis using m by (simp add: None wp_return secret_done_def ready_safe)
      next
        case (Some e)
        then show ?thesis using False 1(3) by (simp add: wp_return secret_done_def active_safe)
      qed
    qed
  qed
qed

lemma adoptSecret_mine:
  "owner_names E \<Longrightarrow> mine E pre n kc \<Longrightarrow> adoptSecret E kc sec = (kc', sec') \<Longrightarrow>
     mine E pre n kc' \<and> Spec kc' = Spec kc \<and> SecretData sec' = SecretData sec \<and>
     object_key (SMeta sec') = object_key (SMeta sec) \<and> StringData sec' = StringData sec"
  by (auto simp: adoptSecret_def Let_def SetUserSecret_def mine_fields object_key_def owner_names_def)

lemma predefined_secret_safe:
  assumes law: "cluster_law E pre obs" and m: "mine E pre n kc" and a: "active E pre n (obs (world s))"
    and ref: "predefined pre n = Some ref"
  shows "wp (reconcileExistingSecret E kc ref) (secret_done E pre obs n (Spec kc)) s"
proof -
  note L = cluster_lawD(1)[OF law]
  let ?name = "\<lparr>nn_Namespace = sr_Namespace ref, nn_Name = sr_Name ref\<rparr>"
  have key: "nn_key ?name = secret_place pre n" by (simp add: nn_key_def secret_place_def ref)
  show ?thesis
    unfolding reconcileExistingSecret_def
  proof (rule bind_get_secret[OF get_secret_law[OF L] cluster_lawD(4)[OF law] stable_active a], goal_cases)
    case (1 err sec w' c)
    obtain kc' sec' where ad: "adoptSecret E kc sec = (kc', sec')" by fastforce
    note adopted = adoptSecret_mine[OF cluster_lawD(3)[OF law] m ad]
    have failed: "SecretData sec' = None" if "err \<noteq> None"
      using 1(6) that adopted by (simp add: zero_secret_def)
    have found: "in_hand pre n sec' \<and> ready E pre n (gomap_lookup (SecretData sec')) (obs w')" if "err = None"
    proof -
      have "in_hand pre n sec \<and> ready E pre n (gomap_lookup (SecretData sec)) c"
        using 1(1,4) that key by (intro read_ready) simp_all
      then show ?thesis using stableD[OF stable_ready 1(2)] adopted by (auto simp: in_hand_def)
    qed
    show ?case
      using 1(3) adopted failed found
      by (auto simp: wp_return ad secret_done_def active_safe wp_bind[of "record_event t r m" for t r m]
          wp_record_event split: option.split)
  qed
qed

lemma user_secret_safe:
  assumes "cluster_law E pre obs" and "mine E pre n kc" and "active E pre n (obs (world s))"
    and "ExistingCSR (Spec kc) = predefined pre n"
  shows "wp (reconcileUserSecret E kc) (secret_done E pre obs n (Spec kc)) s"
  using assms own_secret_safe predefined_secret_safe
  by (cases "predefined pre n") (auto simp: reconcileUserSecret_def)

text \<open>From the user secret on, a run only has to leave a healthy store.\<close>

definition stays_safe :: "'w env \<Rightarrow> promises \<Rightarrow> ('w \<Rightarrow> store) \<Rightarrow> 'a outcome \<Rightarrow> 'w go_state \<Rightarrow> bool" where
  "stays_safe E pre obs r s = safe E pre (obs (world s))"

lemma bind_createCSR:
  assumes "client_law E obs Env" and "stable Env P" and "P (obs (world s))"
    and "\<And>r s'. createCSR E kc s = (Ret r, s') \<Longrightarrow> P (obs (world s')) \<Longrightarrow> wp (k r) Q s'"
    and "\<And>s'. P (obs (world s')) \<Longrightarrow> Q Panic s'"
  shows "wp (go_bind (createCSR E kc) k) Q s"
proof -
  have "P (obs (world (snd (createCSR E kc s))))"
    using keepsD[OF createCSR_keeps[OF assms(1,2)] assms(3)] by (simp add: wp_iff)
  then show ?thesis
    using assms(4,5) by (cases "createCSR E kc s") (auto simp: wp_def go_bind_def split: outcome.split)
qed

lemma submitCSR_safe:
  assumes law: "cluster_law E pre obs" and m: "mine E pre n kc" and h: "in_hand pre n sec"
    and u: "unrequested E pre n (gomap_lookup (SecretData sec)) (obs (world s))" and i: "issued E pre n key req"
  shows "wp (submitCSR E kc sec key req) (stays_safe E pre obs) s"
proof (cases "SecretData sec")
  case None
  then show ?thesis
    using u by (simp add: submitCSR_def wp_bind wp_store stays_safe_def unrequested_safe)
next
  case (Some d)
  note L = cluster_lawD(1)[OF law] and C = cluster_lawD(2)[OF law]
  let ?d = "d(CertificateSecretPrivKeyKey \<mapsto> key, CertificateSecretCSRKey \<mapsto> req)"
  let ?sec = "sec\<lparr>SecretData := Some ?d\<rparr>"
  have sec: "object_key (SMeta ?sec) = secret_place pre n" "merged ?sec = ?d"
    using h by (simp_all add: in_hand_def merged_plain)
  have km: "keys_match E pre n req ?d" using i by (simp add: keys_match_def)
  show ?thesis
    unfolding submitCSR_def wp_bind[of "gomap_store m k v" for m k v] wp_store Some option.case outcome.case
      Update_Secret_def
  proof (rule bind_write[OF update_secret_law[OF L]
        stable_unrequested[of E pre n "gomap_lookup (SecretData sec)"] _ stable_unrequested[of E pre n ?d]], goal_cases)
    case 1
    show ?case by (rule u)
  next
    case (2 c)
    then have "active E pre n c" "disturbed pre n c \<or> request_at c n = None" by (auto simp: unrequested_def ready_def)
    then have "active E pre n (put_secret ?sec c)" by (intro put_secret_safe[OF cluster_lawD(5)[OF law] _ sec(1)]) auto
    then show ?case using 2(1) sec by (auto simp: unrequested_def ready_def) (simp_all add: put_secret_def)
  next
    case (3 e obj w')
    then show ?case
      unfolding prod.case option.case
      by (intro bind_event) (auto simp: wp_return stays_safe_def unrequested_safe)
  next
    case (4 obj w')
    let ?csr = "createCsr E kc req"
    have name: "Name (CsrMeta ?csr) = n" and r: "Request ?csr = req"
      using m cluster_lawD(3)[OF law] by (simp_all add: createCsr_def Let_def owner_names_def mine_def)
    show ?case
      unfolding prod.case option.case Let_def Create_Csr_def
    proof (rule bind_event, rule bind_write[OF create_csr_law[OF L] stable_ready[of E pre n ?d] _ stable_ready[of E pre n ?d]],
        goal_cases)
      case 1
      then show ?case using 4 by (simp add: unrequested_def)
    next
      case (2 c)
      then show ?case using put_request_safe[OF _ name] km r by simp
    next
      case (3 e obj w')
      then show ?case
        unfolding prod.case option.case
        by (intro bind_event) (auto simp: wp_return stays_safe_def ready_safe)
    next
      case (4 obj w')
      then show ?case
        unfolding prod.case option.case
        by (intro bind_condition[OF C] bind_event bind_status[OF law, where n = n])
          (use m in \<open>auto simp: mine_fields SetPhase_def wp_return stays_safe_def ready_safe\<close>)
    qed
  qed
qed

lemma reconcileFreshCSR_safe:
  assumes law: "cluster_law E pre obs" and m: "mine E pre n kc" and h: "in_hand pre n sec"
    and u: "unrequested E pre n (gomap_lookup (SecretData sec)) (obs (world s))"
  shows "wp (reconcileFreshCSR E kc sec) (stays_safe E pre obs) s"
  unfolding reconcileFreshCSR_def
proof (rule bind_event, rule bind_createCSR[OF cluster_lawD(1)[OF law]
      stable_unrequested[of E pre n "gomap_lookup (SecretData sec)"]], goal_cases)
  case 1
  show ?case using u by simp
next
  case (2 r s')
  obtain key req err where r: "r = (key, req, err)" by (cases r)
  have safe: "safe E pre (obs (world s'))" using 2(2) unrequested_safe by blast
  show ?case
  proof (cases "err = None \<and> key \<noteq> None \<and> req \<noteq> None")
    case True
    then obtain k q where kq: "r = (Some k, Some q, None)" by (auto simp: r)
    then have "issued E pre n k q" using 2(1) m generated_issued by (auto simp: mine_def)
    then show ?thesis
      using submitCSR_safe[OF law m h 2(2)] by (simp add: kq wp_bind wp_deref)
  next
    case False
    then show ?thesis using safe
      by (auto simp: r go_wp Let_def stays_safe_def split: option.split)
  qed
qed (auto simp: stays_safe_def unrequested_safe)

lemma reconcileDenied_safe:
  assumes law: "cluster_law E pre obs" and m: "mine E pre n kc" and a: "safe E pre (obs (world s))"
  shows "wp (reconcileDenied E kc) (stays_safe E pre obs) s"
  unfolding reconcileDenied_def
  by (intro bind_condition[OF cluster_lawD(2)[OF law]] bind_status[OF law, where n = n])
    (use m a in \<open>auto simp: mine_fields SetPhase_def wp_return stays_safe_def\<close>)

lemma bind_createKubeconfig:
  assumes "client_law E obs Env" and "stable Env P" and "P (obs (world s))"
    and "\<And>e s'. P (obs (world s')) \<Longrightarrow> wp (k ([], Some e)) Q s'"
    and "\<And>cl ca s'. P (obs (world s')) \<Longrightarrow> wp (k (Marshal E (user_config (Username (Spec kc)) cl ca
      (gomap_index (SecretData sec) CertificateSecretCertKey)
      (gomap_index (SecretData sec) CertificateSecretPrivKeyKey)), None)) Q s'"
    and "\<And>s'. P (obs (world s')) \<Longrightarrow> Q Panic s'"
  shows "wp (go_bind (createKubeconfig E kc sec) k) Q s"
  unfolding wp_bind
proof (rule wp_createKubeconfigI)
  fix err cm w'
  assume "client_Get_ConfigMap E kube_root_ca_name zero_configmap (world s) = ((err, cm), w')"
  then obtain c where "Env (obs (world s)) c" "Env c (obs w')"
    using get_configmap_law[OF assms(1), of kube_root_ca_name zero_configmap]
    unfolding read_law_def by blast
  then have P: "P (obs w')" using stableD[OF assms(2)] assms(3) by blast
  show "(case err of
       Some e \<Rightarrow> (\<lambda>r s'. case r of Ret x \<Rightarrow> wp (k x) Q s' | Panic \<Rightarrow> Q Panic s') (Ret ([], Some e))
     | None \<Rightarrow> (case SpecCluster (Spec kc) of
            None \<Rightarrow> (\<lambda>r s'. case r of Ret x \<Rightarrow> wp (k x) Q s' | Panic \<Rightarrow> Q Panic s') Panic
          | Some cl \<Rightarrow> (\<lambda>r s'. case r of Ret x \<Rightarrow> wp (k x) Q s' | Panic \<Rightarrow> Q Panic s')
              (Ret (Marshal E (user_config (Username (Spec kc)) cl
              (gomap_index (ConfigData cm) ''ca.crt'')
              (gomap_index (SecretData sec) CertificateSecretCertKey)
              (gomap_index (SecretData sec) CertificateSecretPrivKeyKey)), None))))
      \<lparr>world = w', calls = calls s @ [GetConfigMap kube_root_ca_name err cm]\<rparr>"
    using P assms(4-6) by (simp split: option.split)
qed

lemma data_update:
  "SecretData (sec\<lparr>SecretData := a\<rparr>) = a" "sec\<lparr>SecretData := a, SecretData := b\<rparr> = sec\<lparr>SecretData := b\<rparr>"
  by simp_all

lemma bind_store:
  "g = Some f \<Longrightarrow> wp (k (Some (f(key \<mapsto> v)))) Q s \<Longrightarrow> wp (go_bind (gomap_store g key v) k) Q s"
  by (simp add: wp_bind wp_store)

text \<open>Certificate and kubeconfig go into the secret that holds the key of the granted request.\<close>

definition store_done :: "'w env \<Rightarrow> promises \<Rightarrow> ('w \<Rightarrow> store) \<Rightarrow> string \<Rightarrow>
    (reconcile_return + Kubeconfig) outcome \<Rightarrow> 'w go_state \<Rightarrow> bool" where
  "store_done E pre obs n r s \<longleftrightarrow> safe E pre (obs (world s)) \<and>
    (\<forall>kc. r = Ret (Inr kc) \<longrightarrow> mine E pre n kc \<and> (\<exists>d. held E pre n d (complete E pre n d) (obs (world s))))"

lemma storeKubeconfig_safe:
  assumes law: "cluster_law E pre obs" and m: "mine E pre n kc" and h: "in_hand pre n sec"
    and r: "held E pre n (gomap_lookup (SecretData sec))
      (keys_match E pre n (Request csr) (gomap_lookup (SecretData sec))) (obs (world s))" and g: "grantable csr"
  shows "wp (storeKubeconfig E kc sec (Certificate csr)) (store_done E pre obs n) s"
proof (cases "SecretData sec")
  case None
  then show ?thesis
    using r by (simp add: storeKubeconfig_def wp_bind wp_store store_done_def held_safe)
next
  case (Some d)
  note L = cluster_lawD(1)[OF law] and C = cluster_lawD(2)[OF law]
  let ?key = "gomap_index (Some d) CertificateSecretPrivKeyKey"
  let ?A = "keys_match E pre n (Request csr) d"
  let ?sec = "sec\<lparr>SecretData := Some (d(CertificateSecretCertKey \<mapsto> Certificate csr))\<rparr>"
  have P: "held E pre n d ?A (obs (world s))" using r by (simp add: Some)
  show ?thesis
    unfolding storeKubeconfig_def Let_def
  proof (rule bind_store[OF Some], rule bind_createKubeconfig[OF L stable_held[of E pre n d ?A] P], goal_cases)
    case (1 e s')
    then show ?case
      unfolding prod.case option.case
      by (intro bind_event) (simp add: wp_return store_done_def held_safe)
  next
    case (2 cl ca s')
    let ?cfg = "Marshal E (user_config (Username (Spec kc)) cl ca (Certificate csr) ?key)"
    let ?d = "d(CertificateSecretCertKey \<mapsto> Certificate csr, KubeconfigKey \<mapsto> ?cfg)"
    let ?new = "sec\<lparr>SecretData := Some ?d\<rparr>"
    have cfg: "gomap_index (SecretData ?sec) CertificateSecretCertKey = Certificate csr"
      "gomap_index (SecretData ?sec) CertificateSecretPrivKeyKey = ?key"
      by (simp_all add: gomap_index_def)
    have new: "object_key (SMeta ?new) = secret_place pre n" "merged ?new = ?d"
      using h by (simp_all add: in_hand_def merged_plain)
    have comp: "complete E pre n ?d" if ?A
    proof -
      obtain key where "d CertificateSecretPrivKeyKey = Some key" "d CertificateSecretCSRKey = Some (Request csr)"
        "issued E pre n key (Request csr)"
        using \<open>?A\<close> by (auto simp: keys_match_def)
      then show ?thesis using g m unfolding complete_def mine_def by auto
    qed
    show ?case
      unfolding prod.case option.case cfg[unfolded data_update] Update_Secret_def data_update
    proof (rule bind_store[OF refl], rule bind_write[OF update_secret_law[OF L]
        stable_held[of E pre n d ?A] _ stable_held[of E pre n ?d "complete E pre n ?d"]], goal_cases)
      case 1
      show ?case by (rule 2)
    next
      case (2 c)
      then have c: "active E pre n c" "disturbed pre n c \<or> secret_at c (secret_place pre n) = Some d" "healthy E pre n c"
        by (auto simp: held_def ready_def active_def safe_def)
      have "keys_match E pre n (Request q) (merged ?new)" if "\<not> disturbed pre n c" "request_at c n = Some q" for q
        using c(2,3) that new(2) by (auto simp: healthy_def sound_def keys_match_def)
      then have "active E pre n (put_secret ?new c)" by (rule put_secret_safe[OF cluster_lawD(5)[OF law] c(1) new(1)])
      then show ?case using put_secret_ready[OF _ new] 2(1) comp by (auto simp: held_def)
    next
      case (3 e obj w')
      then show ?case by (auto simp: wp_return store_done_def held_safe)
    next
      case (4 obj w')
      then show ?case
        unfolding prod.case option.case
        by (intro bind_condition[OF C])
          (use m in \<open>auto simp: mine_fields wp_return store_done_def held_safe\<close>)
    qed
  qed (simp add: store_done_def held_safe)
qed

lemma roleBinding_keeps:
  assumes law: "client_law E obs (interference E pre)" and st: "stable (interference E pre) P" and P: "P (obs (world s))"
  shows "wp (reconcileRoleBinding E kc) (\<lambda>r s'. P (obs (world s'))) s"
  unfolding reconcileRoleBinding_def Get_Crb_def
proof (rule bind_read[OF get_crb_law[OF law] st P], goal_cases)
  case (1 err crb w' c)
  have create: "wp (go_bind (Create_Crb E b) k) (\<lambda>r s'. P (obs (world s'))) s"
    if "P (obs (world s))" and "\<And>x s'. P (obs (world s')) \<Longrightarrow> wp (k x) (\<lambda>r s'. P (obs (world s'))) s'"
    for b k s
    unfolding Create_Crb_def
    by (rule bind_write[OF create_crb_law[OF law] st that(1) st])
      (use stableD[OF st put_binding_interference] that(2) in auto)
  show ?case
    using 1(3) by (auto simp: createClusterRoleBinding_def wp_bind[of "go_deref p" for p] wp_deref
        wp_return wp_panic wp_record_event wp_bind[of "record_event t r m" for t r m] go_bind_assoc
        split: option.split intro!: create)
qed

lemma finishKubeconfig_safe:
  assumes law: "cluster_law E pre obs" and m: "mine E pre n kc"
    and P: "held E pre n d (complete E pre n d) (obs (world s))"
  shows "wp (finishKubeconfig E kc) (stays_safe E pre obs) s"
  unfolding finishKubeconfig_def wp_bind[of "SetCondition E kc t st r m" for t st r m] wp_SetCondition
    outcome.case Status_Update_Kubeconfig_def
proof (rule bind_write[OF update_kubeconfig_law[OF cluster_lawD(1)[OF law]] stable_held[of E pre n d "complete E pre n d"] P stable_safe],
    goal_cases)
  case (1 c')
  then show ?case
    using m by (intro update_status_safe[where n = n]) (auto simp: SetPhase_def mine_def held_def ready_def active_def)
next
  case (2 e obj w')
  then show ?case by (auto simp: wp_return stays_safe_def held_safe)
next
  case (3 obj w')
  then show ?case by (simp add: wp_return stays_safe_def)
qed

lemma reconcileApproved_safe:
  fixes s :: "'w go_state"
  assumes law: "cluster_law E pre obs" and m: "mine E pre n kc" and h: "in_hand pre n sec"
    and r: "held E pre n (gomap_lookup (SecretData sec))
      (keys_match E pre n (Request csr) (gomap_lookup (SecretData sec))) (obs (world s))"
    and a: "CertificateApproved \<in> cc_Type ` set (CsrConditions csr)"
      "CertificateDenied \<notin> cc_Type ` set (CsrConditions csr)"
      "CertificateFailed \<notin> cc_Type ` set (CsrConditions csr)"
  shows "wp (reconcileApproved E kc sec csr) (stays_safe E pre obs) s"
  unfolding reconcileApproved_def
proof (rule bind_condition[OF cluster_lawD(2)[OF law] m], simp, goal_cases)
  case (1 kc1)
  show ?case
  proof (cases "Certificate csr = []")
    case True
    then show ?thesis
      using held_safe[OF r] 1
      by (auto simp: wp_return stays_safe_def intro!: bind_status[OF law, where n = n])
  next
    case False
    then have g: "grantable csr" using a by (simp add: grantable_def)
    have "wp (go_then (storeKubeconfig E kc1 sec (Certificate csr)) (\<lambda>kubeconfig.
         go_then (reconcileRoleBinding E kubeconfig) (\<lambda>_. finishKubeconfig E kubeconfig))) (stays_safe E pre obs) s"
    proof (rule wp_thenI[where R = "\<lambda>kc2 s'. mine E pre n kc2 \<and> (\<exists>d. held E pre n d (complete E pre n d) (obs (world s')))"])
      show "wp (storeKubeconfig E kc1 sec (Certificate csr)) (\<lambda>r s'.
          (\<forall>a. r = Ret (Inr a) \<longrightarrow> mine E pre n a \<and> (\<exists>d. held E pre n d (complete E pre n d) (obs (world s')))) \<and>
          (\<forall>y. r = Ret (Inl y) \<longrightarrow> stays_safe E pre obs (Ret y) s') \<and>
          (r = Panic \<longrightarrow> stays_safe E pre obs Panic s')) s"
        by (rule wp_mono[OF storeKubeconfig_safe[OF law 1(1) h r g]])
          (auto simp: store_done_def stays_safe_def)
    next
      fix kc2 and s' :: "'w go_state"
      assume "mine E pre n kc2 \<and> (\<exists>d. held E pre n d (complete E pre n d) (obs (world s')))"
      then obtain d where d: "mine E pre n kc2" "held E pre n d (complete E pre n d) (obs (world s'))" by blast
      show "wp (go_then (reconcileRoleBinding E kc2) (\<lambda>_. finishKubeconfig E kc2)) (stays_safe E pre obs) s'"
        by (rule wp_thenI[where R = "\<lambda>_ s'. held E pre n d (complete E pre n d) (obs (world s'))"])
          (auto simp: stays_safe_def held_safe intro: finishKubeconfig_safe[OF law d(1)]
            intro!: wp_mono[OF roleBinding_keeps[OF cluster_lawD(1)[OF law] stable_held d(2)]])
    qed
    then show ?thesis using False by simp
  qed
qed

lemma reconcileCSR_safe:
  assumes law: "cluster_law E pre obs" and m: "mine E pre n kc" and h: "in_hand pre n sec"
    and r: "ready E pre n (gomap_lookup (SecretData sec)) (obs (world s))"
  shows "wp (reconcileCSR E kc sec) (stays_safe E pre obs) s"
  unfolding reconcileCSR_def Get_Csr_def
proof (rule bind_read[OF get_csr_law[OF cluster_lawD(1)[OF law]] stable_ready[of E pre n "gomap_lookup (SecretData sec)"] r],
    goal_cases)
  case (1 err csr w' c)
  let ?d = "gomap_lookup (SecretData sec)"
  have name: "nn_Name (csr_name kc) = n" using m by (simp add: csr_name_def mine_def)
  show ?case
  proof (cases "IsNotFound err")
    case True
    then have "unrequested E pre n ?d c" using 1(1,5) name by (auto simp: unrequested_def disturbed_def)
    then have "unrequested E pre n ?d (obs w')" by (rule stableD[OF stable_unrequested 1(2)])
    then show ?thesis using reconcileFreshCSR_safe[OF law m h] True by simp
  next
    case False
    show ?thesis
    proof (cases err)
      case (Some e)
      then show ?thesis using False 1(3) by (simp add: wp_return stays_safe_def ready_safe)
    next
      case None
      then have "disturbed pre n c \<or> request_at c n = Some csr" using 1(4) name by (auto simp: disturbed_def)
      moreover have "healthy E pre n c" "disturbed pre n c \<or> secret_at c (secret_place pre n) = Some ?d"
        using 1(1) by (auto simp: ready_def active_def safe_def)
      ultimately have "held E pre n ?d (keys_match E pre n (Request csr) ?d) c"
        using 1(1) by (auto simp: held_def healthy_def sound_def)
      then have k: "held E pre n ?d (keys_match E pre n (Request csr) ?d) (obs w')" by (rule stableD[OF stable_held 1(2)])
      then show ?thesis
        using None 1(3) ready_safe[OF 1(3)] reconcileDenied_safe[OF law m]
          reconcileApproved_safe[OF law m h]
        by (auto simp: reconcileExistingCSR_def getCertApprovalCondition_eq wp_return stays_safe_def
            split: prod.split)
    qed
  qed
qed

text \<open>Without data in hand a run does not get as far as writing a secret or a request.\<close>

lemma reconcileCSR_nil_safe:
  assumes law: "cluster_law E pre obs" and m: "mine E pre n kc" and nil: "SecretData sec = None"
    and a: "safe E pre (obs (world s))"
  shows "wp (reconcileCSR E kc sec) (stays_safe E pre obs) s"
  unfolding reconcileCSR_def Get_Csr_def
proof (rule bind_read[OF get_csr_law[OF cluster_lawD(1)[OF law]] stable_safe a], goal_cases)
  case (1 err csr w' c)
  let ?s = "\<lparr>world = w', calls = calls s @ [GetCsr (csr_name kc) err csr]\<rparr>"
  have submit: "wp (submitCSR E kc sec key req) (stays_safe E pre obs) s'" if "safe E pre (obs (world s'))" for key req s'
    using that by (simp add: submitCSR_def nil wp_bind wp_store stays_safe_def)
  have fresh: "wp (reconcileFreshCSR E kc sec) (stays_safe E pre obs) ?s"
    unfolding reconcileFreshCSR_def
  proof (rule bind_event, rule bind_createCSR[OF cluster_lawD(1)[OF law] stable_safe], goal_cases)
    case 1
    show ?case using \<open>safe E pre (obs w')\<close> by simp
  next
    case (2 r s')
    then show ?case
      by (auto simp: go_wp Let_def stays_safe_def intro: submit split: prod.split option.split)
  qed (simp add: stays_safe_def)
  have approved: "wp (reconcileApproved E kc sec csr) (stays_safe E pre obs) ?s"
    unfolding reconcileApproved_def
    by (rule bind_condition[OF cluster_lawD(2)[OF law] m])
      (use 1(3) in \<open>auto simp: storeKubeconfig_def nil wp_then wp_bind[of "gomap_store g k v" for g k v] wp_store
        wp_return stays_safe_def intro!: bind_status[OF law, where n = n]\<close>)
  show ?case
    using 1(3) fresh approved reconcileDenied_safe[OF law m]
    by (auto simp: reconcileExistingCSR_def wp_return stays_safe_def split: option.split prod.split)
qed

lemma Reconcile_safe:
  fixes s :: "'w go_state"
  assumes law: "cluster_law E pre obs" and safe: "safe E pre (obs (world s))"
  shows "wp (Reconcile E req) (stays_safe E pre obs) s"
  unfolding Reconcile_def Get_Kubeconfig_def
proof (rule bind_read[OF get_kubeconfig_law[OF cluster_lawD(1)[OF law]] stable_safe safe], goal_cases)
  case (1 err kc w' c)
  let ?n = "nn_Name req" and ?s = "\<lparr>world = w', calls = calls s @ [GetKubeconfig req err kc]\<rparr>"
  have run: "wp (go_then (reconcileUserSecret E kc) (\<lambda>(kc, sec). reconcileCSR E kc sec)) (stays_safe E pre obs) ?s"
    if none: "err = None" and live: "\<not> isInTerminalCondition E kc"
  proof -
    have k: "kubeconfig_at c ?n = Some kc" "Name (KMeta kc) = ?n" using 1(4) none by simp_all
    have "healthy E pre ?n c" using 1(1) by (simp add: safe_def)
    then have p: "promised pre ?n kc" using k(1) by (simp add: healthy_def)
    then have ref: "ExistingCSR (Spec kc) = predefined pre ?n" by (simp add: promised_def)
    have "\<not> finished E kc" using live
      by (auto simp: finished_def isInTerminalCondition_def split: option.splits)
    then have m: "mine E pre ?n kc" and "active E pre ?n c" using k 1(1) p by (auto simp: mine_def active_def promised_def)
    then have a: "active E pre ?n (obs (world ?s))" using stableD[OF stable_active 1(2)] by simp
    let ?R = "\<lambda>a s'. secret_done E pre obs ?n (Spec kc) (Ret (Inr a)) s'"
    show ?thesis
    proof (rule wp_thenI[where R = ?R])
      show "wp (reconcileUserSecret E kc) (\<lambda>r s'. (\<forall>a. r = Ret (Inr a) \<longrightarrow> ?R a s') \<and>
          (\<forall>y. r = Ret (Inl y) \<longrightarrow> stays_safe E pre obs (Ret y) s') \<and>
          (r = Panic \<longrightarrow> stays_safe E pre obs Panic s')) ?s"
        by (rule wp_mono[OF user_secret_safe[OF law m a ref]]) (auto simp: secret_done_def stays_safe_def)
    next
      fix x and s' :: "'w go_state"
      assume "?R x s'"
      then show "wp (case x of (kc, sec) \<Rightarrow> reconcileCSR E kc sec) (stays_safe E pre obs) s'"
        by (cases x) (auto simp: secret_done_def intro: reconcileCSR_safe[OF law] reconcileCSR_nil_safe[OF law])
    qed
  qed
  have "wp (go_return x) (stays_safe E pre obs) ?s" for x
    using 1(3) by (simp add: wp_return stays_safe_def)
  then show ?case using run by (auto split: option.split)
qed

subsection \<open>Runs of the approving controller\<close>

lemma ReconcileCsr_safe:
  fixes s :: "'w go_state"
  assumes law: "cluster_law E pre obs" and safe: "safe E pre (obs (world s))"
  shows "wp (ReconcileCsr E req) (stays_safe E pre obs) s"
proof -
  note L = cluster_lawD(1)[OF law]
  have act: "wp (go_bind (api_call f ev) k) (stays_safe E pre obs) s"
    if "write_law (interference E pre) obs (\<lambda>c. request_at c (Name (CsrMeta q)) \<noteq> None) (update_conditions q) R f"
      "safe E pre (obs (world s))" "\<And>x s'. safe E pre (obs (world s')) \<Longrightarrow> wp (k x) (stays_safe E pre obs) s'"
    for f ev k q R and s :: "'w go_state"
    by (rule bind_write[OF that(1) stable_safe that(2) stable_safe])
      (use stableD[OF stable_safe[of E pre] update_conditions_interference] that(3) in auto)
  show ?thesis
    unfolding ReconcileCsr_def Get_Csr_def
  proof (rule bind_read[OF get_csr_law[OF L] stable_safe safe], goal_cases)
    case (1 err csr w' c)
    show ?case
      using 1(3)
      by (auto simp: ApproveCSR_def Let_def UpdateApproval_def Status_Update_Csr_def set_csr_condition_def
          go_bind_assoc wp_bind[of "now E"] wp_now wp_return stays_safe_def wp_bind[of "record_event t r m" for t r m]
          wp_record_event
          split: option.split prod.split sum.split intro!: act[OF approval_law[OF L]] act[OF update_csr_law[OF L]])
  qed
qed

subsection \<open>The system\<close>

text \<open>
  States the cluster can get into: any sequence of complete runs of the two controllers and of
  steps of the others. A crash inside a run is a run in which all later calls fail.
\<close>

inductive reachable :: "'w env \<Rightarrow> promises \<Rightarrow> ('w \<Rightarrow> store) \<Rightarrow> 'w \<Rightarrow> 'w \<Rightarrow> bool" for E pre obs w0 where
  initially: "reachable E pre obs w0 w0"
| kubeconfig_run: "reachable E pre obs w0 w \<Longrightarrow> Reconcile E req (start w) = (r, s) \<Longrightarrow>
    reachable E pre obs w0 (world s)"
| csr_run: "reachable E pre obs w0 w \<Longrightarrow> ReconcileCsr E req (start w) = (r, s) \<Longrightarrow>
    reachable E pre obs w0 (world s)"
| others_step: "reachable E pre obs w0 w \<Longrightarrow> interference E pre (obs w) (obs w') \<Longrightarrow> reachable E pre obs w0 w'"

text \<open>Where the operator is installed: nothing requested, nothing finished, references as \<open>pre\<close> says.\<close>

definition blank :: "'w env \<Rightarrow> promises \<Rightarrow> store \<Rightarrow> bool" where
  "blank E pre c \<longleftrightarrow> request_at c = Map.empty \<and>
    (\<forall>n k. kubeconfig_at c n = Some k \<longrightarrow> promised pre n k \<and> \<not> finished E k)"

lemma blank_safe: "blank E pre c \<Longrightarrow> safe E pre c"
  by (auto simp: blank_def safe_def healthy_def sound_def)

lemma reachable_safe:
  assumes "cluster_law E pre obs" and "safe E pre (obs w0)" and "reachable E pre obs w0 w"
  shows "safe E pre (obs w)"
  using assms(3)
proof induction
  case initially
  show ?case by (rule assms(2))
next
  case (kubeconfig_run w req r s)
  then show ?case
    using Reconcile_safe[OF assms(1), of "start w" req] by (simp add: wp_iff stays_safe_def)
next
  case (csr_run w req r s)
  then show ?case
    using ReconcileCsr_safe[OF assms(1), of "start w" req] by (simp add: wp_iff stays_safe_def)
next
  case (others_step w w')
  then show ?case using stableD[OF stable_safe] by blast
qed

lemma reachable_sound:
  assumes "cluster_law E pre obs" and "blank E pre (obs w0)" and "reachable E pre obs w0 w"
    and "\<not> disturbed pre n (obs w)"
  shows "sound E pre n (obs w)"
  using reachable_safe[OF assms(1) blank_safe[OF assms(2)] assms(3)] assms(4) by (auto simp: safe_def healthy_def)

text \<open>
  C2: In every state the cluster gets into, whatever runs were made, whatever calls failed (with or
  without effect) and whatever the other parties did, a signing request is the one whose private
  key the user secret of its Kubeconfig holds: the secret has the request, and the file of the
  private key that it has been signed with. Excepted are the Kubeconfigs noted as disturbed:
  a read of their secret or request came from a cache that was behind, or another party, such as
  a second replica, has changed their secret or made or changed their request. (No two
  Kubeconfigs share a secret. \<open>Lost_Keys\<close>, \<open>Replicas\<close> and \<open>Name_Clashes\<close> show that the key is lost otherwise.)
\<close>

theorem request_matches_stored_key:
  assumes "cluster_law E pre obs" and "blank E pre (obs w0)" and "reachable E pre obs w0 w"
    and "request_at (obs w) n = Some q" and "\<not> disturbed pre n (obs w)"
  shows "\<exists>d k t der w1 w2. secret_at (obs w) (secret_place pre n) = Some d \<and>
    d ''tls.key'' = Some (key_file E k) \<and> d ''tls.csr'' = Some (Request q) \<and>
    x509_CreateCertificateRequest E t (Some k) w1 = (Inr der, w2) \<and> pk_CommonName (tp_Subject t) \<in> users pre n \<and>
    Request q = pem_Encode ''CERTIFICATE REQUEST'' der"
proof -
  obtain d key where d: "secret_at (obs w) (secret_place pre n) = Some d" "d ''tls.key'' = Some key"
    "d ''tls.csr'' = Some (Request q)" "issued E pre n key (Request q)"
    using reachable_sound[OF assms(1-3,5)] assms(4) unfolding sound_def keys_match_def by blast
  then show ?thesis unfolding issued_def by blast
qed


end
