(* ===== verification/Progress.thy ===== *)
theory Progress
  imports System Kubeconfig_Behaviour Kubeconfig_Objects Signing_Laws
begin

text \<open>
  What the operator achieves when nothing fails: against a store that answers every call and
  that nobody else changes during a run, each run of the Kubeconfig reconciler brings the
  resource one stage further or, while the request awaits its decision, leaves it where it is.
\<close>

subsection \<open>A store that does not fail\<close>

definition exact_read :: "('w \<Rightarrow> store) \<Rightarrow> (store \<Rightarrow> bool) \<Rightarrow> (store \<Rightarrow> 'o \<Rightarrow> bool) \<Rightarrow> ('w, 'o) reply \<Rightarrow> bool" where
  "exact_read obs present found f \<longleftrightarrow> (\<forall>w. \<exists>err obj w'. f w = ((err, obj), w') \<and> obs w' = obs w \<and>
     (if present (obs w) then err = None \<and> found (obs w) obj else IsNotFound err))"

definition exact_write :: "('w \<Rightarrow> store) \<Rightarrow> (store \<Rightarrow> bool) \<Rightarrow> (store \<Rightarrow> store) \<Rightarrow> ('o \<Rightarrow> bool) \<Rightarrow>
    ('w, 'o) reply \<Rightarrow> bool" where
  "exact_write obs possible effect returned f \<longleftrightarrow> (\<forall>w. \<exists>err obj w'. f w = ((err, obj), w') \<and>
     (if possible (obs w) then err = None \<and> obs w' = effect (obs w) \<and> returned obj
      else err \<noteq> None \<and> obs w' = obs w))"

definition exact_lib :: "('w \<Rightarrow> store) \<Rightarrow> ('a \<Rightarrow> bool) \<Rightarrow> ('w \<Rightarrow> 'a \<times> 'w) \<Rightarrow> bool" where
  "exact_lib obs good f \<longleftrightarrow> (\<forall>w. \<exists>x w'. f w = (x, w') \<and> obs w' = obs w \<and> good x)"

definition secret_held :: "string \<times> string \<Rightarrow> store \<Rightarrow> Secret \<Rightarrow> bool" where
  "secret_held key c s \<longleftrightarrow> secret_read key c s \<and> SecretData s \<noteq> None"

definition reliable_reads :: "'w env \<Rightarrow> ('w \<Rightarrow> store) \<Rightarrow> bool" where
  "reliable_reads E obs \<longleftrightarrow>
    (\<forall>n obj. exact_read obs (\<lambda>c. kubeconfig_at c (nn_Name n) \<noteq> None)
       (\<lambda>c k. kubeconfig_at c (nn_Name n) = Some k \<and> Name (KMeta k) = nn_Name n) (client_Get_Kubeconfig E n obj)) \<and>
    (\<forall>n obj. exact_read obs (\<lambda>c. secret_at c (nn_key n) \<noteq> None) (secret_held (nn_key n))
       (client_Get_Secret E n obj)) \<and>
    (\<forall>n obj. exact_read obs (\<lambda>c. request_at c (nn_Name n) \<noteq> None)
       (\<lambda>c q. request_at c (nn_Name n) = Some q \<and> Name (CsrMeta q) = nn_Name n) (client_Get_Csr E n obj)) \<and>
    (\<forall>n obj. exact_read obs (\<lambda>c. binding_at c (nn_Name n) \<noteq> None)
       (\<lambda>c b. binding_at c (nn_Name n) = Some b) (client_Get_Crb E n obj)) \<and>
    (\<forall>n obj. exact_read obs (\<lambda>c. config_at c (nn_key n) \<noteq> None)
       (\<lambda>c m. config_at c (nn_key n) = Some (gomap_lookup (ConfigData m))) (client_Get_ConfigMap E n obj))"

definition reliable_writes :: "'w env \<Rightarrow> ('w \<Rightarrow> store) \<Rightarrow> bool" where
  "reliable_writes E obs \<longleftrightarrow>
    (\<forall>s. exact_write obs (\<lambda>c. secret_at c (object_key (SMeta s)) = None) (put_secret s)
       (\<lambda>s'. gomap_lookup (SecretData s') = merged s \<and> object_key (SMeta s') = object_key (SMeta s) \<and>
          StringData s' = None \<and> SecretData s' \<noteq> None) (client_Create_Secret E s)) \<and>
    (\<forall>s. exact_write obs (\<lambda>c. secret_at c (object_key (SMeta s)) \<noteq> None) (put_secret s)
       (\<lambda>s'. True) (client_Update_Secret E s)) \<and>
    (\<forall>q. exact_write obs (\<lambda>c. request_at c (Name (CsrMeta q)) = None) (put_request q)
       (\<lambda>q'. Name (CsrMeta q') = Name (CsrMeta q)) (client_Create_Csr E q)) \<and>
    (\<forall>b. exact_write obs (\<lambda>c. binding_at c (Name (CrbMeta b)) = None) (put_binding b)
       (\<lambda>b'. True) (client_Create_Crb E b)) \<and>
    (\<forall>k. exact_write obs (\<lambda>c. kubeconfig_at c (Name (KMeta k)) \<noteq> None) (update_status k)
       (\<lambda>k'. True) (client_Status_Update_Kubeconfig E k)) \<and>
    (\<forall>q. exact_write obs (\<lambda>c. request_at c (Name (CsrMeta q)) \<noteq> None) (update_conditions q)
       (\<lambda>q'. True) (client_Status_Update_Csr E q)) \<and>
    (\<forall>q. exact_write obs (\<lambda>c. request_at c (Name (CsrMeta q)) \<noteq> None) (update_conditions q)
       (\<lambda>q'. True) (clientset_UpdateApproval E q))"

definition reliable :: "'w env \<Rightarrow> ('w \<Rightarrow> store) \<Rightarrow> bool" where
  "reliable E obs \<longleftrightarrow> reliable_reads E obs \<and> reliable_writes E obs \<and>
    (\<forall>n. exact_lib obs (\<lambda>k. k \<noteq> None) (rsa_GenerateKey E n)) \<and>
    (\<forall>c. exact_lib obs (\<lambda>k. k \<noteq> None) (ecdsa_GenerateKey E c)) \<and>
    exact_lib obs (\<lambda>k. k \<noteq> None) (ed25519_GenerateKey E) \<and>
    (\<forall>t k. exact_lib obs (\<lambda>r. \<exists>b. r = Inr b) (x509_CreateCertificateRequest E t (Some k))) \<and>
    (\<forall>t. exact_lib obs (\<lambda>r. True) (x509_CreateCertificateRequest E t None)) \<and>
    conditions_law E \<and> owner_names E \<and> failed_get_law E"

text \<open>Such a store keeps the law of \<open>Api_Store\<close>, without interference.\<close>

lemma exact_read_law:
  assumes "exact_read obs present found f" and "\<And>c. Env c c" and "\<And>c. \<not> present c \<Longrightarrow> missing c"
    and "\<And>c x. found c x \<Longrightarrow> found' c x"
  shows "read_law Env obs found' missing f"
  unfolding read_law_def
proof (intro allI impI)
  fix w err obj w' assume f: "f w = ((err, obj), w')"
  then have "obs w' = obs w" "if present (obs w) then err = None \<and> found (obs w) obj else IsNotFound err"
    using assms(1) unfolding exact_read_def by (metis Pair_inject)+
  then show "\<exists>c. Env (obs w) c \<and> Env c (obs w') \<and> (err = None \<longrightarrow> found' c obj) \<and> (IsNotFound err \<longrightarrow> missing c)"
    using assms(2-4) by (intro exI[of _ "obs w"]) (auto split: if_splits)
qed

lemma exact_write_law:
  assumes "exact_write obs possible effect returned f" and "\<And>c. Env c c"
    and "\<And>x. returned x \<Longrightarrow> returned' x"
  shows "write_law Env obs possible effect returned' f"
  unfolding write_law_def
proof (intro allI impI)
  fix w err obj w' assume f: "f w = ((err, obj), w')"
  then have r: "if possible (obs w) then err = None \<and> obs w' = effect (obs w) \<and> returned obj
      else err \<noteq> None \<and> obs w' = obs w"
    using assms(1) unfolding exact_write_def by (metis Pair_inject)
  then show "\<exists>c c'. Env (obs w) c \<and> Env c' (obs w') \<and>
      (c' = c \<and> err \<noteq> None \<or> possible c \<and> c' = effect c \<and> (err = None \<longrightarrow> returned' obj))"
    using assms(2,3) by (intro exI[of _ "obs w"] exI[of _ "obs w'"]) (auto split: if_splits)
qed

lemma exact_lib_law: "exact_lib obs good f \<Longrightarrow> (\<And>c. Env c c) \<Longrightarrow> lib_law Env obs f"
  unfolding exact_lib_def lib_law_def by (metis Pair_inject)

lemma reliableD:
  assumes "reliable E obs"
  shows exact_get_kubeconfig: "exact_read obs (\<lambda>c. kubeconfig_at c (nn_Name n) \<noteq> None)
      (\<lambda>c k. kubeconfig_at c (nn_Name n) = Some k \<and> Name (KMeta k) = nn_Name n) (client_Get_Kubeconfig E n k0)"
    and exact_get_secret: "exact_read obs (\<lambda>c. secret_at c (nn_key n) \<noteq> None) (secret_held (nn_key n))
      (client_Get_Secret E n s0)"
    and exact_get_csr: "exact_read obs (\<lambda>c. request_at c (nn_Name n) \<noteq> None)
      (\<lambda>c q. request_at c (nn_Name n) = Some q \<and> Name (CsrMeta q) = nn_Name n) (client_Get_Csr E n q0)"
    and exact_get_crb: "exact_read obs (\<lambda>c. binding_at c (nn_Name n) \<noteq> None)
      (\<lambda>c b. binding_at c (nn_Name n) = Some b) (client_Get_Crb E n b0)"
    and exact_get_configmap: "exact_read obs (\<lambda>c. config_at c (nn_key n) \<noteq> None)
      (\<lambda>c m. config_at c (nn_key n) = Some (gomap_lookup (ConfigData m))) (client_Get_ConfigMap E n m0)"
    and exact_create_secret: "exact_write obs (\<lambda>c. secret_at c (object_key (SMeta s)) = None) (put_secret s)
      (\<lambda>s'. gomap_lookup (SecretData s') = merged s \<and> object_key (SMeta s') = object_key (SMeta s) \<and>
         StringData s' = None \<and> SecretData s' \<noteq> None) (client_Create_Secret E s)"
    and exact_update_secret: "exact_write obs (\<lambda>c. secret_at c (object_key (SMeta s)) \<noteq> None) (put_secret s)
      (\<lambda>s'. True) (client_Update_Secret E s)"
    and exact_create_csr: "exact_write obs (\<lambda>c. request_at c (Name (CsrMeta q)) = None) (put_request q)
      (\<lambda>q'. Name (CsrMeta q') = Name (CsrMeta q)) (client_Create_Csr E q)"
    and exact_create_crb: "exact_write obs (\<lambda>c. binding_at c (Name (CrbMeta b)) = None) (put_binding b)
      (\<lambda>b'. True) (client_Create_Crb E b)"
    and exact_update_kubeconfig: "exact_write obs (\<lambda>c. kubeconfig_at c (Name (KMeta k)) \<noteq> None)
      (update_status k) (\<lambda>k'. True) (client_Status_Update_Kubeconfig E k)"
    and exact_update_csr: "exact_write obs (\<lambda>c. request_at c (Name (CsrMeta q)) \<noteq> None)
      (update_conditions q) (\<lambda>q'. True) (client_Status_Update_Csr E q)"
    and exact_approval: "exact_write obs (\<lambda>c. request_at c (Name (CsrMeta q)) \<noteq> None)
      (update_conditions q) (\<lambda>q'. True) (clientset_UpdateApproval E q)"
    and exact_keys: "exact_lib obs (\<lambda>k. k \<noteq> None) (rsa_GenerateKey E i)"
      "exact_lib obs (\<lambda>k. k \<noteq> None) (ecdsa_GenerateKey E curve)"
      "exact_lib obs (\<lambda>k. k \<noteq> None) (ed25519_GenerateKey E)"
      "exact_lib obs (\<lambda>r. \<exists>b. r = Inr b) (x509_CreateCertificateRequest E t (Some key))"
      "exact_lib obs (\<lambda>r. True) (x509_CreateCertificateRequest E t None)"
    and reliable_laws: "conditions_law E" "owner_names E" "failed_get_law E"
proof -
  have "reliable_reads E obs" "reliable_writes E obs" using assms by (simp_all add: reliable_def)
  note rw = this[unfolded reliable_reads_def reliable_writes_def]
  show "exact_read obs (\<lambda>c. kubeconfig_at c (nn_Name n) \<noteq> None)
      (\<lambda>c k. kubeconfig_at c (nn_Name n) = Some k \<and> Name (KMeta k) = nn_Name n) (client_Get_Kubeconfig E n k0)"
    "exact_read obs (\<lambda>c. secret_at c (nn_key n) \<noteq> None) (secret_held (nn_key n)) (client_Get_Secret E n s0)"
    "exact_read obs (\<lambda>c. request_at c (nn_Name n) \<noteq> None)
      (\<lambda>c q. request_at c (nn_Name n) = Some q \<and> Name (CsrMeta q) = nn_Name n) (client_Get_Csr E n q0)"
    "exact_read obs (\<lambda>c. binding_at c (nn_Name n) \<noteq> None)
      (\<lambda>c b. binding_at c (nn_Name n) = Some b) (client_Get_Crb E n b0)"
    "exact_read obs (\<lambda>c. config_at c (nn_key n) \<noteq> None)
      (\<lambda>c m. config_at c (nn_key n) = Some (gomap_lookup (ConfigData m))) (client_Get_ConfigMap E n m0)"
    using rw(1) by blast+
  show "exact_write obs (\<lambda>c. secret_at c (object_key (SMeta s)) = None) (put_secret s)
      (\<lambda>s'. gomap_lookup (SecretData s') = merged s \<and> object_key (SMeta s') = object_key (SMeta s) \<and>
         StringData s' = None \<and> SecretData s' \<noteq> None) (client_Create_Secret E s)"
    "exact_write obs (\<lambda>c. secret_at c (object_key (SMeta s)) \<noteq> None) (put_secret s)
      (\<lambda>s'. True) (client_Update_Secret E s)"
    "exact_write obs (\<lambda>c. request_at c (Name (CsrMeta q)) = None) (put_request q)
      (\<lambda>q'. Name (CsrMeta q') = Name (CsrMeta q)) (client_Create_Csr E q)"
    "exact_write obs (\<lambda>c. binding_at c (Name (CrbMeta b)) = None) (put_binding b)
      (\<lambda>b'. True) (client_Create_Crb E b)"
    "exact_write obs (\<lambda>c. kubeconfig_at c (Name (KMeta k)) \<noteq> None) (update_status k)
      (\<lambda>k'. True) (client_Status_Update_Kubeconfig E k)"
    "exact_write obs (\<lambda>c. request_at c (Name (CsrMeta q)) \<noteq> None) (update_conditions q)
      (\<lambda>q'. True) (client_Status_Update_Csr E q)"
    "exact_write obs (\<lambda>c. request_at c (Name (CsrMeta q)) \<noteq> None) (update_conditions q)
      (\<lambda>q'. True) (clientset_UpdateApproval E q)"
    using rw(2) by blast+
  show "exact_lib obs (\<lambda>k. k \<noteq> None) (rsa_GenerateKey E i)"
    "exact_lib obs (\<lambda>k. k \<noteq> None) (ecdsa_GenerateKey E curve)"
    "exact_lib obs (\<lambda>k. k \<noteq> None) (ed25519_GenerateKey E)"
    "exact_lib obs (\<lambda>r. \<exists>b. r = Inr b) (x509_CreateCertificateRequest E t (Some key))"
    "exact_lib obs (\<lambda>r. True) (x509_CreateCertificateRequest E t None)"
    "conditions_law E" "owner_names E" "failed_get_law E"
    using assms unfolding reliable_def by blast+
qed

lemma reliable_store_law:
  assumes r: "reliable E obs" and refl: "\<And>c. Env c c"
  shows "store_law E obs Env"
proof -
  note lib = exact_lib_law[where Env = Env, OF _ refl]
  have reads: "store_reads E obs Env"
    unfolding store_reads_def
    by (intro conjI allI)
      (rule exact_read_law[OF exact_get_kubeconfig[OF r] refl] exact_read_law[OF exact_get_secret[OF r] refl]
        exact_read_law[OF exact_get_csr[OF r] refl] exact_read_law[OF exact_get_crb[OF r] refl]
        exact_read_law[OF exact_get_configmap[OF r] refl]; simp add: secret_held_def)+
  have writes: "store_writes E obs Env"
    unfolding store_writes_def
    by (intro conjI allI)
      (rule exact_write_law[OF exact_create_secret[OF r] refl] exact_write_law[OF exact_update_secret[OF r] refl]
        exact_write_law[OF exact_create_csr[OF r] refl] exact_write_law[OF exact_create_crb[OF r] refl]
        exact_write_law[OF exact_update_kubeconfig[OF r] refl] exact_write_law[OF exact_update_csr[OF r] refl]
        exact_write_law[OF exact_approval[OF r] refl]; simp)+
  have "lib_law Env obs (x509_CreateCertificateRequest E t k)" for t k
    using lib[OF exact_keys(4)[OF r]] lib[OF exact_keys(5)[OF r]] by (cases k) auto
  then show ?thesis
    using reads writes lib[OF exact_keys(1)[OF r]] lib[OF exact_keys(2)[OF r]] lib[OF exact_keys(3)[OF r]]
    by (simp add: store_law_def)
qed

lemma reliable_cluster_law: "reliable E obs \<Longrightarrow> distinct_secrets pre \<Longrightarrow> cluster_law E pre obs"
  by (simp add: cluster_law_def store_client_law[OF reliable_store_law] reliable_laws interference_refl)

subsection \<open>Rules\<close>

lemma bind_exact_read:
  assumes "exact_read obs present found f"
    and "\<And>obj w'. present (obs (world s)) \<Longrightarrow> obs w' = obs (world s) \<Longrightarrow> found (obs (world s)) obj \<Longrightarrow>
      wp (k (None, obj)) Q \<lparr>world = w', calls = calls s @ [ev None obj]\<rparr>"
    and "\<And>e obj w'. \<not> present (obs (world s)) \<Longrightarrow> obs w' = obs (world s) \<Longrightarrow> IsNotFound (Some e) \<Longrightarrow>
      wp (k (Some e, obj)) Q \<lparr>world = w', calls = calls s @ [ev (Some e) obj]\<rparr>"
  shows "wp (go_bind (api_call f ev) k) Q s"
proof -
  obtain err obj w' where f: "f (world s) = ((err, obj), w')" "obs w' = obs (world s)"
    and r: "if present (obs (world s)) then err = None \<and> found (obs (world s)) obj else IsNotFound err"
    using assms(1) unfolding exact_read_def by blast
  show ?thesis
    using r f assms(2,3) by (cases err) (auto simp: wp_bind wp_api_call split: if_splits)
qed

lemma bind_exact_write:
  assumes "exact_write obs possible effect returned f" and "possible (obs (world s))"
    and "\<And>obj w'. obs w' = effect (obs (world s)) \<Longrightarrow> returned obj \<Longrightarrow>
      wp (k (None, obj)) Q \<lparr>world = w', calls = calls s @ [ev None obj]\<rparr>"
  shows "wp (go_bind (api_call f ev) k) Q s"
proof -
  obtain err obj w' where f: "f (world s) = ((err, obj), w')"
    and r: "err = None \<and> obs w' = effect (obs (world s)) \<and> returned obj"
    using assms(1,2) unfolding exact_write_def by metis
  then show ?thesis using assms(3) by (simp add: wp_bind wp_api_call)
qed

lemma bind_exact_lib:
  assumes "exact_lib obs good f"
    and "\<And>x w'. obs w' = obs (world s) \<Longrightarrow> good x \<Longrightarrow> wp (k x) Q \<lparr>world = w', calls = calls s\<rparr>"
  shows "wp (go_bind (lib_call f) k) Q s"
proof -
  obtain x w' where "f (world s) = (x, w')" "obs w' = obs (world s)" "good x"
    using assms(1) unfolding exact_lib_def by blast
  then show ?thesis using assms(2) by (simp add: wp_bind wp_lib_call)
qed

lemma go_then_assoc: "go_then (go_bind m f) k = go_bind m (\<lambda>x. go_then (f x) k)"
  by (simp add: go_then_def go_bind_assoc)

lemma go_then_return [simp]:
  "go_then (go_return (Inl r)) k = go_return r" "go_then (go_return (Inr a)) k = k a"
  by (simp_all add: go_then_def)

lemma createCSR_exact:
  assumes r: "reliable E obs" and "SpecCSR (Spec kc) = Some csr" and a: "SignatureAlg csr \<in> set supported_algorithms"
  shows "wp (createCSR E kc) (\<lambda>r s'. (\<exists>key req. r = Ret (Some key, Some req, None)) \<and>
    obs (world s') = obs (world s)) s"
proof -
  note K = exact_keys[OF r]
  have sign: "wp (go_bind (lib_call (x509_CreateCertificateRequest E t (Some k))) (\<lambda>res. case res of
        Inl e \<Rightarrow> go_return (None, None, Some ErrCertificateSigningRequestCreate)
      | Inr csrBytes \<Rightarrow> go_return (Some enc, Some (pem_Encode ''CERTIFICATE REQUEST'' csrBytes), None)))
      (\<lambda>r s'. (\<exists>key req. r = Ret (Some key, Some req, None)) \<and> obs (world s') = obs (world s)) s1"
    if "obs (world s1) = obs (world s)" for t k enc s1
    by (rule bind_exact_lib[OF K(4)]) (use that in \<open>auto simp: wp_return\<close>)
  show ?thesis
    using a
    by (auto simp: createCSR_def wp_bind[of "go_deref p" for p] wp_deref assms(2) generateKey_def Let_def
        createRSAKey_def createECDSAKey_def createEd25519Key_def go_bind_assoc supported_algorithms_def
        intro!: bind_exact_lib[OF K(1)] bind_exact_lib[OF K(2)] bind_exact_lib[OF K(3)] sign)
qed

lemma bind_exact_createCSR:
  assumes "reliable E obs" and "SpecCSR (Spec kc) = Some csr" and "SignatureAlg csr \<in> set supported_algorithms"
    and "\<And>key req s'. createCSR E kc s = (Ret (Some key, Some req, None), s') \<Longrightarrow>
      obs (world s') = obs (world s) \<Longrightarrow> wp (k (Some key, Some req, None)) Q s'"
  shows "wp (go_bind (createCSR E kc) k) Q s"
proof -
  obtain key req s' where "createCSR E kc s = (Ret (Some key, Some req, None), s')"
    "obs (world s') = obs (world s)"
    using createCSR_exact[OF assms(1-3), of s] by (auto simp: wp_def split: prod.splits)
  then show ?thesis using assms(4) by (simp add: wp_def go_bind_def)
qed

text \<open>The Kubeconfig in memory: the one read, but for its status, and not terminal.\<close>

definition live :: "'w env \<Rightarrow> Kubeconfig \<Rightarrow> Kubeconfig \<Rightarrow> bool" where
  "live E kc0 kc \<longleftrightarrow> KMeta kc = KMeta kc0 \<and> Spec kc = Spec kc0 \<and> \<not> isInTerminalCondition E kc"

lemma live_fields:
  "live E orig (kc\<lparr>Status := (Status kc)\<lparr>Phase := p\<rparr>\<rparr>) = live E orig kc"
  "live E orig (kc\<lparr>Status := (Status kc)\<lparr>UserSecret := u\<rparr>\<rparr>) = live E orig kc"
  "live E orig (kc\<lparr>Status := (Status kc)\<lparr>StatusCsr := r\<rparr>\<rparr>) = live E orig kc"
  "live E orig (kc\<lparr>Status := (Status kc)\<lparr>StatusKubeconfig := t\<rparr>\<rparr>) = live E orig kc"
  by (simp_all add: live_def isInTerminalCondition_eq)

lemma bind_live:
  assumes "conditions_law E" and "live E orig kc" and "t \<noteq> ConditionTypeKubeconfigFinished"
    and "\<And>kc'. live E orig kc' \<Longrightarrow> Status kc' = (Status kc)\<lparr>Conditions := Conditions (Status kc')\<rparr> \<Longrightarrow> wp (k kc') Q s"
  shows "wp (go_bind (SetCondition E kc t st r m) k) Q s"
  unfolding wp_bind wp_SetCondition outcome.case
  by (rule assms(4))
    (use assms(2,3) in \<open>simp_all add: live_def isInTerminalCondition_eq terminal_conditions_set[OF assms(1)]\<close>)

definition with_secret :: "promises \<Rightarrow> string \<Rightarrow> (string \<rightharpoonup> bytes) \<Rightarrow> store \<Rightarrow> store" where
  "with_secret pre n d c = c\<lparr>secret_at := (secret_at c)(secret_place pre n \<mapsto> d)\<rparr>"

lemma with_secret_same: "secret_at c (secret_place pre n) = Some d \<Longrightarrow> with_secret pre n d c = c"
  by (simp add: with_secret_def fun_upd_idem)

lemma put_secret_with:
  "object_key (SMeta s) = secret_place pre n \<Longrightarrow> put_secret s c = with_secret pre n (merged s) c"
  by (simp add: put_secret_def with_secret_def)

lemma then_own_secret:
  fixes s :: "'w go_state"
  assumes r: "reliable E obs" and l: "live E orig kc" and n: "Name (KMeta kc) = n" and own: "predefined pre n = None"
    and "\<And>kc' sec d s'. live E orig kc' \<Longrightarrow> in_hand pre n sec \<Longrightarrow> SecretData sec = Some d \<Longrightarrow>
      obs (world s') = with_secret pre n d (obs (world s)) \<Longrightarrow>
      secret_at (obs (world s)) (secret_place pre n) \<in> {None, Some d} \<Longrightarrow> wp (k (kc', sec)) Q s'"
  shows "wp (go_then (reconcileOwnSecret E kc) k) Q s"
proof -
  note key = user_secret_key(1)[OF n] user_secret_key(2)[OF reliable_laws(2)[OF r] n] secret_place_own[of pre n, OF own]
  show ?thesis
    unfolding reconcileOwnSecret_def go_then_assoc Get_Secret_def
  proof (rule bind_exact_read[OF exact_get_secret[OF r]], goal_cases)
    case (1 sec w')
    then have "secret_at (obs (world s)) (secret_place pre n) = Some (gomap_lookup (SecretData sec))"
      "in_hand pre n sec" "SecretData sec \<noteq> None"
      by (simp_all add: secret_held_def secret_read_def key in_hand_def)
    then show ?case
      using assms(5)[OF l] 1(2) by (auto simp: with_secret_same)
  next
    case (2 e sec w')
    let ?new = "createUserSecret E kc (user_secret_name kc)"
    show ?case
      unfolding prod.case if_P[OF 2(3)] go_then_assoc Create_Secret_def
    proof (rule bind_exact_write[OF exact_create_secret[OF r]], goal_cases)
      case 1
      show ?case using 2(1,2) by (simp add: key)
    next
      case (2 obj w'')
      then have sec: "in_hand pre n obj" "obs w'' = with_secret pre n (gomap_lookup (SecretData obj)) (obs (world s))"
        using \<open>obs w' = obs (world s)\<close> by (simp_all add: in_hand_def key put_secret_with)
      obtain d where d: "SecretData obj = Some d" using 2 by blast
      have gone: "secret_at (obs (world s)) (secret_place pre n) = None"
        using \<open>\<not> secret_at _ _ \<noteq> None\<close> by (simp add: key)
      show ?case
        unfolding prod.case option.case go_then_assoc
      proof (rule bind_live[OF reliable_laws(1)[OF r], where orig = orig], goal_cases)
        case 1
        then show ?case using l by (simp add: SetUserSecret_def live_fields)
      next
        case (3 kc')
        then show ?case using assms(5)[OF 3(1) sec(1) d] sec(2) d gone by simp
      qed simp
    qed
  qed
qed

lemma then_predefined_secret:
  fixes s :: "'w go_state"
  assumes r: "reliable E obs" and l: "live E orig kc" and ref: "predefined pre n = Some ref"
    and there: "secret_at (obs (world s)) (secret_place pre n) \<noteq> None"
    and "\<And>kc' sec d s'. live E orig kc' \<Longrightarrow> in_hand pre n sec \<Longrightarrow> SecretData sec = Some d \<Longrightarrow>
      obs (world s') = with_secret pre n d (obs (world s)) \<Longrightarrow>
      secret_at (obs (world s)) (secret_place pre n) \<in> {None, Some d} \<Longrightarrow> wp (k (kc', sec)) Q s'"
  shows "wp (go_then (reconcileExistingSecret E kc ref) k) Q s"
proof -
  have key: "nn_key \<lparr>nn_Namespace = sr_Namespace ref, nn_Name = sr_Name ref\<rparr> = secret_place pre n"
    by (simp add: nn_key_def secret_place_def ref)
  show ?thesis
    unfolding reconcileExistingSecret_def go_then_assoc Get_Secret_def
  proof (rule bind_exact_read[OF exact_get_secret[OF r]], goal_cases)
    case (1 sec w')
    then have held: "secret_at (obs (world s)) (secret_place pre n) = Some (gomap_lookup (SecretData sec))"
      "object_key (SMeta sec) = secret_place pre n" "StringData sec = None" "SecretData sec \<noteq> None"
      by (simp_all add: secret_held_def secret_read_def key)
    let ?kc = "SetUserSecret kc sec"
    have "in_hand pre n (sec\<lparr>SMeta := set_owner E ?kc (SMeta sec)\<rparr>)"
      using held reliable_laws(2)[OF r] by (simp add: in_hand_def object_key_def owner_names_def)
    moreover have "live E orig ?kc" using l by (simp add: SetUserSecret_def live_fields)
    ultimately show ?case
      using assms(5)[of ?kc] held 1(2) by (auto simp: adoptSecret_def Let_def with_secret_same)
  next
    case (2 e sec w')
    then show ?case using there by (simp add: key)
  qed
qed

text \<open>A predefined secret has been provided by its user.\<close>

definition provided :: "promises \<Rightarrow> string \<Rightarrow> store \<Rightarrow> bool" where
  "provided pre n c \<longleftrightarrow> (predefined pre n \<noteq> None \<longrightarrow> secret_at c (secret_place pre n) \<noteq> None)"

lemma then_user_secret:
  assumes "reliable E obs" and "live E orig kc" and "Name (KMeta kc) = n"
    and "ExistingCSR (Spec kc) = predefined pre n" and "provided pre n (obs (world s))"
    and "\<And>kc' sec d s'. live E orig kc' \<Longrightarrow> in_hand pre n sec \<Longrightarrow> SecretData sec = Some d \<Longrightarrow>
      obs (world s') = with_secret pre n d (obs (world s)) \<Longrightarrow>
      secret_at (obs (world s)) (secret_place pre n) \<in> {None, Some d} \<Longrightarrow> wp (k (kc', sec)) Q s'"
  shows "wp (go_then (reconcileUserSecret E kc) k) Q s"
proof (cases "predefined pre n")
  case None
  then have "reconcileUserSecret E kc = reconcileOwnSecret E kc" by (simp add: reconcileUserSecret_def assms(4))
  then show ?thesis
    using then_own_secret[where pre = pre and n = n and k = k, OF assms(1-3) None] assms(6) by simp
next
  case (Some ref)
  then have "reconcileUserSecret E kc = reconcileExistingSecret E kc ref" by (simp add: reconcileUserSecret_def assms(4))
  moreover have "secret_at (obs (world s)) (secret_place pre n) \<noteq> None" using assms(5) Some by (simp add: provided_def)
  ultimately show ?thesis
    using then_predefined_secret[where pre = pre and n = n and k = k, OF assms(1,2) Some] assms(6) by simp
qed

subsection \<open>One run in each situation\<close>

text \<open>From the read of an unfinished Kubeconfig to its user secret, and to the read of its request.\<close>

lemma start_secret:
  fixes w :: 'w
  assumes r: "reliable E obs" and k: "kubeconfig_at (obs w) (nn_Name req) = Some kc"
    and "\<not> isInTerminalCondition E kc"
    and run: "\<And>s. obs (world s) = obs w \<Longrightarrow>
      wp (go_then (reconcileUserSecret E kc) (\<lambda>(kc, sec). m kc sec)) Q s"
  shows "wp (go_bind (Get_Kubeconfig E req zero_kubeconfig) (\<lambda>(err, kc). case err of
      Some e \<Rightarrow> if IsNotFound err then go_return (empty_result, None) else go_return (empty_result, err)
    | None \<Rightarrow> if isInTerminalCondition E kc then go_return (empty_result, None)
        else go_then (reconcileUserSecret E kc) (\<lambda>(kc, sec). m kc sec))) Q (start w)"
  unfolding Get_Kubeconfig_def
proof (rule bind_exact_read[OF exact_get_kubeconfig[OF r]], goal_cases)
  case (1 kc1 w')
  then have "kc1 = kc" using k by simp
  moreover have "wp (go_then (reconcileUserSecret E kc) (\<lambda>(kc, sec). m kc sec)) Q
      \<lparr>world = w', calls = calls (start w) @ [GetKubeconfig req None kc]\<rparr>"
    using 1(2) by (intro run) simp
  ultimately show ?case using assms(3) by simp
next
  case (2 e kc1 w')
  then show ?case using k by simp
qed

lemma start_run:
  fixes w :: 'w
  assumes r: "reliable E obs" and k: "kubeconfig_at (obs w) (nn_Name req) = Some kc"
    and n: "Name (KMeta kc) = nn_Name req" and live: "\<not> isInTerminalCondition E kc"
    and ref: "ExistingCSR (Spec kc) = predefined pre (nn_Name req)" and there: "provided pre (nn_Name req) (obs w)"
    and run: "\<And>kc' sec d s'. live E kc kc' \<Longrightarrow> in_hand pre (nn_Name req) sec \<Longrightarrow> SecretData sec = Some d \<Longrightarrow>
      obs (world s') = with_secret pre (nn_Name req) d (obs w) \<Longrightarrow> wp (reconcileCSR E kc' sec) Q s'"
  shows "wp (Reconcile E req) Q (start w)"
  unfolding Reconcile_def
proof (rule start_secret[OF r k live])
  fix s :: "'w go_state" assume "obs (world s) = obs w"
  then show "wp (go_then (reconcileUserSecret E kc) (\<lambda>(kc, sec). reconcileCSR E kc sec)) Q s"
    using live there run
    by (intro then_user_secret[where pre = pre and n = "nn_Name req" and orig = kc, OF r _ n ref]) (auto simp: live_def)
qed

text \<open>No request yet: key and request are generated, stored and submitted.\<close>

definition submitted :: "'w env \<Rightarrow> promises \<Rightarrow> Kubeconfig \<Rightarrow> string \<Rightarrow> store \<Rightarrow> store \<Rightarrow> bool" where
  "submitted E pre kc n c c' \<longleftrightarrow> (\<exists>kc1 kc2 d key req s s'. live E kc kc1 \<and> live E kc kc2 \<and>
     Phase (Status kc2) = PhaseAwaitingApproval \<and> createCSR E kc1 s = (Ret (Some key, Some req, None), s') \<and>
     d CertificateSecretPrivKeyKey = Some key \<and> d CertificateSecretCSRKey = Some req \<and>
     c' = update_status kc2 (put_request (createCsr E kc1 req) (with_secret pre n d c)))"

lemma with_secret_fields [simp]:
  "kubeconfig_at (with_secret pre n d c) = kubeconfig_at c" "request_at (with_secret pre n d c) = request_at c"
  "binding_at (with_secret pre n d c) = binding_at c" "config_at (with_secret pre n d c) = config_at c"
  "secret_at (with_secret pre n d c) (secret_place pre n) = Some d"
  "with_secret pre n d (with_secret pre n d' c) = with_secret pre n d c"
  by (simp_all add: with_secret_def)

lemma createCsr_fields:
  "owner_names E \<Longrightarrow> Name (CsrMeta (createCsr E kc req)) = Name (KMeta kc)"
  "Request (createCsr E kc req) = req" "CsrConditions (createCsr E kc req) = []"
  by (simp_all add: createCsr_def Let_def owner_names_def)

text \<open>The status written last; the rest of the store is \<open>c1\<close>.\<close>

lemma bind_exact_status:
  assumes "reliable E obs" and "kubeconfig_at (obs (world s)) (Name (KMeta kc)) \<noteq> None"
    and "\<And>s'. obs (world s') = update_status kc (obs (world s)) \<Longrightarrow> Q (Ret x) s'"
  shows "wp (go_bind (Status_Update_Kubeconfig E kc) (\<lambda>_. go_return x)) Q s"
  unfolding Status_Update_Kubeconfig_def
  by (rule bind_exact_write[OF exact_update_kubeconfig[OF assms(1)] assms(2)])
    (use assms(3) in \<open>auto simp: wp_return\<close>)

lemma submit_run:
  fixes s :: "'w go_state"
  assumes r: "reliable E obs" and l: "live E kc kc1" and n: "Name (KMeta kc) = n"
    and h: "in_hand pre n sec" "SecretData sec = Some d" and o: "obs (world s) = with_secret pre n d c"
    and none: "request_at c n = None" and k: "kubeconfig_at c n \<noteq> None"
    and issued: "createCSR E kc1 s0 = (Ret (Some key, Some req, None), s)"
  shows "wp (submitCSR E kc1 sec key req)
    (\<lambda>r s'. r = Ret (empty_result, None) \<and> submitted E pre kc n c (obs (world s'))) s"
proof -
  note laws = reliable_laws[OF r]
  let ?d = "d(CertificateSecretPrivKeyKey \<mapsto> key, CertificateSecretCSRKey \<mapsto> req)"
  let ?sec = "sec\<lparr>SecretData := Some ?d\<rparr>"
  have sec: "object_key (SMeta ?sec) = secret_place pre n" "merged ?sec = ?d"
    using h by (simp_all add: in_hand_def merged_plain)
  have n1: "Name (KMeta kc1) = n" using l n by (simp add: live_def)
  show ?thesis
    unfolding submitCSR_def Update_Secret_def
  proof (rule bind_store[OF h(2)], rule bind_store[OF refl],
      rule bind_exact_write[OF exact_update_secret[OF r]], goal_cases)
    case 1
    show ?case using o sec(1) by simp
  next
    case (2 obj w2)
    have o2: "obs w2 = with_secret pre n ?d c" using 2 o sec by (simp add: put_secret_with)
    show ?case
      unfolding prod.case option.case Let_def Create_Csr_def
    proof (rule bind_event, rule bind_exact_write[OF exact_create_csr[OF r]], goal_cases)
      case 1
      show ?case using o2 none n1 by (simp add: createCsr_fields laws)
    next
      case (2 obj w3)
      then have o3: "obs w3 = put_request (createCsr E kc1 req) (with_secret pre n ?d c)" using o2 by simp
      show ?case
        unfolding prod.case option.case
      proof (rule bind_live[OF laws(1), where orig = kc], goal_cases)
        case (3 kc2)
        have l2: "live E kc (SetPhase kc2 PhaseAwaitingApproval)"
          using 3(1) by (simp add: SetPhase_def live_fields)
        show ?case
        proof (rule bind_event, rule bind_exact_status[OF r], goal_cases)
          case 1
          show ?case using o3 k n l2 by (simp add: live_def put_request_def)
        next
          case (2 s')
          show ?case
            unfolding submitted_def using l l2 issued 2 o3
            by (intro conjI exI[of _ kc1] exI[of _ "SetPhase kc2 PhaseAwaitingApproval"] exI[of _ ?d])
              (auto simp: SetPhase_def)
        qed
      qed (use l in \<open>simp_all add: live_fields\<close>)
    qed
  qed
qed

lemma fresh_run:
  fixes s :: "'w go_state"
  assumes r: "reliable E obs" and l: "live E kc kc1" and n: "Name (KMeta kc) = n"
    and h: "in_hand pre n sec" "SecretData sec = Some d" and o: "obs (world s) = with_secret pre n d c"
    and none: "request_at c n = None" and k: "kubeconfig_at c n \<noteq> None"
    and csr: "SpecCSR (Spec kc) = Some csr" "SignatureAlg csr \<in> set supported_algorithms"
  shows "wp (reconcileCSR E kc1 sec) (\<lambda>r s'. r = Ret (empty_result, None) \<and> submitted E pre kc n c (obs (world s'))) s"
proof -
  have n1: "Name (KMeta kc1) = n" "SpecCSR (Spec kc1) = Some csr" using l n csr by (simp_all add: live_def)
  show ?thesis
    unfolding reconcileCSR_def Get_Csr_def
  proof (rule bind_exact_read[OF exact_get_csr[OF r]], goal_cases)
    case (1 obj w')
    then show ?case using none o n1 by (simp add: csr_name_def)
  next
    case (2 e obj w')
    show ?case
      unfolding prod.case if_P[OF 2(3)] reconcileFreshCSR_def
    proof (rule bind_event, rule bind_exact_createCSR[OF r n1(2) csr(2)], goal_cases)
      case (1 key req s')
      then show ?case
        using submit_run[OF r l n h _ none k 1(1)] 2(2) o by (simp add: wp_bind wp_deref)
    qed
  qed
qed

text \<open>A request exists: its conditions decide which part runs.\<close>

lemma existing_run:
  fixes s :: "'w go_state"
  assumes r: "reliable E obs" and n: "Name (KMeta kc1) = n"
    and o: "obs (world s) = with_secret pre n d c" and q: "request_at c n = Some q"
    and run: "\<And>s'. obs (world s') = with_secret pre n d c \<Longrightarrow> wp (reconcileExistingCSR E kc1 sec q) Q s'"
  shows "wp (reconcileCSR E kc1 sec) Q s"
  unfolding reconcileCSR_def Get_Csr_def
proof (rule bind_exact_read[OF exact_get_csr[OF r]], goal_cases)
  case (1 obj w')
  then have "obj = q" using o q n by (simp add: csr_name_def)
  then show ?case using run 1(2) o by simp
next
  case (2 e obj w')
  then show ?case using o q n by (simp add: csr_name_def)
qed

definition refused :: "Csr \<Rightarrow> bool" where
  "refused q \<longleftrightarrow> CertificateDenied \<in> cc_Type ` set (CsrConditions q) \<or>
     CertificateFailed \<in> cc_Type ` set (CsrConditions q)"

lemma condition_after:
  assumes "conditions_law E"
  shows "isInTerminalCondition E (kc\<lparr>Status := st\<lparr>Conditions := meta_SetStatusCondition E at cs
      (new_condition ConditionTypeKubeconfigFinished t at' r m)\<rparr>\<rparr>) \<longleftrightarrow> t \<noteq> ConditionUnknown"
    and "finished E (kc\<lparr>Status := st\<lparr>Conditions := meta_SetStatusCondition E at cs
      (new_condition ConditionTypeKubeconfigFinished t at' r m)\<rparr>\<rparr>) \<longleftrightarrow> t = ConditionTrue"
  by (simp_all add: isInTerminalCondition_eq terminal_conditions_set[OF assms] finished_set[OF assms])

lemma terminal_phase [simp]:
  "isInTerminalCondition E (SetPhase kc p) = isInTerminalCondition E kc"
  "finished E (SetPhase kc p) = finished E kc"
  by (simp_all add: SetPhase_def isInTerminalCondition_eq finished_def)

text \<open>The status of the Kubeconfig is the only thing that changes, or that and its secret.\<close>

definition status_written :: "'w env \<Rightarrow> Kubeconfig \<Rightarrow> (Kubeconfig \<Rightarrow> bool) \<Rightarrow> store \<Rightarrow> store \<Rightarrow> bool" where
  "status_written E kc P c c' \<longleftrightarrow> (\<exists>kc2. KMeta kc2 = KMeta kc \<and> Spec kc2 = Spec kc \<and> P kc2 \<and>
     c' = update_status kc2 c)"

lemma denied_run:
  fixes s :: "'w go_state"
  assumes r: "reliable E obs" and l: "live E kc kc1" and n: "Name (KMeta kc) = n"
    and o: "obs (world s) = with_secret pre n d c" and k: "kubeconfig_at c n \<noteq> None"
  shows "wp (reconcileDenied E kc1) (\<lambda>r s'. r = Ret (empty_result, None) \<and>
    status_written E kc (\<lambda>k. isInTerminalCondition E k \<and> Phase (Status k) = PhaseFailed) (with_secret pre n d c) (obs (world s'))) s"
  unfolding reconcileDenied_def
proof (rule bind_live[OF reliable_laws(1)[OF r] l], simp, goal_cases)
  case (1 kc2)
  let ?kc3 = "kc2\<lparr>Status := (Status kc2)\<lparr>Conditions := meta_SetStatusCondition E (time_Now E (world s))
    (Conditions (Status kc2)) (new_condition ConditionTypeKubeconfigFinished ConditionFalse 0
      ''Failed'' ''Kubeconfig creation failed in CSR stage'')\<rparr>\<rparr>"
  show ?case
    unfolding wp_bind[of "SetCondition E kc2 t st re m" for t st re m] wp_SetCondition outcome.case
  proof (rule bind_exact_status[OF r], goal_cases)
    case 1
    show ?case using o k n \<open>live E kc kc2\<close> by (simp add: SetPhase_def live_def)
  next
    case (2 s')
    then show ?case
      unfolding status_written_def
      using \<open>live E kc kc2\<close> o condition_after(1)[OF reliable_laws(1)[OF r]]
      by (auto simp: live_def SetPhase_def[of _ PhaseFailed] isInTerminalCondition_eq
          intro!: exI[of _ "SetPhase ?kc3 PhaseFailed"] simp del: terminal_phase)
  qed
qed

lemma waiting_run:
  fixes s :: "'w go_state"
  assumes r: "reliable E obs" and l: "live E kc kc1" and n: "Name (KMeta kc) = n"
    and o: "obs (world s) = with_secret pre n d c" and k: "kubeconfig_at c n \<noteq> None"
    and w: "\<not> refused q" "\<not> grantable q"
  shows "wp (reconcileExistingCSR E kc1 sec q) (\<lambda>r s'. (\<exists>res. r = Ret (res, None)) \<and>
    (obs (world s') = with_secret pre n d c \<or>
     status_written E kc (\<lambda>k. \<not> isInTerminalCondition E k) (with_secret pre n d c) (obs (world s')))) s"
proof (cases "CertificateApproved \<in> cc_Type ` set (CsrConditions q)")
  case False
  then show ?thesis
    using w(1) o by (simp add: reconcileExistingCSR_def getCertApprovalCondition_eq refused_def wp_return)
next
  case True
  then have cert: "length (Certificate q) = 0" using w by (auto simp: grantable_def refused_def)
  have "wp (reconcileApproved E kc1 sec q) (\<lambda>r s'. (\<exists>res. r = Ret (res, None)) \<and>
    (obs (world s') = with_secret pre n d c \<or>
     status_written E kc (\<lambda>k. \<not> isInTerminalCondition E k) (with_secret pre n d c) (obs (world s')))) s"
    unfolding reconcileApproved_def if_P[OF cert]
  proof (rule bind_live[OF reliable_laws(1)[OF r] l], simp, rule bind_exact_status[OF r], goal_cases)
    case (1 kc2)
    then show ?case using o k n by (simp add: live_def)
  next
    case (2 kc2 s')
    then show ?case using o by (auto simp: live_def status_written_def)
  qed
  then show ?thesis
    using w(1) True by (simp add: reconcileExistingCSR_def getCertApprovalCondition_eq refused_def)
qed

lemma bind_exact_createKubeconfig:
  assumes "reliable E obs" and "config_at (obs (world s)) (nn_key kube_root_ca_name) \<noteq> None"
    and "SpecCluster (Spec kc) = Some cl"
    and "\<And>cfg s'. obs (world s') = obs (world s) \<Longrightarrow> wp (k (cfg, None)) Q s'"
  shows "wp (go_bind (createKubeconfig E kc sec) k) Q s"
  unfolding createKubeconfig_def ClusterCA_def go_bind_assoc Get_ConfigMap_def
  by (rule bind_exact_read[OF exact_get_configmap[OF assms(1)]])
    (use assms(2-4) in \<open>auto simp: ClientData_def wp_bind[of "go_deref p" for p] wp_deref go_bind_assoc\<close>)

text \<open>
  The role binding of a Kubeconfig is made where there is none of its name. One that is there
  already is left as it is, whatever it grants.
\<close>

definition grants :: "Kubeconfig \<Rightarrow> ClusterRoleBinding \<Rightarrow> bool" where
  "grants kc b \<longleftrightarrow> SpecRoleRef (Spec kc) = Some (CrbRoleRef b) \<and>
     Subjects b = [\<lparr>sub_Kind = ''User'', sub_APIGroup = ''rbac.authorization.k8s.io'', sub_Name = Username (Spec kc)\<rparr>]"

definition bound :: "Kubeconfig \<Rightarrow> store \<Rightarrow> bool" where
  "bound kc c \<longleftrightarrow> (\<exists>b. binding_at c (nn_Name (crb_name kc)) = Some b \<and> grants kc b)"

definition with_binding :: "Kubeconfig \<Rightarrow> RoleRef \<Rightarrow> store \<Rightarrow> store" where
  "with_binding kc role c = (if binding_at c (nn_Name (crb_name kc)) = None
     then put_binding (wanted_binding kc role) c else c)"

lemma wanted_binding_fields:
  "Name (CrbMeta (wanted_binding kc role)) = nn_Name (crb_name kc)"
  "SpecRoleRef (Spec kc) = Some role \<Longrightarrow> grants kc (wanted_binding kc role)"
  by (simp_all add: wanted_binding_def crb_name_def grants_def)

lemma put_binding_fields [simp]:
  "kubeconfig_at (put_binding b c) = kubeconfig_at c" "request_at (put_binding b c) = request_at c"
  "secret_at (put_binding b c) = secret_at c"
  by (simp_all add: put_binding_def)

lemma with_binding_fields [simp]:
  "kubeconfig_at (with_binding kc role c) = kubeconfig_at c" "request_at (with_binding kc role c) = request_at c"
  "secret_at (with_binding kc role c) = secret_at c"
  by (simp_all add: with_binding_def)

lemma then_roleBinding:
  assumes r: "reliable E obs" and role: "SpecRoleRef (Spec orig) = Some role" and same: "same_resource orig kc"
    and "\<And>s'. obs (world s') = with_binding orig role (obs (world s)) \<Longrightarrow> wp (k ()) Q s'"
  shows "wp (go_then (reconcileRoleBinding E kc) k) Q s"
  unfolding reconcileRoleBinding_def go_then_assoc Get_Crb_def
proof (rule bind_exact_read[OF exact_get_crb[OF r]], goal_cases)
  case (1 obj w')
  then show ?case using assms(4) same_names(2)[OF same] by (simp add: with_binding_def crb_name_def)
next
  case (2 e obj w')
  let ?b = "wanted_binding orig role"
  have b: "createClusterRoleBinding kc (crb_name kc) = go_return ?b"
    using createClusterRoleBinding_wanted[OF same] role by simp
  have name: "Name (CrbMeta ?b) = nn_Name (crb_name kc)"
    using same_names(2)[OF same] by (simp add: wanted_binding_def)
  show ?case
    unfolding prod.case option.case if_P[OF 2(3)] b go_bind_return(1) go_then_assoc Create_Crb_def
  proof (rule bind_exact_write[OF exact_create_crb[OF r]], goal_cases)
    case 1
    then show ?case using 2 name by simp
  next
    case (2 obj w'')
    then have "obs w'' = with_binding orig role (obs (world s))"
      using \<open>obs w' = obs (world s)\<close> \<open>\<not> binding_at (obs (world s)) (nn_Name (crb_name kc)) \<noteq> None\<close> same_names(2)[OF same]
      by (simp add: with_binding_def crb_name_def)
    then show ?case unfolding prod.case option.case go_then_return by (intro assms(4)) simp
  qed
qed

text \<open>
  What a run leaves that found a granted request: certificate and kubeconfig beside the entries
  \<open>d\<close> of the user secret, the role binding, and the final status.
\<close>

definition granted_store :: "'w env \<Rightarrow> promises \<Rightarrow> Kubeconfig \<Rightarrow> Csr \<Rightarrow> string \<Rightarrow> (string \<rightharpoonup> bytes) \<Rightarrow> store \<Rightarrow> store \<Rightarrow> bool" where
  "granted_store E pre kc q n d c c' \<longleftrightarrow> (\<exists>kc2 cfg role. KMeta kc2 = KMeta kc \<and> Spec kc2 = Spec kc \<and> finished E kc2 \<and>
     Phase (Status kc2) = PhaseDone \<and> StatusKubeconfig (Status kc2) = cfg \<and> SpecRoleRef (Spec kc) = Some role \<and>
     c' = update_status kc2 (with_binding kc role
       (with_secret pre n (d(CertificateSecretCertKey \<mapsto> Certificate q, KubeconfigKey \<mapsto> cfg)) c)))"

lemma finish_run:
  fixes s :: "'w go_state"
  assumes r: "reliable E obs" and n: "Name (KMeta kc) = n" and k: "kubeconfig_at c n \<noteq> None"
    and kc2: "live E kc kc2" "StatusKubeconfig (Status kc2) = cfg" and role: "SpecRoleRef (Spec kc) = Some role"
    and o: "obs (world s) = with_binding kc role
      (with_secret pre n (d(CertificateSecretCertKey \<mapsto> Certificate q, KubeconfigKey \<mapsto> cfg)) c)"
  shows "wp (finishKubeconfig E kc2) (\<lambda>r s'. r = Ret (empty_result, None) \<and>
    granted_store E pre kc q n d c (obs (world s'))) s"
proof -
  let ?kc3 = "kc2\<lparr>Status := (Status kc2)\<lparr>Conditions := meta_SetStatusCondition E (time_Now E (world s))
    (Conditions (Status kc2)) (new_condition ConditionTypeKubeconfigFinished ConditionTrue 0
      ''Finished'' ''Finished kubeconfig creation'')\<rparr>\<rparr>"
  have fin: "finished E ?kc3" by (simp add: condition_after(2)[OF reliable_laws(1)[OF r]])
  show ?thesis
    unfolding finishKubeconfig_def wp_bind[of "SetCondition E kc2 t st re m" for t st re m] wp_SetCondition outcome.case
  proof (rule bind_exact_status[OF r], goal_cases)
    case 1
    show ?case using kc2 o k n by (simp add: SetPhase_def live_def)
  next
    case (2 s')
    have "granted_store E pre kc q n d c (obs (world s'))"
      unfolding granted_store_def
      by (intro exI[of _ "SetPhase ?kc3 PhaseDone"] exI[of _ cfg] exI[of _ role] conjI)
        (use kc2 o role fin 2 in \<open>simp_all add: live_def, simp_all add: SetPhase_def\<close>)
    then show ?case by simp
  qed
qed

lemma grantable_run:
  fixes s :: "'w go_state"
  assumes r: "reliable E obs" and l: "live E kc kc1" and n: "Name (KMeta kc) = n"
    and h: "in_hand pre n sec" "SecretData sec = Some d"
    and o: "obs (world s) = with_secret pre n d c" and k: "kubeconfig_at c n \<noteq> None" and g: "grantable q"
    and sp: "SpecCluster (Spec kc) = Some cl" "SpecRoleRef (Spec kc) = Some role"
    and ca: "config_at c (nn_key kube_root_ca_name) \<noteq> None"
  shows "wp (reconcileApproved E kc1 sec q) (\<lambda>r s'. r = Ret (empty_result, None) \<and>
    granted_store E pre kc q n d c (obs (world s'))) s"
proof -
  have cert: "length (Certificate q) \<noteq> 0" using g by (simp add: grantable_def)
  note laws = reliable_laws[OF r]
  let ?sec = "sec\<lparr>SecretData := Some (d(CertificateSecretCertKey \<mapsto> Certificate q))\<rparr>"
  show ?thesis
    unfolding reconcileApproved_def if_not_P[OF cert]
  proof (rule bind_live[OF laws(1) l], simp, goal_cases)
    case (1 kc2)
    have sp2: "SpecCluster (Spec kc2) = Some cl" using sp 1 by (simp add: live_def)
    show ?case
      unfolding storeKubeconfig_def Let_def go_then_assoc
    proof (rule bind_store[OF h(2)], rule bind_exact_createKubeconfig[OF r _ sp2], goal_cases)
      case 1
      show ?case using o ca by simp
    next
      case (2 cfg s1)
      let ?d = "d(CertificateSecretCertKey \<mapsto> Certificate q, KubeconfigKey \<mapsto> cfg)"
      let ?new = "sec\<lparr>SecretData := Some ?d\<rparr>"
      have new: "object_key (SMeta ?new) = secret_place pre n" "merged ?new = ?d"
        using h by (simp_all add: in_hand_def merged_plain)
      show ?case
        unfolding prod.case option.case go_then_assoc Update_Secret_def data_update
      proof (rule bind_store[OF refl], rule bind_exact_write[OF exact_update_secret[OF r]], goal_cases)
        case 1
        show ?case using 2 o new(1) by simp
      next
        case (2 obj w2)
        then have o2: "obs w2 = with_secret pre n ?d c"
          using \<open>obs (world s1) = obs (world s)\<close> o new by (simp add: put_secret_with)
        show ?case
          unfolding prod.case option.case go_then_assoc
        proof (rule bind_live[OF laws(1), where orig = kc], goal_cases)
          case 1
          show ?case using \<open>live E kc kc2\<close> by (simp add: live_fields)
        next
          case (3 kc3)
          have same: "same_resource kc kc3" using 3(1) by (simp add: same_resource_def live_def)
          have stored: "StatusKubeconfig (Status kc3) = cfg" by (subst 3(2)) simp
          show ?case
            unfolding go_then_return
          proof (rule then_roleBinding[OF r sp(2) same], goal_cases)
            case (1 s2)
            then show ?case using finish_run[OF r n k 3(1) stored sp(2)] o2 by simp
          qed
        qed simp
      qed
    qed
  qed
qed

subsection \<open>Stages\<close>

text \<open>
  How far a Kubeconfig is, read off the store: nothing requested, the request undecided
  (pending, or approved and not signed yet), decided (refused, or granted and signed), over.
\<close>

datatype stage = Unrequested | Undecided | Decided | Over

text \<open>Stages are ordered by how far they are.\<close>

fun rank :: "stage \<Rightarrow> nat" where
  "rank Unrequested = 0"
| "rank Undecided = 1"
| "rank Decided = 2"
| "rank Over = 3"

lemma rank_inj: "rank st = rank st' \<Longrightarrow> st = st'"
  by (cases st; cases st') simp_all

instantiation stage :: linorder
begin

definition less_eq_stage :: "stage \<Rightarrow> stage \<Rightarrow> bool" where
  "less_eq_stage st st' \<longleftrightarrow> rank st \<le> rank st'"

definition less_stage :: "stage \<Rightarrow> stage \<Rightarrow> bool" where
  "less_stage st st' \<longleftrightarrow> rank st < rank st'"

instance
  by standard (auto simp: less_eq_stage_def less_stage_def intro: rank_inj)

end

text \<open>The runs that still have to do something.\<close>

fun work_left :: "stage \<Rightarrow> nat" where
  "work_left Unrequested = 2"
| "work_left Undecided = 1"
| "work_left Decided = 1"
| "work_left Over = 0"

definition stage_of :: "'w env \<Rightarrow> store \<Rightarrow> string \<Rightarrow> stage" where
  "stage_of E c n = (case kubeconfig_at c n of
     None \<Rightarrow> Over
   | Some k \<Rightarrow> if isInTerminalCondition E k then Over
       else (case request_at c n of
          None \<Rightarrow> Unrequested
        | Some q \<Rightarrow> if refused q \<or> grantable q then Decided else Undecided))"

text \<open>A specification the webhook has defaulted, with an algorithm that is supported.\<close>

definition workable :: "Kubeconfig \<Rightarrow> bool" where
  "workable kc \<longleftrightarrow> SpecCluster (Spec kc) \<noteq> None \<and> SpecRoleRef (Spec kc) \<noteq> None \<and>
     (\<exists>csr. SpecCSR (Spec kc) = Some csr \<and> SignatureAlg csr \<in> set supported_algorithms)"

fun stage_after :: "stage \<Rightarrow> stage" where
  "stage_after Unrequested = Undecided"
| "stage_after Undecided = Undecided"
| "stage_after Decided = Over"
| "stage_after Over = Over"

lemma stage_after_advances: "st \<le> stage_after st" "stage_after st \<in> {Undecided, Over}"
  by (cases st; simp add: less_eq_stage_def)+

lemma work_left_antimono: "st \<le> st' \<Longrightarrow> work_left st' \<le> work_left st"
  by (cases st; cases st') (simp_all add: less_eq_stage_def)

lemma update_status_fields [simp]:
  "request_at (update_status k c) = request_at c" "secret_at (update_status k c) = secret_at c"
  "binding_at (update_status k c) = binding_at c" "config_at (update_status k c) = config_at c"
  by (simp_all add: update_status_def)

lemma update_status_at:
  "Name (KMeta k) = n \<Longrightarrow> kubeconfig_at c n = Some kc \<Longrightarrow>
     kubeconfig_at (update_status k c) n = Some (kc\<lparr>Status := Status k\<rparr>)"
  by (simp add: update_status_def)

lemma terminal_update [simp]:
  "isInTerminalCondition E (k\<lparr>Status := Status k'\<rparr>) = isInTerminalCondition E k'"
  by (simp add: isInTerminalCondition_eq)

lemma stage_written:
  assumes "kubeconfig_at c n = Some kc" and "Name (KMeta kc) = n" and "\<not> isInTerminalCondition E kc"
    and "KMeta kc2 = KMeta kc" and "kubeconfig_at c1 = kubeconfig_at c" and "request_at c1 = request_at c"
  shows "stage_of E (update_status kc2 c1) n = (if isInTerminalCondition E kc2 then Over else stage_of E c n)"
  using assms by (simp add: stage_of_def update_status_at split: option.split)

lemma submitted_stage:
  assumes k: "kubeconfig_at c n = Some kc" "Name (KMeta kc) = n" and r: "reliable E obs" and "submitted E pre kc n c c'"
  shows "stage_of E c' n = Undecided"
proof -
  obtain kc1 kc2 d req where s: "live E kc kc1" "live E kc kc2"
    "c' = update_status kc2 (put_request (createCsr E kc1 req) (with_secret pre n d c))"
    using assms(4) unfolding submitted_def by blast
  let ?q = "(createCsr E kc1 req)\<lparr>CsrConditions := [], Certificate := []\<rparr>"
  have "kubeconfig_at c' n = Some (kc\<lparr>Status := Status kc2\<rparr>)"
    using s k by (simp add: update_status_at live_def put_request_def)
  moreover have "request_at c' n = Some ?q"
    using s k by (simp add: put_request_def createCsr_fields reliable_laws[OF r] live_def)
  moreover have "\<not> refused ?q" "\<not> grantable ?q" by (simp_all add: refused_def grantable_def)
  ultimately show ?thesis using s(2) by (simp add: stage_of_def live_def)
qed

text \<open>A run that finds a request: it ends the Kubeconfig if the request is decided, and waits otherwise.\<close>

lemma request_moves:
  fixes s :: "'w go_state"
  assumes r: "reliable E obs" and k: "kubeconfig_at c n = Some kc" "Name (KMeta kc) = n" and sp: "workable kc"
    and ca: "config_at c (nn_key kube_root_ca_name) \<noteq> None" and live: "\<not> isInTerminalCondition E kc"
    and l: "live E kc kc1" and h: "in_hand pre n sec" "SecretData sec = Some d"
    and o: "obs (world s) = with_secret pre n d c" and q: "request_at c n = Some q"
  shows "wp (reconcileExistingCSR E kc1 sec q) (\<lambda>r s'. (\<exists>res. r = Ret (res, None)) \<and>
    stage_of E (obs (world s')) n = stage_after (stage_of E c n)) s"
proof -
  let ?w = "with_secret pre n d c"
  have at: "kubeconfig_at c n \<noteq> None" using k by simp
  have st: "stage_of E c n = (if refused q \<or> grantable q then Decided else Undecided)"
    using k live q by (simp add: stage_of_def)
  have same: "stage_of E ?w n = stage_of E c n" using q by (simp add: stage_of_def split: option.split)
  have written: "stage_of E c' n = Over" if "status_written E kc P ?w c'" "\<And>k. P k \<Longrightarrow> isInTerminalCondition E k" for P c'
    using that stage_written[OF k live, of _ ?w] by (auto simp: status_written_def)
  have kept: "stage_of E c' n = stage_of E c n"
    if "status_written E kc (\<lambda>k. \<not> isInTerminalCondition E k) ?w c'" for c'
    using that stage_written[OF k live, of _ ?w] by (auto simp: status_written_def)
  have granted: "stage_of E c' n = Over" if "granted_store E pre kc q n d c c'" for c'
    using that stage_written[OF k live] by (auto simp: granted_store_def finished_def isInTerminalCondition_def)
  obtain cl role where spec: "SpecCluster (Spec kc) = Some cl" "SpecRoleRef (Spec kc) = Some role"
    using sp by (auto simp: workable_def)
  have eq: "reconcileExistingCSR E kc1 sec q = (if refused q then reconcileDenied E kc1
      else if CertificateApproved \<in> cc_Type ` set (CsrConditions q) then reconcileApproved E kc1 sec q
      else go_return (empty_result, None))"
    by (simp add: reconcileExistingCSR_def getCertApprovalCondition_eq refused_def)
  consider "refused q" | "\<not> refused q" "grantable q" | "\<not> refused q" "\<not> grantable q" by blast
  then show ?thesis
  proof cases
    case 1
    then show ?thesis
      unfolding eq using st written by (auto intro!: wp_mono[OF denied_run[OF r l k(2) o at]])
  next
    case 2
    then show ?thesis
      unfolding eq using st granted
      by (auto simp: grantable_def intro!: wp_mono[OF grantable_run[OF r l k(2) h o at 2(2) spec ca]])
  next
    case 3
    then show ?thesis
      using st kept same by (auto intro!: wp_mono[OF waiting_run[OF r l k(2) o at 3]])
  qed
qed

lemma stage_moves:
  fixes w :: 'w
  assumes r: "reliable E obs" and k: "kubeconfig_at (obs w) n = Some kc" "Name (KMeta kc) = n"
    and sp: "workable kc" and ca: "config_at (obs w) (nn_key kube_root_ca_name) \<noteq> None"
    and ref: "ExistingCSR (Spec kc) = predefined pre n" and there: "provided pre n (obs w)"
    and n: "nn_Name req = n" and live: "\<not> isInTerminalCondition E kc"
  shows "wp (Reconcile E req) (\<lambda>r s'. (\<exists>res. r = Ret (res, None)) \<and>
    stage_of E (obs (world s')) n = stage_after (stage_of E (obs w) n)) (start w)"
proof (rule start_run[where kc = kc and pre = pre, OF r], goal_cases)
  case (6 kc1 sec d s1)
  have sec: "in_hand pre n sec" and o: "obs (world s1) = with_secret pre n d (obs w)" using 6 n by simp_all
  obtain csr where csr: "SpecCSR (Spec kc) = Some csr" "SignatureAlg csr \<in> set supported_algorithms"
    using sp by (auto simp: workable_def)
  show ?case
  proof (cases "request_at (obs w) n")
    case None
    then have "stage_of E (obs w) n = Unrequested" using k live by (simp add: stage_of_def)
    then show ?thesis
      using k submitted_stage[OF k r] by (auto intro!: wp_mono[OF fresh_run[OF r 6(1) k(2) sec 6(3) o None _ csr]])
  next
    case (Some q)
    have "Name (KMeta kc1) = n" using 6(1) k by (simp add: live_def)
    then show ?thesis
      by (rule existing_run[OF r _ o Some]) (rule request_moves[OF r k sp ca live 6(1) sec 6(3) _ Some])
  qed
qed (use assms in simp_all)

end
