(* ===== verification/Run_Frame.thy ===== *)
theory Run_Frame
  imports System
begin

text \<open>
  What a run of a controller keeps: an assertion on the store that neither the steps of others nor
  the writes of the controller destroy holds after every call, every part and every whole run.
\<close>

lemma keeps_write:
  assumes "write_law Env obs possible effect returned f" and "stable Env P"
    and "\<And>c. P c \<Longrightarrow> possible c \<Longrightarrow> P (effect c)"
  shows "keeps obs P (api_call f ev)"
  unfolding keeps_def by (intro allI impI wp_write_stable[OF assms(1,2) _ assms(2,3)]) auto

text \<open>
  Properties of a store that no write of the Kubeconfig reconciler destroys, and those that no
  verdict of the approving controller does.
\<close>

definition unaffected :: "'w env \<Rightarrow> (store \<Rightarrow> bool) \<Rightarrow> bool" where
  "unaffected E P \<longleftrightarrow> (\<forall>c. P c \<longrightarrow> (\<forall>s. P (put_secret s c)) \<and>
     (\<forall>b. binding_at c (Name (CrbMeta b)) = None \<longrightarrow> P (put_binding b c)) \<and>
     (\<forall>kc req. request_at c (Name (CsrMeta (createCsr E kc req))) = None \<longrightarrow> P (put_request (createCsr E kc req) c)) \<and>
     (\<forall>k. kubeconfig_at c (Name (KMeta k)) \<noteq> None \<longrightarrow> P (update_status k c)))"

definition unaffected_by_verdicts :: "(store \<Rightarrow> bool) \<Rightarrow> bool" where
  "unaffected_by_verdicts P \<longleftrightarrow>
     (\<forall>c q. P c \<longrightarrow> request_at c (Name (CsrMeta q)) \<noteq> None \<longrightarrow> P (update_conditions q c))"

lemma reads_keep:
  assumes L: "client_law E obs Env" and st: "stable Env P"
  shows "keeps obs P (Get_Kubeconfig E n k0)" "keeps obs P (Get_Secret E n s0)" "keeps obs P (Get_Csr E n q0)"
    "keeps obs P (Get_Crb E n b0)" "keeps obs P (Get_ConfigMap E n m0)" "keeps obs P (createCSR E k)"
  unfolding client_defs
  by (auto intro!: keeps_read[OF get_kubeconfig_law[OF L] st] keeps_read[OF get_secret_law[OF L] st]
      keeps_read[OF get_csr_law[OF L] st] keeps_read[OF get_crb_law[OF L] st] keeps_read[OF get_configmap_law[OF L] st]
      createCSR_keeps[OF L st])

lemma writes_keep:
  assumes L: "client_law E obs Env" and st: "stable Env P" and u: "unaffected E P"
  shows "keeps obs P (Create_Secret E s)" "keeps obs P (Update_Secret E s)"
    "keeps obs P (Create_Csr E (createCsr E kc req))" "keeps obs P (Create_Crb E b)"
    "keeps obs P (Status_Update_Kubeconfig E k)"
  unfolding client_defs using u
  by (auto intro!: keeps_write[OF create_secret_law[OF L] st] keeps_write[OF update_secret_law[OF L] st]
      keeps_write[OF create_csr_law[OF L] st] keeps_write[OF create_crb_law[OF L] st]
      keeps_write[OF update_kubeconfig_law[OF L] st] simp: unaffected_def)

lemma verdicts_keep:
  assumes L: "client_law E obs Env" and st: "stable Env P" and u: "unaffected_by_verdicts P"
  shows "keeps obs P (Status_Update_Csr E q)" "keeps obs P (UpdateApproval E q)"
  unfolding client_defs using u
  by (auto intro!: keeps_write[OF update_csr_law[OF L] st] keeps_write[OF approval_law[OF L] st]
      simp: unaffected_by_verdicts_def)

lemma keeps_then: "keeps obs P m \<Longrightarrow> (\<And>x. keeps obs P (f x)) \<Longrightarrow> keeps obs P (go_then m f)"
  unfolding go_then_def by (intro keeps_bind keeps_case(2) keeps_basic)

text \<open>The parts of a run and the whole runs.\<close>

lemma parts_keep:
  assumes L: "client_law E obs Env" and st: "stable Env P" and u: "unaffected E P"
  shows "keeps obs P (reconcileUserSecret E kc)" "keeps obs P (storeKubeconfig E kc sec cert)"
    "keeps obs P (reconcileRoleBinding E kc)" "keeps obs P (reconcileCSR E kc sec)"
    "keeps obs P (reconcileFreshCSR E kc sec)" "keeps obs P (reconcileExistingCSR E kc sec csr)"
proof -
  note rules = reads_keep[OF L st] writes_keep[OF L st u] keeps_then keeps_rules
  note parts = Let_def SetCondition_def
  show fresh: "keeps obs P (reconcileFreshCSR E kc sec)" for kc sec
    unfolding reconcileFreshCSR_def submitCSR_def parts by (intro rules)
  show store: "keeps obs P (storeKubeconfig E kc sec cert)" for kc sec cert
    unfolding storeKubeconfig_def createKubeconfig_def ClusterCA_def ClientData_def parts by (intro rules)
  show bind: "keeps obs P (reconcileRoleBinding E kc)" for kc
    unfolding reconcileRoleBinding_def createClusterRoleBinding_def parts by (intro rules)
  show rest: "keeps obs P (reconcileExistingCSR E kc sec csr)" for kc sec csr
    unfolding reconcileExistingCSR_def reconcileDenied_def reconcileApproved_def finishKubeconfig_def parts
    by (intro rules store bind)
  show "keeps obs P (reconcileUserSecret E kc)"
    unfolding reconcileUserSecret_def reconcileOwnSecret_def reconcileExistingSecret_def parts by (intro rules)
  show "keeps obs P (reconcileCSR E kc sec)"
    unfolding reconcileCSR_def parts by (intro rules fresh rest)
qed

lemma Reconcile_keeps:
  assumes "client_law E obs Env" and "stable Env P" and "unaffected E P"
  shows "keeps obs P (Reconcile E req)"
  unfolding Reconcile_def by (intro parts_keep[OF assms] reads_keep[OF assms(1,2)] keeps_then keeps_rules)

lemma ReconcileCsr_keeps:
  assumes "client_law E obs Env" and "stable Env P" and "unaffected_by_verdicts P"
  shows "keeps obs P (ReconcileCsr E req)"
  unfolding ReconcileCsr_def ApproveCSR_def set_csr_condition_def Let_def
  by (intro reads_keep[OF assms(1,2)] verdicts_keep[OF assms] keeps_rules)

end
