(* ===== verification/Lifecycle.thy ===== *)
theory Lifecycle
  imports Progress Csr_Approval Run_Frame
begin

text \<open>
  The whole way of a Kubeconfig, composed of runs of both controllers and the signing of the
  request by the cluster, and the number of runs it takes.
\<close>

subsection \<open>The approving controller\<close>

lemma csr_run:
  fixes w :: 'w
  assumes r: "reliable E obs" and q: "request_at (obs w) (nn_Name req) = Some q" and n: "Name (CsrMeta q) = nn_Name req"
    and a: "to_approve q" and p: "parseCSR E (Request q) = Inr t"
  shows "wp (ReconcileCsr E req) (\<lambda>r s'. r = Ret (empty_result, None) \<and>
    (\<exists>at. obs (world s') = update_conditions (with_verdict q at CertificateApproved ''KubeconfigControllerApprove''
      ''The CSR was auto-approved by the kubeconfig operator'') (obs w))) (start w)"
  unfolding ReconcileCsr_def Get_Csr_def
proof (rule bind_exact_read[OF exact_get_csr[OF r]], goal_cases)
  case (1 q1 w')
  then have q1: "q1 = q" using q by simp
  let ?v = "\<lambda>at. with_verdict q at CertificateApproved ''KubeconfigControllerApprove''
      ''The CSR was auto-approved by the kubeconfig operator''"
  have act: "wp (go_bind (UpdateApproval E (?v at)) (\<lambda>(err, csr'). case err of Some e \<Rightarrow> go_return (?v at, Some e)
        | None \<Rightarrow> go_return (?v at, None))) (\<lambda>r s'. r = Ret (?v at, None) \<and> obs (world s') = update_conditions (?v at) (obs w)) s"
    if "obs (world s) = obs w" for at and s :: "'w go_state"
    unfolding UpdateApproval_def
    by (rule bind_exact_write[OF exact_approval[OF r]])
      (use that q n in \<open>auto simp: with_verdict_def wp_return\<close>)
  have approve: "wp (ApproveCSR E q) (\<lambda>r s'. \<exists>at. r = Ret (?v at, None) \<and> obs (world s') = update_conditions (?v at) (obs w)) s"
    if "obs (world s) = obs w" for s :: "'w go_state"
    unfolding ApproveCSR_def p sum.case wp_bind[of "set_csr_condition E q c" for c] wp_set_csr_condition outcome.case
      set_verdict[OF a, of CertificateApproved, simplified]
    by (rule wp_mono[OF act[OF that]]) blast
  have guards: "isKubeconfigV1Alpha1CSR q" "hasAutoApproveAnnotation q"
    "getCertApprovalCondition (CsrConditions q) = (False, False, False)"
    using a by (auto simp: to_approve_def getCertApprovalCondition_eq)
  show ?case
    unfolding prod.case option.case q1
    by (simp add: guards Let_def wp_bind[of "ApproveCSR E q"])
      (rule wp_mono[OF approve], simp add: 1(2), auto simp: wp_return)
next
  case (2 e q1 w')
  then show ?case using q by simp
qed

subsection \<open>From the request to the finished kubeconfig\<close>

text \<open>The signer of the cluster sets the certificate of an approved request.\<close>

definition signed :: "string \<Rightarrow> bytes \<Rightarrow> store \<Rightarrow> store" where
  "signed n cert c = (case request_at c n of
     None \<Rightarrow> c | Some q \<Rightarrow> c\<lparr>request_at := (request_at c)(n \<mapsto> q\<lparr>Certificate := cert\<rparr>)\<rparr>)"

lemma signed_interference: "interference E pre c (signed n cert c)"
  by (auto simp: interference_def others_def signed_def split: option.splits if_splits)

lemma signed_disturbed [simp]: "disturbed pre m (signed n cert c) = disturbed pre m c"
  by (simp add: disturbed_def signed_def split: option.split)

text \<open>Runs in which nothing fails leave a safe store, and no incident happens in them.\<close>

definition safe_for :: "'w env \<Rightarrow> promises \<Rightarrow> string \<Rightarrow> store \<Rightarrow> bool" where
  "safe_for E pre n c \<longleftrightarrow> safe E pre c \<and> \<not> disturbed pre n c"

lemma safe_forD:
  assumes "safe_for E pre n c"
  shows "sound E pre n c" "safe E pre c" "\<not> disturbed pre n c"
  using assms by (auto simp: safe_for_def safe_def healthy_def)

lemma signed_safe_for: "safe_for E pre n c \<Longrightarrow> safe_for E pre n (signed m cert c)"
  using stableD[OF stable_safe signed_interference] by (auto simp: safe_for_def)

lemma runs_safe_for:
  fixes w :: 'w
  assumes r: "reliable E obs" and ds: "distinct_secrets pre" and safe: "safe_for E pre n (obs w)"
  shows "Reconcile E req (start w) = (r1, s1) \<Longrightarrow> safe_for E pre n (obs (world s1))"
    and "ReconcileCsr E req (start w) = (r2, s2) \<Longrightarrow> safe_for E pre n (obs (world s2))"
proof -
  have L: "client_law E obs (=)" by (rule store_client_law[OF reliable_store_law[OF r]]) simp
  have st: "stable (=) (\<lambda>c. \<not> disturbed pre n c)" by (simp add: stable_def)
  have u: "unaffected E (\<lambda>c. \<not> disturbed pre n c)" "unaffected_by_verdicts (\<lambda>c. \<not> disturbed pre n c)"
    by (simp_all add: unaffected_def unaffected_by_verdicts_def)
  note law = reliable_cluster_law[OF r ds] and d = keepsD[of obs "\<lambda>c. \<not> disturbed pre n c" _ "start w"]
  show "safe_for E pre n (obs (world s1))" if "Reconcile E req (start w) = (r1, s1)"
    using Reconcile_safe[OF law, of "start w" req] d[OF Reconcile_keeps[OF L st u(1)], of req] safe that
    by (simp add: safe_for_def wp_def stays_safe_def)
  show "safe_for E pre n (obs (world s2))" if "ReconcileCsr E req (start w) = (r2, s2)"
    using ReconcileCsr_safe[OF law, of "start w" req] d[OF ReconcileCsr_keeps[OF L st u(2)], of req] safe that
    by (simp add: safe_for_def wp_def stays_safe_def)
qed

lemma first_run:
  fixes w :: 'w
  assumes r: "reliable E obs" and k: "kubeconfig_at (obs w) n = Some kc" "Name (KMeta kc) = n"
    and ref: "ExistingCSR (Spec kc) = predefined pre n" and there: "provided pre n (obs w)"
    and sp: "workable kc" and n: "nn_Name req = n" and live: "\<not> isInTerminalCondition E kc"
    and none: "request_at (obs w) n = None"
  shows "wp (Reconcile E req) (\<lambda>r s'. r = Ret (empty_result, None) \<and> submitted E pre kc n (obs w) (obs (world s'))) (start w)"
proof (rule start_run[where kc = kc and pre = pre, OF r], goal_cases)
  case (6 kc1 sec d s1)
  obtain csr where "SpecCSR (Spec kc) = Some csr" "SignatureAlg csr \<in> set supported_algorithms"
    using sp by (auto simp: workable_def)
  then show ?case using fresh_run[OF r 6(1) k(2) _ 6(3) _ none] 6 n k by simp
qed (use assms in simp_all)

lemma last_run:
  fixes w :: 'w
  assumes r: "reliable E obs" and k: "kubeconfig_at (obs w) n = Some kc" "Name (KMeta kc) = n"
    and ref: "ExistingCSR (Spec kc) = predefined pre n" and there: "provided pre n (obs w)"
    and sp: "workable kc" and ca: "config_at (obs w) (nn_key kube_root_ca_name) \<noteq> None"
    and n: "nn_Name req = n" and live: "\<not> isInTerminalCondition E kc"
    and q: "request_at (obs w) n = Some q" "grantable q"
  shows "wp (Reconcile E req) (\<lambda>r s'. r = Ret (empty_result, None) \<and>
    (\<exists>d. granted_store E pre kc q n d (obs w) (obs (world s')))) (start w)"
proof (rule start_run[where kc = kc and pre = pre, OF r], goal_cases)
  case (6 kc1 sec d s1)
  let ?Q = "\<lambda>r s'. r = Ret (empty_result, None) \<and> (\<exists>d. granted_store E pre kc q n d (obs w) (obs (world s')))"
  obtain cl role where spec: "SpecCluster (Spec kc) = Some cl" "SpecRoleRef (Spec kc) = Some role"
    using sp by (auto simp: workable_def)
  have eq: "reconcileExistingCSR E kc1 sec q = reconcileApproved E kc1 sec q"
    using q(2) by (simp add: reconcileExistingCSR_def getCertApprovalCondition_eq grantable_def)
  have run: "wp (reconcileExistingCSR E kc1 sec q) ?Q s2" if "obs (world s2) = with_secret pre n d (obs w)" for s2
    unfolding eq
    by (rule wp_mono[OF grantable_run[OF r 6(1) k(2) _ 6(3) that _ q(2) spec ca]]) (use 6 n k in auto)
  have n1: "Name (KMeta kc1) = n" using 6(1) k by (simp add: live_def)
  have o: "obs (world s1) = with_secret pre n d (obs w)" using 6(4) n by simp
  show ?case by (rule existing_run[OF r n1 o q(1) run])
qed (use assms in simp_all)

lemma submitted_store:
  assumes s: "submitted E pre kc n c c'" and k: "kubeconfig_at c n = Some kc" "Name (KMeta kc) = n" and o: "owner_names E"
  obtains kc1 kc2 key req s1 s2 where "createCSR E kc1 s1 = (Ret (Some key, Some req, None), s2)"
    "Spec kc1 = Spec kc" "KMeta kc1 = KMeta kc" "kubeconfig_at c' n = Some (kc\<lparr>Status := Status kc2\<rparr>)" "\<not> isInTerminalCondition E kc2"
    "request_at c' n = Some (createCsr E kc1 req)" "config_at c' = config_at c" "binding_at c' = binding_at c"
    "secret_at c' (secret_place pre n) \<noteq> None"
proof -
  obtain kc1 kc2 d key req s1 s2 where s: "live E kc kc1" "live E kc kc2"
    "createCSR E kc1 s1 = (Ret (Some key, Some req, None), s2)"
    "c' = update_status kc2 (put_request (createCsr E kc1 req) (with_secret pre n d c))"
    using assms(1) unfolding submitted_def by blast
  have new: "q\<lparr>CsrConditions := [], Certificate := []\<rparr> = q" if "q = createCsr E kc1 req" for q
    by (simp add: that createCsr_def Let_def)
  show thesis
    by (rule that[OF s(3), of kc2])
      (use s k o new in \<open>auto simp: update_status_at live_def put_request_def createCsr_fields\<close>)
qed

text \<open>A role binding under the name of the Kubeconfig's, if there is one, is what it asks for.\<close>

definition own_binding :: "Kubeconfig \<Rightarrow> store \<Rightarrow> bool" where
  "own_binding kc c \<longleftrightarrow> (\<forall>b. binding_at c (nn_Name (crb_name kc)) = Some b \<longrightarrow> grants kc b)"

lemma own_binding_bound:
  assumes "own_binding kc c" and "SpecRoleRef (Spec kc) = Some role"
  shows "bound kc (with_binding kc role c)"
  using assms wanted_binding_fields[of kc role]
  by (auto simp: own_binding_def bound_def with_binding_def put_binding_def)

text \<open>
  On its way: the Kubeconfig is not over, its secret is there, its request is submitted, nobody
  has taken the name of its role binding and the cluster publishes its certificate.
\<close>

definition under_way :: "'w env \<Rightarrow> promises \<Rightarrow> Kubeconfig \<Rightarrow> Csr \<Rightarrow> store \<Rightarrow> bool" where
  "under_way E pre kc q c \<longleftrightarrow> (let n = Name (KMeta kc) in
     (\<exists>k. kubeconfig_at c n = Some k \<and> KMeta k = KMeta kc \<and> Spec k = Spec kc \<and> \<not> isInTerminalCondition E k) \<and>
     secret_at c (secret_place pre n) \<noteq> None \<and> request_at c n = Some q \<and>
     own_binding kc c \<and> config_at c (nn_key kube_root_ca_name) \<noteq> None)"

text \<open>A request the approving controller approves or has approved, and that nobody refused.\<close>

definition approvable :: "Csr \<Rightarrow> bool" where
  "approvable q \<longleftrightarrow> isKubeconfigV1Alpha1CSR q \<and> hasAutoApproveAnnotation q \<and> \<not> refused q"

definition approved :: "Csr \<Rightarrow> bool" where
  "approved q \<longleftrightarrow> CertificateApproved \<in> cc_Type ` set (CsrConditions q) \<and> \<not> refused q"

lemma to_approve_iff: "to_approve q \<longleftrightarrow> approvable q \<and> \<not> approved q"
  by (auto simp: to_approve_def approvable_def approved_def refused_def)

text \<open>What the user gets.\<close>

definition served :: "'w env \<Rightarrow> promises \<Rightarrow> Kubeconfig \<Rightarrow> store \<Rightarrow> bool" where
  "served E pre kc c \<longleftrightarrow> (let n = Name (KMeta kc) in
     (\<exists>k d. kubeconfig_at c n = Some k \<and> Spec k = Spec kc \<and> finished E k \<and> Phase (Status k) = PhaseDone \<and>
        bound kc c \<and> secret_at c (secret_place pre n) = Some d \<and> complete E pre n d))"

text \<open>A request that was issued parses and names one of the users.\<close>

lemma parse_issued:
  assumes "pem_law E" and "x509_law E" and "issued E pre n key request"
  shows "\<exists>t. parseCSR E request = Inr t \<and> pk_CommonName (tp_Subject t) \<in> users pre n"
proof -
  obtain k t der w w' where i: "pk_CommonName (tp_Subject t) \<in> users pre n"
    "x509_CreateCertificateRequest E t (Some k) w = (Inr der, w')" "request = pem_Encode ''CERTIFICATE REQUEST'' der"
    using assms(3) unfolding issued_def by blast
  then obtain t' where "x509_ParseCertificateRequest E der = Inr t'"
    "pk_CommonName (tp_Subject t') = pk_CommonName (tp_Subject t)"
    using assms(2) unfolding x509_law_def by metis
  then show ?thesis using assms(1) i(1,3) by (simp add: parseCSR_def pem_law_def)
qed

text \<open>Requests are stored under their names, or they could not be read so.\<close>

lemma request_named:
  assumes "reliable E obs" and "request_at (obs w) n = Some q"
  shows "Name (CsrMeta q) = n"
  using exact_get_csr[OF assms(1), of "\<lparr>nn_Namespace = [], nn_Name = n\<rparr>", unfolded exact_read_def, rule_format, of undefined w]
    assms(2) by auto

lemma issued_parses:
  assumes "pem_law E" and "x509_law E" and "safe_for E pre n c" and "request_at c n = Some q"
  shows "\<exists>t. parseCSR E (Request q) = Inr t"
proof -
  obtain key where "issued E pre n key (Request q)"
    using safe_forD(1)[OF assms(3)] assms(4) by (auto simp: sound_def keys_match_def)
  then show ?thesis using parse_issued[OF assms(1,2)] by blast
qed

lemma submitted_under_way:
  assumes r: "reliable E obs" and own: "\<And>k. owner_law E k"
    and s: "submitted E pre kc n c c'" and k: "kubeconfig_at c n = Some kc" "Name (KMeta kc) = n"
    and a: "AutoApproveCSR (Spec kc)" and ca: "config_at c (nn_key kube_root_ca_name) \<noteq> None" and own_b: "own_binding kc c"
  shows "\<exists>q. under_way E pre kc q c' \<and> approvable q"
proof -
  obtain kc1 kc2 key rq t1 t2 where sub: "Spec kc1 = Spec kc" "KMeta kc1 = KMeta kc"
    "kubeconfig_at c' n = Some (kc\<lparr>Status := Status kc2\<rparr>)" "\<not> isInTerminalCondition E kc2"
    "request_at c' n = Some (createCsr E kc1 rq)" "config_at c' = config_at c"
    "binding_at c' = binding_at c" "secret_at c' (secret_place pre n) \<noteq> None"
    using submitted_store[OF s k reliable_laws(2)[OF r]] by metis
  have "to_approve (createCsr E kc1 rq)" using to_approve_createCsr[OF own] sub(1) a by simp
  then show ?thesis using sub k(2) ca own_b by (auto simp: under_way_def Let_def to_approve_iff own_binding_def)
qed

text \<open>A run while the request is not yet granted changes nothing but the status.\<close>

lemma waiting_under_way:
  fixes w :: 'w
  assumes r: "reliable E obs" and k: "kubeconfig_at (obs w) n = Some kc" "Name (KMeta kc) = n"
    and ref: "ExistingCSR (Spec kc) = predefined pre n" and there: "provided pre n (obs w)"
    and ca: "config_at (obs w) (nn_key kube_root_ca_name) \<noteq> None" and own: "own_binding kc (obs w)"
    and n: "nn_Name req = n" and live: "\<not> isInTerminalCondition E kc"
    and q: "request_at (obs w) n = Some q" "\<not> refused q" "\<not> grantable q"
  shows "wp (Reconcile E req) (\<lambda>r s'. (\<exists>res. r = Ret (res, None)) \<and> under_way E pre kc q (obs (world s'))) (start w)"
proof (rule start_run[where kc = kc and pre = pre, OF r], goal_cases)
  case (6 kc1 sec d s1)
  have n1: "Name (KMeta kc1) = n" using 6(1) k by (simp add: live_def)
  have o: "obs (world s1) = with_secret pre n d (obs w)" using 6(4) n by simp
  have at: "kubeconfig_at (obs w) n \<noteq> None" using k by simp
  have kept: "under_way E pre kc q (with_secret pre n d (obs w))"
    using k live q ca own by (simp add: under_way_def Let_def own_binding_def)
  have written: "under_way E pre kc q c'"
    if "status_written E kc (\<lambda>k. \<not> isInTerminalCondition E k) (with_secret pre n d (obs w)) c'" for c'
    using that k q ca own by (auto simp: status_written_def under_way_def Let_def update_status_at own_binding_def)
  have run: "wp (reconcileExistingCSR E kc1 sec q)
      (\<lambda>r s'. (\<exists>res. r = Ret (res, None)) \<and> under_way E pre kc q (obs (world s'))) s2"
    if "obs (world s2) = with_secret pre n d (obs w)" for s2
    by (rule wp_mono[OF waiting_run[OF r 6(1) k(2) that at q(2,3)]]) (use kept written in auto)
  show ?case by (rule existing_run[OF r n1 o q(1) run])
qed (use assms in simp_all)

lemma approved_noop:
  fixes w :: 'w
  assumes r: "reliable E obs" and q: "request_at (obs w) (nn_Name req) = Some q" "approved q"
  shows "wp (ReconcileCsr E req) (\<lambda>r s'. r = Ret (empty_result, None) \<and> obs (world s') = obs w) (start w)"
  unfolding ReconcileCsr_def Get_Csr_def
  by (rule bind_exact_read[OF exact_get_csr[OF r]])
    (use q in \<open>auto simp: approved_def getCertApprovalCondition_eq wp_return\<close>)

text \<open>The approving controller approves the request, unless it is approved already.\<close>

lemma approval_under_way:
  fixes w :: 'w
  assumes r: "reliable E obs" and u: "under_way E pre kc q (obs w)" and q: "approvable q"
    and p: "\<exists>t. parseCSR E (Request q) = Inr t" and n: "nn_Name req = Name (KMeta kc)"
  shows "wp (ReconcileCsr E req) (\<lambda>r s'. r = Ret (empty_result, None) \<and>
    (\<exists>q'. under_way E pre kc q' (obs (world s')) \<and> approved q')) (start w)"
proof (cases "approved q")
  case False
  then have a: "to_approve q" using q by (simp add: to_approve_iff)
  obtain t where t: "parseCSR E (Request q) = Inr t" using p by blast
  have at: "request_at (obs w) (nn_Name req) = Some q" using u n by (simp add: under_way_def Let_def)
  show ?thesis
    by (rule wp_mono[OF csr_run[OF r at _ a t]])
      (use u q n request_named[OF r at] in \<open>auto simp: own_binding_def under_way_def Let_def update_conditions_def with_verdict_def csr_condition_def
        approved_def approvable_def refused_def\<close>)
next
  case True
  have at: "request_at (obs w) (nn_Name req) = Some q" using u n by (simp add: under_way_def Let_def)
  show ?thesis by (rule wp_mono[OF approved_noop[OF r at True]]) (use u True in auto)
qed

lemma signed_under_way:
  assumes "under_way E pre kc q c" and "approved q" and "cert \<noteq> []"
  shows "\<exists>q. under_way E pre kc q (signed (Name (KMeta kc)) cert c) \<and> grantable q"
  using assms by (auto simp: under_way_def Let_def own_binding_def signed_def approved_def refused_def grantable_def)

lemma granted_served:
  assumes "granted_store E pre k q n d c c'" and "kubeconfig_at c n = Some k" and "KMeta k = KMeta kc"
    and "Spec k = Spec kc" and "Name (KMeta kc) = n" and "safe_for E pre n c'" and "own_binding kc c"
  shows "served E pre kc c'"
proof -
  let ?c1 = "\<lambda>cfg. with_secret pre n (d(CertificateSecretCertKey \<mapsto> Certificate q, KubeconfigKey \<mapsto> cfg)) c"
  obtain k4 cfg role where fin: "KMeta k4 = KMeta k" "Spec k4 = Spec k" "finished E k4" "Phase (Status k4) = PhaseDone"
    "SpecRoleRef (Spec k) = Some role" "c' = update_status k4 (with_binding k role (?c1 cfg))"
    using assms(1) unfolding granted_store_def by auto
  have at: "kubeconfig_at c' n = Some (k\<lparr>Status := Status k4\<rparr>)"
    using fin assms(2,3,5) by (simp add: update_status_def)
  obtain d where "secret_at c' (secret_place pre n) = Some d" "complete E pre n d"
    using safe_forD(1)[OF assms(6)] at fin(3) by (auto simp: sound_def)
  moreover have "own_binding k (?c1 cfg)"
    using assms(4,7) by (simp add: own_binding_def crb_name_def grants_def)
  then have "bound kc c'"
    using own_binding_bound[OF _ fin(5)] assms(4) by (simp add: fin(6) bound_def crb_name_def grants_def)
  ultimately show ?thesis
    using at fin(3,4) assms(4,5) by (auto simp: served_def Let_def)
qed

text \<open>From a request that is granted, one run.\<close>

lemma last_served:
  fixes w :: 'w
  assumes r: "reliable E obs" and ds: "distinct_secrets pre" and safe: "safe_for E pre (Name (KMeta kc)) (obs w)"
    and u: "under_way E pre kc q (obs w)" and q: "grantable q"
    and sp: "workable kc" "ExistingCSR (Spec kc) = predefined pre (Name (KMeta kc))" and n: "nn_Name req = Name (KMeta kc)"
  shows "wp (Reconcile E req) (\<lambda>r s'. r = Ret (empty_result, None) \<and> served E pre kc (obs (world s')) \<and>
    request_at (obs (world s')) (Name (KMeta kc)) = Some q) (start w)"
proof -
  let ?n = "Name (KMeta kc)"
  obtain k where k: "kubeconfig_at (obs w) ?n = Some k" "KMeta k = KMeta kc" "Spec k = Spec kc"
    "\<not> isInTerminalCondition E k" using u by (auto simp: under_way_def Let_def)
  have own: "own_binding kc (obs w)" using u by (simp add: under_way_def Let_def)
  have keep: "wp (Reconcile E req) (\<lambda>r s'. safe_for E pre ?n (obs (world s'))) (start w)"
    using runs_safe_for(1)[OF r ds safe, of req] by (auto simp: wp_def split: prod.split)
  have run: "wp (Reconcile E req) (\<lambda>r s'. r = Ret (empty_result, None) \<and>
      (\<exists>d. granted_store E pre k q ?n d (obs w) (obs (world s')))) (start w)"
    by (rule last_run[OF r k(1)])
      (use k sp u n q in \<open>simp_all add: under_way_def Let_def provided_def workable_def\<close>)
  have "request_at c' ?n = Some q" if "granted_store E pre k q ?n d (obs w) c'" for c' d
    using that u by (auto simp: granted_store_def under_way_def Let_def)
  then show ?thesis
    using keep run granted_served[OF _ k(1-3) refl _ own] by (auto simp: wp_def)
qed

text \<open>From the submitted request: approval, signing and the last run.\<close>

lemma approved_and_served:
  fixes w w3 :: 'w
  assumes r: "reliable E obs" and laws: "pem_law E" "x509_law E" and ds: "distinct_secrets pre"
    and safe: "safe_for E pre (Name (KMeta kc)) (obs w)" and u: "under_way E pre kc q (obs w)"
    and q: "approvable q"
    and sp: "workable kc" "ExistingCSR (Spec kc) = predefined pre (Name (KMeta kc))" and n: "nn_Name req = Name (KMeta kc)"
    and w2: "ReconcileCsr E req (start w) = (r2, s2)"
    and w3: "obs w3 = signed (Name (KMeta kc)) cert (obs (world s2))" "cert \<noteq> []"
    and w4: "Reconcile E req (start w3) = (r4, s4)"
  shows "r2 = Ret (empty_result, None) \<and> r4 = Ret (empty_result, None) \<and> served E pre kc (obs (world s4))"
proof -
  have "request_at (obs w) (Name (KMeta kc)) = Some q" using u by (simp add: under_way_def Let_def)
  then have p: "\<exists>t. parseCSR E (Request q) = Inr t" by (rule issued_parses[OF laws safe])
  obtain q2 where 2: "r2 = Ret (empty_result, None)" "under_way E pre kc q2 (obs (world s2))" "approved q2"
    using approval_under_way[OF r u q p n] w2 by (auto simp: wp_def)
  obtain q3 where 3: "under_way E pre kc q3 (obs w3)" "grantable q3"
    using signed_under_way[OF 2(2,3) w3(2)] w3(1) by auto
  have "safe_for E pre (Name (KMeta kc)) (obs (world s2))" by (rule runs_safe_for(2)[OF r ds safe w2])
  then have "safe_for E pre (Name (KMeta kc)) (obs w3)" using signed_safe_for w3(1) by simp
  then show ?thesis using last_served[OF r ds _ 3 sp n] w4 2(1) by (simp add: wp_def)
qed

text \<open>The same from the submitted Kubeconfig.\<close>

lemma auto_approved_run:
  fixes w w3 :: 'w
  assumes r: "reliable E obs" and laws: "pem_law E" "x509_law E" "\<And>k. owner_law E k" and safe: "safe_for E pre n (obs w)"
    and secrets: "distinct_secrets pre" "provided pre n (obs w)"
    and k: "kubeconfig_at (obs w) n = Some kc" "Name (KMeta kc) = n" and sp: "workable kc" "AutoApproveCSR (Spec kc)"
    and stage: "stage_of E (obs w) n = Unrequested"
    and own: "own_binding kc (obs w)"
    and ca: "config_at (obs w) (nn_key kube_root_ca_name) \<noteq> None" and req: "nn_Name req = n"
    and w1: "Reconcile E req (start w) = (r1, s1)"
    and w2: "ReconcileCsr E req (start (world s1)) = (r2, s2)"
    and w3: "obs w3 = signed n cert (obs (world s2))" "cert \<noteq> []"
    and w4: "Reconcile E req (start w3) = (r4, s4)"
  shows "r1 = Ret (empty_result, None) \<and> r2 = Ret (empty_result, None) \<and> r4 = Ret (empty_result, None) \<and>
    served E pre kc (obs (world s4))"
proof -
  have live: "\<not> isInTerminalCondition E kc" and none: "request_at (obs w) n = None"
    using stage k by (auto simp: stage_of_def split: if_splits option.splits)
  have "healthy E pre n (obs w)" using safe_forD(2)[OF safe] by (simp add: safe_def)
  then have ref: "ExistingCSR (Spec kc) = predefined pre n" using k(1) by (simp add: healthy_def promised_def)
  have run1: "r1 = Ret (empty_result, None)" "submitted E pre kc n (obs w) (obs (world s1))"
    using first_run[where pre = pre, OF r k ref secrets(2) sp(1) req live none] w1 by (simp_all add: wp_def)
  obtain q where q: "under_way E pre kc q (obs (world s1))" "approvable q"
    using submitted_under_way[OF r laws(3) run1(2) k sp(2) ca own] by blast
  have "safe_for E pre (Name (KMeta kc)) (obs (world s1))" using runs_safe_for(1)[OF r secrets(1) safe w1] k(2) by simp
  then show ?thesis
    using approved_and_served[OF r laws(1,2) secrets(1) _ q sp(1) _ _ w2 _ w3(2) w4] w3(1) ref k(2) req run1(1) by simp
qed

text \<open>
  If nothing fails and the Kubeconfig asks for automatic approval, it gets there: a run of
  the Kubeconfig reconciler, a run of the approving controller, the certificate from the
  cluster's signer, a run of the Kubeconfig reconciler, and the Kubeconfig is finished with
  phase \<open>Done\<close>, its user bound to the role it asks for and its user secret (its own or a
  predefined one) complete. No step reports an error. The name of its role binding must not be
  taken by another one.
\<close>

theorem auto_approved_kubeconfig_finishes:
  fixes w w3 :: 'w
  assumes "reliable E obs" and "pem_law E" "x509_law E" "\<And>k. owner_law E k" and "safe_for E pre n (obs w)"
    and "distinct_secrets pre" "provided pre n (obs w)"
    and "kubeconfig_at (obs w) n = Some kc" "Name (KMeta kc) = n" and "workable kc" "AutoApproveCSR (Spec kc)"
    and "stage_of E (obs w) n = Unrequested" and "own_binding kc (obs w)"
    and "config_at (obs w) (nn_key kube_root_ca_name) \<noteq> None" and "nn_Name req = n"
    and "Reconcile E req (start w) = (r1, s1)"
    and "ReconcileCsr E req (start (world s1)) = (r2, s2)"
    and "obs w3 = signed n cert (obs (world s2))" "cert \<noteq> []"
    and "Reconcile E req (start w3) = (r4, s4)"
  shows "r1 = Ret (empty_result, None) \<and> r2 = Ret (empty_result, None) \<and> r4 = Ret (empty_result, None) \<and>
    (\<exists>k d. kubeconfig_at (obs (world s4)) n = Some k \<and> Spec k = Spec kc \<and> finished E k \<and>
       Phase (Status k) = PhaseDone \<and> bound kc (obs (world s4)) \<and>
       secret_at (obs (world s4)) (secret_place pre n) = Some d \<and> complete E pre n d)"
  using auto_approved_run[OF assms] unfolding served_def assms(9) Let_def .

subsection \<open>No run without need\<close>

text \<open>
  A run can do its work: the Kubeconfig is defaulted and refers to the secret it should, that
  secret is there if it is a predefined one, and the cluster publishes its certificate.
\<close>

definition operable :: "promises \<Rightarrow> string \<Rightarrow> store \<Rightarrow> bool" where
  "operable pre n c \<longleftrightarrow>
     (\<forall>kc. kubeconfig_at c n = Some kc \<longrightarrow>
        Name (KMeta kc) = n \<and> workable kc \<and> ExistingCSR (Spec kc) = predefined pre n) \<and>
     provided pre n c \<and> config_at c (nn_key kube_root_ca_name) \<noteq> None"

lemma run_when_over:
  fixes w :: 'w
  assumes r: "reliable E obs" and n: "nn_Name req = n" and st: "stage_of E (obs w) n = Over"
  shows "wp (Reconcile E req) (\<lambda>r s'. r = Ret (empty_result, None) \<and> obs (world s') = obs w) (start w)"
  unfolding Reconcile_def Get_Kubeconfig_def
  by (rule bind_exact_read[OF exact_get_kubeconfig[OF r]])
    (use n st in \<open>auto simp: stage_of_def wp_return split: if_splits option.splits\<close>)

lemma stage_step:
  fixes w :: 'w
  assumes r: "reliable E obs" and o: "operable pre n (obs w)" and n: "nn_Name req = n"
  shows "wp (Reconcile E req) (\<lambda>r s'. (\<exists>res. r = Ret (res, None)) \<and>
    stage_of E (obs (world s')) n = stage_after (stage_of E (obs w) n)) (start w)"
proof (cases "stage_of E (obs w) n = Over")
  case True
  then show ?thesis by (auto intro: wp_mono[OF run_when_over[OF r n True]])
next
  case False
  then obtain kc where k: "kubeconfig_at (obs w) n = Some kc" "\<not> isInTerminalCondition E kc"
    by (auto simp: stage_of_def split: option.splits if_splits)
  show ?thesis
    by (rule stage_moves[where pre = pre, OF r k(1) _ _ _ _ _ n k(2)]) (use o k(1) in \<open>auto simp: operable_def\<close>)
qed

text \<open>
  C16: If nothing fails, a run of the Kubeconfig reconciler on a defaulted resource returns no
  error and does exactly the next thing: it submits the request where there is none, ends a
  resource whose request is decided, and leaves the stage alone while the request is undecided
  and after the end.
\<close>

theorem Reconcile_next_stage:
  assumes "reliable E obs" and "operable pre (nn_Name req) (obs w)"
    and "Reconcile E req (start w) = (r, s)"
  shows "(\<exists>res. r = Ret (res, None)) \<and>
    stage_of E (obs (world s)) (nn_Name req) = stage_after (stage_of E (obs w) (nn_Name req))"
  using stage_step[OF assms(1,2) refl] assms(3) by (simp add: wp_def)

text \<open>
  An execution around one Kubeconfig: runs on it, counted if they find something to do, and
  steps of everybody else, who may decide about the request and sign it but not take the
  resource back.
\<close>

inductive execution :: "'w env \<Rightarrow> ('w \<Rightarrow> store) \<Rightarrow> promises \<Rightarrow> NamespacedName \<Rightarrow> 'w \<Rightarrow> nat \<Rightarrow> 'w \<Rightarrow> bool"
  for E obs pre req w0 where
  begins: "execution E obs pre req w0 0 w0"
| works: "execution E obs pre req w0 i w \<Longrightarrow> operable pre (nn_Name req) (obs w) \<Longrightarrow>
    stage_of E (obs w) (nn_Name req) \<in> {Unrequested, Decided} \<Longrightarrow> Reconcile E req (start w) = (r, s) \<Longrightarrow>
    execution E obs pre req w0 (Suc i) (world s)"
| waits: "execution E obs pre req w0 i w \<Longrightarrow> operable pre (nn_Name req) (obs w) \<Longrightarrow>
    stage_of E (obs w) (nn_Name req) \<in> {Undecided, Over} \<Longrightarrow> Reconcile E req (start w) = (r, s) \<Longrightarrow>
    execution E obs pre req w0 i (world s)"
| outside_step: "execution E obs pre req w0 i w \<Longrightarrow>
    work_left (stage_of E (obs w') (nn_Name req)) \<le> work_left (stage_of E (obs w) (nn_Name req)) \<Longrightarrow>
    execution E obs pre req w0 i w'"

lemma execution_measure:
  assumes r: "reliable E obs" and e: "execution E obs pre req w0 i w"
  shows "i + work_left (stage_of E (obs w) (nn_Name req)) \<le> work_left (stage_of E (obs w0) (nn_Name req))"
  using e
proof induction
  case begins
  show ?case by simp
next
  case (works i w r1 s)
  then show ?case using stage_step[OF r works(2) refl] by (auto simp: wp_def)
next
  case (waits i w r1 s)
  then show ?case using stage_step[OF r waits(2) refl] by (auto simp: wp_def)
next
  case (outside_step i w w')
  then show ?case by linarith
qed

text \<open>
  C5: The work on a Kubeconfig terminates: in an execution without failures, however long and
  however runs and decisions alternate, at most two runs of the reconciler find something to
  do, and after two the resource is over: every further run leaves it as it is.
\<close>

theorem work_terminates:
  assumes "reliable E obs" and "execution E obs pre req w0 i w"
  shows "i \<le> 2 \<and> (i = 2 \<longrightarrow> stage_of E (obs w) (nn_Name req) = Over)"
proof -
  have "work_left st \<le> 2" for st by (cases st) simp_all
  moreover have "work_left st = 0 \<Longrightarrow> st = Over" for st by (cases st) simp_all
  ultimately show ?thesis
    using execution_measure[OF assms] by (metis add_leD1 add_le_same_cancel1 le_trans le_zero_eq)
qed

end
