(* ===== verification/Sample_Store.thy ===== *)
theory Sample_Store
  imports Lifecycle
begin

text \<open>
  A concrete store for the witnesses of the system-level theorems: the world is the store of
  \<open>Api_Store\<close> itself, every call answers from it and writes to it at once. Objects are read
  under the name they are stored at. It is an instance that shows that the laws of the API
  server, of condition lists, of owner references and of the cryptographic library can hold
  together; nothing in the model depends on it.
\<close>

definition named :: "store \<Rightarrow> store" where
  "named c = c\<lparr>
     kubeconfig_at := (\<lambda>n. map_option (\<lambda>k. k\<lparr>KMeta := (KMeta k)\<lparr>Name := n\<rparr>\<rparr>) (kubeconfig_at c n)),
     request_at := (\<lambda>n. map_option (\<lambda>q. q\<lparr>CsrMeta := (CsrMeta q)\<lparr>Name := n\<rparr>\<rparr>) (request_at c n))\<rparr>"

definition read_reply :: "'o option \<Rightarrow> 'o \<Rightarrow> store \<Rightarrow> (go_error option \<times> 'o) \<times> store" where
  "read_reply found obj c = (case found of None \<Rightarrow> ((Some not_found, obj), c) | Some x \<Rightarrow> ((None, x), c))"

definition write_reply :: "bool \<Rightarrow> 'o \<Rightarrow> store \<Rightarrow> 'o \<Rightarrow> store \<Rightarrow> (go_error option \<times> 'o) \<times> store" where
  "write_reply possible x c' obj c = (if possible then ((None, x), c') else ((Some already_exists, obj), c))"

definition secret_of :: "NamespacedName \<Rightarrow> (string \<rightharpoonup> bytes) \<Rightarrow> Secret" where
  "secret_of n d = \<lparr>SMeta = zero_meta\<lparr>Name := nn_Name n, Namespace := nn_Namespace n\<rparr>,
     SecretType = ''kubernetes.io/tls'', SecretData = Some d, StringData = None\<rparr>"

definition store_env :: "store env" where
  "store_env = \<lparr>
     client_Get_Kubeconfig = (\<lambda>n obj c. read_reply (kubeconfig_at (named c) (nn_Name n)) obj c),
     client_Get_Secret = (\<lambda>n obj c. read_reply (map_option (secret_of n) (secret_at c (nn_key n))) obj c),
     client_Get_Csr = (\<lambda>n obj c. read_reply (request_at (named c) (nn_Name n)) obj c),
     client_Get_Crb = (\<lambda>n obj c. read_reply (binding_at c (nn_Name n)) obj c),
     client_Get_ConfigMap = (\<lambda>n obj c. read_reply
       (map_option (\<lambda>m. \<lparr>CMeta = zero_meta, ConfigData = Some m\<rparr>) (config_at c (nn_key n))) obj c),
     client_Create_Secret = (\<lambda>s c. write_reply (secret_at c (object_key (SMeta s)) = None)
       (s\<lparr>SecretData := Some (merged s), StringData := None\<rparr>) (put_secret s c) s c),
     client_Create_Csr = (\<lambda>q c. write_reply (request_at c (Name (CsrMeta q)) = None) q (put_request q c) q c),
     client_Create_Crb = (\<lambda>b c. write_reply (binding_at c (Name (CrbMeta b)) = None) b (put_binding b c) b c),
     client_Update_Secret = (\<lambda>s c. write_reply (secret_at c (object_key (SMeta s)) \<noteq> None) s (put_secret s c) s c),
     client_Status_Update_Kubeconfig = (\<lambda>k c. write_reply (kubeconfig_at c (Name (KMeta k)) \<noteq> None) k
       (update_status k c) k c),
     client_Status_Update_Csr = (\<lambda>q c. write_reply (request_at c (Name (CsrMeta q)) \<noteq> None) q
       (update_conditions q c) q c),
     clientset_UpdateApproval = (\<lambda>q c. write_reply (request_at c (Name (CsrMeta q)) \<noteq> None) q
       (update_conditions q c) q c),
     meta_SetStatusCondition = sample_set_condition,
     meta_FindStatusCondition = sample_find_condition,
     SetControllerReference = (\<lambda>k m. (None, m\<lparr>OwnerReferences := OwnerReferences m @ [operator_reference k]\<rparr>)),
     time_Now = (\<lambda>c. 1),
     rsa_GenerateKey = (\<lambda>n c. (Some ''rsa'', c)),
     ecdsa_GenerateKey = (\<lambda>n c. (Some ''ecdsa'', c)),
     ed25519_GenerateKey = (\<lambda>c. (Some ''ed25519'', c)),
     x509_MarshalPKCS1PrivateKey = (\<lambda>k. k),
     x509_MarshalECPrivateKey = (\<lambda>k. k),
     x509_MarshalPKCS8PrivateKey = (\<lambda>k. k),
     x509_CreateCertificateRequest = (\<lambda>t k c. (case k of
        None \<Rightarrow> Inl (PlainError ''x509: certificate private key does not implement crypto.Signer'')
      | Some s \<Rightarrow> Inr (pk_CommonName (tp_Subject t)), c)),
     x509_ParseCertificateRequest = x509_ParseCertificateRequest sample_env,
     pem_Decode = pem_Decode pem_env,
     yaml_Marshal = (\<lambda>s. s_CurrentContext s),
     yaml_Unmarshal = (\<lambda>b. Inl (PlainError ''yaml'')),
     range_order = sorted_list_of_set\<rparr>"

lemma named_disturbed [simp]: "disturbed pre n (named c) = disturbed pre n c"
  by (simp add: disturbed_def named_def)

lemma named_fields [simp]:
  "secret_at (named c) = secret_at c" "binding_at (named c) = binding_at c" "config_at (named c) = config_at c"
  "kubeconfig_at (named c) n = None \<longleftrightarrow> kubeconfig_at c n = None"
  "request_at (named c) n = None \<longleftrightarrow> request_at c n = None"
  by (simp_all add: named_def)

lemma named_writes:
  "named (put_secret s c) = put_secret s (named c)" "named (put_binding b c) = put_binding b (named c)"
  "named (put_request q c) = put_request q (named c)"
  "kubeconfig_at c (Name (KMeta k)) \<noteq> None \<Longrightarrow> named (update_status k c) = update_status k (named c)"
  "request_at c (Name (CsrMeta q)) \<noteq> None \<Longrightarrow> named (update_conditions q c) = update_conditions q (named c)"
  by (auto simp: named_def put_secret_def put_binding_def put_request_def update_status_def
      update_conditions_def fun_eq_iff)

lemma not_found_reply: "IsNotFound (Some not_found)"
  by (simp add: not_found_def)

lemma store_env_reads: "reliable_reads store_env named"
  unfolding reliable_reads_def
  by (auto simp: exact_read_def store_env_def read_reply_def not_found_reply secret_held_def secret_read_def
      secret_of_def object_key_def nn_key_def named_def split: option.split)

lemma store_env_writes: "reliable_writes store_env named"
  unfolding reliable_writes_def
  by (auto simp: exact_write_def store_env_def write_reply_def named_writes) (auto simp: named_def)

lemma store_env_reliable: "reliable store_env named"
proof -
  have cs: "meta_FindStatusCondition store_env = meta_FindStatusCondition sample_env"
    "meta_SetStatusCondition store_env = meta_SetStatusCondition sample_env"
    by (simp_all add: store_env_def)
  have "conditions_law store_env"
    using sample_conditions_law unfolding conditions_law_def cs .
  moreover have "owner_names store_env" by (simp add: owner_names_def set_owner_def store_env_def)
  moreover have "failed_get_law store_env"
    by (auto simp: failed_get_law_def store_env_def read_reply_def split: option.splits)
  ultimately show ?thesis
    using store_env_reads store_env_writes by (simp add: reliable_def exact_lib_def store_env_def)
qed

lemma store_env_laws: "pem_law store_env" "x509_law store_env" "owner_law store_env k"
  using pem_env_laws(1)
  by (auto simp: pem_law_def x509_law_def store_env_def owner_law_def set_owner_def
      owned_by_kubeconfig_iff operator_reference_def split: option.splits)

lemma named_signed: "named (signed n cert c) = signed n cert (named c)"
  by (auto simp: signed_def named_def fun_eq_iff split: option.split)

definition installed :: store where
  "installed = \<lparr>kubeconfig_at = [''kc'' \<mapsto> new_kubeconfig], secret_at = Map.empty, request_at = Map.empty,
     binding_at = Map.empty, config_at = [(''kube-public'', ''kube-root-ca.crt'') \<mapsto> [''ca.crt'' \<mapsto> ''ca'']],
     incidents = {}\<rparr>"

lemma new_kubeconfig_facts:
  "Name (KMeta new_kubeconfig) = ''kc''" "workable new_kubeconfig" "AutoApproveCSR (Spec new_kubeconfig)"
  "\<not> isInTerminalCondition store_env new_kubeconfig" "\<not> finished store_env new_kubeconfig"
  "ExistingCSR (Spec new_kubeconfig) = None" "Username (Spec new_kubeconfig) = ''jane''"
  by (simp_all add: new_kubeconfig_def workable_def supported_algorithms_def
      isInTerminalCondition_def finished_def store_env_def zero_kubeconfig_def sample_find_condition_def)

lemma installed_facts:
  "kubeconfig_at (named installed) = [''kc'' \<mapsto> new_kubeconfig]" "request_at (named installed) = Map.empty"
  "config_at (named installed) (nn_key kube_root_ca_name) \<noteq> None" "nn_Name request_kc = ''kc''"
  using new_kubeconfig_facts(1)
  by (auto simp: named_def installed_def fun_eq_iff nn_key_def kube_root_ca_name_def request_kc_def)

lemma installed_root_ca: "config_at installed (nn_key kube_root_ca_name) = Some [''ca.crt'' \<mapsto> ''ca'']"
  by (simp add: installed_def nn_key_def kube_root_ca_name_def)

lemma installed_unbound: "own_binding new_kubeconfig (named installed)"
  by (simp add: own_binding_def installed_def)

lemma installed_stage: "stage_of store_env (named installed) ''kc'' = Unrequested"
  using new_kubeconfig_facts(4) by (simp add: stage_of_def installed_facts)

text \<open>In the samples no Kubeconfig has a predefined secret, and all are for the user \<open>jane\<close>.\<close>

definition sample_promises :: promises where
  "sample_promises = \<lparr>predefined = Map.empty, users = (\<lambda>n. {''jane''})\<rparr>"

lemma sample_promises_fields [simp]: "predefined sample_promises = Map.empty" "users sample_promises n = {''jane''}"
  by (simp_all add: sample_promises_def)

lemma own_place: "secret_place sample_promises n = user_key n"
  by simp

lemma installed_blank: "blank store_env sample_promises (named installed)"
  using new_kubeconfig_facts by (auto simp: blank_def installed_facts promised_def split: if_splits)

lemma store_env_law: "cluster_law store_env sample_promises named"
  by (rule reliable_cluster_law[OF store_env_reliable own_secrets_distinct[OF sample_promises_fields(1)]])

definition after_first :: store where
  "after_first = world (snd (Reconcile store_env request_kc (start installed)))"

lemma first_run_sample:
  "Reconcile store_env request_kc (start installed) = (Ret (empty_result, None), snd (Reconcile store_env request_kc (start installed)))"
  "\<exists>q. request_at (named after_first) ''kc'' = Some q"
proof -
  have run: "fst (Reconcile store_env request_kc (start installed)) = Ret (empty_result, None)"
    "submitted store_env sample_promises new_kubeconfig ''kc'' (named installed) (named after_first)"
    using first_run[where pre = sample_promises, OF store_env_reliable, of installed "''kc''" new_kubeconfig request_kc]
      new_kubeconfig_facts by (auto simp: installed_facts wp_iff after_first_def provided_def)
  then show "Reconcile store_env request_kc (start installed) = (Ret (empty_result, None), snd (Reconcile store_env request_kc (start installed)))"
    by (metis prod.collapse)
  show "\<exists>q. request_at (named after_first) ''kc'' = Some q"
    using submitted_store[OF run(2) _ new_kubeconfig_facts(1) reliable_laws(2)[OF store_env_reliable]]
    by (metis installed_facts(1) fun_upd_same)
qed

lemma reachable_after_first: "reachable store_env sample_promises named installed after_first"
  using reachable.kubeconfig_run[OF reachable.initially, where E = store_env and req = request_kc and w = installed]
  unfolding after_first_def by (metis prod.collapse)

text \<open>The request of the first run is submitted and to be approved.\<close>

lemma after_first_request:
  "\<exists>q. under_way store_env sample_promises new_kubeconfig q (named after_first) \<and> to_approve q"
proof -
  have k: "kubeconfig_at (named installed) ''kc'' = Some new_kubeconfig" by (simp add: installed_facts(1))
  have s: "submitted store_env sample_promises new_kubeconfig ''kc'' (named installed) (named after_first)"
    using first_run[where pre = sample_promises, OF store_env_reliable k, of request_kc]
      new_kubeconfig_facts by (auto simp: installed_facts wp_iff after_first_def provided_def)
  obtain q where q: "under_way store_env sample_promises new_kubeconfig q (named after_first)"
    using submitted_under_way[OF store_env_reliable store_env_laws(3) s k new_kubeconfig_facts(1,3) installed_facts(3) installed_unbound]
    by blast
  obtain kc req where "request_at (named after_first) ''kc'' = Some (createCsr store_env kc req)" "Spec kc = Spec new_kubeconfig"
    using submitted_store[OF s k new_kubeconfig_facts(1) reliable_laws(2)[OF store_env_reliable]] by metis
  then have "to_approve q"
    using q to_approve_createCsr[OF store_env_laws(3), of kc] new_kubeconfig_facts(1,3) by (auto simp: under_way_def Let_def)
  then show ?thesis using q by blast
qed

lemma installed_undisturbed: "\<not> disturbed pre n installed"
  by (simp add: disturbed_def installed_def)

lemma installed_safe_for: "safe_for store_env sample_promises n (named installed)"
  by (simp add: safe_for_def blank_safe[OF installed_blank] installed_undisturbed)

lemma after_first_safe_for: "safe_for store_env sample_promises ''kc'' (named after_first)"
  using runs_safe_for(1)[OF store_env_reliable own_secrets_distinct installed_safe_for prod.collapse[symmetric]]
  by (simp add: after_first_def)

lemmas after_first_undisturbed = safe_forD(3)[OF after_first_safe_for]

theorem request_matches_stored_key_witness:
  "\<exists>q d k. request_at (named after_first) ''kc'' = Some q \<and>
    secret_at (named after_first) (user_key ''kc'') = Some d \<and> d ''tls.key'' = Some (key_file store_env k) \<and>
    d ''tls.csr'' = Some (Request q)"
  using request_matches_stored_key[OF store_env_law installed_blank reachable_after_first _ after_first_undisturbed]
    first_run_sample(2) unfolding own_place by blast

definition after_approval :: store where
  "after_approval = world (snd (ReconcileCsr store_env request_kc (start after_first)))"

definition after_signing :: store where
  "after_signing = signed ''kc'' ''cert'' after_approval"

definition after_last :: store where
  "after_last = world (snd (Reconcile store_env request_kc (start after_signing)))"

text \<open>The hypotheses of the end-to-end theorem, at the four states above.\<close>

lemma sample_way:
  "reliable store_env named" "pem_law store_env" "x509_law store_env" "\<And>k. owner_law store_env k"
  "safe_for store_env sample_promises ''kc'' (named installed)" "distinct_secrets sample_promises"
  "provided sample_promises ''kc'' (named installed)" "kubeconfig_at (named installed) ''kc'' = Some new_kubeconfig"
  "Name (KMeta new_kubeconfig) = ''kc''" "workable new_kubeconfig" "AutoApproveCSR (Spec new_kubeconfig)"
  "stage_of store_env (named installed) ''kc'' = Unrequested" "own_binding new_kubeconfig (named installed)"
  "config_at (named installed) (nn_key kube_root_ca_name) \<noteq> None" "nn_Name request_kc = ''kc''"
  "Reconcile store_env request_kc (start installed) =
     (fst (Reconcile store_env request_kc (start installed)), snd (Reconcile store_env request_kc (start installed)))"
  "ReconcileCsr store_env request_kc (start (world (snd (Reconcile store_env request_kc (start installed))))) =
     (fst (ReconcileCsr store_env request_kc (start after_first)), snd (ReconcileCsr store_env request_kc (start after_first)))"
  "named after_signing = signed ''kc'' ''cert'' (named (world (snd (ReconcileCsr store_env request_kc (start after_first)))))"
  "''cert'' \<noteq> []"
  "Reconcile store_env request_kc (start after_signing) =
     (fst (Reconcile store_env request_kc (start after_signing)), snd (Reconcile store_env request_kc (start after_signing)))"
  by (simp_all add: store_env_reliable store_env_laws installed_safe_for installed_facts
      new_kubeconfig_facts installed_root_ca installed_stage after_first_def after_signing_def named_signed
      after_approval_def own_secrets_distinct provided_def installed_unbound)

theorem auto_approved_kubeconfig_finishes_witness:
  "fst (Reconcile store_env request_kc (start installed)) = Ret (empty_result, None) \<and>
   fst (ReconcileCsr store_env request_kc (start after_first)) = Ret (empty_result, None) \<and>
   fst (Reconcile store_env request_kc (start after_signing)) = Ret (empty_result, None) \<and>
   (\<exists>k d. kubeconfig_at (named after_last) ''kc'' = Some k \<and> Spec k = Spec new_kubeconfig \<and>
      finished store_env k \<and> Phase (Status k) = PhaseDone \<and> bound new_kubeconfig (named after_last) \<and>
      secret_at (named after_last) (user_key ''kc'') = Some d \<and> complete store_env sample_promises ''kc'' d)"
  using auto_approved_kubeconfig_finishes[OF sample_way] unfolding after_last_def own_place .

lemma reachable_after_last: "reachable store_env sample_promises named installed after_last"
proof -
  have "reachable store_env sample_promises named installed after_approval"
    using reachable.csr_run[OF reachable_after_first] unfolding after_approval_def by (metis prod.collapse)
  then have "reachable store_env sample_promises named installed after_signing"
    by (rule reachable.others_step) (simp add: after_signing_def named_signed signed_interference)
  then show ?thesis
    using reachable.kubeconfig_run unfolding after_last_def by (metis prod.collapse)
qed

lemma after_last_undisturbed: "\<not> disturbed sample_promises ''kc'' (named after_last)"
proof -
  note keep = runs_safe_for[OF store_env_reliable own_secrets_distinct[OF sample_promises_fields(1)]]
  have "safe_for store_env sample_promises ''kc'' (named after_approval)"
    using keep(2)[OF after_first_safe_for prod.collapse[symmetric]] unfolding after_approval_def .
  then have "safe_for store_env sample_promises ''kc'' (named after_signing)"
    by (simp add: after_signing_def named_signed signed_safe_for)
  then show ?thesis using keep(1)[OF _ prod.collapse[symmetric]] safe_forD(3) unfolding after_last_def by blast
qed


lemma installed_operable: "operable sample_promises ''kc'' (named installed)"
  using new_kubeconfig_facts by (simp add: operable_def installed_facts installed_root_ca provided_def)

theorem Reconcile_next_stage_witness:
  "stage_of store_env (named installed) ''kc'' = Unrequested \<and>
   stage_of store_env (named after_first) ''kc'' = Undecided"
  using Reconcile_next_stage[OF store_env_reliable, of sample_promises request_kc installed] installed_operable
    first_run_sample(1) installed_stage by (simp add: installed_facts(4) after_first_def)

text \<open>A store in which the request has been granted.\<close>

definition decided :: store where
  "decided = installed\<lparr>secret_at := [user_key ''kc'' \<mapsto> [''tls.key'' \<mapsto> ''key'', ''tls.csr'' \<mapsto> ''request'']],
     request_at := [''kc'' \<mapsto> sample_csr CertificateApproved ''cert'']\<rparr>"

lemma decided_stage: "stage_of store_env (named decided) ''kc'' = Decided" "operable sample_promises ''kc'' (named decided)"
proof -
  have k: "kubeconfig_at (named decided) = [''kc'' \<mapsto> new_kubeconfig]"
    "config_at (named decided) = config_at (named installed)"
    using installed_facts(1) by (simp_all add: decided_def named_def)
  have "\<exists>q. request_at (named decided) ''kc'' = Some q \<and> grantable q"
    by (simp add: named_def decided_def sample_csr_def grantable_def sample_condition_def)
  then show "stage_of store_env (named decided) ''kc'' = Decided" using k new_kubeconfig_facts(4)
    by (auto simp: stage_of_def)
  show "operable sample_promises ''kc'' (named decided)"
    using k installed_operable by (simp add: operable_def installed_facts provided_def)
qed

theorem work_terminates_witness:
  "execution store_env named sample_promises request_kc installed 2 (world (snd (Reconcile store_env request_kc (start decided)))) \<and>
   stage_of store_env (named (world (snd (Reconcile store_env request_kc (start decided))))) ''kc'' = Over"
proof -
  note n = installed_facts(4)
  have "execution store_env named sample_promises request_kc installed (Suc 0) after_first"
    using execution.works[OF execution.begins _ _ first_run_sample(1), of sample_promises named] installed_operable installed_stage
    by (simp add: n after_first_def)
  moreover have "work_left (stage_of store_env (named after_first) ''kc'') = 1"
    using stage_step[OF store_env_reliable, of sample_promises "''kc''" installed request_kc] installed_operable installed_stage n
    by (simp add: wp_iff after_first_def)
  ultimately have "execution store_env named sample_promises request_kc installed (Suc 0) decided"
    by (auto intro!: execution.outside_step[where w = after_first] simp: n decided_stage(1))
  from execution.works[OF this, of "fst (Reconcile store_env request_kc (start decided))"
      "snd (Reconcile store_env request_kc (start decided))"]
  have e: "execution store_env named sample_promises request_kc installed (Suc (Suc 0))
      (world (snd (Reconcile store_env request_kc (start decided))))"
    using decided_stage by (simp add: n)
  then show ?thesis
    using work_terminates[OF store_env_reliable e] by (simp add: n numeral_2_eq_2)
qed

end
