(* ===== verification/Recovery.thy ===== *)
theory Recovery
  imports Sample_Store
begin

text \<open>
  Recovery: whatever happened before, calls that failed with or without effect, runs that ended
  early, requests half made, once the calls succeed again a Kubeconfig with automatic approval
  is served after the two runs and the signing that an undisturbed one needs.
\<close>

subsection \<open>Calls of another client\<close>

text \<open>The environment \<open>E\<close> in which calls reach the API server as they do in \<open>C\<close>.\<close>

definition with_calls :: "'w env \<Rightarrow> 'w env \<Rightarrow> 'w env" where
  "with_calls E C = E\<lparr>
     client_Get_Kubeconfig := client_Get_Kubeconfig C, client_Get_Secret := client_Get_Secret C,
     client_Get_Csr := client_Get_Csr C, client_Get_Crb := client_Get_Crb C,
     client_Get_ConfigMap := client_Get_ConfigMap C, client_Create_Secret := client_Create_Secret C,
     client_Create_Csr := client_Create_Csr C, client_Create_Crb := client_Create_Crb C,
     client_Update_Secret := client_Update_Secret C,
     client_Status_Update_Kubeconfig := client_Status_Update_Kubeconfig C,
     client_Status_Update_Csr := client_Status_Update_Csr C,
     clientset_UpdateApproval := clientset_UpdateApproval C\<rparr>"

lemma with_calls_keys:
  "createRSAKey (with_calls E C) = createRSAKey E" "createECDSAKey (with_calls E C) = createECDSAKey E"
  "createEd25519Key (with_calls E C) = createEd25519Key E"
  "x509_CreateCertificateRequest (with_calls E C) = x509_CreateCertificateRequest E"
  by (intro ext, simp add: with_calls_def createRSAKey_def createECDSAKey_def createEd25519Key_def)+

lemma with_calls_createCSR: "createCSR (with_calls E C) = createCSR E"
  by (intro ext, simp only: with_calls_keys createCSR_def generateKey_def)

lemma with_calls_key_file: "key_file (with_calls E C) = key_file E"
proof
  show "key_file (with_calls E C) k = key_file E k" for k by (cases k) (simp_all add: with_calls_def)
qed

text \<open>What a stored object means does not depend on how it is reached.\<close>

lemma with_calls_library:
  "meta_FindStatusCondition (with_calls E C) = meta_FindStatusCondition E"
  "yaml_Marshal (with_calls E C) = yaml_Marshal E" "range_order (with_calls E C) = range_order E"
  "pem_Decode (with_calls E C) = pem_Decode E" "SetControllerReference (with_calls E C) = SetControllerReference E"
  "x509_ParseCertificateRequest (with_calls E C) = x509_ParseCertificateRequest E"
  by (simp_all add: with_calls_def)

lemma with_calls_meaning:
  "issued (with_calls E C) = issued E" "finished (with_calls E C) = finished E"
  "isInTerminalCondition (with_calls E C) = isInTerminalCondition E" "Marshal (with_calls E C) = Marshal E"
  by (intro ext, simp only: issued_def with_calls_keys with_calls_key_file finished_def isInTerminalCondition_def Marshal_def
      with_calls_library serializeConfig_def clusterEntries_def contextEntries_def userEntries_def range_keys_def)+

lemma with_calls_safe:
  "complete (with_calls E C) = complete E" "safe (with_calls E C) pre = safe E pre"
  "served (with_calls E C) = served E"
proof -
  show c: "complete (with_calls E C) = complete E"
    by (intro ext) (simp add: complete_def with_calls_meaning)
  show "safe (with_calls E C) pre = safe E pre"
    by (intro ext) (simp add: safe_def healthy_def sound_def keys_match_def c with_calls_meaning)
  show "served (with_calls E C) = served E"
    by (intro ext) (simp add: served_def c with_calls_meaning)
qed

lemma with_calls_laws:
  "pem_law (with_calls E C) = pem_law E" "x509_law (with_calls E C) = x509_law E"
  "owner_law (with_calls E C) k = owner_law E k"
  by (simp_all add: pem_law_def x509_law_def owner_law_def set_owner_def with_calls_library with_calls_keys)

subsection \<open>From wherever the Kubeconfig is\<close>

lemma served_over:
  fixes w :: 'w
  assumes r: "reliable E obs" and s: "served E pre kc (obs w)" and n: "nn_Name req = Name (KMeta kc)"
  shows "wp (Reconcile E req) (\<lambda>r s'. r = Ret (empty_result, None) \<and> served E pre kc (obs (world s'))) (start w)"
proof -
  have "stage_of E (obs w) (Name (KMeta kc)) = Over"
    using s by (auto simp: served_def Let_def stage_of_def finished_def isInTerminalCondition_def)
  then show ?thesis by (rule wp_mono[OF run_when_over[OF r n]]) (use s in auto)
qed

lemma signed_served: "served E pre kc c \<Longrightarrow> served E pre kc (signed n cert c)"
  by (auto simp: served_def Let_def signed_def bound_def split: option.split)

lemma first_under_way:
  fixes w :: 'w
  assumes r: "reliable E obs" and own: "\<And>k. owner_law E k"
    and k: "kubeconfig_at (obs w) n = Some kc" "Name (KMeta kc) = n"
    and ref: "ExistingCSR (Spec kc) = predefined pre n" and there: "provided pre n (obs w)"
    and sp: "workable kc" "AutoApproveCSR (Spec kc)"
    and ca: "config_at (obs w) (nn_key kube_root_ca_name) \<noteq> None" and own_b: "own_binding kc (obs w)"
    and n: "nn_Name req = n" and live: "\<not> isInTerminalCondition E kc"
    and q: "\<And>q. request_at (obs w) n = Some q \<Longrightarrow> approvable q \<and> \<not> grantable q"
  shows "wp (Reconcile E req) (\<lambda>r s'. (\<exists>res. r = Ret (res, None)) \<and>
    (\<exists>q. under_way E pre kc q (obs (world s')) \<and> approvable q)) (start w)"
proof (cases "request_at (obs w) n")
  case None
  show ?thesis
    by (rule wp_mono[OF first_run[where pre = pre, OF r k ref there sp(1) n live None]])
      (use submitted_under_way[OF r own _ k sp(2) ca own_b] in blast)
next
  case (Some q)
  then have a: "approvable q" "\<not> refused q" "\<not> grantable q" using q by (auto simp: approvable_def)
  show ?thesis
    by (rule wp_mono[OF waiting_under_way[where pre = pre, OF r k ref there ca own_b n live Some a(2,3)]])
      (use a(1) in blast)
qed

lemma recovery_run:
  fixes w w3 :: 'w
  assumes r: "reliable E obs" and laws: "pem_law E" "x509_law E" "\<And>k. owner_law E k" and safe: "safe_for E pre n (obs w)"
    and secrets: "distinct_secrets pre" "provided pre n (obs w)"
    and k: "kubeconfig_at (obs w) n = Some kc" "Name (KMeta kc) = n" and sp: "workable kc" "AutoApproveCSR (Spec kc)"
    and live: "\<not> isInTerminalCondition E kc" and q: "\<And>q. request_at (obs w) n = Some q \<Longrightarrow> approvable q"
    and own: "own_binding kc (obs w)"
    and ca: "config_at (obs w) (nn_key kube_root_ca_name) \<noteq> None" and req: "nn_Name req = n"
    and w1: "Reconcile E req (start w) = (r1, s1)"
    and w2: "ReconcileCsr E req (start (world s1)) = (r2, s2)"
    and w3: "obs w3 = signed n cert (obs (world s2))" "cert \<noteq> []"
    and w4: "Reconcile E req (start w3) = (r4, s4)"
  shows "(\<exists>res. r1 = Ret (res, None)) \<and> r2 = Ret (empty_result, None) \<and> r4 = Ret (empty_result, None) \<and>
    served E pre kc (obs (world s4))"
proof -
  have healthy: "healthy E pre n (obs w)" "sound E pre n (obs w)"
    using safe_forD(1,2)[OF safe] by (simp_all add: safe_def)
  have safe1: "safe_for E pre (Name (KMeta kc)) (obs w)" using safe k(2) by simp
  have ref: "ExistingCSR (Spec kc) = predefined pre (Name (KMeta kc))" using healthy(1) k by (simp add: healthy_def promised_def)
  show ?thesis
  proof (cases "\<exists>q. request_at (obs w) n = Some q \<and> grantable q")
    case True
    then obtain q where q: "request_at (obs w) n = Some q" "grantable q" by blast
    have u: "under_way E pre kc q (obs w)"
      using healthy(2) k live q ca own by (auto simp: under_way_def Let_def sound_def)
    have 1: "r1 = Ret (empty_result, None)" "served E pre kc (obs (world s1))" "request_at (obs (world s1)) n = Some q"
      using last_served[OF r secrets(1) safe1 u q(2) sp(1) ref, of req] k(2) req w1 by (auto simp: wp_def)
    have "approved q" using q(2) by (simp add: grantable_def approved_def refused_def)
    then have "r2 = Ret (empty_result, None)" "obs (world s2) = obs (world s1)"
      using approved_noop[OF r, of "world s1" req q] 1(3) req w2 by (auto simp: wp_def)
    moreover from this have "served E pre kc (obs w3)" using 1(2) signed_served w3(1) by metis
    ultimately show ?thesis using served_over[OF r, of pre kc w3 req] 1(1) req k(2) w4 by (simp add: wp_def)
  next
    case False
    then obtain q1 where 1: "\<exists>res. r1 = Ret (res, None)" "under_way E pre kc q1 (obs (world s1))" "approvable q1"
      using first_under_way[OF r laws(3) k _ secrets(2) sp ca own req live] ref q k(2) w1 by (auto simp: wp_def)
    have "safe_for E pre (Name (KMeta kc)) (obs (world s1))" by (rule runs_safe_for(1)[OF r secrets(1) safe1 w1])
    then show ?thesis
      using approved_and_served[OF r laws(1,2) secrets(1) _ 1(2,3) sp(1) ref _ w2 _ w3(2) w4] w3(1) 1(1) k(2) req by simp
  qed
qed


subsection \<open>An outage\<close>

definition unavailable :: go_error where
  "unavailable = PlainError ''dial tcp 10.96.0.1:443: connect: connection refused''"

text \<open>The store of the samples while no call gets through.\<close>

definition outage :: "store env" where
  "outage = store_env\<lparr>
     client_Get_Kubeconfig := (\<lambda>n obj c. ((Some unavailable, obj), c)),
     client_Get_Secret := (\<lambda>n obj c. ((Some unavailable, obj), c)),
     client_Get_Csr := (\<lambda>n obj c. ((Some unavailable, obj), c)),
     client_Get_Crb := (\<lambda>n obj c. ((Some unavailable, obj), c)),
     client_Get_ConfigMap := (\<lambda>n obj c. ((Some unavailable, obj), c)),
     client_Create_Secret := (\<lambda>obj c. ((Some unavailable, obj), c)),
     client_Create_Csr := (\<lambda>obj c. ((Some unavailable, obj), c)),
     client_Create_Crb := (\<lambda>obj c. ((Some unavailable, obj), c)),
     client_Update_Secret := (\<lambda>obj c. ((Some unavailable, obj), c)),
     client_Status_Update_Kubeconfig := (\<lambda>obj c. ((Some unavailable, obj), c)),
     client_Status_Update_Csr := (\<lambda>obj c. ((Some unavailable, obj), c)),
     clientset_UpdateApproval := (\<lambda>obj c. ((Some unavailable, obj), c))\<rparr>"

lemma outage_over: "with_calls outage store_env = store_env"
  by (simp add: with_calls_def outage_def)

lemma unavailable_reads: "(\<And>c. Env c c) \<Longrightarrow> read_law Env obs found missing (\<lambda>c. ((Some unavailable, obj), c))"
  by (auto simp: read_law_def unavailable_def IsNotFound_ne)

lemma unavailable_writes:
  "(\<And>c. Env c c) \<Longrightarrow> write_law Env obs possible effect returned (\<lambda>c. ((Some unavailable, obj), c))"
  by (auto simp: write_law_def)

lemma outage_law: "cluster_law outage sample_promises named"
proof -
  let ?Env = "interference outage sample_promises"
  note refl = interference_refl[of outage sample_promises]
  have "client_reads outage named ?Env" "store_writes outage named ?Env"
    by (simp_all add: client_reads_def store_writes_def outage_def unavailable_reads unavailable_writes refl[unfolded outage_def])
  moreover have "lib_law ?Env named (rsa_GenerateKey outage i)" "lib_law ?Env named (ecdsa_GenerateKey outage curve)"
    "lib_law ?Env named (ed25519_GenerateKey outage)" "lib_law ?Env named (x509_CreateCertificateRequest outage t k)"
    for i curve t k
    using refl by (simp_all add: lib_law_def outage_def store_env_def)
  moreover have "conditions_law outage" "owner_names outage" "failed_get_law outage"
    using reliable_laws[OF store_env_reliable]
    by (simp_all add: conditions_law_def owner_names_def set_owner_def outage_def failed_get_law_def)
  ultimately show ?thesis by (simp add: cluster_law_def client_law_def own_secrets_distinct)
qed

lemma outage_run: "Reconcile outage request_kc (start installed) = (Ret (empty_result, Some unavailable),
    \<lparr>world = installed, calls = [GetKubeconfig request_kc (Some unavailable) zero_kubeconfig]\<rparr>)"
  by (simp add: Reconcile_def Get_Kubeconfig_def api_call_def go_bind_def go_return_def outage_def start_def
      unavailable_def IsNotFound_ne)

lemma outage_meaning:
  "finished outage = finished store_env" "isInTerminalCondition outage = isInTerminalCondition store_env"
  by (metis outage_over with_calls_meaning(2)) (metis outage_over with_calls_meaning(3))


end
