(* ===== verification/Lost_Keys.thy ===== *)
theory Lost_Keys
  imports Sample_Store
begin

text \<open>
  Two ways in which a Kubeconfig loses the private key of its request, outside what \<open>System\<close>
  assumes. The client of \<open>main.go\<close> reads signing requests and secrets from a cache (only the
  cache for Kubeconfigs is disabled), so a run may not see a request that exists: it then
  replaces the stored key. And a user secret that is gone when the request is granted is
  created anew without a key, but the Kubeconfig ends as done.
\<close>

subsection \<open>A read of the request that is behind\<close>

definition stale_requests :: "'w env \<Rightarrow> 'w env" where
  "stale_requests E = E\<lparr>client_Get_Csr := (\<lambda>n obj w. ((Some not_found, obj), w))\<rparr>"

lemma stale_calls:
  "isInTerminalCondition (stale_requests E) = isInTerminalCondition E"
  "Get_Kubeconfig (stale_requests E) = Get_Kubeconfig E" "Get_Secret (stale_requests E) = Get_Secret E"
  "Create_Secret (stale_requests E) = Create_Secret E" "Update_Secret (stale_requests E) = Update_Secret E"
  "Create_Csr (stale_requests E) = Create_Csr E"
  "Status_Update_Kubeconfig (stale_requests E) = Status_Update_Kubeconfig E"
  "set_owner (stale_requests E) = set_owner E" "SetCondition (stale_requests E) = SetCondition E"
  by (intro ext, simp add: stale_requests_def isInTerminalCondition_def client_defs set_owner_def
      SetCondition_def now_def)+

lemma stale_keys:
  "createRSAKey (stale_requests E) = createRSAKey E" "createECDSAKey (stale_requests E) = createECDSAKey E"
  "createEd25519Key (stale_requests E) = createEd25519Key E"
  "x509_CreateCertificateRequest (stale_requests E) = x509_CreateCertificateRequest E"
  by (intro ext, simp add: stale_requests_def createRSAKey_def createECDSAKey_def createEd25519Key_def)+

lemma stale_objects:
  "createUserSecret (stale_requests E) = createUserSecret E" "createCsr (stale_requests E) = createCsr E"
  "adoptSecret (stale_requests E) = adoptSecret E" "generateKey (stale_requests E) = generateKey E"
  by (intro ext, simp only: stale_calls stale_keys createUserSecret_def createCsr_def adoptSecret_def generateKey_def)+

lemma stale_parts:
  "reconcileOwnSecret (stale_requests E) = reconcileOwnSecret E"
  "reconcileExistingSecret (stale_requests E) = reconcileExistingSecret E"
  "createCSR (stale_requests E) = createCSR E" "submitCSR (stale_requests E) = submitCSR E"
  by (intro ext, simp only: stale_calls stale_keys stale_objects reconcileOwnSecret_def
      reconcileExistingSecret_def createCSR_def submitCSR_def)+

lemma stale_fields:
  "reconcileUserSecret (stale_requests E) = reconcileUserSecret E"
  "reconcileFreshCSR (stale_requests E) = reconcileFreshCSR E"
  by (intro ext, simp only: stale_calls stale_parts reconcileUserSecret_def reconcileFreshCSR_def)+

lemma stale_get: "client_Get_Csr (stale_requests E) n obj w = ((Some not_found, obj), w)"
  by (simp add: stale_requests_def)

lemma stale_reconcileCSR:
  "reconcileCSR (stale_requests E) kc sec s = reconcileFreshCSR E kc sec
     \<lparr>world = world s, calls = calls s @ [GetCsr (csr_name kc) (Some not_found) zero_csr]\<rparr>"
  by (simp add: reconcileCSR_def go_bind_def Get_Csr_def api_call_def stale_get not_found_reply stale_fields)

definition key_replaced :: "'w env \<Rightarrow> promises \<Rightarrow> Kubeconfig \<Rightarrow> string \<Rightarrow> store \<Rightarrow> store \<Rightarrow> bool" where
  "key_replaced E pre kc n c c' \<longleftrightarrow> (\<exists>kc1 s s' d key req. live E kc kc1 \<and>
     createCSR E kc1 s = (Ret (Some key, Some req, None), s') \<and>
     d CertificateSecretPrivKeyKey = Some key \<and> d CertificateSecretCSRKey = Some req \<and>
     c' = with_secret pre n d c)"

lemma stale_fresh_run:
  fixes s :: "'w go_state"
  assumes r: "reliable E obs" and l: "live E kc kc1" and n: "Name (KMeta kc) = n"
    and h: "in_hand pre n sec" "SecretData sec = Some d" and o: "obs (world s) = with_secret pre n d c"
    and q: "request_at c n = Some q"
    and csr: "SpecCSR (Spec kc) = Some csr" "SignatureAlg csr \<in> set supported_algorithms"
  shows "wp (reconcileFreshCSR E kc1 sec) (\<lambda>r s'. (\<exists>e. r = Ret (empty_result, Some e)) \<and>
    key_replaced E pre kc n c (obs (world s'))) s"
proof -
  have n1: "Name (KMeta kc1) = n" "SpecCSR (Spec kc1) = Some csr" using l n csr by (simp_all add: live_def)
  show ?thesis
    unfolding reconcileFreshCSR_def
  proof (rule bind_event, rule bind_exact_createCSR[OF r n1(2) csr(2)], goal_cases)
    case (1 key req s')
    let ?d = "d(CertificateSecretPrivKeyKey \<mapsto> key, CertificateSecretCSRKey \<mapsto> req)"
    let ?sec = "sec\<lparr>SecretData := Some ?d\<rparr>"
    have sec: "object_key (SMeta ?sec) = secret_place pre n" "merged ?sec = ?d"
      using h by (simp_all add: in_hand_def merged_plain)
    have entries: "?d CertificateSecretPrivKeyKey = Some key" "?d CertificateSecretCSRKey = Some req"
      by simp_all
    have "wp (submitCSR E kc1 sec key req) (\<lambda>r s'. (\<exists>e. r = Ret (empty_result, Some e)) \<and>
        key_replaced E pre kc n c (obs (world s'))) s'"
      unfolding submitCSR_def Update_Secret_def
    proof (rule bind_store[OF h(2)], rule bind_store[OF refl],
        rule bind_exact_write[OF exact_update_secret[OF r]], goal_cases)
      case 1
      show ?case using \<open>obs (world s') = _\<close> o sec(1) by simp
    next
      case (2 obj w2)
      then have o2: "obs w2 = with_secret pre n ?d c"
        using \<open>obs (world s') = _\<close> o sec by (simp add: put_secret_with)
      have "key_replaced E pre kc n c (obs w2)"
        unfolding key_replaced_def using l \<open>createCSR E kc1 _ = _\<close> o2 entries by blast
      moreover have "request_at (obs w2) (Name (CsrMeta (createCsr E kc1 req))) \<noteq> None"
        using o2 q n1 by (simp add: createCsr_fields reliable_laws[OF r])
      ultimately show ?case
        using exact_create_csr[OF r, of "createCsr E kc1 req", unfolded exact_write_def, rule_format, of w2]
        by (auto simp: Let_def Create_Csr_def wp_bind wp_api_call wp_record_event wp_return)
    qed
    then show ?case by (simp add: wp_bind wp_deref)
  qed
qed

text \<open>
  A run that reads the Kubeconfig and its secret up to date, but does not see the signing
  request that exists, returns an error, as it cannot create the request; by then it has
  replaced the key and the request in the user secret by new ones. The request on the API
  server is the old one, so the certificate that will be issued for it does not belong to the
  stored key (later runs find the request and keep the secret).
\<close>

theorem stale_read_replaces_key:
  assumes "reliable E obs" and "kubeconfig_at (obs w) n = Some kc" and "Name (KMeta kc) = n"
    and "\<not> isInTerminalCondition E kc" and "ExistingCSR (Spec kc) = predefined pre n" and "provided pre n (obs w)"
    and "SpecCSR (Spec kc) = Some csr" and "SignatureAlg csr \<in> set supported_algorithms"
    and "request_at (obs w) n = Some q" and "nn_Name req = n"
    and "Reconcile (stale_requests E) req (start w) = (r, s)"
  shows "(\<exists>e. r = Ret (empty_result, Some e)) \<and> request_at (obs (world s)) n = Some q \<and>
    (\<exists>d kc1 s1 s2 key new. secret_at (obs (world s)) (secret_place pre n) = Some d \<and>
       createCSR E kc1 s1 = (Ret (Some key, Some new, None), s2) \<and>
       d CertificateSecretPrivKeyKey = Some key \<and> d CertificateSecretCSRKey = Some new)"
proof -
  let ?Q = "\<lambda>r s'. (\<exists>e. r = Ret (empty_result, Some e)) \<and> key_replaced E pre kc n (obs w) (obs (world s'))"
  have "wp (Reconcile (stale_requests E) req) ?Q (start w)"
    unfolding Reconcile_def stale_calls stale_fields
  proof (rule start_secret[where kc = kc, OF assms(1) _ assms(4)])
    show "kubeconfig_at (obs w) (nn_Name req) = Some kc" using assms by simp
    fix s :: "'a go_state" assume s: "obs (world s) = obs w"
    show "wp (go_then (reconcileUserSecret E kc) (\<lambda>(kc, sec). reconcileCSR (stale_requests E) kc sec)) ?Q s"
    proof (rule then_user_secret[where pre = pre and n = n and orig = kc, OF assms(1) _ assms(3,5)], goal_cases)
      case (3 kc' sec d s')
      then show ?case
        using stale_fresh_run[OF assms(1) 3(1) assms(3) 3(2,3), where c = "obs w" and q = q and csr = csr
            and s = "\<lparr>world = world s', calls = calls s' @ [GetCsr (csr_name kc') (Some not_found) zero_csr]\<rparr>"] assms s
        by (simp add: wp_def stale_reconcileCSR)
    qed (use assms(4,6) s in \<open>simp_all add: live_def\<close>)
  qed
  then have "(\<exists>e. r = Ret (empty_result, Some e))" "key_replaced E pre kc n (obs w) (obs (world s))"
    using assms(11) by (auto simp: wp_def)
  then show ?thesis using assms(9) by (auto simp: key_replaced_def) blast
qed

text \<open>On the store whose granted request belongs to the key \<open>key\<close>, with a new request after the run.\<close>

theorem stale_read_replaces_key_witness:
  "(\<exists>e. fst (Reconcile (stale_requests store_env) request_kc (start decided)) = Ret (empty_result, Some e)) \<and>
   (\<exists>d kc1 s1 s2 key new. createCSR store_env kc1 s1 = (Ret (Some key, Some new, None), s2) \<and>
     secret_at (named (world (snd (Reconcile (stale_requests store_env) request_kc (start decided))))) (user_key ''kc'') =
       Some d \<and> d ''tls.key'' = Some key \<and> d ''tls.csr'' = Some new)"
proof -
  let ?run = "Reconcile (stale_requests store_env) request_kc (start decided)"
  let ?q = "(sample_csr CertificateApproved ''cert'')\<lparr>CsrMeta := (CsrMeta (sample_csr CertificateApproved ''cert''))\<lparr>Name := ''kc''\<rparr>\<rparr>"
  have k: "kubeconfig_at (named decided) ''kc'' = Some new_kubeconfig" "ExistingCSR (Spec new_kubeconfig) = None"
    "request_at (named decided) ''kc'' = Some ?q"
    "provided sample_promises ''kc'' (named decided)"
    using installed_facts(1) new_kubeconfig_facts(6)
    by (simp_all add: decided_def named_def provided_def)
  obtain csr where csr: "SpecCSR (Spec new_kubeconfig) = Some csr" "SignatureAlg csr \<in> set supported_algorithms"
    using new_kubeconfig_facts(2) by (auto simp: workable_def)
  have none: "ExistingCSR (Spec new_kubeconfig) = predefined sample_promises ''kc''" using k(2) by simp
  show ?thesis
    using stale_read_replaces_key[OF store_env_reliable k(1) new_kubeconfig_facts(1,4) none k(4) csr k(3)
        installed_facts(4) prod.collapse[symmetric]] unfolding own_place by blast
qed

subsection \<open>A user secret that is gone\<close>

definition empty_entries :: "string \<rightharpoonup> bytes" where
  "empty_entries = [CertificateSecretPrivKeyKey \<mapsto> [], CertificateSecretCSRKey \<mapsto> [], CertificateSecretCertKey \<mapsto> []]"

lemma then_new_secret:
  fixes s :: "'w go_state"
  assumes r: "reliable E obs" and l: "live E orig kc" and n: "Name (KMeta kc) = n"
    and own: "predefined pre n = None" and gone: "secret_at (obs (world s)) (secret_place pre n) = None"
    and "\<And>kc' sec s'. live E orig kc' \<Longrightarrow> in_hand pre n sec \<Longrightarrow> SecretData sec = Some empty_entries \<Longrightarrow>
      obs (world s') = with_secret pre n empty_entries (obs (world s)) \<Longrightarrow> wp (k (kc', sec)) Q s'"
  shows "wp (go_then (reconcileOwnSecret E kc) k) Q s"
proof -
  let ?new = "createUserSecret E kc (user_secret_name kc)"
  note key = user_secret_key(1)[OF n] user_secret_key(2)[OF reliable_laws(2)[OF r] n] secret_place_own[of pre n, OF own]
  have new: "merged ?new = empty_entries"
    by (simp add: merged_def createUserSecret_def empty_entries_def fun_eq_iff)
  show ?thesis
    unfolding reconcileOwnSecret_def go_then_assoc Get_Secret_def
  proof (rule bind_exact_read[OF exact_get_secret[OF r]], goal_cases)
    case (1 sec w')
    then show ?case using gone by (simp add: key)
  next
    case (2 e sec w')
    show ?case
      unfolding prod.case if_P[OF 2(3)] go_then_assoc Create_Secret_def
    proof (rule bind_exact_write[OF exact_create_secret[OF r]], goal_cases)
      case 1
      show ?case using 2(1,2) by (simp add: key)
    next
      case (2 obj w'')
      then have sec: "in_hand pre n obj" "obs w'' = with_secret pre n empty_entries (obs (world s))"
        "SecretData obj = Some empty_entries"
        using \<open>obs w' = obs (world s)\<close> by (auto simp: in_hand_def key put_secret_with[where pre = pre and n = n] new)
      show ?case
        unfolding prod.case option.case go_then_assoc
      proof (rule bind_live[OF reliable_laws(1)[OF r], where orig = orig], goal_cases)
        case 1
        then show ?case using l by (simp add: SetUserSecret_def live_fields)
      next
        case (3 kc')
        then show ?case using assms(6)[OF 3(1) sec(1,3)] sec(2) by simp
      qed simp
    qed
  qed
qed

text \<open>Nothing is promised but that there are no predefined secrets.\<close>

definition own_only :: promises where
  "own_only = \<lparr>predefined = Map.empty, users = (\<lambda>n. UNIV)\<rparr>"

lemma own_only_fields [simp]: "predefined own_only = Map.empty"
  by (simp add: own_only_def)

text \<open>
  C38: A run whose user secret is gone while its request is granted and signed creates the
  secret anew, with an empty private key, stores the certificate and a kubeconfig in it, and
  ends the Kubeconfig as finished, in phase \<open>Done\<close>. The stored key and the stored request
  are empty, and no run will look at the Kubeconfig again.
\<close>

theorem lost_secret_finishes_without_key:
  assumes "reliable E obs" and "kubeconfig_at (obs w) n = Some kc" and "Name (KMeta kc) = n"
    and "workable kc" and "ExistingCSR (Spec kc) = None" and "\<not> isInTerminalCondition E kc" and "secret_at (obs w) (user_key n) = None"
    and "request_at (obs w) n = Some q" and "grantable q" and "\<not> refused q"
    and "config_at (obs w) (nn_key kube_root_ca_name) \<noteq> None" and "nn_Name req = n"
    and "Reconcile E req (start w) = (r, s)"
  shows "r = Ret (empty_result, None) \<and>
    (\<exists>k cfg. kubeconfig_at (obs (world s)) n = Some k \<and> finished E k \<and> Phase (Status k) = PhaseDone \<and>
       StatusKubeconfig (Status k) = cfg \<and>
       secret_at (obs (world s)) (user_key n) = Some [CertificateSecretPrivKeyKey \<mapsto> [],
         CertificateSecretCSRKey \<mapsto> [], CertificateSecretCertKey \<mapsto> Certificate q, KubeconfigKey \<mapsto> cfg])"
proof -
  obtain cl role where spec: "SpecCluster (Spec kc) = Some cl" "SpecRoleRef (Spec kc) = Some role"
    using assms(4) by (auto simp: workable_def)
  have own: "reconcileUserSecret E kc = reconcileOwnSecret E kc"
    using assms(5) by (simp add: reconcileUserSecret_def)
  let ?Q = "\<lambda>r s'. r = Ret (empty_result, None) \<and> granted_store E own_only kc q n empty_entries (obs w) (obs (world s'))"
  have "wp (Reconcile E req) ?Q (start w)"
    unfolding Reconcile_def
  proof (rule start_secret[where kc = kc, OF assms(1) _ assms(6)])
    show "kubeconfig_at (obs w) (nn_Name req) = Some kc" using assms by simp
    fix s :: "'a go_state" assume s: "obs (world s) = obs w"
    show "wp (go_then (reconcileUserSecret E kc) (\<lambda>(kc, sec). reconcileCSR E kc sec)) ?Q s"
      unfolding own
    proof (rule then_new_secret[where pre = own_only and n = n and orig = kc, OF assms(1) _ assms(3)], goal_cases)
      case (4 kc' sec s')
      have "reconcileExistingCSR E kc' sec q = reconcileApproved E kc' sec q"
        using assms(9,10) by (simp add: reconcileExistingCSR_def getCertApprovalCondition_eq refused_def grantable_def)
      then have "wp (reconcileCSR E kc' sec) ?Q s'"
        using 4 s assms grantable_run[OF assms(1) 4(1) assms(3) 4(2,3) _ _ assms(9) spec(1,2) assms(11)]
        by (intro existing_run[OF assms(1), where c = "obs w" and n = n]) (auto simp: live_def)
      then show ?case by simp
    qed (use assms s in \<open>simp_all add: live_def\<close>)
  qed
  then have run: "r = Ret (empty_result, None)" "granted_store E own_only kc q n empty_entries (obs w) (obs (world s))"
    using assms(13) by (auto simp: wp_def)
  have e: "empty_entries(CertificateSecretCertKey \<mapsto> x, KubeconfigKey \<mapsto> y) = [CertificateSecretPrivKeyKey \<mapsto> [],
      CertificateSecretCSRKey \<mapsto> [], CertificateSecretCertKey \<mapsto> x, KubeconfigKey \<mapsto> y]" for x y
    by (simp add: empty_entries_def fun_eq_iff)
  show ?thesis
    using run assms(2,3) with_secret_fields(5)[of own_only n]
    by (auto simp: granted_store_def e update_status_at)
qed

text \<open>The same store without the user secret.\<close>

theorem lost_secret_finishes_without_key_witness:
  "\<exists>cfg. secret_at (named (world (snd (Reconcile store_env request_kc (start (decided\<lparr>secret_at := Map.empty\<rparr>))))))
     (user_key ''kc'') = Some [''tls.key'' \<mapsto> [], ''tls.csr'' \<mapsto> [], ''tls.crt'' \<mapsto> ''cert'', ''kubeconfig'' \<mapsto> cfg]"
proof -
  let ?w = "decided\<lparr>secret_at := Map.empty\<rparr>"
  let ?q = "(sample_csr CertificateApproved ''cert'')\<lparr>CsrMeta := (CsrMeta (sample_csr CertificateApproved ''cert''))\<lparr>Name := ''kc''\<rparr>\<rparr>"
  have k: "kubeconfig_at (named ?w) ''kc'' = Some new_kubeconfig" "secret_at (named ?w) (user_key ''kc'') = None"
    "request_at (named ?w) ''kc'' = Some ?q" "config_at (named ?w) (nn_key kube_root_ca_name) \<noteq> None"
    using installed_facts(1) installed_root_ca by (simp_all add: decided_def named_def)
  have q: "grantable ?q" "\<not> refused ?q" "Certificate ?q = ''cert''"
    by (simp_all add: grantable_def refused_def sample_csr_def sample_condition_def)
  show ?thesis
    using lost_secret_finishes_without_key[OF store_env_reliable k(1) new_kubeconfig_facts(1,2,6,4) k(2,3) q(1,2) k(4)
        installed_facts(4) prod.collapse[symmetric]] q(3) by auto
qed

end
