(* ===== verification/Name_Clashes.thy ===== *)
theory Name_Clashes
  imports Lost_Keys
begin

text \<open>
  Kubeconfigs that get in each other's way, outside what \<open>System\<close> and \<open>Recovery\<close> assume. The
  field \<open>existingCSR\<close> may name the user secret of another Kubeconfig, whose key is then
  overwritten. And role bindings are named after the user, so of two Kubeconfigs for one user
  the second ends as done without its role.
\<close>

subsection \<open>A secret of two Kubeconfigs\<close>

text \<open>
  The field \<open>existingCSR\<close> may name any secret, the user secret of another Kubeconfig
  included, and nothing checks it. The first run on such a Kubeconfig succeeds, and afterwards
  the shared secret holds a key and a request made for it, while the request of the other
  Kubeconfig is still the old one, whose key is gone. So the assumption of \<open>System\<close> that no two
  Kubeconfigs share a secret is needed.
\<close>

theorem shared_secret_overwrites_key:
  assumes "reliable E obs" and "kubeconfig_at (obs w) m = Some kc" and "Name (KMeta kc) = m"
    and "workable kc" and "\<not> isInTerminalCondition E kc" and "ExistingCSR (Spec kc) = Some ref"
    and "(sr_Namespace ref, sr_Name ref) = user_key n" and "secret_at (obs w) (user_key n) = Some old"
    and "request_at (obs w) m = None" and "request_at (obs w) n = Some q" and "nn_Name req = m"
    and "Reconcile E req (start w) = (r, s)"
  shows "r = Ret (empty_result, None) \<and> request_at (obs (world s)) n = Some q \<and>
    (\<exists>d key new. secret_at (obs (world s)) (user_key n) = Some d \<and>
       d CertificateSecretPrivKeyKey = Some key \<and> d CertificateSecretCSRKey = Some new \<and>
       (\<exists>kc1 s1 s2. Name (KMeta kc1) = m \<and> createCSR E kc1 s1 = (Ret (Some key, Some new, None), s2)))"
proof -
  let ?pre = "\<lparr>predefined = [m \<mapsto> ref], users = \<lambda>_. UNIV\<rparr>"
  have place: "secret_place ?pre m = user_key n" using assms(7) by (simp add: secret_place_def)
  have mn: "m \<noteq> n" using assms(9,10) by auto
  have there: "provided ?pre m (obs w)" using assms(8) by (simp add: provided_def place)
  have "r = Ret (empty_result, None)" and sub: "submitted E ?pre kc m (obs w) (obs (world s))"
    using first_run[where pre = ?pre, OF assms(1-3) _ there assms(4,11,5,9)] assms(6,12) by (simp_all add: wp_def)
  moreover obtain kc1 kc2 d key new s1 s2 where s: "live E kc kc1" "live E kc kc2"
    "createCSR E kc1 s1 = (Ret (Some key, Some new, None), s2)"
    "d CertificateSecretPrivKeyKey = Some key" "d CertificateSecretCSRKey = Some new"
    "obs (world s) = update_status kc2 (put_request (createCsr E kc1 new) (with_secret ?pre m d (obs w)))"
    using sub unfolding submitted_def by blast
  have "secret_at (obs (world s)) (user_key n) = Some d"
    by (simp add: s(6) put_request_def with_secret_def place)
  moreover have "request_at (obs (world s)) n = Some q"
    using s(1) mn assms(3,10)
    by (simp add: s(6) put_request_def createCsr_fields reliable_laws[OF assms(1)] live_def)
  moreover have "\<exists>kc1 s1 s2. Name (KMeta kc1) = m \<and> createCSR E kc1 s1 = (Ret (Some key, Some new, None), s2)"
    using s(1,3) assms(3) unfolding live_def by metis
  ultimately show ?thesis using s(4,5) by blast
qed

text \<open>A second Kubeconfig refers to the user secret of the first, whose request is granted.\<close>

definition intruder :: Kubeconfig where
  "intruder = new_kubeconfig\<lparr>KMeta := zero_meta\<lparr>Name := ''kc2''\<rparr>, Spec := (Spec new_kubeconfig)
     \<lparr>ExistingCSR := Some \<lparr>sr_Name = ''kc-client-cert'', sr_Namespace = ''kubeconfig-operator-system''\<rparr>\<rparr>\<rparr>"

definition shared :: store where
  "shared = decided\<lparr>kubeconfig_at := [''kc'' \<mapsto> new_kubeconfig, ''kc2'' \<mapsto> intruder]\<rparr>"

theorem shared_secret_overwrites_key_witness:
  "\<exists>d key new. secret_at (named (world (snd (Reconcile store_env \<lparr>nn_Namespace = [], nn_Name = ''kc2''\<rparr> (start shared)))))
     (user_key ''kc'') = Some d \<and> d ''tls.key'' = Some key \<and> d ''tls.csr'' = Some new \<and> 
       (\<exists>kc1 s1 s2. Name (KMeta kc1) = ''kc2'' \<and> createCSR store_env kc1 s1 = (Ret (Some key, Some new, None), s2))"
proof -
  let ?q = "(sample_csr CertificateApproved ''cert'')\<lparr>CsrMeta := (CsrMeta (sample_csr CertificateApproved ''cert''))\<lparr>Name := ''kc''\<rparr>\<rparr>"
  let ?ref = "\<lparr>sr_Name = ''kc-client-cert'', sr_Namespace = ''kubeconfig-operator-system''\<rparr>"
  have i: "Name (KMeta intruder) = ''kc2''" "workable intruder" "\<not> isInTerminalCondition store_env intruder"
    "ExistingCSR (Spec intruder) = Some ?ref" "(sr_Namespace ?ref, sr_Name ?ref) = user_key ''kc''"
    using new_kubeconfig_facts by (simp_all add: intruder_def workable_def isInTerminalCondition_eq user_key_def)
  have k: "kubeconfig_at (named shared) ''kc2'' = Some intruder"
    "secret_at (named shared) (user_key ''kc'') = Some [''tls.key'' \<mapsto> ''key'', ''tls.csr'' \<mapsto> ''request'']"
    "request_at (named shared) ''kc2'' = None" "request_at (named shared) ''kc'' = Some ?q"
    using i(1) by (simp_all add: shared_def decided_def named_def installed_def)
  show ?thesis
    using shared_secret_overwrites_key[OF store_env_reliable k(1) i k(2-4) _ prod.collapse[symmetric],
        of "\<lparr>nn_Namespace = [], nn_Name = ''kc2''\<rparr>"] by simp
qed

subsection \<open>A role binding of two Kubeconfigs\<close>

text \<open>
  C39: If there is a role binding under the name that the user name gives, of another Kubeconfig
  for this user or of anybody, a run on a granted Kubeconfig does not look at it: it ends the
  Kubeconfig as finished, in phase \<open>Done\<close>, without an error, and the bindings stay as they are,
  so the user does not get the role that the Kubeconfig names.
\<close>

theorem taken_binding_name_drops_role:
  assumes "reliable E obs" and "kubeconfig_at (obs w) n = Some kc" and "Name (KMeta kc) = n"
    and "ExistingCSR (Spec kc) = predefined pre n" and "provided pre n (obs w)" and "workable kc"
    and "config_at (obs w) (nn_key kube_root_ca_name) \<noteq> None" and "nn_Name req = n"
    and "\<not> isInTerminalCondition E kc" and "request_at (obs w) n = Some q" and "grantable q"
    and "binding_at (obs w) (Username (Spec kc) @ ''-kubeconfig'') = Some b" and "\<not> grants kc b"
    and "Reconcile E req (start w) = (r, s)"
  shows "r = Ret (empty_result, None) \<and> binding_at (obs (world s)) = binding_at (obs w) \<and>
    \<not> bound kc (obs (world s)) \<and>
    (\<exists>k. kubeconfig_at (obs (world s)) n = Some k \<and> finished E k \<and> Phase (Status k) = PhaseDone)"
proof -
  obtain d where "r = Ret (empty_result, None)" and g: "granted_store E pre kc q n d (obs w) (obs (world s))"
    using last_run[where pre = pre, OF assms(1-11)] assms(14) by (auto simp: wp_def)
  moreover obtain kc2 cfg role where fin: "KMeta kc2 = KMeta kc" "finished E kc2" "Phase (Status kc2) = PhaseDone"
    "obs (world s) = update_status kc2 (with_binding kc role
       (with_secret pre n (d(CertificateSecretCertKey \<mapsto> Certificate q, KubeconfigKey \<mapsto> cfg)) (obs w)))"
    using g unfolding granted_store_def by blast
  have "binding_at (obs (world s)) = binding_at (obs w)"
    using assms(12) by (simp add: fin(4) with_binding_def crb_name_def)
  moreover have "\<exists>k. kubeconfig_at (obs (world s)) n = Some k \<and> finished E k \<and> Phase (Status k) = PhaseDone"
    using fin assms(2,3) by (simp add: update_status_at)
  ultimately show ?thesis using assms(12,13) by (simp add: bound_def crb_name_def)
qed

text \<open>The granted sample, for a user whom another Kubeconfig has bound to \<open>edit\<close>; it asks for \<open>view\<close>.\<close>

definition edit_binding :: ClusterRoleBinding where
  "edit_binding = \<lparr>CrbMeta = zero_meta\<lparr>Name := ''jane-kubeconfig''\<rparr>,
     Subjects = [\<lparr>sub_Kind = ''User'', sub_APIGroup = ''rbac.authorization.k8s.io'', sub_Name = ''jane''\<rparr>],
     CrbRoleRef = \<lparr>rr_APIGroup = ''rbac.authorization.k8s.io'', rr_Kind = ''ClusterRole'', rr_Name = ''edit''\<rparr>\<rparr>"

definition edited :: store where
  "edited = decided\<lparr>binding_at := [''jane-kubeconfig'' \<mapsto> edit_binding]\<rparr>"

theorem taken_binding_name_drops_role_witness:
  "\<exists>k. kubeconfig_at (named (world (snd (Reconcile store_env request_kc (start edited))))) ''kc'' = Some k \<and>
     finished store_env k \<and> Phase (Status k) = PhaseDone \<and>
     binding_at (named (world (snd (Reconcile store_env request_kc (start edited))))) = [''jane-kubeconfig'' \<mapsto> edit_binding]"
proof -
  let ?q = "(sample_csr CertificateApproved ''cert'')\<lparr>CsrMeta := (CsrMeta (sample_csr CertificateApproved ''cert''))\<lparr>Name := ''kc''\<rparr>\<rparr>"
  have c: "kubeconfig_at (named edited) ''kc'' = Some new_kubeconfig" "request_at (named edited) ''kc'' = Some ?q"
    "provided sample_promises ''kc'' (named edited)" "config_at (named edited) (nn_key kube_root_ca_name) \<noteq> None"
    using installed_facts(1) installed_root_ca by (simp_all add: edited_def decided_def named_def provided_def)
  have k: "ExistingCSR (Spec new_kubeconfig) = predefined sample_promises ''kc''" using new_kubeconfig_facts(6) by simp
  have b: "binding_at (named edited) = [''jane-kubeconfig'' \<mapsto> edit_binding]" by (simp add: edited_def)
  have n: "binding_at (named edited) (Username (Spec new_kubeconfig) @ ''-kubeconfig'') = Some edit_binding"
    "\<not> grants new_kubeconfig edit_binding"
    unfolding b by (simp_all add: new_kubeconfig_def edit_binding_def grants_def)
  have q: "grantable ?q" by (simp add: grantable_def sample_csr_def sample_condition_def)
  show ?thesis
    using taken_binding_name_drops_role[OF store_env_reliable c(1) new_kubeconfig_facts(1) k c(3) new_kubeconfig_facts(2) c(4)
        installed_facts(4) new_kubeconfig_facts(4) c(2) q n prod.collapse[symmetric]] b by simp
qed

end
