(* ===== verification/Replicas.thy ===== *)
theory Replicas
  imports Lost_Keys
begin

text \<open>
  Two replicas of the operator at the same time, as \<open>main.go\<close> allows unless leader election is
  turned on: a whole run of the second one, up to the creation of its request, falls between
  two calls of a run of the first one. Both run on a store that is read up to date and on
  which no call fails.
\<close>

subsection \<open>Another way to create a request\<close>

definition creating :: "'w env \<Rightarrow> (Csr \<Rightarrow> ('w, Csr) reply) \<Rightarrow> 'w env" where
  "creating E f = E\<lparr>client_Create_Csr := f\<rparr>"

lemma creating_calls:
  "isInTerminalCondition (creating E f) = isInTerminalCondition E"
  "Get_Kubeconfig (creating E f) = Get_Kubeconfig E" "Get_Secret (creating E f) = Get_Secret E"
  "Get_Csr (creating E f) = Get_Csr E"
  "Create_Secret (creating E f) = Create_Secret E" "Update_Secret (creating E f) = Update_Secret E"
  "Status_Update_Kubeconfig (creating E f) = Status_Update_Kubeconfig E"
  "set_owner (creating E f) = set_owner E" "SetCondition (creating E f) = SetCondition E"
  by (intro ext, simp add: creating_def isInTerminalCondition_def client_defs set_owner_def
      SetCondition_def now_def)+

lemma creating_keys:
  "createRSAKey (creating E f) = createRSAKey E" "createECDSAKey (creating E f) = createECDSAKey E"
  "createEd25519Key (creating E f) = createEd25519Key E"
  "x509_CreateCertificateRequest (creating E f) = x509_CreateCertificateRequest E"
  by (intro ext, simp add: creating_def createRSAKey_def createECDSAKey_def createEd25519Key_def)+

lemma creating_objects:
  "createUserSecret (creating E f) = createUserSecret E" "createCsr (creating E f) = createCsr E"
  "adoptSecret (creating E f) = adoptSecret E" "generateKey (creating E f) = generateKey E"
  by (intro ext, simp only: creating_calls creating_keys createUserSecret_def createCsr_def adoptSecret_def generateKey_def)+

lemma creating_parts:
  "reconcileOwnSecret (creating E f) = reconcileOwnSecret E"
  "reconcileExistingSecret (creating E f) = reconcileExistingSecret E"
  "createCSR (creating E f) = createCSR E"
  by (intro ext, simp only: creating_calls creating_keys creating_objects reconcileOwnSecret_def
      reconcileExistingSecret_def createCSR_def)+

lemma creating_secret: "reconcileUserSecret (creating E f) = reconcileUserSecret E"
  by (intro ext, simp only: creating_parts reconcileUserSecret_def)

lemma creating_call: "Create_Csr (creating E f) q = api_call (f q) (\<lambda>err x. CreateCsr q err)"
  by (simp add: creating_def Create_Csr_def)

subsection \<open>A first run with it\<close>

text \<open>Secret and request as they are when the request is to be created.\<close>

definition prepared :: "'w env \<Rightarrow> ('w \<Rightarrow> store) \<Rightarrow> promises \<Rightarrow> Kubeconfig \<Rightarrow> string \<Rightarrow> store \<Rightarrow> Csr \<Rightarrow> store \<Rightarrow> bool" where
  "prepared E obs pre kc n c q c' \<longleftrightarrow> (\<exists>kc1 s s' d0 d key. live E kc kc1 \<and>
     obs (world s) = with_secret pre n d0 c \<and> secret_at c (secret_place pre n) \<in> {None, Some d0} \<and>
     createCSR E kc1 s = (Ret (Some key, Some (Request q), None), s') \<and> q = createCsr E kc1 (Request q) \<and>
     d CertificateSecretPrivKeyKey = Some key \<and> d CertificateSecretCSRKey = Some (Request q) \<and>
     c' = with_secret pre n d c)"

lemma creating_submit:
  fixes s :: "'w go_state"
  assumes r: "reliable E obs" and l: "live E kc kc1" and n: "Name (KMeta kc) = n"
    and h: "in_hand pre n sec" "SecretData sec = Some d" and o: "obs (world s) = with_secret pre n d c"
    and before: "obs (world s0) = with_secret pre n d c" "secret_at c (secret_place pre n) \<in> {None, Some d}"
    and made: "createCSR E kc1 s0 = (Ret (Some key, Some req, None), s)"
    and fails: "\<And>q w2 e obj w3 s'. prepared E obs pre kc n c q (obs w2) \<Longrightarrow> f q w2 = ((Some e, obj), w3) \<Longrightarrow>
      world s' = w3 \<Longrightarrow> Q (Ret (empty_result, Some e)) s'"
    and works: "\<And>q w2 obj w3 kc2 s'. prepared E obs pre kc n c q (obs w2) \<Longrightarrow> f q w2 = ((None, obj), w3) \<Longrightarrow>
      kubeconfig_at (obs w3) n \<noteq> None \<and>
      (live E kc kc2 \<longrightarrow> obs (world s') = update_status kc2 (obs w3) \<longrightarrow> Q (Ret (empty_result, None)) s')"
  shows "wp (submitCSR (creating E f) kc1 sec key req) Q s"
proof -
  let ?d = "d(CertificateSecretPrivKeyKey \<mapsto> key, CertificateSecretCSRKey \<mapsto> req)"
  let ?sec = "sec\<lparr>SecretData := Some ?d\<rparr>" and ?q = "createCsr E kc1 req"
  have sec: "object_key (SMeta ?sec) = secret_place pre n" "merged ?sec = ?d"
    using h by (simp_all add: in_hand_def merged_plain)
  show ?thesis
    unfolding submitCSR_def creating_calls creating_objects Update_Secret_def
  proof (rule bind_store[OF h(2)], rule bind_store[OF refl],
      rule bind_exact_write[OF exact_update_secret[OF r]], goal_cases)
    case 1
    show ?case using o sec(1) by simp
  next
    case (2 obj w2)
    have "obs w2 = with_secret pre n ?d c" using 2 o sec by (simp add: put_secret_with)
    then have p: "prepared E obs pre kc n c ?q (obs w2)"
      unfolding prepared_def using l made before
      by (intro exI[of _ kc1] exI[of _ s0] exI[of _ s] exI[of _ d] exI[of _ ?d] exI[of _ key]) (simp add: createCsr_fields)
    obtain err q' w3 where f: "f ?q w2 = ((err, q'), w3)" by (metis surj_pair)
    show ?case
      unfolding prod.case option.case Let_def creating_call
    proof (rule bind_event, unfold wp_bind wp_api_call, simp add: f, cases err, goal_cases)
      case 1
      have "wp (go_bind (SetCondition E (kc1\<lparr>Status := (Status kc1)\<lparr>StatusCsr := \<lparr>cr_Name = Name (CsrMeta q')\<rparr>\<rparr>\<rparr>)
            ConditionTypeCSRCreated ConditionTrue ''CsrCreated'' ''Created CSR for kubeconfig request'')
          (\<lambda>kubeconfig. go_bind (record_event ''Normal'' ''Created'' ''Created user secret and CSR for kubeconfig'') (\<lambda>_.
             go_bind (Status_Update_Kubeconfig E (SetPhase kubeconfig PhaseAwaitingApproval)) (\<lambda>_. go_return (empty_result, None)))))
          Q s2" if "world s2 = w3" for s2
      proof (rule bind_live[OF reliable_laws(1)[OF r], where orig = kc], goal_cases)
        case (3 kc2)
        have l2: "live E kc (SetPhase kc2 PhaseAwaitingApproval)"
          using 3(1) by (simp add: SetPhase_def live_fields)
        show ?case
        proof (rule bind_event, rule bind_exact_status[OF r], goal_cases)
          case 1
          show ?case using works[OF p, of q' w3 kc2] f \<open>err = None\<close> that l2 n by (simp add: live_def)
        next
          case (2 s')
          then show ?case using works[OF p, of q' w3 "SetPhase kc2 PhaseAwaitingApproval" s'] f \<open>err = None\<close> that l2 by simp
        qed
      qed (use l in \<open>simp_all add: live_fields\<close>)
      then show ?case using 1 by (simp add: wp_bind)
    next
      case (2 e)
      then show ?case using fails[OF p, of e q' w3] f by (simp add: wp_bind wp_record_event wp_return)
    qed
  qed
qed

lemma creating_run:
  fixes w :: 'w
  assumes r: "reliable E obs" and k: "kubeconfig_at (obs w) n = Some kc" "Name (KMeta kc) = n"
    and ref: "ExistingCSR (Spec kc) = predefined pre n" and there: "provided pre n (obs w)"
    and sp: "workable kc" and n: "nn_Name req = n" and live: "\<not> isInTerminalCondition E kc"
    and none: "request_at (obs w) n = None"
    and next_step: "\<And>q w2 e obj w3 s'. prepared E obs pre kc n (obs w) q (obs w2) \<Longrightarrow> f q w2 = ((Some e, obj), w3) \<Longrightarrow>
      world s' = w3 \<Longrightarrow> Q (Ret (empty_result, Some e)) s'"
      "\<And>q w2 obj w3 kc2 s'. prepared E obs pre kc n (obs w) q (obs w2) \<Longrightarrow> f q w2 = ((None, obj), w3) \<Longrightarrow>
      kubeconfig_at (obs w3) n \<noteq> None \<and>
      (live E kc kc2 \<longrightarrow> obs (world s') = update_status kc2 (obs w3) \<longrightarrow> Q (Ret (empty_result, None)) s')"
  shows "wp (Reconcile (creating E f) req) Q (start w)"
  unfolding Reconcile_def creating_calls creating_secret
proof (rule start_secret[where kc = kc, OF r _ live])
  show "kubeconfig_at (obs w) (nn_Name req) = Some kc" using k n by simp
  fix s :: "'w go_state" assume s: "obs (world s) = obs w"
  obtain csr where csr: "SpecCSR (Spec kc) = Some csr" "SignatureAlg csr \<in> set supported_algorithms"
    using sp by (auto simp: workable_def)
  show "wp (go_then (reconcileUserSecret E kc) (\<lambda>(kc, sec). reconcileCSR (creating E f) kc sec)) Q s"
  proof (rule then_user_secret[where pre = pre and n = n and orig = kc, OF r _ k(2) ref], goal_cases)
    case (3 kc1 sec d s')
    have n1: "Name (KMeta kc1) = n" "SpecCSR (Spec kc1) = Some csr" using 3(1) k(2) csr by (simp_all add: live_def)
    have o: "obs (world s') = with_secret pre n d (obs w)" using 3(4) s by simp
    show ?case
      unfolding prod.case reconcileCSR_def creating_calls Get_Csr_def
    proof (rule bind_exact_read[OF exact_get_csr[OF r]], goal_cases)
      case (1 obj w')
      then show ?case using none o n1 by (simp add: csr_name_def)
    next
      case (2 e obj w')
      show ?case
        unfolding prod.case if_P[OF 2(3)] reconcileFreshCSR_def creating_parts
      proof (rule bind_event, rule bind_exact_createCSR[OF r n1(2) csr(2)], goal_cases)
        case (1 key new s2)
        have "wp (submitCSR (creating E f) kc1 sec key new) Q s2"
          by (rule creating_submit[where c = "obs w" and pre = pre and n = n and kc = kc and d = d,
                OF r 3(1) k(2) 3(2,3) _ _ _ 1(1) next_step]) (use 1(2) 2(2) o s 3(5) in simp_all)
        then show ?case by (simp add: wp_bind wp_deref)
      qed
    qed
  qed (use live there s in \<open>simp_all add: live_def\<close>)
qed

subsection \<open>Two replicas\<close>

text \<open>
  A replica that has not come to the creation of its request, whether it is slow or has lost its
  process; and one beside which such a replica makes a whole run before it creates its own. (A
  slow replica fails to create its request later, which changes nothing any more.)
\<close>

definition paused :: "'w env \<Rightarrow> 'w env" where
  "paused E = creating E (\<lambda>q w. ((Some (PlainError ''context deadline exceeded''), q), w))"

definition beside :: "'w env \<Rightarrow> NamespacedName \<Rightarrow> 'w env" where
  "beside E req = creating E (\<lambda>q w. client_Create_Csr E q (world (snd (Reconcile (paused E) req (start w)))))"

lemma paused_run:
  fixes w :: 'w
  assumes "reliable E obs" and "kubeconfig_at (obs w) n = Some kc" "Name (KMeta kc) = n"
    and "ExistingCSR (Spec kc) = predefined pre n" and "provided pre n (obs w)"
    and "workable kc" and "nn_Name req = n" and "\<not> isInTerminalCondition E kc" and "request_at (obs w) n = None"
  shows "\<exists>q. prepared E obs pre kc n (obs w) q (obs (world (snd (Reconcile (paused E) req (start w)))))"
proof -
  have "wp (Reconcile (paused E) req) (\<lambda>r s'. \<exists>q. prepared E obs pre kc n (obs w) q (obs (world s'))) (start w)"
    unfolding paused_def by (rule creating_run[OF assms]) auto
  then show ?thesis by (simp add: wp_def split: prod.splits)
qed

text \<open>
  C37: Without leader election two replicas can lose a private key although every read is up to
  date and no call fails: let a run of a second replica, as far as the creation of its request,
  fall between the update of the secret and the creation of the request in a run of the first.
  Then the first run succeeds and submits the request that belongs to its key, but the user
  secret holds the key and the request that the second one generated afterwards, when the key
  of the first was stored already.
\<close>

theorem replicas_lose_key:
  assumes "reliable E obs" and "kubeconfig_at (obs w) n = Some kc" and "Name (KMeta kc) = n"
    and "ExistingCSR (Spec kc) = predefined pre n" and "provided pre n (obs w)"
    and "workable kc" and "nn_Name req = n" and "\<not> isInTerminalCondition E kc" and "request_at (obs w) n = None"
    and "Reconcile (beside E req) req (start w) = (r, s)"
  shows "r = Ret (empty_result, None) \<and>
    (\<exists>q kc1 s1 s2 lost d1 kc2 t1 t2 key other d. request_at (obs (world s)) n = Some q \<and>
       createCSR E kc1 s1 = (Ret (Some lost, Some (Request q), None), s2) \<and>
       secret_at (obs (world t1)) (secret_place pre n) = Some d1 \<and> d1 ''tls.key'' = Some lost \<and>
       Spec kc2 = Spec kc \<and> createCSR E kc2 t1 = (Ret (Some key, Some other, None), t2) \<and>
       secret_at (obs (world s)) (secret_place pre n) = Some d \<and> d ''tls.key'' = Some key \<and> d ''tls.csr'' = Some other)"
proof -
  let ?lost = "\<lambda>(q :: Csr) c. \<exists>kc1 s1 s2 lost d1 kc2 t1 t2 key other d.
       createCSR E kc1 s1 = (Ret (Some lost, Some (Request q), None), s2) \<and>
       secret_at (obs (world t1)) (secret_place pre n) = Some d1 \<and> d1 ''tls.key'' = Some lost \<and>
       Spec kc2 = Spec kc \<and> createCSR E kc2 t1 = (Ret (Some key, Some other, None), t2) \<and>
       secret_at c (secret_place pre n) = Some d \<and> d ''tls.key'' = Some key \<and> d ''tls.csr'' = Some other"
  let ?other = "\<lambda>w2. world (snd (Reconcile (paused E) req (start w2)))"
  have race: "kubeconfig_at (obs (?other w2)) = kubeconfig_at (obs w) \<and> request_at (obs (?other w2)) = request_at (obs w) \<and>
      Name (CsrMeta q) = n \<and> ?lost q (obs (?other w2))" if p: "prepared E obs pre kc n (obs w) q (obs w2)" for q w2
  proof -
    obtain kc1 s1 s2 d key where 1: "live E kc kc1" "createCSR E kc1 s1 = (Ret (Some key, Some (Request q), None), s2)"
      "q = createCsr E kc1 (Request q)" "d ''tls.key'' = Some key" "obs w2 = with_secret pre n d (obs w)"
      using p unfolding prepared_def by blast
    have "\<exists>q'. prepared E obs pre kc n (obs w2) q' (obs (?other w2))"
      by (rule paused_run) (use assms 1(5) in \<open>simp_all add: provided_def\<close>)
    then obtain q' :: Csr and kc2 t1 t2 d0 d' key' where 2: "live E kc kc2" "obs (world t1) = with_secret pre n d0 (obs w2)"
      "secret_at (obs w2) (secret_place pre n) \<in> {None, Some d0}"
      "createCSR E kc2 t1 = (Ret (Some key', Some (Request q'), None), t2)"
      "d' ''tls.key'' = Some key'" "d' ''tls.csr'' = Some (Request q')" "obs (?other w2) = with_secret pre n d' (obs w2)"
      unfolding prepared_def by blast
    have "Name (CsrMeta q) = n"
      using 1(1,3) assms(3) createCsr_fields(1)[OF reliable_laws(2)[OF assms(1)], of kc1 "Request q"] by (simp add: live_def)
    moreover have "secret_at (obs (world t1)) (secret_place pre n) = Some d" using 2(2,3) 1(5) by simp
    moreover have "Spec kc2 = Spec kc" using 2(1) by (simp add: live_def)
    ultimately show ?thesis using 1(2,4,5) 2(4-7) by (intro conjI) (simp_all, blast)
  qed
  have "wp (Reconcile (beside E req) req) (\<lambda>r s'. r = Ret (empty_result, None) \<and>
      (\<exists>q. request_at (obs (world s')) n = Some q \<and> ?lost q (obs (world s')))) (start w)"
    unfolding beside_def
  proof (rule creating_run[OF assms(1-9)], goal_cases)
    case (1 q w2 e obj w3 s')
    then show ?case
      using race[OF 1(1)] exact_create_csr[OF assms(1), of q, unfolded exact_write_def, rule_format, of "?other w2"] assms(9) by auto
  next
    case (2 q w2 obj w3 kc2 s')
    then have "obs w3 = put_request q (obs (?other w2))"
      using race[OF 2(1)] exact_create_csr[OF assms(1), of q, unfolded exact_write_def, rule_format, of "?other w2"] assms(9) by auto
    then show ?case using race[OF 2(1)] assms(2) by (auto simp: put_request_def)
  qed
  then show ?thesis using assms(10) by (auto simp: wp_def)
qed

text \<open>The store of the samples with a generator that never returns the key that is stored.\<close>

definition stored_key :: "store \<Rightarrow> bytes" where
  "stored_key c = (case secret_at c (user_key ''kc'') of None \<Rightarrow> [] | Some d \<Rightarrow> gomap_index (Some d) ''tls.key'')"

definition fresh_env :: "store env" where
  "fresh_env = store_env\<lparr>rsa_GenerateKey := (\<lambda>n c.
     (Some (if stored_key c = pem_Encode ''RSA PRIVATE KEY'' ''first'' then ''second'' else ''first''), c))\<rparr>"

lemma fresh_env_reliable: "reliable fresh_env named"
proof -
  have "reliable_reads fresh_env named" "reliable_writes fresh_env named"
    using store_env_reads store_env_writes by (simp_all add: reliable_reads_def reliable_writes_def fresh_env_def)
  moreover have "exact_lib named (\<lambda>k. k \<noteq> None) (rsa_GenerateKey fresh_env i)" for i
    by (simp add: exact_lib_def fresh_env_def)
  ultimately show ?thesis
    using store_env_reliable
    by (simp add: reliable_def fresh_env_def conditions_law_def owner_names_def set_owner_def failed_get_law_def)
qed

lemma fresh_env_key:
  assumes "Spec k = Spec new_kubeconfig" and "createCSR fresh_env k t = (Ret (Some key, Some req, None), t')"
  shows "key \<noteq> stored_key (world t)"
proof -
  have "key = pem_Encode ''RSA PRIVATE KEY''
      (if stored_key (world t) = pem_Encode ''RSA PRIVATE KEY'' ''first'' then ''second'' else ''first'')"
    using assms(2)
    by (auto simp: createCSR_def assms(1) go_deref_def go_bind_def go_return_def new_kubeconfig_def generateKey_def
        createRSAKey_def lib_call_def fresh_env_def store_env_def)
  moreover have "pem_Encode ''RSA PRIVATE KEY'' ''first'' \<noteq> pem_Encode ''RSA PRIVATE KEY'' ''second''"
  proof
    assume "pem_Encode ''RSA PRIVATE KEY'' ''first'' = pem_Encode ''RSA PRIVATE KEY'' ''second''"
    then have "Some \<lparr>pem_Type = ''RSA PRIVATE KEY'', pem_Bytes = ''first''\<rparr> = Some \<lparr>pem_Type = ''RSA PRIVATE KEY'', pem_Bytes = ''second''\<rparr>"
      by (metis pem_decode_encode)
    then show False by simp
  qed
  ultimately show ?thesis by (cases "stored_key (world t) = pem_Encode ''RSA PRIVATE KEY'' ''first''") simp_all
qed

theorem replicas_lose_key_witness:
  "\<exists>q kc1 s1 s2 lost d key. let c = named (world (snd (Reconcile (beside fresh_env request_kc) request_kc (start installed)))) in
     request_at c ''kc'' = Some q \<and> createCSR fresh_env kc1 s1 = (Ret (Some lost, Some (Request q), None), s2) \<and>
     secret_at c (user_key ''kc'') = Some d \<and> d ''tls.key'' = Some key \<and> key \<noteq> lost"
proof -
  have k: "kubeconfig_at (named installed) ''kc'' = Some new_kubeconfig" "request_at (named installed) ''kc'' = None"
    "ExistingCSR (Spec new_kubeconfig) = predefined sample_promises ''kc''" "provided sample_promises ''kc'' (named installed)"
    "\<not> isInTerminalCondition fresh_env new_kubeconfig"
    using installed_facts new_kubeconfig_facts by (simp_all add: provided_def isInTerminalCondition_def fresh_env_def)
  obtain q :: Csr and kc1 s1 s2 lost d1 kc2 t1 t2 key other d where
    "request_at (named (world (snd (Reconcile (beside fresh_env request_kc) request_kc (start installed))))) ''kc'' = Some q"
    "createCSR fresh_env kc1 s1 = (Ret (Some lost, Some (Request q), None), s2)"
    "secret_at (named (world (snd (Reconcile (beside fresh_env request_kc) request_kc (start installed))))) (user_key ''kc'') = Some d"
    "d ''tls.key'' = Some key"
    and again: "secret_at (named (world t1)) (user_key ''kc'') = Some d1" "d1 ''tls.key'' = Some lost"
      "Spec kc2 = Spec new_kubeconfig" "createCSR fresh_env kc2 t1 = (Ret (Some key, Some other, None), t2)"
    using replicas_lose_key[OF fresh_env_reliable k(1) new_kubeconfig_facts(1) k(3,4) new_kubeconfig_facts(2)
        installed_facts(4) k(5,2) prod.collapse[symmetric]] unfolding own_place by (elim conjE exE) (rule that)
  moreover have "key \<noteq> lost" using fresh_env_key[OF again(3,4)] again(1,2) by (simp add: stored_key_def)
  ultimately show ?thesis unfolding Let_def by blast
qed

end
