(* ===== verification/Confidentiality.thy ===== *)
theory Confidentiality
  imports Recovery
begin

text \<open>
  Where the private key goes. Two runs of the Kubeconfig reconciler are compared that differ in
  the encoding of the private keys, in the data of all secrets and in the kubeconfig files made
  of them: whatever else can be seen of the two runs is the same. So a private key leaves the
  operator in the data of the user secret and in the kubeconfig, and nowhere else.
\<close>

subsection \<open>What is hidden\<close>

definition hide_kubeconfig :: "Kubeconfig \<Rightarrow> Kubeconfig" where
  "hide_kubeconfig k = k\<lparr>Status := (Status k)\<lparr>StatusKubeconfig := []\<rparr>\<rparr>"

definition hide_secret :: "Secret \<Rightarrow> Secret" where
  "hide_secret s = s\<lparr>SecretData := map_option (\<lambda>_. Map.empty) (SecretData s)\<rparr>"

text \<open>A call as it is seen without the data of secrets and the kubeconfig in a status.\<close>

fun visible :: "call \<Rightarrow> call" where
  "visible (GetKubeconfig n e k) = GetKubeconfig n e (hide_kubeconfig k)"
| "visible (GetSecret n e s) = GetSecret n e (hide_secret s)"
| "visible (CreateSecret s e) = CreateSecret (hide_secret s) e"
| "visible (UpdateSecret s e) = UpdateSecret (hide_secret s) e"
| "visible (UpdateKubeconfigStatus k e) = UpdateKubeconfigStatus (hide_kubeconfig k) e"
| "visible c = c"

definition same_reply :: "('o \<Rightarrow> 'o) \<Rightarrow> ('w \<Rightarrow> 'w \<Rightarrow> bool) \<Rightarrow>
    (go_error option \<times> 'o) \<times> 'w \<Rightarrow> (go_error option \<times> 'o) \<times> 'w \<Rightarrow> bool" where
  "same_reply hide R r r' \<longleftrightarrow> fst (fst r) = fst (fst r') \<and> hide (snd (fst r)) = hide (snd (fst r')) \<and>
     R (snd r) (snd r')"

subsection \<open>Objects that look the same\<close>

lemma hidden_kubeconfig:
  assumes "hide_kubeconfig k = hide_kubeconfig k'"
  shows "KMeta k = KMeta k'" "Spec k = Spec k'" "Conditions (Status k) = Conditions (Status k')"
    "UserSecret (Status k) = UserSecret (Status k')" "StatusCsr (Status k) = StatusCsr (Status k')"
    "Phase (Status k) = Phase (Status k')"
  using assms
  by (cases k; cases "Status k"; cases k'; cases "Status k'"; simp add: hide_kubeconfig_def)+

lemma hidden_kubeconfigI:
  assumes "hide_kubeconfig k = hide_kubeconfig k'"
  shows "hide_kubeconfig (SetPhase k p) = hide_kubeconfig (SetPhase k' p)"
    "SMeta s = SMeta s' \<Longrightarrow> hide_kubeconfig (SetUserSecret k s) = hide_kubeconfig (SetUserSecret k' s')"
    "hide_kubeconfig (k\<lparr>Status := (Status k)\<lparr>StatusCsr := r\<rparr>\<rparr>) = hide_kubeconfig (k'\<lparr>Status := (Status k')\<lparr>StatusCsr := r\<rparr>\<rparr>)"
    "hide_kubeconfig (k\<lparr>Status := (Status k)\<lparr>StatusKubeconfig := c\<rparr>\<rparr>) = hide_kubeconfig (k'\<lparr>Status := (Status k')\<lparr>StatusKubeconfig := c'\<rparr>\<rparr>)"
    "hide_kubeconfig (k\<lparr>Status := (Status k)\<lparr>Conditions := cs\<rparr>\<rparr>) = hide_kubeconfig (k'\<lparr>Status := (Status k')\<lparr>Conditions := cs\<rparr>\<rparr>)"
  using assms
  by (cases k; cases "Status k"; cases k'; cases "Status k'"; simp add: hide_kubeconfig_def SetPhase_def SetUserSecret_def)+

lemma hidden_secret:
  assumes "hide_secret s = hide_secret s'"
  shows "SMeta s = SMeta s'" "SecretType s = SecretType s'" "StringData s = StringData s'"
    "SecretData s = None \<longleftrightarrow> SecretData s' = None"
proof -
  show "SMeta s = SMeta s'" "SecretType s = SecretType s'" "StringData s = StringData s'"
    using assms by (cases s; cases s'; simp add: hide_secret_def)+
  have "map_option (\<lambda>_. Map.empty :: string \<rightharpoonup> bytes) (SecretData s) = map_option (\<lambda>_. Map.empty) (SecretData s')"
    using assms by (cases s; cases s'; simp add: hide_secret_def)
  then show "SecretData s = None \<longleftrightarrow> SecretData s' = None" by (cases "SecretData s"; cases "SecretData s'") simp_all
qed

lemma hidden_secretI:
  assumes "hide_secret s = hide_secret s'"
  shows "hide_secret (s\<lparr>SecretData := Some d\<rparr>) = hide_secret (s'\<lparr>SecretData := Some d'\<rparr>)"
    "hide_secret (s\<lparr>SMeta := m\<rparr>) = hide_secret (s'\<lparr>SMeta := m\<rparr>)"
  using assms by (cases s; cases s'; simp add: hide_secret_def)+

subsection \<open>Runs that look the same\<close>

text \<open>
  Two computations that, from related worlds and traces that look the same, end in the same way
  with results related by \<open>A\<close>, in related worlds and with traces that look the same.
\<close>

definition alike :: "('w \<Rightarrow> 'w \<Rightarrow> bool) \<Rightarrow> ('a \<Rightarrow> 'b \<Rightarrow> bool) \<Rightarrow>
    ('w go_state, 'a) go \<Rightarrow> ('w go_state, 'b) go \<Rightarrow> bool" where
  "alike R A m m' \<longleftrightarrow> (\<forall>s s'. R (world s) (world s') \<and> map visible (calls s) = map visible (calls s') \<longrightarrow>
     rel_outcome A (fst (m s)) (fst (m' s')) \<and> R (world (snd (m s))) (world (snd (m' s'))) \<and>
     map visible (calls (snd (m s))) = map visible (calls (snd (m' s'))))"

lemma alike_return: "A x x' \<Longrightarrow> alike R A (go_return x) (go_return x')"
  by (simp add: alike_def go_return_def)

lemma alike_bind:
  assumes "alike R A m m'" and "\<And>x x'. A x x' \<Longrightarrow> alike R B (f x) (f' x')"
  shows "alike R B (go_bind m f) (go_bind m' f')"
  unfolding alike_def
proof (intro allI impI)
  fix s s' :: "'a go_state"
  assume s: "R (world s) (world s') \<and> map visible (calls s) = map visible (calls s')"
  obtain r t where m: "m s = (r, t)" by fastforce
  obtain r' t' where m': "m' s' = (r', t')" by fastforce
  have 1: "rel_outcome A r r'" "R (world t) (world t') \<and> map visible (calls t) = map visible (calls t')"
    using assms(1) s unfolding alike_def m m' by (metis fst_conv m m' snd_conv)+
  show "rel_outcome B (fst (go_bind m f s)) (fst (go_bind m' f' s')) \<and>
      R (world (snd (go_bind m f s))) (world (snd (go_bind m' f' s'))) \<and>
      map visible (calls (snd (go_bind m f s))) = map visible (calls (snd (go_bind m' f' s')))"
  proof (cases r)
    case (Ret x)
    then obtain x' where x': "r' = Ret x'" "A x x'" using 1(1) by (cases r') auto
    show ?thesis using assms(2)[OF x'(2)] 1(2) by (simp add: go_bind_def m m' Ret x' alike_def)
  next
    case Panic
    then have "r' = Panic" using 1(1) by (cases r') auto
    then show ?thesis using Panic 1(2) by (simp add: go_bind_def m m')
  qed
qed

lemma alike_then:
  assumes "alike R (rel_sum (=) A) m m'" and "\<And>x x'. A x x' \<Longrightarrow> alike R (=) (f x) (f' x')"
  shows "alike R (=) (go_then m f) (go_then m' f')"
  unfolding go_then_def
  by (rule alike_bind[OF assms(1)]) (auto elim!: rel_sum.cases intro: alike_return assms(2))

lemma bind_deref:
  assumes "rel_option A p p'" and "\<And>x x'. A x x' \<Longrightarrow> alike R B (f x) (f' x')"
  shows "alike R B (go_bind (go_deref p) f) (go_bind (go_deref p') f')"
proof (rule alike_bind[of _ A])
  show "alike R A (go_deref p) (go_deref p')"
    using assms(1) by (cases p; cases p') (simp_all add: go_deref_def alike_return alike_def go_panic_def go_return_def)
qed (rule assms(2))

lemma bind_gomap_store:
  assumes "m = None \<longleftrightarrow> m' = None" and "\<And>d d'. alike R B (f (Some d)) (f' (Some d'))"
  shows "alike R B (go_bind (gomap_store m k v) f) (go_bind (gomap_store m' k v') f')"
proof (rule alike_bind[of _ "\<lambda>x x'. x \<noteq> None \<and> x' \<noteq> None"])
  show "alike R (\<lambda>x x'. x \<noteq> None \<and> x' \<noteq> None) (gomap_store m k v) (gomap_store m' k v')"
    using assms(1) by (cases m; cases m') (simp_all add: gomap_store_def alike_def go_panic_def go_return_def)
qed (use assms(2) in auto)

lemma bind_record_event:
  "alike R B f f' \<Longrightarrow> alike R B (go_bind (record_event t r m) (\<lambda>_. f)) (go_bind (record_event t r m) (\<lambda>_. f'))"
  by (rule alike_bind[of _ "(=)"]) (auto simp: alike_def record_event_def)

lemma bind_api_call:
  assumes "\<And>w w'. R w w' \<Longrightarrow> same_reply hide R (g w) (g' w')"
    and "\<And>err x x'. hide x = hide x' \<Longrightarrow> visible (ev err x) = visible (ev' err x')"
    and "\<And>err x x'. hide x = hide x' \<Longrightarrow> alike R B (f err x) (f' err x')"
  shows "alike R B (go_bind (api_call g ev) (\<lambda>(err, x). f err x)) (go_bind (api_call g' ev') (\<lambda>(err, x). f' err x))"
proof (rule alike_bind[of _ "\<lambda>(err, x) (err', x'). err = err' \<and> hide x = hide x'"])
  show "alike R (\<lambda>(err, x) (err', x'). err = err' \<and> hide x = hide x') (api_call g ev) (api_call g' ev')"
    unfolding alike_def
  proof (intro allI impI)
    fix s s' :: "'a go_state"
    assume s: "R (world s) (world s') \<and> map visible (calls s) = map visible (calls s')"
    obtain err x t err' x' t' where g: "g (world s) = ((err, x), t)" "g' (world s') = ((err', x'), t')"
      by (metis surj_pair)
    have "err = err'" "hide x = hide x'" "R t t'" using assms(1)[of "world s" "world s'"] s g by (simp_all add: same_reply_def)
    then show "rel_outcome (\<lambda>(err, x) (err', x'). err = err' \<and> hide x = hide x') (fst (api_call g ev s)) (fst (api_call g' ev' s')) \<and>
        R (world (snd (api_call g ev s))) (world (snd (api_call g' ev' s'))) \<and>
        map visible (calls (snd (api_call g ev s))) = map visible (calls (snd (api_call g' ev' s')))"
      using s assms(2)[of x x' err'] by (simp add: api_call_def g)
  qed
qed (use assms(3) in auto)

lemma bind_lib_call:
  assumes "\<And>w w'. R w w' \<Longrightarrow> fst (g w) = fst (g' w') \<and> R (snd (g w)) (snd (g' w'))"
    and "\<And>x. alike R B (f x) (f' x)"
  shows "alike R B (go_bind (lib_call g) f) (go_bind (lib_call g') f')"
proof (rule alike_bind[of _ "(=)"])
  show "alike R (=) (lib_call g) (lib_call g')" using assms(1) by (simp add: alike_def lib_call_def split_def)
qed (use assms(2) in simp)

lemma alike_case:
  "alike R B a a' \<Longrightarrow> (\<And>e. alike R B (b e) (b' e)) \<Longrightarrow>
     alike R B (case x of None \<Rightarrow> a | Some e \<Rightarrow> b e) (case x of None \<Rightarrow> a' | Some e \<Rightarrow> b' e)"
  "(\<And>e. alike R B (c e) (c' e)) \<Longrightarrow> (\<And>e. alike R B (b e) (b' e)) \<Longrightarrow>
     alike R B (case y of Inl e \<Rightarrow> c e | Inr e \<Rightarrow> b e) (case y of Inl e \<Rightarrow> c' e | Inr e \<Rightarrow> b' e)"
  "alike R B a a' \<Longrightarrow> alike R B d d' \<Longrightarrow> alike R B (if p then a else d) (if p then a' else d')"
  by (auto split: option.split sum.split)

text \<open>The keys are the same, their encodings need not be.\<close>

definition same_key :: "go_error + Signer option \<times> bytes option \<Rightarrow> go_error + Signer option \<times> bytes option \<Rightarrow> bool" where
  "same_key = rel_sum (=) (\<lambda>(k, enc) (k', enc'). k = k' \<and> (enc = None \<longleftrightarrow> enc' = None))"

definition same_created :: "bytes option \<times> bytes option \<times> go_error option \<Rightarrow> bytes option \<times> bytes option \<times> go_error option \<Rightarrow> bool" where
  "same_created c c' \<longleftrightarrow> (fst c = None \<longleftrightarrow> fst c' = None) \<and> snd c = snd c'"

definition same_given :: "Kubeconfig \<times> Secret \<Rightarrow> Kubeconfig \<times> Secret \<Rightarrow> bool" where
  "same_given g g' \<longleftrightarrow> hide_kubeconfig (fst g) = hide_kubeconfig (fst g') \<and> hide_secret (snd g) = hide_secret (snd g')"

subsection \<open>An API server and libraries that keep it apart\<close>

text \<open>
  What the two environments have in common: their calls answer and act alike on worlds that are
  related and on objects that look the same, clock and randomness are the same, and so are the
  libraries, except for the encodings of private keys and the YAML library, which may differ.
\<close>

locale separated =
  fixes R :: "'w \<Rightarrow> 'w \<Rightarrow> bool" and E E' :: "'w env"
  assumes get_kubeconfig: "R w w' \<Longrightarrow> same_reply hide_kubeconfig R
      (client_Get_Kubeconfig E n zero_kubeconfig w) (client_Get_Kubeconfig E' n zero_kubeconfig w')"
    and get_secret: "R w w' \<Longrightarrow> same_reply hide_secret R (client_Get_Secret E n zero_secret w) (client_Get_Secret E' n zero_secret w')"
    and get_csr: "R w w' \<Longrightarrow> same_reply id R (client_Get_Csr E n zero_csr w) (client_Get_Csr E' n zero_csr w')"
    and get_crb: "R w w' \<Longrightarrow> same_reply id R (client_Get_Crb E n zero_crb w) (client_Get_Crb E' n zero_crb w')"
    and get_configmap: "R w w' \<Longrightarrow> same_reply id R (client_Get_ConfigMap E n zero_configmap w) (client_Get_ConfigMap E' n zero_configmap w')"
    and create_secret: "R w w' \<Longrightarrow> hide_secret s = hide_secret s' \<Longrightarrow>
      same_reply hide_secret R (client_Create_Secret E s w) (client_Create_Secret E' s' w')"
    and update_secret: "R w w' \<Longrightarrow> hide_secret s = hide_secret s' \<Longrightarrow>
      same_reply hide_secret R (client_Update_Secret E s w) (client_Update_Secret E' s' w')"
    and create_csr: "R w w' \<Longrightarrow> same_reply id R (client_Create_Csr E q w) (client_Create_Csr E' q w')"
    and create_crb: "R w w' \<Longrightarrow> same_reply id R (client_Create_Crb E b w) (client_Create_Crb E' b w')"
    and update_kubeconfig: "R w w' \<Longrightarrow> hide_kubeconfig k = hide_kubeconfig k' \<Longrightarrow> same_reply hide_kubeconfig R
      (client_Status_Update_Kubeconfig E k w) (client_Status_Update_Kubeconfig E' k' w')"
    and clock: "R w w' \<Longrightarrow> time_Now E w = time_Now E' w'"
    and rsa: "R w w' \<Longrightarrow> fst (rsa_GenerateKey E i w) = fst (rsa_GenerateKey E' i w') \<and>
      R (snd (rsa_GenerateKey E i w)) (snd (rsa_GenerateKey E' i w'))"
    and ecdsa: "R w w' \<Longrightarrow> fst (ecdsa_GenerateKey E c w) = fst (ecdsa_GenerateKey E' c w') \<and>
      R (snd (ecdsa_GenerateKey E c w)) (snd (ecdsa_GenerateKey E' c w'))"
    and ed25519: "R w w' \<Longrightarrow> fst (ed25519_GenerateKey E w) = fst (ed25519_GenerateKey E' w') \<and>
      R (snd (ed25519_GenerateKey E w)) (snd (ed25519_GenerateKey E' w'))"
    and signing: "R w w' \<Longrightarrow> fst (x509_CreateCertificateRequest E t p w) = fst (x509_CreateCertificateRequest E' t p w') \<and>
      R (snd (x509_CreateCertificateRequest E t p w)) (snd (x509_CreateCertificateRequest E' t p w'))"
    and set_condition: "meta_SetStatusCondition E = meta_SetStatusCondition E'"
    and find_condition: "meta_FindStatusCondition E = meta_FindStatusCondition E'"
    and set_reference: "hide_kubeconfig k = hide_kubeconfig k' \<Longrightarrow> SetControllerReference E k m = SetControllerReference E' k' m"
begin

lemma same_objects:
  assumes "hide_kubeconfig k = hide_kubeconfig k'"
  shows "isInTerminalCondition E k = isInTerminalCondition E' k'" "set_owner E k m = set_owner E' k' m"
    "createUserSecret E k n = createUserSecret E' k' n" "createCsr E k b = createCsr E' k' b"
    "user_secret_name k = user_secret_name k'" "csr_name k = csr_name k'" "crb_name k = crb_name k'"
proof -
  note h = hidden_kubeconfig[OF assms]
  show "isInTerminalCondition E k = isInTerminalCondition E' k'"
    by (simp add: isInTerminalCondition_def find_condition h)
  show own: "set_owner E k m = set_owner E' k' m" for m by (simp add: set_owner_def set_reference[OF assms])
  show "createUserSecret E k n = createUserSecret E' k' n" "createCsr E k b = createCsr E' k' b"
    by (simp_all add: createUserSecret_def createCsr_def own h labelsForSubresources_def)
  show "user_secret_name k = user_secret_name k'" "csr_name k = csr_name k'" "crb_name k = crb_name k'"
    by (simp_all add: user_secret_name_def csr_name_def crb_name_def h)
qed

subsection \<open>Calls\<close>

lemma bind_reads:
  "(\<And>err k k'. hide_kubeconfig k = hide_kubeconfig k' \<Longrightarrow> alike R B (f1 err k) (f1' err k')) \<Longrightarrow>
    alike R B (go_bind (Get_Kubeconfig E n zero_kubeconfig) (\<lambda>(err, k). f1 err k)) (go_bind (Get_Kubeconfig E' n zero_kubeconfig) (\<lambda>(err, k). f1' err k))"
  "(\<And>err s s'. hide_secret s = hide_secret s' \<Longrightarrow> alike R B (f2 err s) (f2' err s')) \<Longrightarrow>
    alike R B (go_bind (Get_Secret E n zero_secret) (\<lambda>(err, s). f2 err s)) (go_bind (Get_Secret E' n zero_secret) (\<lambda>(err, s). f2' err s))"
  "(\<And>err q. alike R B (f3 err q) (f3' err q)) \<Longrightarrow>
    alike R B (go_bind (Get_Csr E n zero_csr) (\<lambda>(err, q). f3 err q)) (go_bind (Get_Csr E' n zero_csr) (\<lambda>(err, q). f3' err q))"
  "(\<And>err b. alike R B (f4 err b) (f4' err b)) \<Longrightarrow>
    alike R B (go_bind (Get_Crb E n zero_crb) (\<lambda>(err, b). f4 err b)) (go_bind (Get_Crb E' n zero_crb) (\<lambda>(err, b). f4' err b))"
  "(\<And>err m. alike R B (f5 err m) (f5' err m)) \<Longrightarrow>
    alike R B (go_bind (Get_ConfigMap E n zero_configmap) (\<lambda>(err, m). f5 err m)) (go_bind (Get_ConfigMap E' n zero_configmap) (\<lambda>(err, m). f5' err m))"
  unfolding client_defs
  by (rule bind_api_call[OF get_kubeconfig], simp_all) (rule bind_api_call[OF get_secret], simp_all,
      rule bind_api_call[OF get_csr], simp_all, rule bind_api_call[OF get_crb], simp_all,
      rule bind_api_call[OF get_configmap], simp_all)

lemma bind_writes:
  "hide_secret s = hide_secret s' \<Longrightarrow> (\<And>err s s'. hide_secret s = hide_secret s' \<Longrightarrow> alike R B (f1 err s) (f1' err s')) \<Longrightarrow>
    alike R B (go_bind (Create_Secret E s) (\<lambda>(err, s). f1 err s)) (go_bind (Create_Secret E' s') (\<lambda>(err, s). f1' err s))"
  "hide_secret s = hide_secret s' \<Longrightarrow> (\<And>err s s'. hide_secret s = hide_secret s' \<Longrightarrow> alike R B (f2 err s) (f2' err s')) \<Longrightarrow>
    alike R B (go_bind (Update_Secret E s) (\<lambda>(err, s). f2 err s)) (go_bind (Update_Secret E' s') (\<lambda>(err, s). f2' err s))"
  "(\<And>err q. alike R B (f3 err q) (f3' err q)) \<Longrightarrow>
    alike R B (go_bind (Create_Csr E q) (\<lambda>(err, q). f3 err q)) (go_bind (Create_Csr E' q) (\<lambda>(err, q). f3' err q))"
  "(\<And>err b. alike R B (f4 err b) (f4' err b)) \<Longrightarrow>
    alike R B (go_bind (Create_Crb E b) (\<lambda>(err, b). f4 err b)) (go_bind (Create_Crb E' b) (\<lambda>(err, b). f4' err b))"
  unfolding client_defs
  by (rule bind_api_call[OF create_secret], simp_all) (rule bind_api_call[OF update_secret], simp_all,
      rule bind_api_call[OF create_csr], simp_all, rule bind_api_call[OF create_crb], simp_all)

lemma bind_status_update:
  assumes "hide_kubeconfig k = hide_kubeconfig k'" and "alike R B f f'"
  shows "alike R B (go_bind (Status_Update_Kubeconfig E k) (\<lambda>_. f)) (go_bind (Status_Update_Kubeconfig E' k') (\<lambda>_. f'))"
proof -
  have "alike R B (go_bind (Status_Update_Kubeconfig E k) (\<lambda>(_, _). f)) (go_bind (Status_Update_Kubeconfig E' k') (\<lambda>(_, _). f'))"
    unfolding client_defs by (rule bind_api_call[OF update_kubeconfig]) (use assms in simp_all)
  then show ?thesis by (simp add: case_prod_unfold)
qed

lemma bind_SetCondition:
  assumes k: "hide_kubeconfig k = hide_kubeconfig k'"
    and "\<And>k k'. hide_kubeconfig k = hide_kubeconfig k' \<Longrightarrow> alike R B (f k) (f' k')"
  shows "alike R B (go_bind (SetCondition E k t st r m) f) (go_bind (SetCondition E' k' t st r m) f')"
proof (rule alike_bind[of _ "\<lambda>k k'. hide_kubeconfig k = hide_kubeconfig k'"])
  show "alike R (\<lambda>k k'. hide_kubeconfig k = hide_kubeconfig k') (SetCondition E k t st r m) (SetCondition E' k' t st r m)"
    unfolding SetCondition_def
    by (rule alike_bind[of _ "(=)"])
      (use k clock in \<open>auto simp: alike_def now_def go_return_def set_condition hidden_kubeconfig(3)[OF k]
         intro!: hidden_kubeconfigI(5)\<close>)
qed (rule assms(2))

subsection \<open>Key and request\<close>

lemma alike_generateKey: "alike R same_key (generateKey E a) (generateKey E' a)"
proof -
  have key: "alike R same_key (go_bind (go_bind (lib_call g) (\<lambda>p. go_bind (go_deref p) (\<lambda>k. go_return (sig k, enc k))))
        (\<lambda>(k, enc). go_return (Inr (Some k, Some enc))))
      (go_bind (go_bind (lib_call g') (\<lambda>p. go_bind (go_deref p) (\<lambda>k. go_return (sig k, enc' k))))
        (\<lambda>(k, enc). go_return (Inr (Some k, Some enc))))"
    if "\<And>w w'. R w w' \<Longrightarrow> fst (g w) = fst (g' w') \<and> R (snd (g w)) (snd (g' w'))"
    for g g' :: "'w \<Rightarrow> bytes option \<times> 'w" and sig :: "bytes \<Rightarrow> Signer" and enc enc'
    unfolding go_bind_assoc go_bind_return prod.case
    by (rule bind_lib_call[where g = g and g' = g'], erule that, rule bind_deref[of "(=)"])
      (auto simp: option.rel_eq same_key_def intro!: alike_return)
  show ?thesis
    unfolding generateKey_def Let_def createRSAKey_def createECDSAKey_def createEd25519Key_def
    by (intro alike_case key rsa ecdsa ed25519 alike_return) (simp_all add: same_key_def)
qed

lemma alike_createCSR:
  assumes k: "hide_kubeconfig k = hide_kubeconfig k'"
  shows "alike R same_created (createCSR E k) (createCSR E' k')"
  unfolding createCSR_def hidden_kubeconfig(2)[OF k]
proof (rule bind_deref[of "(=)"], goal_cases)
  case (2 csr csr')
  show ?case
    unfolding \<open>csr = csr'\<close>
  proof (rule alike_bind[OF alike_generateKey])
    fix r r' :: "go_error + Signer option \<times> bytes option"
    let ?next = "\<lambda>E r. case r of Inl err \<Rightarrow> go_return (None, None, Some err)
      | Inr (keyBytes, encoded) \<Rightarrow> go_bind (lib_call (x509_CreateCertificateRequest E (csrTemplate (Username (Spec k')) csr') keyBytes))
          (\<lambda>res. case res of Inl e \<Rightarrow> go_return (None, None, Some ErrCertificateSigningRequestCreate)
             | Inr csrBytes \<Rightarrow> go_return (encoded, Some (pem_Encode ''CERTIFICATE REQUEST'' csrBytes), None))"
    assume "same_key r r'"
    then show "alike R same_created (?next E r) (?next E' r')"
      by (cases r; cases r')
        (auto simp: same_key_def same_created_def intro!: alike_return bind_lib_call signing split: sum.split)
  qed
qed (simp add: option.rel_eq)

subsection \<open>The parts of a run\<close>

lemmas alike_rules = alike_case bind_record_event alike_return bind_reads bind_writes bind_status_update bind_SetCondition

lemma alike_submitCSR:
  assumes k: "hide_kubeconfig k = hide_kubeconfig k'" and s: "hide_secret sec = hide_secret sec'"
  shows "alike R (=) (submitCSR E k sec key req) (submitCSR E' k' sec' key' req)"
  unfolding submitCSR_def Let_def same_objects(4)[OF k]
  by (rule bind_gomap_store, rule hidden_secret(4)[OF s], rule bind_gomap_store, simp)
    (intro alike_rules hidden_secretI[OF s] hidden_kubeconfigI k refl; assumption)

lemma alike_reconcileFreshCSR:
  assumes k: "hide_kubeconfig k = hide_kubeconfig k'" and s: "hide_secret sec = hide_secret sec'"
  shows "alike R (=) (reconcileFreshCSR E k sec) (reconcileFreshCSR E' k' sec')"
  unfolding reconcileFreshCSR_def Let_def
proof (rule bind_record_event, rule alike_bind[OF alike_createCSR[OF k]], goal_cases)
  case (1 c c')
  obtain key key' req err where c: "c = (key, req, err)" "c' = (key', req, err)" "key = None \<longleftrightarrow> key' = None"
    using 1 by (cases c; cases c') (auto simp: same_created_def)
  have key: "rel_option (\<lambda>_ _. True) key key'" using c(3) by (cases key; cases key') auto
  have req: "rel_option (=) req req" by (simp add: option.rel_eq)
  show ?case
    unfolding c prod.case
  proof (rule alike_case(1), rule bind_deref[OF key], rule bind_deref[OF req], goal_cases)
    case (1 x x' y y')
    then show ?case using alike_submitCSR[OF k s] by simp
  next
    case (2 e)
    show ?case by (intro alike_rules k refl)
  qed
qed

lemma alike_reconcileDenied:
  "hide_kubeconfig k = hide_kubeconfig k' \<Longrightarrow> alike R (=) (reconcileDenied E k) (reconcileDenied E' k')"
  unfolding reconcileDenied_def by (intro alike_rules hidden_kubeconfigI refl; assumption)

lemma alike_finishKubeconfig:
  "hide_kubeconfig k = hide_kubeconfig k' \<Longrightarrow> alike R (=) (finishKubeconfig E k) (finishKubeconfig E' k')"
  unfolding finishKubeconfig_def by (intro alike_rules hidden_kubeconfigI refl; assumption)

lemma alike_reconcileRoleBinding:
  assumes k: "hide_kubeconfig k = hide_kubeconfig k'"
  shows "alike R (rel_sum (=) (=)) (reconcileRoleBinding E k) (reconcileRoleBinding E' k')"
proof -
  have crb: "alike R B (go_bind (createClusterRoleBinding k n) f) (go_bind (createClusterRoleBinding k' n) f')"
    if "\<And>b. alike R B (f b) (f' b)" for B n f f'
    unfolding createClusterRoleBinding_def hidden_kubeconfig[OF k] labelsForSubresources_def go_bind_assoc go_bind_return
    by (rule bind_deref[of "(=)"]) (simp_all add: option.rel_eq that)
  show ?thesis
    unfolding reconcileRoleBinding_def same_objects(7)[OF k]
    by (intro alike_rules crb) (simp_all add: sum.rel_eq)
qed

lemma alike_ClusterCA: "alike R (=) (ClusterCA E) (ClusterCA E')"
  unfolding ClusterCA_def by (intro alike_rules refl)

text \<open>The kubeconfig file contains the key; an error of its creation does not depend on it.\<close>

lemma alike_createKubeconfig:
  assumes k: "hide_kubeconfig k = hide_kubeconfig k'"
  shows "alike R (\<lambda>(c, err) (c', err'). err = err') (createKubeconfig E k sec) (createKubeconfig E' k' sec')"
  unfolding createKubeconfig_def ClientData_def hidden_kubeconfig[OF k] prod.case option.case
proof (rule alike_bind[OF alike_ClusterCA], goal_cases)
  case (1 x x')
  have "alike R (\<lambda>(c, err) (c', err'). err = err')
      (go_bind (go_deref (SpecCluster (Spec k'))) (\<lambda>cl. go_return (f cl, None)))
      (go_bind (go_deref (SpecCluster (Spec k'))) (\<lambda>cl. go_return (f' cl, None)))" for f f' :: "ClusterSpec \<Rightarrow> bytes"
    by (rule bind_deref[of "(=)"]) (simp_all add: option.rel_eq alike_return)
  moreover obtain ca err where "x = (ca, err)" "x' = (ca, err)" using 1 by (metis surj_pair)
  ultimately show ?case by (cases err) (simp_all add: alike_return)
qed

lemma alike_storeKubeconfig:
  assumes k: "hide_kubeconfig k = hide_kubeconfig k'" and s: "hide_secret sec = hide_secret sec'"
  shows "alike R (rel_sum (=) (\<lambda>k k'. hide_kubeconfig k = hide_kubeconfig k'))
    (storeKubeconfig E k sec cert) (storeKubeconfig E' k' sec' cert)"
  unfolding storeKubeconfig_def Let_def
proof (rule bind_gomap_store[OF hidden_secret(4)[OF s]], rule alike_bind[OF alike_createKubeconfig[OF k]], goal_cases)
  case (1 d d' x x')
  obtain c c' err where x: "x = (c, err)" "x' = (c', err)" using 1 by (cases x; cases x') auto
  show ?case
    unfolding x prod.case
    by (rule alike_case(1), rule bind_gomap_store, simp)
      (intro alike_rules hidden_secretI[OF hidden_secretI(1)[OF s]] hidden_kubeconfigI(4)[OF k];
        simp add: rel_sum.intros)+
qed

lemma alike_reconcileApproved:
  assumes k: "hide_kubeconfig k = hide_kubeconfig k'" and s: "hide_secret sec = hide_secret sec'"
  shows "alike R (=) (reconcileApproved E k sec q) (reconcileApproved E' k' sec' q)"
  unfolding reconcileApproved_def
proof (rule bind_SetCondition[OF k], rule alike_case(3), goal_cases)
  case (1 k k')
  then show ?case by (intro alike_rules refl)
next
  case (2 k k')
  show ?case
    by (rule alike_then[OF alike_storeKubeconfig[OF 2 s]], rule alike_then[OF alike_reconcileRoleBinding], assumption)
      (rule alike_finishKubeconfig)
qed

lemma alike_reconcileExistingCSR:
  assumes "hide_kubeconfig k = hide_kubeconfig k'" and "hide_secret sec = hide_secret sec'"
  shows "alike R (=) (reconcileExistingCSR E k sec q) (reconcileExistingCSR E' k' sec' q)"
  unfolding reconcileExistingCSR_def
  by (cases "getCertApprovalCondition (CsrConditions q)")
    (simp add: alike_reconcileDenied alike_reconcileApproved alike_return assms)

lemma alike_reconcileCSR:
  assumes k: "hide_kubeconfig k = hide_kubeconfig k'" and s: "hide_secret sec = hide_secret sec'"
  shows "alike R (=) (reconcileCSR E k sec) (reconcileCSR E' k' sec')"
  unfolding reconcileCSR_def same_objects(6)[OF k]
  by (intro alike_rules alike_reconcileFreshCSR[OF k s] alike_reconcileExistingCSR[OF k s]) simp_all

lemma adopted_alike:
  assumes k: "hide_kubeconfig k = hide_kubeconfig k'" and s: "hide_secret sec = hide_secret sec'"
  shows "same_given (adoptSecret E k sec) (adoptSecret E' k' sec')"
proof -
  have k1: "hide_kubeconfig (SetUserSecret k sec) = hide_kubeconfig (SetUserSecret k' sec')"
    by (rule hidden_kubeconfigI(2)[OF k hidden_secret(1)[OF s]])
  show ?thesis
    by (simp add: same_given_def adoptSecret_def Let_def k1 same_objects(2)[OF k1] hidden_secret(1)[OF s] hidden_secretI(2)[OF s])
qed

lemma alike_reconcileUserSecret:
  assumes k: "hide_kubeconfig k = hide_kubeconfig k'"
  shows "alike R (rel_sum (=) same_given) (reconcileUserSecret E k) (reconcileUserSecret E' k')"
proof -
  have "alike R (rel_sum (=) same_given) (reconcileExistingSecret E k ref) (reconcileExistingSecret E' k' ref)" for ref
    unfolding reconcileExistingSecret_def
    by (intro alike_rules) (simp_all add: adopted_alike k)
  moreover have "alike R (rel_sum (=) same_given) (reconcileOwnSecret E k) (reconcileOwnSecret E' k')"
    unfolding reconcileOwnSecret_def same_objects(3,5)[OF k]
    by (intro alike_rules refl hidden_kubeconfigI hidden_secret(1) k; simp add: same_given_def k)
  ultimately show ?thesis
    by (auto simp: reconcileUserSecret_def hidden_kubeconfig(2)[OF k] split: option.split)
qed

lemma alike_Reconcile: "alike R (=) (Reconcile E req) (Reconcile E' req)"
  unfolding Reconcile_def
proof (rule bind_reads(1), goal_cases)
  case (1 err k k')
  have "alike R (=) (go_then (reconcileUserSecret E k) (\<lambda>(k, sec). reconcileCSR E k sec))
      (go_then (reconcileUserSecret E' k') (\<lambda>(k, sec). reconcileCSR E' k sec))"
    by (rule alike_then[OF alike_reconcileUserSecret[OF 1]])
      (auto simp: same_given_def intro!: alike_reconcileCSR)
  then show ?case
    unfolding same_objects(1)[OF 1] by (intro alike_case alike_return) simp_all
qed

end

subsection \<open>The reconciler keeps keys apart\<close>

text \<open>
  C10: Private keys stay secret: take two environments that differ in how private keys are
  encoded, and two worlds that differ in the data of secrets and in kubeconfig files, and let
  the API server keep these apart from the rest. Then two runs of the Kubeconfig reconciler
  return the same result and make the same calls with the same errors, in the same order and
  with the same objects, but for the data of secrets and the kubeconfig in a status: no event,
  signing request, role binding, condition or error tells anything about a private key.
\<close>

theorem private_keys_stay_secret:
  assumes "separated R E E'" and "R w w'"
    and "Reconcile E req (start w) = (r, s)" and "Reconcile E' req (start w') = (r', s')"
  shows "r = r' \<and> map visible (calls s) = map visible (calls s') \<and> R (world s) (world s')"
proof -
  have "alike R (=) (Reconcile E req) (Reconcile E' req)" by (rule separated.alike_Reconcile[OF assms(1)])
  then have "rel_outcome (=) (fst (Reconcile E req (start w))) (fst (Reconcile E' req (start w'))) \<and>
      R (world (snd (Reconcile E req (start w)))) (world (snd (Reconcile E' req (start w')))) \<and>
      map visible (calls (snd (Reconcile E req (start w)))) = map visible (calls (snd (Reconcile E' req (start w'))))"
    unfolding alike_def by (rule allE, erule_tac x = "start w'" in allE) (simp add: assms(2) start_def)
  then show ?thesis by (simp add: assms(3,4) outcome.rel_eq)
qed

subsection \<open>The sample store keeps them apart\<close>

definition hide_store :: "store \<Rightarrow> store" where
  "hide_store c = c\<lparr>kubeconfig_at := (\<lambda>n. map_option hide_kubeconfig (kubeconfig_at c n)),
     secret_at := (\<lambda>n. map_option (\<lambda>_. Map.empty) (secret_at c n))\<rparr>"

definition apart :: "store \<Rightarrow> store \<Rightarrow> bool" where
  "apart c c' \<longleftrightarrow> hide_store c = hide_store c'"

definition other_keys :: "store env" where
  "other_keys = store_env\<lparr>x509_MarshalPKCS1PrivateKey := (\<lambda>k. ''another key''), yaml_Marshal := (\<lambda>c. ''another kubeconfig'')\<rparr>"

lemma apart_fields:
  assumes "apart c c'"
  shows "request_at c = request_at c'" "binding_at c = binding_at c'" "config_at c = config_at c'"
    "map_option hide_kubeconfig (kubeconfig_at c n) = map_option hide_kubeconfig (kubeconfig_at c' n)"
    "secret_at c key = None \<longleftrightarrow> secret_at c' key = None"
proof -
  have h: "hide_store c = hide_store c'" using assms by (simp add: apart_def)
  show "request_at c = request_at c'" "binding_at c = binding_at c'" "config_at c = config_at c'"
    using h by (cases c; cases c'; simp add: hide_store_def)+
  have "kubeconfig_at (hide_store c) n = kubeconfig_at (hide_store c') n" "secret_at (hide_store c) key = secret_at (hide_store c') key"
    by (simp_all add: h)
  then show "map_option hide_kubeconfig (kubeconfig_at c n) = map_option hide_kubeconfig (kubeconfig_at c' n)"
    "secret_at c key = None \<longleftrightarrow> secret_at c' key = None"
    by (auto simp: hide_store_def)
qed

lemma hide_writes:
  "hide_store (put_secret s c) = (hide_store c)\<lparr>secret_at := (secret_at (hide_store c))(object_key (SMeta s) \<mapsto> Map.empty)\<rparr>"
  "hide_store (put_request q c) = put_request q (hide_store c)"
  "hide_store (put_binding b c) = put_binding b (hide_store c)"
  by (simp_all add: hide_store_def put_secret_def put_request_def put_binding_def fun_eq_iff)

lemma hide_update_status:
  assumes "kubeconfig_at c (Name (KMeta k)) = Some x"
  shows "hide_store (update_status k c) = (hide_store c)\<lparr>kubeconfig_at :=
    (kubeconfig_at (hide_store c))(Name (KMeta k) \<mapsto> (hide_kubeconfig x)\<lparr>Status := (Status k)\<lparr>StatusKubeconfig := []\<rparr>\<rparr>)\<rparr>"
  using assms by (simp add: hide_store_def update_status_def hide_kubeconfig_def fun_eq_iff)

lemma apart_writes:
  assumes "apart c c'"
  shows "SMeta s = SMeta s' \<Longrightarrow> apart (put_secret s c) (put_secret s' c')"
    "apart (put_request q c) (put_request q c')" "apart (put_binding b c) (put_binding b c')"
  using assms by (simp_all add: apart_def hide_writes)

lemma apart_status:
  assumes a: "apart c c'" and k: "hide_kubeconfig k = hide_kubeconfig k'" and "kubeconfig_at c (Name (KMeta k)) \<noteq> None"
  shows "apart (update_status k c) (update_status k' c')"
proof -
  note n = hidden_kubeconfig(1)[OF k]
  have st: "(Status k)\<lparr>StatusKubeconfig := []\<rparr> = (Status k')\<lparr>StatusKubeconfig := []\<rparr>"
    using k by (cases k; cases k'; simp add: hide_kubeconfig_def)
  obtain x x' where "kubeconfig_at c (Name (KMeta k)) = Some x" "kubeconfig_at c' (Name (KMeta k')) = Some x'"
      "hide_kubeconfig x = hide_kubeconfig x'"
    using assms(3) apart_fields(4)[OF a, of "Name (KMeta k)"] unfolding n
    by (cases "kubeconfig_at c (Name (KMeta k'))"; cases "kubeconfig_at c' (Name (KMeta k'))") simp_all
  then show ?thesis using a by (simp add: apart_def hide_update_status n st)
qed

lemma apart_reads:
  assumes "apart c c'"
  shows "map_option hide_kubeconfig (kubeconfig_at (named c) n) = map_option hide_kubeconfig (kubeconfig_at (named c') n)"
    "request_at (named c) = request_at (named c')"
    "map_option (hide_secret \<circ> secret_of key) (secret_at c p) = map_option (hide_secret \<circ> secret_of key) (secret_at c' p)"
proof -
  have rename: "map_option hide_kubeconfig (kubeconfig_at (named d) n) =
      map_option (\<lambda>k. k\<lparr>KMeta := (KMeta k)\<lparr>Name := n\<rparr>\<rparr>) (map_option hide_kubeconfig (kubeconfig_at d n))" for d
    by (cases "kubeconfig_at d n") (simp_all add: named_def hide_kubeconfig_def)
  show "map_option hide_kubeconfig (kubeconfig_at (named c) n) = map_option hide_kubeconfig (kubeconfig_at (named c') n)"
    by (simp only: rename apart_fields(4)[OF assms])
  show "request_at (named c) = request_at (named c')"
    by (simp add: named_def apart_fields(1)[OF assms])
  show "map_option (hide_secret \<circ> secret_of key) (secret_at c p) = map_option (hide_secret \<circ> secret_of key) (secret_at c' p)"
    using apart_fields(5)[OF assms, of p]
    by (cases "secret_at c p"; cases "secret_at c' p") (simp_all add: hide_secret_def secret_of_def)
qed

lemma same_read:
  "map_option hide x = map_option hide x' \<Longrightarrow> R c c' \<Longrightarrow> same_reply hide R (read_reply x obj c) (read_reply x' obj c')"
  by (cases x; cases x') (simp_all add: same_reply_def read_reply_def)

lemma same_write:
  "p \<longleftrightarrow> p' \<Longrightarrow> hide x = hide x' \<Longrightarrow> hide obj = hide obj' \<Longrightarrow> R c c' \<Longrightarrow> (p \<Longrightarrow> R d d') \<Longrightarrow>
    same_reply hide R (write_reply p x d obj c) (write_reply p' x' d' obj' c')"
  by (simp add: same_reply_def write_reply_def)

lemma other_keys_calls:
  "client_Get_Kubeconfig other_keys = client_Get_Kubeconfig store_env" "client_Get_Secret other_keys = client_Get_Secret store_env"
  "client_Get_Csr other_keys = client_Get_Csr store_env" "client_Get_Crb other_keys = client_Get_Crb store_env"
  "client_Get_ConfigMap other_keys = client_Get_ConfigMap store_env" "client_Create_Secret other_keys = client_Create_Secret store_env"
  "client_Update_Secret other_keys = client_Update_Secret store_env" "client_Create_Csr other_keys = client_Create_Csr store_env"
  "client_Create_Crb other_keys = client_Create_Crb store_env"
  "client_Status_Update_Kubeconfig other_keys = client_Status_Update_Kubeconfig store_env"
  "time_Now other_keys = time_Now store_env" "rsa_GenerateKey other_keys = rsa_GenerateKey store_env"
  "ecdsa_GenerateKey other_keys = ecdsa_GenerateKey store_env" "ed25519_GenerateKey other_keys = ed25519_GenerateKey store_env"
  "x509_CreateCertificateRequest other_keys = x509_CreateCertificateRequest store_env"
  "meta_SetStatusCondition other_keys = meta_SetStatusCondition store_env"
  "meta_FindStatusCondition other_keys = meta_FindStatusCondition store_env"
  "SetControllerReference other_keys = SetControllerReference store_env"
  by (simp_all add: other_keys_def)

lemma operator_reference_hidden: "hide_kubeconfig k = hide_kubeconfig k' \<Longrightarrow> operator_reference k = operator_reference k'"
  using hidden_kubeconfig(1)[of k k'] by (simp add: operator_reference_def)

lemma store_env_calls:
  "client_Get_Kubeconfig store_env n k c = read_reply (kubeconfig_at (named c) (nn_Name n)) k c"
  "client_Get_Secret store_env n s c = read_reply (map_option (secret_of n) (secret_at c (nn_key n))) s c"
  "client_Get_Csr store_env n q c = read_reply (request_at (named c) (nn_Name n)) q c"
  "client_Get_Crb store_env n b c = read_reply (binding_at c (nn_Name n)) b c"
  "client_Get_ConfigMap store_env n m c = read_reply
     (map_option (\<lambda>m. \<lparr>CMeta = zero_meta, ConfigData = Some m\<rparr>) (config_at c (nn_key n))) m c"
  "client_Create_Secret store_env s c = write_reply (secret_at c (object_key (SMeta s)) = None)
     (s\<lparr>SecretData := Some (merged s), StringData := None\<rparr>) (put_secret s c) s c"
  "client_Update_Secret store_env s c = write_reply (secret_at c (object_key (SMeta s)) \<noteq> None) s (put_secret s c) s c"
  "client_Create_Csr store_env q c = write_reply (request_at c (Name (CsrMeta q)) = None) q (put_request q c) q c"
  "client_Create_Crb store_env b c = write_reply (binding_at c (Name (CrbMeta b)) = None) b (put_binding b c) b c"
  "client_Status_Update_Kubeconfig store_env k c =
     write_reply (kubeconfig_at c (Name (KMeta k)) \<noteq> None) k (update_status k c) k c"
  by (simp_all add: store_env_def)

lemma store_keys_reads:
  assumes a: "apart w w'"
  shows "same_reply hide_kubeconfig apart (client_Get_Kubeconfig store_env n k w) (client_Get_Kubeconfig store_env n k w')"
    "same_reply hide_secret apart (client_Get_Secret store_env n s w) (client_Get_Secret store_env n s w')"
    "same_reply id apart (client_Get_Csr store_env n q w) (client_Get_Csr store_env n q w')"
    "same_reply id apart (client_Get_Crb store_env n b w) (client_Get_Crb store_env n b w')"
    "same_reply id apart (client_Get_ConfigMap store_env n m w) (client_Get_ConfigMap store_env n m w')"
  unfolding store_env_calls apart_reads(2)[OF a] apart_fields(1-3)[OF a]
  by (rule same_read, rule apart_reads(1)[OF a], rule a, rule same_read,
      simp only: option.map_comp apart_reads(3)[OF a, of n "nn_key n"], rule a) (rule same_read, rule refl, rule a)+

lemma store_keys_secret_writes:
  assumes a: "apart w w'" and s: "hide_secret s = hide_secret s'"
  shows "same_reply hide_secret apart (client_Create_Secret store_env s w) (client_Create_Secret store_env s' w')"
    "same_reply hide_secret apart (client_Update_Secret store_env s w) (client_Update_Secret store_env s' w')"
proof -
  have m: "hide_secret (s\<lparr>SecretData := Some (merged s), StringData := None\<rparr>) =
      hide_secret (s'\<lparr>SecretData := Some (merged s'), StringData := None\<rparr>)"
    using s by (cases s; cases s'; simp add: hide_secret_def)
  note h = hidden_secret(1)[OF s] and e = apart_fields(5)[OF a]
  show "same_reply hide_secret apart (client_Create_Secret store_env s w) (client_Create_Secret store_env s' w')"
    unfolding store_env_calls h by (rule same_write, rule e, rule m, rule s, rule a, rule apart_writes(1)[OF a h])
  show "same_reply hide_secret apart (client_Update_Secret store_env s w) (client_Update_Secret store_env s' w')"
    unfolding store_env_calls h by (rule same_write, simp only: e, rule s, rule s, rule a, rule apart_writes(1)[OF a h])
qed

lemma store_keys_writes:
  assumes a: "apart w w'"
  shows "same_reply id apart (client_Create_Csr store_env q w) (client_Create_Csr store_env q w')"
    "same_reply id apart (client_Create_Crb store_env b w) (client_Create_Crb store_env b w')"
  unfolding store_env_calls apart_fields(1,2)[OF a]
  by (rule same_write, rule refl, rule refl, rule refl, rule a, rule apart_writes[OF a])+

lemma store_keys_status:
  assumes a: "apart w w'" and k: "hide_kubeconfig k = hide_kubeconfig k'"
  shows "same_reply hide_kubeconfig apart (client_Status_Update_Kubeconfig store_env k w) (client_Status_Update_Kubeconfig store_env k' w')"
  unfolding store_env_calls
proof (rule same_write)
  show "(kubeconfig_at w (Name (KMeta k)) \<noteq> None) = (kubeconfig_at w' (Name (KMeta k')) \<noteq> None)"
    using apart_fields(4)[OF a, of "Name (KMeta k)"] unfolding hidden_kubeconfig(1)[OF k]
    by (cases "kubeconfig_at w (Name (KMeta k'))"; cases "kubeconfig_at w' (Name (KMeta k'))") simp_all
qed (rule k, rule k, rule a, rule apart_status[OF a k])

lemma store_keys_rest:
  "time_Now store_env w = time_Now store_env w'"
  "fst (rsa_GenerateKey store_env i w) = fst (rsa_GenerateKey store_env i w')" "snd (rsa_GenerateKey store_env i w) = w"
  "fst (ecdsa_GenerateKey store_env curve w) = fst (ecdsa_GenerateKey store_env curve w')" "snd (ecdsa_GenerateKey store_env curve w) = w"
  "fst (ed25519_GenerateKey store_env w) = fst (ed25519_GenerateKey store_env w')" "snd (ed25519_GenerateKey store_env w) = w"
  "fst (x509_CreateCertificateRequest store_env t p w) = fst (x509_CreateCertificateRequest store_env t p w')"
  "snd (x509_CreateCertificateRequest store_env t p w) = w"
  "hide_kubeconfig k = hide_kubeconfig k' \<Longrightarrow> SetControllerReference store_env k m = SetControllerReference store_env k' m"
  by (simp_all add: store_env_def split: option.split) (simp only: operator_reference_hidden[of k k'])

interpretation keys_apart: separated apart store_env other_keys
proof (unfold_locales, unfold other_keys_calls, goal_cases)
  case 12
  show ?case by (simp add: store_keys_rest(3) 12) (rule store_keys_rest)
next
  case 13
  show ?case by (simp add: store_keys_rest(5) 13) (rule store_keys_rest)
next
  case 14
  show ?case by (simp add: store_keys_rest(7) 14) (rule store_keys_rest)
next
  case 15
  show ?case by (simp add: store_keys_rest(9) 15) (rule store_keys_rest)
qed (erule store_keys_reads store_keys_secret_writes store_keys_writes store_keys_status, assumption?
     | rule refl | erule store_keys_rest | rule store_keys_rest)+

text \<open>The store of the sample in which the request has been granted, with another key.\<close>

definition decided_with_other_key :: store where
  "decided_with_other_key = decided\<lparr>secret_at :=
     [user_key ''kc'' \<mapsto> [''tls.key'' \<mapsto> ''another key'', ''tls.csr'' \<mapsto> ''request'']]\<rparr>"

lemma decided_apart: "apart decided decided_with_other_key"
proof -
  have "(\<lambda>n. map_option (\<lambda>_. Map.empty :: string \<rightharpoonup> bytes) (secret_at decided n)) =
      (\<lambda>n. map_option (\<lambda>_. Map.empty) (secret_at decided_with_other_key n))"
    by (simp add: decided_def decided_with_other_key_def fun_eq_iff)
  then show ?thesis
    by (simp add: apart_def hide_store_def) (simp add: decided_with_other_key_def)
qed

theorem private_keys_stay_secret_witness:
  "separated apart store_env other_keys \<and> decided \<noteq> decided_with_other_key \<and>
   fst (Reconcile store_env request_kc (start decided)) = fst (Reconcile other_keys request_kc (start decided_with_other_key)) \<and>
   map visible (calls (snd (Reconcile store_env request_kc (start decided)))) =
     map visible (calls (snd (Reconcile other_keys request_kc (start decided_with_other_key))))"
proof -
  have "secret_at decided (user_key ''kc'') \<noteq> secret_at decided_with_other_key (user_key ''kc'')"
    by (auto simp: decided_def decided_with_other_key_def dest: fun_cong[of _ _ "''tls.key''"])
  then have "decided \<noteq> decided_with_other_key" by metis
  moreover note private_keys_stay_secret[OF keys_apart.separated_axioms decided_apart prod.collapse[symmetric] prod.collapse[symmetric],
      of request_kc]
  ultimately show ?thesis by (intro conjI keys_apart.separated_axioms) (elim conjE, assumption)+
qed

end
