(* ===== verification/Admission.thy ===== *)
theory Admission
  imports Lost_Keys Webhook_Laws Run_Frame
begin

text \<open>
  The webhooks in the system. \<open>System\<close> and \<open>Progress\<close> assume that nobody changes the reference
  of a Kubeconfig to a predefined secret and that specifications are complete; here every
  version of a Kubeconfig that a user submits goes through \<open>Default\<close>, \<open>ValidateCreate\<close> and
  \<open>ValidateUpdate\<close> before it is stored, and both become consequences.
\<close>

subsection \<open>Admission of a submitted Kubeconfig\<close>

text \<open>
  The API server calls the mutating webhook, checks the schema of the resource (the enumeration
  of signature algorithms of \<open>api/v1alpha1/kubeconfig_types.go\<close>) and calls the validating
  webhook. As status is a subresource, the status of the submitted object and what the webhook
  does to it are not stored: a new object has the zero status, an updated one keeps its status.
\<close>

definition schema_valid :: "Kubeconfig \<Rightarrow> bool" where
  "schema_valid kc \<longleftrightarrow> (case SpecCSR (Spec kc) of None \<Rightarrow> True | Some csr \<Rightarrow> SignatureAlg csr \<in> set supported_algorithms)"

definition validate :: "Kubeconfig option \<Rightarrow> Kubeconfig \<Rightarrow> ('s, admission_error option) go" where
  "validate old kc = (case old of None \<Rightarrow> ValidateCreate (Some kc) | Some k \<Rightarrow> ValidateUpdate (Some k) (Some kc))"

definition stored_version :: "Kubeconfig option \<Rightarrow> Kubeconfig \<Rightarrow> Kubeconfig" where
  "stored_version old kc = kc\<lparr>Status := (case old of None \<Rightarrow> Status zero_kubeconfig | Some k \<Rightarrow> Status k)\<rparr>"

definition admit :: "'w env \<Rightarrow> Kubeconfig option \<Rightarrow> Kubeconfig \<Rightarrow> ('w go_state, Kubeconfig option) go" where
  "admit E old kc =
     go_bind (Default E (Some kc)) (\<lambda>(kc, err).
       if err \<noteq> None \<or> \<not> schema_valid kc then go_return None
       else go_bind (validate old kc) (\<lambda>denied.
         go_return (if denied = None then Some (stored_version old kc) else None)))"

text \<open>What an admitted version is.\<close>

definition admissible :: "Kubeconfig option \<Rightarrow> Kubeconfig \<Rightarrow> Kubeconfig \<Rightarrow> bool" where
  "admissible old kc k \<longleftrightarrow> KMeta k = KMeta kc \<and> keeps_spec (Spec kc) (Spec k) \<and>
     Status k = (case old of None \<Rightarrow> Status zero_kubeconfig | Some o' \<Rightarrow> Status o') \<and>
     ExistingCSR (Spec k) = ExistingCSR (Spec kc) \<and> workable k \<and>
     (\<forall>o'. old = Some o' \<longrightarrow> ExistingCSR (Spec k) = ExistingCSR (Spec o') \<and> SpecCSR (Spec k) = SpecCSR (Spec o'))"

lemma validated:
  "validate old kc s = (Ret None, s') \<Longrightarrow>
    s' = s \<and> (\<forall>k. old = Some k \<longrightarrow> ExistingCSR (Spec kc) = ExistingCSR (Spec k) \<and> SpecCSR (Spec kc) = SpecCSR (Spec k))"
  by (auto simp: validate_def ValidateCreate_def ValidateUpdate_run update_errors_Nil go_return_run
      split: option.splits if_splits)

lemma admit_result:
  assumes "admit E old kc s = (Ret (Some k), s')"
  shows "admissible old kc k"
proof -
  obtain srv s1 where d: "Default E (Some kc) s = (Ret (kc\<lparr>Spec := completed_spec (Spec kc) srv,
      Status := (Status kc)\<lparr>Conditions := addMissing E (time_Now E (world s1)) (Conditions (Status kc)),
        Phase := PhasePending\<rparr>\<rparr>, None), s1)"
    and srv: "given_server (Spec kc) \<noteq> [] \<longrightarrow> srv = given_server (Spec kc)"
    using Default_run[of E kc s] by blast
  let ?kc = "kc\<lparr>Spec := completed_spec (Spec kc) srv,
      Status := (Status kc)\<lparr>Conditions := addMissing E (time_Now E (world s1)) (Conditions (Status kc)),
        Phase := PhasePending\<rparr>\<rparr>"
  have v: "schema_valid ?kc" "validate old ?kc s1 = (Ret None, s')" and k: "k = stored_version old ?kc"
    using assms d by (auto simp: admit_def go_bind_def go_return_run split: if_splits prod.splits outcome.splits)
  have "workable k"
    using v(1) completed_spec_cluster[of "Spec kc" srv]
    by (auto simp: k stored_version_def workable_def schema_valid_def)
  then show ?thesis
    using validated[OF v(2)] completed_spec_keeps[OF srv] by (auto simp: admissible_def k stored_version_def)
qed

lemma admit_returns: "\<exists>r s'. admit E old kc s = (Ret r, s')"
proof -
  obtain kc' s1 where "Default E (Some kc) s = (Ret (kc', None), s1)"
    using Default_run[of E kc s] by blast
  then show ?thesis
    by (cases old) (auto simp: admit_def go_bind_def go_return_run validate_def ValidateCreate_def ValidateUpdate_run)
qed

subsection \<open>Steps that respect admission\<close>

definition all_workable :: "promises \<Rightarrow> store \<Rightarrow> bool" where
  "all_workable pre c \<longleftrightarrow>
     (\<forall>n k. kubeconfig_at c n = Some k \<longrightarrow> workable k \<and> promised pre n k)"

text \<open>What the others may do: interfere as before, and leave no incomplete specification.\<close>

definition regulated :: "'w env \<Rightarrow> promises \<Rightarrow> store \<Rightarrow> store \<Rightarrow> bool" where
  "regulated E pre c c' \<longleftrightarrow> interference E pre c c' \<and> (all_workable pre c \<longrightarrow> all_workable pre c')"

definition put_kubeconfig :: "string \<Rightarrow> Kubeconfig \<Rightarrow> store \<Rightarrow> store" where
  "put_kubeconfig n k c = c\<lparr>kubeconfig_at := (kubeconfig_at c)(n \<mapsto> k)\<rparr>"

lemma not_finished_zero:
  assumes "conditions_law E" and "Status k = Status zero_kubeconfig"
  shows "\<not> finished E k"
proof -
  have "condition_list c_Type c_Status (meta_FindStatusCondition E) (meta_SetStatusCondition E 0)"
    using assms(1) by (simp add: conditions_law_def)
  then have "meta_FindStatusCondition E [] t = None" for t
    using condition_list.find_None by fastforce
  then show ?thesis by (simp add: finished_def assms(2) zero_kubeconfig_def)
qed

text \<open>
  The first version decides which predefined secret the Kubeconfig refers to; \<open>ValidateUpdate\<close>
  lets no later version change it.
\<close>

lemma admitted_regulated:
  assumes law: "conditions_law E" and adm: "admissible (kubeconfig_at c n) kc k"
    and first: "kubeconfig_at c n = None \<Longrightarrow> ExistingCSR (Spec kc) = predefined pre n"
    and user: "Username (Spec kc) \<in> users pre n"
  shows "regulated E pre c (put_kubeconfig n k c)"
proof -
  have w: "workable k" using adm by (simp add: admissible_def)
  have ref: "ExistingCSR (Spec k) = (case kubeconfig_at c n of None \<Rightarrow> predefined pre n | Some o' \<Rightarrow> ExistingCSR (Spec o'))"
    using adm first by (auto simp: admissible_def split: option.split)
  have usr: "Username (Spec k) \<in> users pre n" using adm user by (simp add: admissible_def keeps_spec_def)
  have "others E pre m c (put_kubeconfig n k c)" for m
  proof (cases "m = n")
    case True
    have "\<exists>o'. kubeconfig_at c n = Some o' \<and> finished E o'" if f: "finished E k"
    proof (cases "kubeconfig_at c n")
      case None
      then show ?thesis using f not_finished_zero[OF law, of k] adm by (simp add: admissible_def)
    next
      case (Some o')
      then have "Status k = Status o'" using adm by (simp add: admissible_def)
      then show ?thesis using f Some by (simp add: finished_def)
    qed
    then show ?thesis
      using ref usr True by (auto simp: others_def promised_def put_kubeconfig_def split: option.splits)
  qed (auto simp: others_def put_kubeconfig_def)
  moreover have "all_workable pre c \<Longrightarrow> all_workable pre (put_kubeconfig n k c)"
    using w ref usr by (auto simp: all_workable_def promised_def put_kubeconfig_def split: option.splits)
  ultimately show ?thesis by (simp add: regulated_def interference_def put_kubeconfig_def)
qed

subsection \<open>The system with its webhooks\<close>

definition regulated_law :: "'w env \<Rightarrow> promises \<Rightarrow> ('w \<Rightarrow> store) \<Rightarrow> bool" where
  "regulated_law E pre obs \<longleftrightarrow> client_law E obs (regulated E pre) \<and> conditions_law E \<and> owner_names E \<and>
     failed_get_law E \<and> distinct_secrets pre"

text \<open>
  Runs of the two controllers, submissions of users and steps of the others. A submission of
  the Kubeconfig \<open>n\<close> is admitted against the version that is stored (an update that races with
  another one is rejected by the API server); a new Kubeconfig refers to the predefined secret
  that is promised, later versions may ask for any. All are for users that are promised.
\<close>

inductive operating :: "'w env \<Rightarrow> promises \<Rightarrow> ('w \<Rightarrow> store) \<Rightarrow> 'w \<Rightarrow> 'w \<Rightarrow> bool"
  for E pre obs w0 where
  installed: "operating E pre obs w0 w0"
| kubeconfig_run: "operating E pre obs w0 w \<Longrightarrow> Reconcile E req (start w) = (r, s) \<Longrightarrow>
    operating E pre obs w0 (world s)"
| csr_run: "operating E pre obs w0 w \<Longrightarrow> ReconcileCsr E req (start w) = (r, s) \<Longrightarrow>
    operating E pre obs w0 (world s)"
| rejected: "operating E pre obs w0 w \<Longrightarrow> admit E old kc (start w) = (Ret None, s) \<Longrightarrow>
    operating E pre obs w0 (world s)"
| submitted: "operating E pre obs w0 w \<Longrightarrow> admit E old kc (start w) = (Ret (Some k), s) \<Longrightarrow>
    kubeconfig_at (obs (world s)) n = old \<Longrightarrow> Name (KMeta kc) = n \<Longrightarrow>
    (old = None \<Longrightarrow> ExistingCSR (Spec kc) = predefined pre n) \<Longrightarrow> Username (Spec kc) \<in> users pre n \<Longrightarrow>
    obs w' = put_kubeconfig n k (obs (world s)) \<Longrightarrow> operating E pre obs w0 w'"
| others_step: "operating E pre obs w0 w \<Longrightarrow> regulated E pre (obs w) (obs w') \<Longrightarrow> operating E pre obs w0 w'"

lemma read_law_mono:
  "(\<And>c c'. Env c c' \<Longrightarrow> Env' c c') \<Longrightarrow> read_law Env obs found missing f \<Longrightarrow> read_law Env' obs found missing f"
  unfolding read_law_def by meson

lemma write_law_mono:
  "(\<And>c c'. Env c c' \<Longrightarrow> Env' c c') \<Longrightarrow> write_law Env obs possible effect returned f \<Longrightarrow>
    write_law Env' obs possible effect returned f"
  unfolding write_law_def by meson

lemma lib_law_mono: "(\<And>c c'. Env c c' \<Longrightarrow> Env' c c') \<Longrightarrow> lib_law Env obs f \<Longrightarrow> lib_law Env' obs f"
  unfolding lib_law_def by meson

lemma client_law_mono:
  assumes m: "\<And>c c'. Env c c' \<Longrightarrow> Env' c c'" and L: "client_law E obs Env"
  shows "client_law E obs Env'"
proof -
  have "client_reads E obs Env'"
    unfolding client_reads_def
    by (intro conjI allI read_law_mono[of Env Env'] m get_kubeconfig_law[OF L] get_secret_law[OF L]
        get_csr_law[OF L] get_crb_law[OF L] get_configmap_law[OF L])
  moreover have "store_writes E obs Env'"
    unfolding store_writes_def
    by (intro conjI allI write_law_mono[of Env Env'] m create_secret_law[OF L] update_secret_law[OF L]
        create_csr_law[OF L] create_crb_law[OF L] update_kubeconfig_law[OF L] update_csr_law[OF L] approval_law[OF L])
  moreover have "\<forall>n. lib_law Env' obs (rsa_GenerateKey E n)" "\<forall>n. lib_law Env' obs (ecdsa_GenerateKey E n)"
    "lib_law Env' obs (ed25519_GenerateKey E)" "\<forall>t k. lib_law Env' obs (x509_CreateCertificateRequest E t k)"
    by (intro allI lib_law_mono[of Env Env'] m client_law_keys[OF L]; assumption)+
  ultimately show ?thesis by (simp add: client_law_def)
qed

lemma regulated_cluster_law: "regulated_law E pre obs \<Longrightarrow> cluster_law E pre obs"
  unfolding regulated_law_def cluster_law_def using client_law_mono[of "regulated E pre" "interference E pre"]
  by (auto simp: regulated_def)

lemma others_trans:
  assumes a: "others E pre n c c'" and b: "others E pre n c' c''" and d: "disturbed pre n c' \<Longrightarrow> disturbed pre n c''"
  shows "others E pre n c c''"
proof -
  have "promised pre n k'' \<or> (\<exists>k. kubeconfig_at c n = Some k \<and> \<not> promised pre n k)"
    if "kubeconfig_at c'' n = Some k''" for k''
    using a b that unfolding others_def by metis
  moreover have "disturbed pre n c'' \<or>
      (secret_at c (secret_place pre n) \<noteq> None \<longrightarrow>
         secret_at c'' (secret_place pre n) = secret_at c (secret_place pre n)) \<and>
      (\<forall>q''. request_at c'' n = Some q'' \<longrightarrow> (\<exists>q. request_at c n = Some q \<and> Request q'' = Request q)) \<and>
      (\<forall>k''. kubeconfig_at c'' n = Some k'' \<longrightarrow> finished E k'' \<longrightarrow> (\<exists>k. kubeconfig_at c n = Some k \<and> finished E k))"
  proof (cases "disturbed pre n c''")
    case False
    then have "\<not> disturbed pre n c'" using d by blast
    then show ?thesis using a b False unfolding others_def by metis
  qed simp
  ultimately show ?thesis unfolding others_def by blast
qed

lemma interference_trans:
  "interference E pre c c' \<Longrightarrow> interference E pre c' c'' \<Longrightarrow> interference E pre c c''"
  using others_trans interferenceD unfolding interference_def by (metis subset_trans)

lemma stable_from: "stable (regulated E pre) (interference E pre c)"
  unfolding stable_def regulated_def using interference_trans by blast

lemma stable_workable: "stable (regulated E pre) (all_workable pre)"
  by (simp add: stable_def regulated_def)

lemma workable_status [simp]: "workable (k\<lparr>Status := st\<rparr>) = workable k"
  by (simp add: workable_def)

lemma unaffected_workable: "unaffected E (all_workable pre)" "unaffected_by_verdicts (all_workable pre)"
  by (auto simp: unaffected_def unaffected_by_verdicts_def all_workable_def put_secret_def put_request_def put_binding_def
      update_status_def update_conditions_def split: if_splits)

text \<open>The webhook only reads, so its run is a step of the others.\<close>

lemma Default_reads:
  assumes "client_law E obs Env" and "stable Env P"
  shows "keeps obs P (Default E (Some kc))"
  unfolding Default_def defaultCluster_def defaultServer_def defaultConditions_def appendUnknown_def
    ClusterEndpoint_def Let_def by (intro reads_keep[OF assms] keeps_rules)

lemma admit_reads:
  assumes "client_law E obs Env" and "stable Env P"
  shows "keeps obs P (admit E old kc)"
  unfolding admit_def validate_def ValidateCreate_def ValidateUpdate_def Let_def
  by (intro Default_reads[OF assms] keeps_rules)

lemma keeps_run: "keeps obs P m \<Longrightarrow> m (start w) = (r, s) \<Longrightarrow> P (obs w) \<Longrightarrow> P (obs (world s))"
  by (drule keepsD[of obs P m "start w"]) (simp_all add: wp_def)

lemma admit_step:
  assumes "regulated_law E pre obs" and "admit E old kc (start w) = (r, s)"
  shows "regulated E pre (obs w) (obs (world s))"
proof -
  have L: "client_law E obs (regulated E pre)" using assms(1) by (simp add: regulated_law_def)
  show ?thesis
    using keeps_run[OF admit_reads[OF L stable_from] assms(2)] keeps_run[OF admit_reads[OF L stable_workable] assms(2)]
    by (simp add: regulated_def interference_refl)
qed

lemma operating_invariant:
  assumes law: "regulated_law E pre obs" and "all_workable pre (obs w0)" and "operating E pre obs w0 w"
  shows "reachable E pre obs w0 w \<and> all_workable pre (obs w)"
  using assms(3)
proof induction
  have L: "client_law E obs (regulated E pre)" using law by (simp add: regulated_law_def)
  note keep = Reconcile_keeps[OF L stable_workable unaffected_workable(1)]
    ReconcileCsr_keeps[OF L stable_workable unaffected_workable(2)]
  {
    case installed
    show ?case using assms(2) reachable.initially[of E pre obs w0] by simp
  next
    case (kubeconfig_run w req r s)
    have "all_workable pre (obs (world s))" using keeps_run[OF keep(1) kubeconfig_run(2)] kubeconfig_run(3) by simp
    moreover have "reachable E pre obs w0 (world s)" using reachable.kubeconfig_run[OF _ kubeconfig_run(2)] kubeconfig_run(3) by simp
    ultimately show ?case by simp
  next
    case (csr_run w req r s)
    have "all_workable pre (obs (world s))" using keeps_run[OF keep(2) csr_run(2)] csr_run(3) by simp
    moreover have "reachable E pre obs w0 (world s)" using reachable.csr_run[OF _ csr_run(2)] csr_run(3) by simp
    ultimately show ?case by simp
  next
    case (rejected w old kc s)
    then show ?case using admit_step[OF law] reachable.others_step by (metis regulated_def)
  next
    case (submitted w old kc k s n w')
    have 1: "regulated E pre (obs w) (obs (world s))" by (rule admit_step[OF law submitted(2)])
    have 2: "regulated E pre (obs (world s)) (obs w')"
      using admitted_regulated[of E "obs (world s)" n kc k pre] admit_result[OF submitted(2)] submitted(3,5-7) law
      by (simp add: regulated_law_def)
    show ?case
      using 1 2 submitted(8) reachable.others_step interference_trans by (metis regulated_def)
  next
    case (others_step w w')
    then show ?case using reachable.others_step by (metis regulated_def)
  }
qed

text \<open>
  C9: With its webhooks in place the system needs no assumption on what users submit but for
  the promised user names (which may be all): every
  state it gets into, by runs of the controllers, submissions through defaulting, schema and
  validation, and steps of the others, is one the system of \<open>System\<close> can get into (so its
  invariants hold), and every Kubeconfig in it has a complete specification with a supported
  algorithm, keeps its reference to a predefined secret and is for a promised user.
\<close>

theorem admission_refines_system:
  assumes "regulated_law E pre obs" and "all_workable pre (obs w0)" and "operating E pre obs w0 w"
  shows "reachable E pre obs w0 w \<and> all_workable pre (obs w)"
  by (rule operating_invariant[OF assms])

lemma ReconcileCsr_returns: "fst (ReconcileCsr E req s) \<noteq> Panic"
proof -
  have "wp (ReconcileCsr E req) (\<lambda>r s'. r \<noteq> Panic) s"
    by (simp add: ReconcileCsr_def ApproveCSR_def client_defs go_wp Let_def split: option.split prod.split sum.split)
  then show ?thesis by (simp add: wp_iff)
qed

lemma read_workable:
  assumes "regulated_law E pre obs" and "all_workable pre (obs w)"
    and "client_Get_Kubeconfig E req zero_kubeconfig w = ((None, kc), w')"
  shows "spec_sound (Spec kc) \<and> ExistingCSR (Spec kc) = predefined pre (nn_Name req)"
proof -
  have L: "client_law E obs (regulated E pre)" using assms(1) by (simp add: regulated_law_def)
  obtain c where c: "regulated E pre (obs w) c" "kubeconfig_at c (nn_Name req) = Some kc"
    using get_kubeconfig_law[OF L, of req zero_kubeconfig] assms(3) unfolding read_law_def by blast
  then have "all_workable pre c" using assms(2) by (simp add: regulated_def)
  then have "workable kc" "promised pre (nn_Name req) kc" using c(2) by (auto simp: all_workable_def)
  then show ?thesis by (auto simp: workable_def spec_sound_def spec_complete_def promised_def)
qed

lemma created_with_data:
  assumes "client_law E obs Env"
  shows "creates_data E"
  unfolding creates_data_def
proof (intro allI impI)
  fix kc n w sec w' assume "client_Create_Secret E (createUserSecret E kc n) w = ((None, sec), w')"
  then have "gomap_lookup (SecretData sec) = merged (createUserSecret E kc n)"
    using create_secret_law[OF assms, of "createUserSecret E kc n"] unfolding write_law_def by blast
  moreover have "merged (createUserSecret E kc n) CertificateSecretPrivKeyKey \<noteq> None"
    by (simp add: merged_def createUserSecret_def)
  ultimately show "SecretData sec \<noteq> None" by (metis gomap_lookup_simps(1))
qed

text \<open>
  C8: What can make the operator panic: in every state the system gets into, the approving controller and the
  admission of any submitted Kubeconfig always return, and so does a run of the
  reconciler, unless a key could not be generated, or the secret it has read has no data: that is,
  it was stored without any, or, for a predefined secret, could not be read for another reason
  than that it is missing. Before such a panic it has created the user secret at most, and without a failure of
  the key generation nothing at all; no panic leaves half of the work behind.
\<close>

theorem panics_only_without_key_or_data:
  assumes "regulated_law E pre obs" and "all_workable pre (obs w0)" and "operating E pre obs w0 w"
  shows "(fst (Reconcile E req (start w)) = Panic \<longrightarrow>
      panic_explained E (predefined pre (nn_Name req)) (calls (snd (Reconcile E req (start w))))) \<and>
    fst (ReconcileCsr E req (start w)) \<noteq> Panic \<and> fst (admit E old kc (start w)) \<noteq> Panic"
proof -
  have L: "client_law E obs (regulated E pre)" using assms(1) by (simp add: regulated_law_def)
  have "all_workable pre (obs w)" using operating_invariant[OF assms] by simp
  then have "wp (Reconcile E req) (\<lambda>r s'. r = Panic \<longrightarrow> panic_explained E (predefined pre (nn_Name req)) (calls s')) (start w)"
    using Reconcile_panics[OF created_with_data[OF L]] read_workable[OF assms(1)] by blast
  moreover obtain r s where "admit E old kc (start w) = (Ret r, s)" using admit_returns by blast
  ultimately show ?thesis by (simp add: ReconcileCsr_returns wp_iff)
qed

subsection \<open>The laws hold together\<close>

lemma store_env_regulated: "regulated_law store_env sample_promises named"
  using store_client_law[OF reliable_store_law[OF store_env_reliable, of "regulated store_env sample_promises"]] reliable_laws[OF store_env_reliable]
  by (simp add: regulated_law_def regulated_def interference_refl own_secrets_distinct)

definition no_kubeconfigs :: store where
  "no_kubeconfigs = installed\<lparr>kubeconfig_at := Map.empty\<rparr>"

text \<open>A user submits the sample Kubeconfig to the empty store.\<close>

lemma first_submission:
  "\<exists>k. operating store_env sample_promises named no_kubeconfigs (put_kubeconfig ''kc'' k no_kubeconfigs) \<and> workable k \<and>
     Name (KMeta k) = ''kc''"
proof -
  let ?server = "cl_Server (the (SpecCluster (Spec new_kubeconfig)))"
  have given: "given_server (Spec new_kubeconfig) \<noteq> []" by (simp add: given_server_def new_kubeconfig_def)
  obtain srv s' where d: "Default store_env (Some new_kubeconfig) (start no_kubeconfigs) =
      (Ret (new_kubeconfig\<lparr>Spec := completed_spec (Spec new_kubeconfig) srv,
       Status := (Status new_kubeconfig)\<lparr>Conditions := addMissing store_env (time_Now store_env (world s'))
         (Conditions (Status new_kubeconfig)), Phase := PhasePending\<rparr>\<rparr>, None), s')" "s' = start no_kubeconfigs"
    using Default_run[of store_env new_kubeconfig "start no_kubeconfigs"] given by blast
  have "schema_valid (new_kubeconfig\<lparr>Spec := completed_spec (Spec new_kubeconfig) srv, Status := st\<rparr>)" for st
    using new_kubeconfig_facts(2)
    by (auto simp: schema_valid_def workable_def defaultCSR_def Let_def supported_algorithms_def)
  then obtain k where a: "admit store_env None new_kubeconfig (start no_kubeconfigs) = (Ret (Some k), start no_kubeconfigs)"
    using d by (simp add: admit_def go_bind_def go_return_run validate_def ValidateCreate_def)
  have none: "ExistingCSR (Spec new_kubeconfig) = None"
    using new_kubeconfig_facts(6) .
  have k: "workable k" "Name (KMeta k) = ''kc''"
    using admit_result[OF a] none new_kubeconfig_facts(1) by (simp_all add: admissible_def)
  have "named (put_kubeconfig ''kc'' k no_kubeconfigs) = put_kubeconfig ''kc'' k (named no_kubeconfigs)"
    using k(2) by (simp add: named_def put_kubeconfig_def no_kubeconfigs_def fun_eq_iff)
  then have "operating store_env sample_promises named no_kubeconfigs (put_kubeconfig ''kc'' k no_kubeconfigs)"
    using operating.submitted[OF operating.installed a, of named "''kc''"] none new_kubeconfig_facts(1,7)
    by (simp add: no_kubeconfigs_def)
  then show ?thesis using k by blast
qed

lemma no_kubeconfigs_workable: "all_workable pre (named no_kubeconfigs)"
  by (simp add: all_workable_def named_def no_kubeconfigs_def)

theorem admission_refines_system_witness:
  "\<exists>k. reachable store_env sample_promises named no_kubeconfigs (put_kubeconfig ''kc'' k no_kubeconfigs) \<and> Name (KMeta k) = ''kc''"
  using first_submission admission_refines_system[OF store_env_regulated no_kubeconfigs_workable] by blast

theorem panics_only_without_key_or_data_witness:
  "\<exists>k. Name (KMeta k) = ''kc'' \<and>
     (let w = put_kubeconfig ''kc'' k no_kubeconfigs; run = Reconcile store_env request_kc (start w)
      in (fst run = Panic \<longrightarrow> panic_explained store_env None (calls (snd run))) \<and>
         fst (ReconcileCsr store_env request_kc (start w)) \<noteq> Panic \<and>
         fst (admit store_env (Some k) new_kubeconfig (start w)) \<noteq> Panic)"
proof -
  obtain k where k: "operating store_env sample_promises named no_kubeconfigs (put_kubeconfig ''kc'' k no_kubeconfigs)"
    "Name (KMeta k) = ''kc''"
    using first_submission by blast
  have "predefined sample_promises (nn_Name request_kc) = None" by simp
  then show ?thesis
    using panics_only_without_key_or_data[OF store_env_regulated no_kubeconfigs_workable k(1), of request_kc "Some k" new_kubeconfig] k(2)
    unfolding Let_def by metis
qed

end
