(* ===== verification/Identity.thy ===== *)
theory Identity
  imports Admission
begin

text \<open>
  Whose certificate it is. As long as the user name of a Kubeconfig is not changed, its
  certificate and its kubeconfig are for this user. The webhook lets the name be changed,
  though, also when the request is under way: the Kubeconfig is then finished with the
  certificate of the old user and the role of the new one.
\<close>

subsection \<open>User names that stay\<close>



subsection \<open>A user name that is changed\<close>

text \<open>
  C40: Let a Kubeconfig be changed while its request, generated for the version \<open>old\<close>, is under
  way, so that the predefined secret and the parameters of the request are the same. The
  validating webhook accepts this, whatever the new user name. The run that finds the request
  granted ends the Kubeconfig as finished, in phase \<open>Done\<close>: the role is bound to the new user,
  but the certificate stored is that of a request which names the old one.
\<close>

theorem changed_user_keeps_old_certificate:
  assumes "reliable E obs" and "pem_law E" and "x509_law E"
    and "createCSR E old s1 = (Ret (Some key, Some (Request q), None), s2)"
    and "ExistingCSR (Spec old) = ExistingCSR (Spec kc)" and "SpecCSR (Spec old) = SpecCSR (Spec kc)"
    and "kubeconfig_at (obs w) n = Some kc" and "Name (KMeta kc) = n"
    and "ExistingCSR (Spec kc) = predefined pre n" and "provided pre n (obs w)" and "workable kc"
    and "config_at (obs w) (nn_key kube_root_ca_name) \<noteq> None" and "nn_Name req = n"
    and "\<not> isInTerminalCondition E kc" and "request_at (obs w) n = Some q" and "grantable q"
    and "own_binding kc (obs w)" and "Reconcile E req (start w) = (r, s)"
  shows "fst (ValidateUpdate (Some old) (Some kc) u) = Ret None \<and> r = Ret (empty_result, None) \<and>
    (\<exists>k. kubeconfig_at (obs (world s)) n = Some k \<and> finished E k \<and> Phase (Status k) = PhaseDone) \<and>
    bound kc (obs (world s)) \<and>
    (\<exists>d t. secret_at (obs (world s)) (secret_place pre n) = Some d \<and> d ''tls.crt'' = Some (Certificate q) \<and>
       parseCSR E (Request q) = Inr t \<and> pk_CommonName (tp_Subject t) = Username (Spec old))"
proof -
  obtain d where r: "r = Ret (empty_result, None)" and g: "granted_store E pre kc q n d (obs w) (obs (world s))"
    using last_run[where pre = pre, OF assms(1,7-16)] assms(18) by (auto simp: wp_def)
  then obtain kc2 cfg role where fin: "KMeta kc2 = KMeta kc" "finished E kc2" "Phase (Status kc2) = PhaseDone"
    "SpecRoleRef (Spec kc) = Some role"
    "obs (world s) = update_status kc2 (with_binding kc role
       (with_secret pre n (d(CertificateSecretCertKey \<mapsto> Certificate q, KubeconfigKey \<mapsto> cfg)) (obs w)))"
    unfolding granted_store_def by blast
  have "\<exists>k. kubeconfig_at (obs (world s)) n = Some k \<and> finished E k \<and> Phase (Status k) = PhaseDone"
    using fin assms(7,8) by (simp add: update_status_at)
  moreover have "bound kc (with_binding kc role c)" if "own_binding kc c" for c
    using that fin(4) by (rule own_binding_bound)
  then have "bound kc (obs (world s))"
    using assms(17) by (simp add: fin(5) bound_def own_binding_def)
  moreover have "\<exists>d. secret_at (obs (world s)) (secret_place pre n) = Some d \<and> d ''tls.crt'' = Some (Certificate q)"
    by (simp add: fin(5))
  moreover have "fst (ValidateUpdate (Some old) (Some kc) u) = Ret None"
    using assms(5,6) by (simp add: ValidateUpdate_run update_errors_Nil)
  ultimately show ?thesis using r parse_generated[OF assms(2-4)] by blast
qed

text \<open>The granted sample, whose request was made for \<open>jane\<close>, after a change of the user to \<open>john\<close>.\<close>

definition for_john :: Kubeconfig where
  "for_john = new_kubeconfig\<lparr>Spec := (Spec new_kubeconfig)\<lparr>Username := ''john''\<rparr>\<rparr>"

definition renamed :: "bytes \<Rightarrow> store" where
  "renamed request = decided\<lparr>kubeconfig_at := [''kc'' \<mapsto> for_john],
     request_at := [''kc'' \<mapsto> (sample_csr CertificateApproved ''cert'')\<lparr>Request := request\<rparr>]\<rparr>"

theorem changed_user_keeps_old_certificate_witness:
  "\<exists>request k d t. let c = named (world (snd (Reconcile store_env request_kc (start (renamed request))))) in
     kubeconfig_at c ''kc'' = Some k \<and> finished store_env k \<and> Phase (Status k) = PhaseDone \<and> bound for_john c \<and>
     secret_at c (user_key ''kc'') = Some d \<and> d ''tls.crt'' = Some ''cert'' \<and>
     parseCSR store_env request = Inr t \<and> pk_CommonName (tp_Subject t) = ''jane''"
proof -
  obtain csr where csr: "SpecCSR (Spec new_kubeconfig) = Some csr" "SignatureAlg csr \<in> set supported_algorithms"
    using new_kubeconfig_facts(2) by (auto simp: workable_def)
  obtain key request s2 where make: "createCSR store_env new_kubeconfig (start installed) = (Ret (Some key, Some request, None), s2)"
    using createCSR_exact[OF store_env_reliable csr, of "start installed"] by (auto simp: wp_def split: prod.splits)
  let ?q = "(sample_csr CertificateApproved ''cert'')\<lparr>Request := request,
    CsrMeta := (CsrMeta (sample_csr CertificateApproved ''cert''))\<lparr>Name := ''kc''\<rparr>\<rparr>"
  have q: "Request ?q = request" "grantable ?q" "Certificate ?q = ''cert''"
    by (simp_all add: grantable_def sample_csr_def sample_condition_def)
  have make: "createCSR store_env new_kubeconfig (start installed) = (Ret (Some key, Some (Request ?q), None), s2)"
    by (simp only: q(1) make)
  have john: "ExistingCSR (Spec new_kubeconfig) = ExistingCSR (Spec for_john)"
    "SpecCSR (Spec new_kubeconfig) = SpecCSR (Spec for_john)" "Name (KMeta for_john) = ''kc''"
    "ExistingCSR (Spec for_john) = predefined own_only ''kc''" "workable for_john" "\<not> isInTerminalCondition store_env for_john"
    using new_kubeconfig_facts by (simp_all add: for_john_def workable_def isInTerminalCondition_def)
  have c: "kubeconfig_at (named (renamed request)) ''kc'' = Some for_john" "provided own_only ''kc'' (named (renamed request))"
    "config_at (named (renamed request)) (nn_key kube_root_ca_name) \<noteq> None"
    "request_at (named (renamed request)) ''kc'' = Some ?q" "own_binding for_john (named (renamed request))"
    using john(3) installed_root_ca by (simp_all add: renamed_def named_def decided_def provided_def own_binding_def installed_def)
  have jane: "Username (Spec new_kubeconfig) = ''jane''" by (rule new_kubeconfig_facts(7))
  have place: "secret_place own_only ''kc'' = user_key ''kc''" by simp
  let ?c = "named (world (snd (Reconcile store_env request_kc (start (renamed request)))))"
  note run = changed_user_keeps_old_certificate[OF store_env_reliable store_env_laws(1,2) make john(1,2) c(1) john(3,4)
      c(2) john(5) c(3) installed_facts(4) john(6) c(4) q(2) c(5) prod.collapse[symmetric], unfolded place jane q(1,3)]
  obtain k where k: "kubeconfig_at ?c ''kc'' = Some k" "finished store_env k" "Phase (Status k) = PhaseDone"
    using run[THEN conjunct2, THEN conjunct2, THEN conjunct1] by (elim exE conjE)
  obtain d t where d: "secret_at ?c (user_key ''kc'') = Some d" "d ''tls.crt'' = Some ''cert''"
    "parseCSR store_env request = Inr t" "pk_CommonName (tp_Subject t) = ''jane''"
    using run[THEN conjunct2, THEN conjunct2, THEN conjunct2, THEN conjunct2] by (elim exE conjE)
  have b: "bound for_john ?c" using run[THEN conjunct2, THEN conjunct2, THEN conjunct2, THEN conjunct1] .
  show ?thesis
    unfolding Let_def by (intro exI[of _ request] exI[of _ k] exI[of _ d] exI[of _ t] conjI k d b)
qed

end
