(* ===== verification/Object_References.thy ===== *)
theory Object_References
  imports Main
begin

text \<open>
  The types of references to other objects in \<open>api/v1alpha1/object_reference_types.go\<close>, with
  the validation markers that make up their schema: length bounds and regular expressions.
  The expressions are a datatype with a printer, so that the text in the source can be
  compared, and a matcher by derivatives; what they accept is stated without them at the end.
\<close>

subsection \<open>Regular expressions\<close>

datatype item = Single char | Range char char

fun item_chars :: "item \<Rightarrow> char \<Rightarrow> bool" where
  "item_chars (Single a) c \<longleftrightarrow> c = a"
| "item_chars (Range a b) c \<longleftrightarrow> (of_char a :: nat) \<le> of_char c \<and> (of_char c :: nat) \<le> of_char b"

definition class_chars :: "item list \<Rightarrow> char \<Rightarrow> bool" where
  "class_chars is c \<longleftrightarrow> list_ex (\<lambda>i. item_chars i c) is"

datatype regexp = Nothing | Empty_Word | Class "item list" | Sequence regexp regexp | Choice regexp regexp | Star regexp

abbreviation Optional :: "regexp \<Rightarrow> regexp" where
  "Optional r \<equiv> Choice Empty_Word r"

abbreviation Exactly :: "char \<Rightarrow> regexp" where
  "Exactly c \<equiv> Class [Single c]"

text \<open>How Go writes them; \<open>Choice\<close> occurs as an optional group only.\<close>

fun item_text :: "item \<Rightarrow> string" where
  "item_text (Single a) = [a]"
| "item_text (Range a b) = [a, CHR ''-'', b]"

fun regexp_text :: "regexp \<Rightarrow> string" where
  "regexp_text Nothing = ''[^'' @ [CHR 0x5C] @ ''x00-'' @ [CHR 0x5C] @ ''x{10FFFF}]''"
| "regexp_text Empty_Word = []"
| "regexp_text (Class [Single c]) = [CHR 0x5C, c]"
| "regexp_text (Class is) = ''['' @ concat (map item_text is) @ '']''"
| "regexp_text (Sequence r s) = regexp_text r @ regexp_text s"
| "regexp_text (Choice Empty_Word r) = ''('' @ regexp_text r @ '')?''"
| "regexp_text (Choice r s) = regexp_text r @ ''|'' @ regexp_text s"
| "regexp_text (Star (Class is)) = regexp_text (Class is) @ ''*''"
| "regexp_text (Star r) = ''('' @ regexp_text r @ '')*''"

text \<open>A pattern is a list of alternatives, each anchored at both ends.\<close>

fun pattern_text :: "regexp list \<Rightarrow> string" where
  "pattern_text [] = []"
| "pattern_text [r] = ''^'' @ regexp_text r @ ''$''"
| "pattern_text (r # rs) = ''^'' @ regexp_text r @ ''$|'' @ pattern_text rs"

fun nullable :: "regexp \<Rightarrow> bool" where
  "nullable Nothing \<longleftrightarrow> False"
| "nullable Empty_Word \<longleftrightarrow> True"
| "nullable (Class is) \<longleftrightarrow> False"
| "nullable (Sequence r s) \<longleftrightarrow> nullable r \<and> nullable s"
| "nullable (Choice r s) \<longleftrightarrow> nullable r \<or> nullable s"
| "nullable (Star r) \<longleftrightarrow> True"

fun derivative :: "char \<Rightarrow> regexp \<Rightarrow> regexp" where
  "derivative c Nothing = Nothing"
| "derivative c Empty_Word = Nothing"
| "derivative c (Class is) = (if class_chars is c then Empty_Word else Nothing)"
| "derivative c (Sequence r s) =
     (if nullable r then Choice (Sequence (derivative c r) s) (derivative c s) else Sequence (derivative c r) s)"
| "derivative c (Choice r s) = Choice (derivative c r) (derivative c s)"
| "derivative c (Star r) = Sequence (derivative c r) (Star r)"

definition accepts :: "regexp \<Rightarrow> string \<Rightarrow> bool" where
  "accepts r s \<longleftrightarrow> nullable (fold derivative s r)"

definition matches_pattern :: "regexp list \<Rightarrow> string \<Rightarrow> bool" where
  "matches_pattern rs s \<longleftrightarrow> list_ex (\<lambda>r. accepts r s) rs"

subsection \<open>The types\<close>

text \<open>Lengths count code points: bytes that do not continue one.\<close>

definition code_points :: "string \<Rightarrow> nat" where
  "code_points s = length (filter (\<lambda>c. \<not> (128 \<le> (of_char c :: nat) \<and> (of_char c :: nat) < 192)) s)"

definition lower_alnum :: "item list" where
  "lower_alnum = [Range CHR ''a'' CHR ''z'', Range CHR ''0'' CHR ''9'']"

definition alpha :: "item list" where
  "alpha = [Range CHR ''a'' CHR ''z'', Range CHR ''A'' CHR ''Z'']"

definition alnum :: "item list" where
  "alnum = [Range CHR ''a'' CHR ''z'', Range CHR ''A'' CHR ''Z'', Range CHR ''0'' CHR ''9'']"

definition label_regexp :: "item list \<Rightarrow> item list \<Rightarrow> regexp" where
  "label_regexp first rest =
     Sequence (Class first) (Optional (Sequence (Star (Class (Single CHR ''-'' # rest))) (Class rest)))"

definition Group_pattern :: "regexp list" where
  "Group_pattern = [Empty_Word, Sequence (label_regexp lower_alnum lower_alnum)
     (Star (Sequence (Exactly CHR ''.'') (label_regexp lower_alnum lower_alnum)))]"

definition Kind_pattern :: "regexp list" where
  "Kind_pattern = [label_regexp alpha alnum]"

definition Namespace_pattern :: "regexp list" where
  "Namespace_pattern = [label_regexp lower_alnum lower_alnum]"

lemma pattern_texts:
  "pattern_text Group_pattern =
     ''^$|^[a-z0-9]([-a-z0-9]*[a-z0-9])?('' @ [CHR 0x5C] @ ''.[a-z0-9]([-a-z0-9]*[a-z0-9])?)*$''"
  "pattern_text Kind_pattern = ''^[a-zA-Z]([-a-zA-Z0-9]*[a-zA-Z0-9])?$''"
  "pattern_text Namespace_pattern = ''^[a-z0-9]([-a-z0-9]*[a-z0-9])?$''"
  by (simp_all add: Group_pattern_def Kind_pattern_def Namespace_pattern_def label_regexp_def
      lower_alnum_def alpha_def alnum_def)

definition Group :: "string \<Rightarrow> bool" where
  "Group s \<longleftrightarrow> code_points s \<le> 253 \<and> matches_pattern Group_pattern s"

definition Kind :: "string \<Rightarrow> bool" where
  "Kind s \<longleftrightarrow> 1 \<le> code_points s \<and> code_points s \<le> 63 \<and> matches_pattern Kind_pattern s"

definition ObjectName :: "string \<Rightarrow> bool" where
  "ObjectName s \<longleftrightarrow> 1 \<le> code_points s \<and> code_points s \<le> 253"

definition Namespace_valid :: "string \<Rightarrow> bool" where
  "Namespace_valid s \<longleftrightarrow> matches_pattern Namespace_pattern s \<and> 1 \<le> code_points s \<and> code_points s \<le> 63"

record SecretObjectReference =
  sor_Group :: "string option"
  sor_Kind :: "string option"
  sor_Name :: string
  sor_Namespace :: "string option"

text \<open>The schema fills in an absent group and kind, then validates.\<close>

definition default_reference :: "SecretObjectReference \<Rightarrow> SecretObjectReference" where
  "default_reference r = r\<lparr>
     sor_Group := (case sor_Group r of None \<Rightarrow> Some '''' | Some g \<Rightarrow> Some g),
     sor_Kind := (case sor_Kind r of None \<Rightarrow> Some ''Secret'' | Some k \<Rightarrow> Some k)\<rparr>"

definition valid_reference :: "SecretObjectReference \<Rightarrow> bool" where
  "valid_reference r \<longleftrightarrow> pred_option Group (sor_Group r) \<and> pred_option Kind (sor_Kind r) \<and>
     ObjectName (sor_Name r) \<and> pred_option Namespace_valid (sor_Namespace r)"

subsection \<open>The matcher\<close>

fun lang :: "regexp \<Rightarrow> string set" where
  "lang Nothing = {}"
| "lang Empty_Word = {[]}"
| "lang (Class is) = {[c] | c. class_chars is c}"
| "lang (Sequence r s) = {u @ v | u v. u \<in> lang r \<and> v \<in> lang s}"
| "lang (Choice r s) = lang r \<union> lang s"
| "lang (Star r) = {concat us | us. set us \<subseteq> lang r}"

lemma nullable_lang: "nullable r \<longleftrightarrow> [] \<in> lang r"
  by (induction r) (auto intro: exI[of _ "[]"])

lemma star_step: "c # s \<in> lang (Star r) \<longleftrightarrow> (\<exists>u v. s = u @ v \<and> c # u \<in> lang r \<and> v \<in> lang (Star r))"
proof
  assume "c # s \<in> lang (Star r)"
  then obtain us where us: "concat us = c # s" "set us \<subseteq> lang r" by auto
  then show "\<exists>u v. s = u @ v \<and> c # u \<in> lang r \<and> v \<in> lang (Star r)"
  proof (induction us)
    case (Cons u us)
    show ?case
    proof (cases u)
      case Nil
      then show ?thesis using Cons by simp
    next
      case (Cons c' u')
      then have "s = u' @ concat us" "c # u' \<in> lang r" "set us \<subseteq> lang r" using Cons.prems by auto
      then show ?thesis by auto
    qed
  qed simp
next
  assume "\<exists>u v. s = u @ v \<and> c # u \<in> lang r \<and> v \<in> lang (Star r)"
  then obtain u us where "c # s = concat ((c # u) # us)" "set ((c # u) # us) \<subseteq> lang r" by auto
  then show "c # s \<in> lang (Star r)" unfolding lang.simps mem_Collect_eq by blast
qed

lemma derivative_lang: "s \<in> lang (derivative c r) \<longleftrightarrow> c # s \<in> lang r"
proof (induction r arbitrary: s)
  case (Sequence r1 r2)
  have split: "c # s \<in> lang (Sequence r1 r2) \<longleftrightarrow>
      ([] \<in> lang r1 \<and> c # s \<in> lang r2) \<or> (\<exists>u v. s = u @ v \<and> c # u \<in> lang r1 \<and> v \<in> lang r2)"
    unfolding lang.simps mem_Collect_eq Cons_eq_append_conv by blast
  show ?case
    unfolding split by (simp add: nullable_lang Sequence) blast
next
  case (Star r)
  then show ?case unfolding star_step by auto
qed auto

lemma accepts_lang: "accepts r s \<longleftrightarrow> s \<in> lang r"
  unfolding accepts_def by (induction s arbitrary: r) (simp_all add: nullable_lang derivative_lang)

subsection \<open>What the expressions accept\<close>

lemma star_class: "s \<in> lang (Star (Class is)) \<longleftrightarrow> list_all (class_chars is) s"
proof
  assume "s \<in> lang (Star (Class is))"
  then obtain us where "s = concat us" "set us \<subseteq> lang (Class is)" by auto
  then show "list_all (class_chars is) s" by (induction us arbitrary: s) auto
next
  assume a: "list_all (class_chars is) s"
  have "s = concat (map (\<lambda>c. [c]) s)" by simp
  moreover have "set (map (\<lambda>c. [c]) s) \<subseteq> lang (Class is)" using a by (auto simp: list_all_iff)
  ultimately show "s \<in> lang (Star (Class is))" unfolding lang.simps mem_Collect_eq by blast
qed

lemma class_then: "s \<in> lang (Sequence (Class is) r) \<longleftrightarrow> (\<exists>c t. s = c # t \<and> class_chars is c \<and> t \<in> lang r)"
proof -
  have "s \<in> lang (Sequence (Class is) r) \<longleftrightarrow> (\<exists>c t. s = [c] @ t \<and> class_chars is c \<and> t \<in> lang r)"
    unfolding lang.simps(3,4) mem_Collect_eq by blast
  then show ?thesis by simp
qed

lemma then_class: "s \<in> lang (Sequence r (Class is)) \<longleftrightarrow> (\<exists>t c. s = t @ [c] \<and> t \<in> lang r \<and> class_chars is c)"
  unfolding lang.simps(3,4) mem_Collect_eq by blast

lemma in_optional: "s \<in> lang (Optional r) \<longleftrightarrow> s = [] \<or> s \<in> lang r"
  unfolding lang.simps(2,5) by simp

lemma label_lang:
  assumes "\<And>c. class_chars first c \<Longrightarrow> class_chars rest c"
  shows "s \<in> lang (label_regexp first rest) \<longleftrightarrow> s \<noteq> [] \<and> class_chars first (hd s) \<and>
    list_all (\<lambda>c. c = CHR ''-'' \<or> class_chars rest c) s \<and> class_chars rest (last s)"
proof -
  have cls: "class_chars (Single CHR ''-'' # rest) c \<longleftrightarrow> c = CHR ''-'' \<or> class_chars rest c" for c
    by (simp add: class_chars_def)
  have s: "s \<in> lang (label_regexp first rest) \<longleftrightarrow> (\<exists>c t. s = c # t \<and> class_chars first c \<and>
      (t = [] \<or> (\<exists>m b. t = m @ [b] \<and> list_all (\<lambda>c. c = CHR ''-'' \<or> class_chars rest c) m \<and> class_chars rest b)))"
    unfolding label_regexp_def class_then then_class in_optional star_class cls ..
  show ?thesis
  proof (cases s)
    case Nil
    then show ?thesis unfolding s by simp
  next
    case (Cons c t)
    then show ?thesis
      unfolding s by (cases t rule: rev_cases) (use assms in \<open>auto simp: list_all_iff\<close>)
  qed
qed

definition lower_or_digit :: "char \<Rightarrow> bool" where
  "lower_or_digit c \<longleftrightarrow> (97 \<le> (of_char c :: nat) \<and> (of_char c :: nat) \<le> 122) \<or>
     (48 \<le> (of_char c :: nat) \<and> (of_char c :: nat) \<le> 57)"

definition letter :: "char \<Rightarrow> bool" where
  "letter c \<longleftrightarrow> (97 \<le> (of_char c :: nat) \<and> (of_char c :: nat) \<le> 122) \<or>
     (65 \<le> (of_char c :: nat) \<and> (of_char c :: nat) \<le> 90)"

text \<open>A label of a DNS name: lower case letters, digits and inner hyphens.\<close>

definition dns_label :: "string \<Rightarrow> bool" where
  "dns_label s \<longleftrightarrow> s \<noteq> [] \<and> list_all (\<lambda>c. c = CHR ''-'' \<or> lower_or_digit c) s \<and>
     hd s \<noteq> CHR ''-'' \<and> last s \<noteq> CHR ''-''"

text \<open>The name of a kind: letters, digits and inner hyphens, a letter first.\<close>

definition kind_name :: "string \<Rightarrow> bool" where
  "kind_name s \<longleftrightarrow> s \<noteq> [] \<and> list_all (\<lambda>c. c = CHR ''-'' \<or> letter c \<or> lower_or_digit c) s \<and>
     letter (hd s) \<and> last s \<noteq> CHR ''-''"

lemma classes:
  "class_chars lower_alnum c \<longleftrightarrow> lower_or_digit c" "class_chars alpha c \<longleftrightarrow> letter c"
  "class_chars alnum c \<longleftrightarrow> letter c \<or> lower_or_digit c"
  by (auto simp: class_chars_def lower_alnum_def alpha_def alnum_def lower_or_digit_def letter_def)

lemma hyphen: "\<not> lower_or_digit CHR ''-''" "\<not> letter CHR ''-''"
  by (simp_all add: lower_or_digit_def letter_def)

lemma dns_label_lang: "s \<in> lang (label_regexp lower_alnum lower_alnum) \<longleftrightarrow> dns_label s"
proof (cases "s = []")
  case False
  then have "hd s \<in> set s" "last s \<in> set s" by simp_all
  then show ?thesis
    unfolding label_lang[of lower_alnum lower_alnum, simplified] classes dns_label_def list_all_iff
    using hyphen by metis
qed (simp add: label_lang dns_label_def)

lemma kind_name_lang: "s \<in> lang (label_regexp alpha alnum) \<longleftrightarrow> kind_name s"
proof (cases "s = []")
  case False
  have label: "s \<in> lang (label_regexp alpha alnum) \<longleftrightarrow> s \<noteq> [] \<and> letter (hd s) \<and>
      list_all (\<lambda>c. c = CHR ''-'' \<or> letter c \<or> lower_or_digit c) s \<and> (letter (last s) \<or> lower_or_digit (last s))"
    by (subst label_lang) (simp_all add: classes)
  have "last s \<in> set s" using False by simp
  then have "list_all (\<lambda>c. c = CHR ''-'' \<or> letter c \<or> lower_or_digit c) s \<Longrightarrow>
      (letter (last s) \<or> lower_or_digit (last s)) = (last s \<noteq> CHR ''-'')"
    unfolding list_all_iff using hyphen by metis
  then show ?thesis unfolding label kind_name_def by blast
qed (subst label_lang, simp_all add: kind_name_def classes)

text \<open>A DNS subdomain: labels between dots. The dots split it.\<close>

fun split_dots :: "string \<Rightarrow> string list" where
  "split_dots [] = [[]]"
| "split_dots (c # s) = (if c = CHR ''.'' then [] # split_dots s
     else (case split_dots s of [] \<Rightarrow> [[c]] | l # ls \<Rightarrow> (c # l) # ls))"

definition dns_subdomain :: "string \<Rightarrow> bool" where
  "dns_subdomain s \<longleftrightarrow> list_all dns_label (split_dots s)"

lemma split_dots_nonempty: "split_dots s \<noteq> []"
  by (induction s) (auto split: list.split)

lemma join_split: "hd (split_dots s) @ concat (map ((#) CHR ''.'') (tl (split_dots s))) = s"
proof (induction s)
  case (Cons c s)
  then show ?case using split_dots_nonempty[of s] by (cases "split_dots s") auto
qed simp

lemma split_dotless:
  assumes "CHR ''.'' \<notin> set l"
  shows "split_dots l = [l]" "split_dots (l @ CHR ''.'' # s) = l # split_dots s"
  using assms by (induction l) auto

lemma split_join: "list_all (\<lambda>l. CHR ''.'' \<notin> set l) (l # ls) \<Longrightarrow>
    split_dots (l @ concat (map ((#) CHR ''.'') ls)) = l # ls"
  by (induction ls arbitrary: l) (simp_all add: split_dotless)

lemma label_chars:
  "c = CHR ''-'' \<or> lower_or_digit c \<Longrightarrow> c \<noteq> CHR ''.'' \<and> (of_char c :: nat) < 128"
  "c = CHR ''-'' \<or> letter c \<or> lower_or_digit c \<Longrightarrow> (of_char c :: nat) < 128"
  by (auto simp: lower_or_digit_def letter_def)

lemma dns_label_dotless: "dns_label l \<Longrightarrow> CHR ''.'' \<notin> set l"
  unfolding dns_label_def list_all_iff using label_chars(1) by blast

lemma star_dots: "s \<in> lang (Star (Sequence (Exactly CHR ''.'') r)) \<longleftrightarrow>
    (\<exists>ls. s = concat (map ((#) CHR ''.'') ls) \<and> set ls \<subseteq> lang r)"
proof -
  have dot: "u \<in> lang (Sequence (Exactly CHR ''.'') r) \<longleftrightarrow> (\<exists>t. u = CHR ''.'' # t \<and> t \<in> lang r)" for u
    unfolding class_then by (simp add: class_chars_def)
  have dots: "set us \<subseteq> lang (Sequence (Exactly CHR ''.'') r) \<longleftrightarrow> (\<exists>ls. us = map ((#) CHR ''.'') ls \<and> set ls \<subseteq> lang r)" for us
    unfolding subset_iff dot by (induction us) (auto simp: Cons_eq_map_conv)
  show ?thesis unfolding lang.simps(6) mem_Collect_eq dots by blast
qed

lemma dns_subdomain_lang:
  "s \<in> lang (Sequence (label_regexp lower_alnum lower_alnum)
      (Star (Sequence (Exactly CHR ''.'') (label_regexp lower_alnum lower_alnum)))) \<longleftrightarrow> dns_subdomain s"
proof -
  have labels: "set ls \<subseteq> lang (label_regexp lower_alnum lower_alnum) \<longleftrightarrow> list_all dns_label ls" for ls
    by (auto simp: list_all_iff dns_label_lang)
  have "(\<exists>l ls. s = l @ concat (map ((#) CHR ''.'') ls) \<and> dns_label l \<and> list_all dns_label ls) \<longleftrightarrow> dns_subdomain s"
    (is "?joined \<longleftrightarrow> _")
  proof
    assume ?joined
    then obtain l ls where s: "s = l @ concat (map ((#) CHR ''.'') ls)" "list_all dns_label (l # ls)" by auto
    then have "list_all (\<lambda>l. CHR ''.'' \<notin> set l) (l # ls)" using dns_label_dotless by (auto simp: list_all_iff)
    then show "dns_subdomain s" using s(2) unfolding dns_subdomain_def s(1) by (simp only: split_join)
  next
    assume "dns_subdomain s"
    then have "dns_label (hd (split_dots s)) \<and> list_all dns_label (tl (split_dots s))"
      using split_dots_nonempty[of s] by (cases "split_dots s") (auto simp: dns_subdomain_def)
    then show ?joined using join_split[of s] by metis
  qed
  then show ?thesis
    unfolding lang.simps(4) mem_Collect_eq star_dots labels dns_label_lang by blast
qed

subsection \<open>Valid references\<close>

lemma ascii_code_points: "list_all (\<lambda>c. (of_char c :: nat) < 128) s \<Longrightarrow> code_points s = length s"
  unfolding code_points_def by (induction s) auto

lemma dns_ascii: "dns_label s \<Longrightarrow> list_all (\<lambda>c. (of_char c :: nat) < 128) s"
  unfolding dns_label_def list_all_iff using label_chars(1) by blast

lemma kind_ascii: "kind_name s \<Longrightarrow> list_all (\<lambda>c. (of_char c :: nat) < 128) s"
  unfolding kind_name_def list_all_iff using label_chars(2) by blast

lemma subdomain_ascii: "dns_subdomain s \<Longrightarrow> list_all (\<lambda>c. (of_char c :: nat) < 128) s"
proof -
  assume "dns_subdomain s"
  then have a: "list_all (\<lambda>l. list_all (\<lambda>c. (of_char c :: nat) < 128) l) (split_dots s)"
    using dns_ascii by (auto simp: dns_subdomain_def list_all_iff)
  have "list_all (\<lambda>c. (of_char c :: nat) < 128) (hd (split_dots s) @ concat (map ((#) CHR ''.'') (tl (split_dots s))))"
    using a split_dots_nonempty[of s] by (cases "split_dots s") (auto simp: list_all_iff)
  then show ?thesis unfolding join_split .
qed

lemma Group_iff: "Group s \<longleftrightarrow> s = [] \<or> (dns_subdomain s \<and> length s \<le> 253)"
proof -
  have "matches_pattern Group_pattern s \<longleftrightarrow> s = [] \<or> dns_subdomain s"
    by (simp add: matches_pattern_def Group_pattern_def accepts_lang dns_subdomain_lang del: lang.simps(4-6))
  then show ?thesis using ascii_code_points[OF subdomain_ascii] by (auto simp: Group_def code_points_def)
qed

lemma Kind_iff: "Kind s \<longleftrightarrow> kind_name s \<and> length s \<le> 63"
proof -
  have "matches_pattern Kind_pattern s \<longleftrightarrow> kind_name s"
    by (simp add: matches_pattern_def Kind_pattern_def accepts_lang kind_name_lang)
  moreover have "kind_name s \<Longrightarrow> 1 \<le> length s" by (cases s) (simp_all add: kind_name_def)
  ultimately show ?thesis using ascii_code_points[OF kind_ascii] by (auto simp: Kind_def)
qed

lemma Namespace_iff: "Namespace_valid s \<longleftrightarrow> dns_label s \<and> length s \<le> 63"
proof -
  have "matches_pattern Namespace_pattern s \<longleftrightarrow> dns_label s"
    by (simp add: matches_pattern_def Namespace_pattern_def accepts_lang dns_label_lang)
  moreover have "dns_label s \<Longrightarrow> 1 \<le> length s" by (cases s) (simp_all add: dns_label_def)
  ultimately show ?thesis using ascii_code_points[OF dns_ascii] by (auto simp: Namespace_valid_def)
qed

text \<open>
  C33: Defaulted references are valid exactly if the group is empty or a DNS subdomain of at
  most 253 characters, the kind a name of letters, digits and inner hyphens of at most 63, the
  name not empty and at most 253 long, the namespace, if there is one, a DNS label of at most
  63 characters: the regular expressions of the markers say no more and no less.
\<close>

theorem valid_reference_iff:
  "valid_reference (default_reference r) \<longleftrightarrow>
    (case sor_Group r of None \<Rightarrow> True | Some g \<Rightarrow> g = [] \<or> (dns_subdomain g \<and> length g \<le> 253)) \<and>
    (case sor_Kind r of None \<Rightarrow> True | Some k \<Rightarrow> kind_name k \<and> length k \<le> 63) \<and>
    1 \<le> code_points (sor_Name r) \<and> code_points (sor_Name r) \<le> 253 \<and>
    (case sor_Namespace r of None \<Rightarrow> True | Some n \<Rightarrow> dns_label n \<and> length n \<le> 63)"
proof -
  have "Group []" by (simp add: Group_iff)
  moreover have "Kind ''Secret''"
    by (simp add: Kind_iff kind_name_def letter_def lower_or_digit_def)
  ultimately show ?thesis
    by (simp add: valid_reference_def default_reference_def Group_iff Kind_iff Namespace_iff ObjectName_def
        split: option.split)
qed

end
