(* ===== verification/Go_Heap.thy ===== *)
theory Go_Heap
  imports Api_Types
begin

text \<open>
  A memory for the code whose point is which objects share storage: the generated deep
  copies. Memory is a map from addresses to blocks; a block is an array of one type of
  \<open>api/v1alpha1\<close> (a variable behind a pointer is an array of length 1). A pointer is the
  address of a block with an index into it, so that \<open>&items[i]\<close> is a pointer too; a slice
  is a pointer with a length. Loads and stores that do not fit the memory are panics, so
  that "never panics" below includes type safety.

  The second half states what a deep copy promises, once for all types: the locale \<open>copyable\<close>
  with a proof rule for copying a field, a pointer and a slice.
\<close>

subsection \<open>Blocks and pointers\<close>

type_synonym addr = nat
type_synonym ref = "addr \<times> nat"
type_synonym pointer = "ref option"
type_synonym slice_header = "(ref \<times> nat) option"

text \<open>The structs of \<open>api/v1alpha1\<close> that hold pointers or slices, as they lie in memory.\<close>

record fields_struct =
  f_Country :: slice_header
  f_Province :: slice_header
  f_Locality :: slice_header
  f_Organization :: slice_header
  f_OrganizationalUnit :: slice_header

record csr_struct =
  q_SignatureAlgorithm :: SignatureAlgorithm
  q_AdditionalFields :: fields_struct

record spec_struct =
  p_Username :: string
  p_ExistingCSR :: pointer
  p_AutoApproveCSR :: bool
  p_CSR :: pointer
  p_Cluster :: pointer
  p_RoleRef :: pointer

record status_struct =
  t_UserSecret :: SecretRef
  t_Csr :: CsrRef
  t_Conditions :: slice_header
  t_Kubeconfig :: string
  t_Status :: string

record TypeMeta =
  tm_Kind :: string
  tm_APIVersion :: string

record kubeconfig_struct =
  k_TypeMeta :: TypeMeta
  k_ObjectMeta :: ObjectMeta
  k_Spec :: spec_struct
  k_Status :: status_struct

text \<open>\<open>metav1.ListMeta\<close>: no code of the repository looks into it.\<close>

datatype ListMeta = ListMeta string

record list_struct =
  l_TypeMeta :: TypeMeta
  l_ListMeta :: ListMeta
  l_Items :: slice_header

record reference_struct =
  o_Group :: pointer
  o_Kind :: pointer
  o_Name :: string
  o_Namespace :: pointer

text \<open>\<open>Names\<close> are the string types \<open>Group\<close>, \<open>Kind\<close> and \<open>Namespace\<close>.\<close>

datatype block = Strings "string list" | SecretRefs "SecretRef list" | CsrRefs "CsrRef list"
  | Fields "fields_struct list" | Csrs "csr_struct list" | Clusters "ClusterSpec list"
  | RoleRefs "RoleRef list" | Specs "spec_struct list" | ConditionArray "Condition list"
  | Statuses "status_struct list" | Kubeconfigs "kubeconfig_struct list"
  | Lists "list_struct list" | Names "string list" | References "reference_struct list"

record memory =
  blocks :: "addr \<rightharpoonup> block"
  limit :: addr

text \<open>A type of array elements: its block, the way back, its zero value.\<close>

record 't elem =
  into_block :: "'t list \<Rightarrow> block"
  of_block :: "block \<Rightarrow> 't list option"
  zero_elem :: 't

subsection \<open>Loads, stores and allocation\<close>

definition make_block :: "'t elem \<Rightarrow> nat \<Rightarrow> (memory, addr) go" where
  "make_block T n = (\<lambda>h. (Ret (limit h),
     h\<lparr>blocks := (blocks h)(limit h \<mapsto> into_block T (replicate n (zero_elem T))),
       limit := Suc (limit h)\<rparr>))"

definition array_at :: "'t elem \<Rightarrow> memory \<Rightarrow> addr \<Rightarrow> 't list option" where
  "array_at T h a = (case blocks h a of None \<Rightarrow> None | Some b \<Rightarrow> of_block T b)"

definition load :: "'t elem \<Rightarrow> ref \<Rightarrow> (memory, 't) go" where
  "load T r = (\<lambda>h. case array_at T h (fst r) of
       None \<Rightarrow> (Panic, h)
     | Some xs \<Rightarrow> if snd r < length xs then (Ret (xs ! snd r), h) else (Panic, h))"

definition store_at :: "'t elem \<Rightarrow> ref \<Rightarrow> 't \<Rightarrow> (memory, unit) go" where
  "store_at T r v = (\<lambda>h. case array_at T h (fst r) of
       None \<Rightarrow> (Panic, h)
     | Some xs \<Rightarrow> if snd r < length xs
         then (Ret (), h\<lparr>blocks := (blocks h)(fst r \<mapsto> into_block T (xs[snd r := v]))\<rparr>)
         else (Panic, h))"

text \<open>The values a slice shows.\<close>

definition window :: "'t list \<Rightarrow> nat \<Rightarrow> nat \<Rightarrow> 't list" where
  "window xs i n = take n (drop i xs)"

definition elements :: "'t elem \<Rightarrow> memory \<Rightarrow> ref \<Rightarrow> nat \<Rightarrow> 't list" where
  "elements T h r n = (case array_at T h (fst r) of None \<Rightarrow> [] | Some xs \<Rightarrow> window xs (snd r) n)"

text \<open>\<open>for i := range *in { (*in)[i].DeepCopyInto(&(*out)[i]) }\<close>, from index \<open>i\<close> on, \<open>n\<close> left.\<close>

fun copy_items :: "'t elem \<Rightarrow> ('t \<Rightarrow> (memory, 't) go) \<Rightarrow> ref \<Rightarrow> ref \<Rightarrow> nat \<Rightarrow> nat \<Rightarrow> (memory, unit) go" where
  "copy_items T into src dst i 0 = go_return ()"
| "copy_items T into src dst i (Suc n) =
     go_bind (load T (fst src, snd src + i)) (\<lambda>v.
     go_bind (into v) (\<lambda>w.
     go_bind (store_at T (fst dst, snd dst + i) w) (\<lambda>_.
     copy_items T into src dst (Suc i) n)))"

text \<open>
  The four statements the generator writes. A pointer field or receiver:
  \<open>if p != nil { q = new(T); (*p).DeepCopyInto(q) }\<close>; with \<open>into = go_return\<close> it is
  \<open>*q = *p\<close>. A slice: \<open>if s != nil { t = make([]T, len(s)); \<dots> }\<close>, followed by the loop or by
  \<open>copy(t, s)\<close>, which assigns the elements one after the other.
\<close>

definition copy_pointer :: "'t elem \<Rightarrow> ('t \<Rightarrow> (memory, 't) go) \<Rightarrow> pointer \<Rightarrow> (memory, pointer) go" where
  "copy_pointer T into p = (case p of
       None \<Rightarrow> go_return None
     | Some r \<Rightarrow>
         go_bind (make_block T 1) (\<lambda>a.
         go_bind (load T r) (\<lambda>v.
         go_bind (into v) (\<lambda>w.
         go_bind (store_at T (a, 0) w) (\<lambda>_.
         go_return (Some (a, 0)))))))"

definition copy_slice :: "'t elem \<Rightarrow> ('t \<Rightarrow> (memory, 't) go) \<Rightarrow> slice_header \<Rightarrow> (memory, slice_header) go" where
  "copy_slice T into s = (case s of
       None \<Rightarrow> go_return None
     | Some (r, n) \<Rightarrow>
         go_bind (make_block T n) (\<lambda>a.
         go_bind (copy_items T into r (a, 0) 0 n) (\<lambda>_.
         go_return (Some ((a, 0), n)))))"


lemma wp_make_block [go_wp]:
  "wp (make_block T n) Q h = Q (Ret (limit h))
     (h\<lparr>blocks := (blocks h)(limit h \<mapsto> into_block T (replicate n (zero_elem T))),
        limit := Suc (limit h)\<rparr>)"
  by (simp add: wp_def make_block_def)

lemma wp_load:
  "array_at T h a = Some xs \<Longrightarrow> i < length xs \<Longrightarrow> wp (load T (a, i)) Q h = Q (Ret (xs ! i)) h"
  by (simp add: wp_def load_def)

lemma wp_store_at:
  "array_at T h a = Some xs \<Longrightarrow> i < length xs \<Longrightarrow>
     wp (store_at T (a, i) v) Q h =
       Q (Ret ()) (h\<lparr>blocks := (blocks h)(a \<mapsto> into_block T (xs[i := v]))\<rparr>)"
  by (simp add: wp_def store_at_def)

lemma array_at_dom: "array_at T h a = Some xs \<Longrightarrow> a \<in> dom (blocks h)"
  by (auto simp: array_at_def split: option.splits)

lemma array_at_cong: "blocks h' a = blocks h a \<Longrightarrow> array_at T h' a = array_at T h a"
  by (simp add: array_at_def)

subsection \<open>Memories that grow\<close>

definition wf_memory :: "memory \<Rightarrow> bool" where
  "wf_memory h = (\<forall>a \<in> dom (blocks h). a < limit h)"

definition agree :: "memory \<Rightarrow> memory \<Rightarrow> addr set \<Rightarrow> bool" where
  "agree h h' A = (\<forall>a \<in> A. blocks h' a = blocks h a)"

text \<open>\<open>h'\<close> has all blocks of \<open>h\<close>, unchanged.\<close>

definition grows :: "memory \<Rightarrow> memory \<Rightarrow> bool" where
  "grows h h' = (wf_memory h' \<and> agree h h' (dom (blocks h)))"

lemma agree_subset: "agree h h' A \<Longrightarrow> B \<subseteq> A \<Longrightarrow> agree h h' B"
  by (auto simp: agree_def)

lemma grows_refl: "wf_memory h \<Longrightarrow> grows h h"
  by (simp add: grows_def agree_def)

lemma grows_dom: "grows h h' \<Longrightarrow> dom (blocks h) \<subseteq> dom (blocks h')"
  by (auto simp: grows_def agree_def) (metis domI)

lemma grows_trans: "grows h1 h2 \<Longrightarrow> grows h2 h3 \<Longrightarrow> grows h1 h3"
  by (auto simp: grows_def agree_def) (metis domI)

lemma grows_wf: "grows h h' \<Longrightarrow> wf_memory h'"
  by (simp add: grows_def)

lemma grows_array: "grows h h' \<Longrightarrow> array_at T h a = Some xs \<Longrightarrow> array_at T h' a = Some xs"
  using array_at_dom[of T h a xs] by (metis array_at_cong agree_def grows_def)

lemma fresh_limit: "wf_memory h \<Longrightarrow> limit h \<notin> dom (blocks h)"
  by (auto simp: wf_memory_def)

lemma grows_make:
  assumes "wf_memory h"
  shows "grows h (h\<lparr>blocks := (blocks h)(limit h \<mapsto> b), limit := Suc (limit h)\<rparr>)"
  using assms fresh_limit[OF assms]
  by (auto simp: grows_def agree_def wf_memory_def less_Suc_eq)

lemma grows_store:
  assumes "grows h h'" and "a \<in> dom (blocks h')" and "a \<notin> dom (blocks h)"
  shows "grows h (h'\<lparr>blocks := (blocks h')(a \<mapsto> b)\<rparr>)"
  using assms by (auto simp: grows_def agree_def wf_memory_def)

subsection \<open>What a value shows and what it reaches\<close>

text \<open>
  A shape says how to read a value of a type in a memory: the value as a tree without
  addresses, whether all pointers in it lead to blocks of the right type, the addresses of
  the blocks it reaches.
\<close>

record ('t, 'v) shape =
  view :: "memory \<Rightarrow> 't \<Rightarrow> 'v"
  fits :: "memory \<Rightarrow> 't \<Rightarrow> bool"
  reach :: "memory \<Rightarrow> 't \<Rightarrow> addr set"

text \<open>\<open>y\<close> in memory \<open>h\<close> is a deep copy of \<open>x\<close> in \<open>h0\<close>: same tree, well typed, nothing shared.\<close>

definition copied :: "('t, 'v) shape \<Rightarrow> memory \<Rightarrow> 't \<Rightarrow> memory \<Rightarrow> 't \<Rightarrow> bool" where
  "copied S h0 x h y \<longleftrightarrow> fits S h y \<and> view S h y = view S h0 x \<and> reach S h y \<inter> dom (blocks h0) = {}"

text \<open>The call returns, keeps every block of the memory it starts in, and its result satisfies \<open>P\<close>.\<close>

definition builds :: "memory \<Rightarrow> (memory, 'a) go \<Rightarrow> (memory \<Rightarrow> 'a \<Rightarrow> bool) \<Rightarrow> bool" where
  "builds h m P = wp m (\<lambda>r h'. \<exists>y. r = Ret y \<and> grows h h' \<and> P h' y) h"

lemma builds_return: "wf_memory h \<Longrightarrow> P h y \<Longrightarrow> builds h (go_return y) P"
  by (simp add: builds_def wp_return grows_refl)

definition value_shape :: "('t, 't) shape" where
  "value_shape = \<lparr>view = (\<lambda>h x. x), fits = (\<lambda>h x. True), reach = (\<lambda>h x. {})\<rparr>"

definition value_at :: "'t elem \<Rightarrow> memory \<Rightarrow> ref \<Rightarrow> 't" where
  "value_at T h r = (case array_at T h (fst r) of None \<Rightarrow> zero_elem T | Some xs \<Rightarrow> xs ! snd r)"

definition pointer_shape :: "'t elem \<Rightarrow> ('t, 'v) shape \<Rightarrow> (pointer, 'v option) shape" where
  "pointer_shape T S = \<lparr>
     view = (\<lambda>h p. map_option (\<lambda>r. view S h (value_at T h r)) p),
     fits = (\<lambda>h p. case p of None \<Rightarrow> True
       | Some r \<Rightarrow> (case array_at T h (fst r) of None \<Rightarrow> False | Some xs \<Rightarrow> snd r < length xs) \<and>
           fits S h (value_at T h r)),
     reach = (\<lambda>h p. case p of None \<Rightarrow> {} | Some r \<Rightarrow> insert (fst r) (reach S h (value_at T h r)))\<rparr>"

definition slice_shape :: "'t elem \<Rightarrow> ('t, 'v) shape \<Rightarrow> (slice_header, 'v slice) shape" where
  "slice_shape T S = \<lparr>
     view = (\<lambda>h s. map_option (\<lambda>(r, n). map (view S h) (elements T h r n)) s),
     fits = (\<lambda>h s. case s of None \<Rightarrow> True
       | Some (r, n) \<Rightarrow> (case array_at T h (fst r) of None \<Rightarrow> False | Some xs \<Rightarrow> snd r + n \<le> length xs) \<and>
           (\<forall>v \<in> set (elements T h r n). fits S h v)),
     reach = (\<lambda>h s. case s of None \<Rightarrow> {}
       | Some (r, n) \<Rightarrow> insert (fst r) (\<Union>v \<in> set (elements T h r n). reach S h v))\<rparr>"

locale elem_law =
  fixes T :: "'t elem"
  assumes of_into: "of_block T (into_block T xs) = Some xs"
begin

lemma array_at_store:
  "array_at T (h\<lparr>blocks := (blocks h)(a \<mapsto> into_block T xs)\<rparr>) b =
     (if b = a then Some xs else array_at T h b)"
  by (simp add: array_at_def of_into)

lemma array_at_make:
  "array_at T (h\<lparr>blocks := (blocks h)(a \<mapsto> into_block T xs), limit := l\<rparr>) b =
     (if b = a then Some xs else array_at T h b)"
  by (simp add: array_at_def of_into)

end

text \<open>Reading a value depends on the blocks it reaches only, and these exist.\<close>

locale shape_law =
  fixes S :: "('t, 'v) shape"
  assumes frame: "fits S h x \<Longrightarrow> agree h h' (reach S h x) \<Longrightarrow>
      fits S h' x \<and> view S h' x = view S h x \<and> reach S h' x = reach S h x"
    and allocated: "fits S h x \<Longrightarrow> reach S h x \<subseteq> dom (blocks h)"
begin

lemma old_value:
  assumes "grows h h'" and "fits S h x"
  shows "fits S h' x" and "view S h' x = view S h x" and "reach S h' x = reach S h x"
  using frame[OF assms(2)] agree_subset[OF _ allocated[OF assms(2)]] assms(1)
  by (auto simp: grows_def)

lemma copied_mono:
  assumes "copied S h0 x h y" and "grows h h'"
  shows "copied S h0 x h' y"
  using assms old_value[OF assms(2)] by (simp add: copied_def)

lemma copied_store:
  assumes "copied S h0 x h y" and "a \<notin> reach S h y"
  shows "copied S h0 x (h\<lparr>blocks := (blocks h)(a \<mapsto> b)\<rparr>) y"
    and "reach S (h\<lparr>blocks := (blocks h)(a \<mapsto> b)\<rparr>) y = reach S h y"
  using frame[of h y "h\<lparr>blocks := (blocks h)(a \<mapsto> b)\<rparr>"] assms
  by (auto simp: copied_def agree_def)

text \<open>What deep copies are for: a later change of either side does not show in the other.\<close>

lemma isolated:
  assumes "grows h0 h" and "fits S h0 x" and "copied S h0 x h y"
  shows "agree h h' (- reach S h y) \<Longrightarrow> view S h' x = view S h0 x"
    and "agree h h' (- reach S h x) \<Longrightarrow> view S h' y = view S h0 x"
proof -
  note old = old_value[OF assms(1,2)]
  have apart: "reach S h y \<inter> reach S h x = {}"
    using assms(3) allocated[OF assms(2)] old(3) by (auto simp: copied_def)
  show "view S h' x = view S h0 x" if "agree h h' (- reach S h y)"
    using frame[OF old(1), of h'] agree_subset[OF that, of "reach S h x"] apart old(2) by auto
  show "view S h' y = view S h0 x" if "agree h h' (- reach S h x)"
    using frame[of h y h'] agree_subset[OF that, of "reach S h y"] apart assms(3)
    by (auto simp: copied_def)
qed

end

text \<open>The contract of a \<open>DeepCopyInto\<close>.\<close>

locale copyable = shape_law S for S :: "('t, 'v) shape" +
  fixes into :: "'t \<Rightarrow> (memory, 't) go"
  assumes copies: "wf_memory h \<Longrightarrow> fits S h x \<Longrightarrow> builds h (into x) (copied S h x)"
begin

lemma step:
  assumes "grows h0 h" and "fits S h0 x"
    and "\<And>y h'. grows h h' \<Longrightarrow> grows h0 h' \<Longrightarrow> copied S h0 x h' y \<Longrightarrow>
        reach S h' y \<inter> dom (blocks h) = {} \<Longrightarrow> wp (f y) Q h'"
  shows "wp (go_bind (into x) f) Q h"
proof -
  note old = old_value[OF assms(1,2)]
  have sub: "dom (blocks h0) \<subseteq> dom (blocks h)"
    by (rule grows_dom[OF assms(1)])
  show ?thesis
    unfolding wp_bind
  proof (rule wp_mono[OF copies[OF grows_wf[OF assms(1)] old(1), unfolded builds_def]], elim exE conjE)
    fix r h' y
    assume r: "r = Ret y" and g: "grows h h'" and c: "copied S h x h' y"
    have "copied S h0 x h' y" and "reach S h' y \<inter> dom (blocks h) = {}"
      using c old(2) sub by (auto simp: copied_def)
    then have "wp (f y) Q h'"
      using assms(3)[OF g grows_trans[OF assms(1) g]] by simp
    then show "case r of Ret x \<Rightarrow> wp (f x) Q h' | Panic \<Rightarrow> Q Panic h'"
      by (simp add: r)
  qed
qed

text \<open>One field of a struct: what follows may use that the copy is still one when all is done.\<close>

lemma builds_bind:
  assumes "grows h0 h" and "fits S h0 x"
    and "\<And>y h'. grows h0 h' \<Longrightarrow> builds h' (f y) (\<lambda>h'' z. copied S h0 x h'' y \<longrightarrow> P h'' z)"
  shows "builds h (go_bind (into x) f) P"
  unfolding builds_def
proof (rule step[OF assms(1,2)])
  fix y h'
  assume g: "grows h h'" "grows h0 h'" and c: "copied S h0 x h' y"
  show "wp (f y) (\<lambda>r h'. \<exists>y. r = Ret y \<and> grows h h' \<and> P h' y) h'"
    by (rule wp_mono[OF assms(3)[OF g(2), unfolded builds_def]])
      (use grows_trans[OF g(1)] copied_mono[OF c] in blast)
qed

end

subsection \<open>Copying behind a pointer and along a slice\<close>

locale copyable_elem = elem_law T + copyable S into
  for T :: "'t elem" and S :: "('t, 'v) shape" and into :: "'t \<Rightarrow> (memory, 't) go"
begin

lemma pointer_fits:
  "fits (pointer_shape T S) h (Some (a, i)) \<longleftrightarrow>
     (\<exists>xs. array_at T h a = Some xs \<and> i < length xs \<and> fits S h (xs ! i))"
  by (auto simp: pointer_shape_def value_at_def split: option.splits)

lemma pointer_view:
  "array_at T h a = Some xs \<Longrightarrow> view (pointer_shape T S) h (Some (a, i)) = Some (view S h (xs ! i))"
  "array_at T h a = Some xs \<Longrightarrow> reach (pointer_shape T S) h (Some (a, i)) = insert a (reach S h (xs ! i))"
  by (simp_all add: pointer_shape_def value_at_def)

lemma pointer_nil:
  "fits (pointer_shape T S) h None" "view (pointer_shape T S) h None = None"
  "reach (pointer_shape T S) h None = {}"
  by (simp_all add: pointer_shape_def)

lemma pointer_shape_law: "shape_law (pointer_shape T S)"
proof
  fix h h' :: memory and p
  assume f: "fits (pointer_shape T S) h p" and a: "agree h h' (reach (pointer_shape T S) h p)"
  show "fits (pointer_shape T S) h' p \<and> view (pointer_shape T S) h' p = view (pointer_shape T S) h p \<and>
      reach (pointer_shape T S) h' p = reach (pointer_shape T S) h p"
  proof (cases p)
    case (Some r)
    obtain b i where r: "r = (b, i)" by (cases r)
    obtain xs where xs: "array_at T h b = Some xs" "i < length xs" "fits S h (xs ! i)"
      using f by (auto simp: Some r pointer_fits)
    have a': "agree h h' (insert b (reach S h (xs ! i)))"
      using a by (simp add: Some r pointer_view[OF xs(1)])
    then have xs': "array_at T h' b = Some xs"
      using xs(1) array_at_cong[of h' b h T] by (simp add: agree_def)
    show ?thesis
      using frame[OF xs(3), of h'] agree_subset[OF a', of "reach S h (xs ! i)"] xs xs'
      by (auto simp: Some r pointer_fits pointer_view[OF xs(1)] pointer_view[OF xs'])
  qed (simp add: pointer_nil)
next
  fix h p assume f: "fits (pointer_shape T S) h p"
  show "reach (pointer_shape T S) h p \<subseteq> dom (blocks h)"
  proof (cases p)
    case (Some r)
    obtain b i where r: "r = (b, i)" by (cases r)
    obtain xs where xs: "array_at T h b = Some xs" "i < length xs" "fits S h (xs ! i)"
      using f by (auto simp: Some r pointer_fits)
    then show ?thesis
      using allocated[OF xs(3)] array_at_dom[OF xs(1)] by (simp add: Some r pointer_view[OF xs(1)])
  qed (simp add: pointer_nil)
qed

lemma copy_pointer_copies:
  assumes wf: "wf_memory h" and f: "fits (pointer_shape T S) h p"
  shows "wp (copy_pointer T into p) (\<lambda>r h'. \<exists>q. r = Ret q \<and> grows h h' \<and>
    copied (pointer_shape T S) h p h' q) h"
proof (cases p)
  case None
  then show ?thesis
    by (simp add: copy_pointer_def wp_return grows_refl[OF wf] copied_def pointer_nil)
next
  case (Some r)
  obtain b i where r: "r = (b, i)" by (cases r)
  obtain xs where xs: "array_at T h b = Some xs" "i < length xs" "fits S h (xs ! i)"
    using f by (auto simp: Some r pointer_fits)
  let ?a = "limit h"
  let ?h1 = "h\<lparr>blocks := (blocks h)(?a \<mapsto> into_block T [zero_elem T]), limit := Suc ?a\<rparr>"
  have fresh: "?a \<notin> dom (blocks h)" by (rule fresh_limit[OF wf])
  have g1: "grows h ?h1" by (rule grows_make[OF wf])
  have tail: "wp (go_bind (store_at T (?a, 0) w) (\<lambda>_. go_return (Some (?a, 0))))
      (\<lambda>r h'. \<exists>q. r = Ret q \<and> grows h h' \<and> copied (pointer_shape T S) h p h' q) h2"
    if g: "grows ?h1 h2" "grows h h2" and c: "copied S h (xs ! i) h2 w"
      "reach S h2 w \<inter> dom (blocks ?h1) = {}" for w h2
  proof -
    have arr: "array_at T h2 ?a = Some [zero_elem T]"
      by (rule grows_array[OF g(1)]) (simp add: array_at_make)
    let ?h3 = "h2\<lparr>blocks := (blocks h2)(?a \<mapsto> into_block T [w])\<rparr>"
    have arr3: "array_at T ?h3 ?a = Some [w]" by (simp add: array_at_store)
    have "?a \<notin> reach S h2 w" using c(2) by auto
    note c3 = copied_store[OF c(1) this, of "into_block T [w]"]
    have "copied (pointer_shape T S) h p ?h3 (Some (?a, 0))"
      using c3 fresh c(1)
      by (simp add: copied_def pointer_fits pointer_view[OF arr3] Some r arr3 pointer_view[OF xs(1)])
    then show ?thesis
      using grows_store[OF g(2) array_at_dom[OF arr] fresh, of "into_block T [w]"]
      by (simp add: wp_bind wp_store_at[OF arr] wp_return)
  qed
  show ?thesis
    unfolding copy_pointer_def Some r option.case wp_bind[of "make_block T 1"] wp_make_block
    using step[OF g1 xs(3), where Q = "\<lambda>r h'. \<exists>q. r = Ret q \<and> grows h h' \<and>
        copied (pointer_shape T S) h p h' q", OF tail]
      wp_load[OF grows_array[OF g1 xs(1)] xs(2)]
    by (simp add: wp_bind[of "load T (b, i)"] Some r)
qed

lemma pointer_copyable: "copyable (pointer_shape T S) (copy_pointer T into)"
  unfolding copyable_def copyable_axioms_def builds_def
  using pointer_shape_law copy_pointer_copies by blast

lemma slice_fits:
  "fits (slice_shape T S) h (Some ((a, i), n)) \<longleftrightarrow>
     (\<exists>xs. array_at T h a = Some xs \<and> i + n \<le> length xs \<and> (\<forall>v \<in> set (window xs i n). fits S h v))"
  by (auto simp: slice_shape_def elements_def split: option.splits)

lemma slice_view:
  "array_at T h a = Some xs \<Longrightarrow>
     view (slice_shape T S) h (Some ((a, i), n)) = Some (map (view S h) (window xs i n))"
  "array_at T h a = Some xs \<Longrightarrow>
     reach (slice_shape T S) h (Some ((a, i), n)) = insert a (\<Union>v \<in> set (window xs i n). reach S h v)"
  by (simp_all add: slice_shape_def elements_def)

lemma slice_nil:
  "fits (slice_shape T S) h None" "view (slice_shape T S) h None = None"
  "reach (slice_shape T S) h None = {}"
  by (simp_all add: slice_shape_def)

lemma slice_shape_law: "shape_law (slice_shape T S)"
proof
  fix h h' :: memory and s
  assume f: "fits (slice_shape T S) h s" and a: "agree h h' (reach (slice_shape T S) h s)"
  show "fits (slice_shape T S) h' s \<and> view (slice_shape T S) h' s = view (slice_shape T S) h s \<and>
      reach (slice_shape T S) h' s = reach (slice_shape T S) h s"
  proof (cases s)
    case (Some r)
    obtain b i n where r: "r = ((b, i), n)" by (cases r) auto
    obtain xs where xs: "array_at T h b = Some xs" "i + n \<le> length xs"
      "\<forall>v \<in> set (window xs i n). fits S h v"
      using f by (auto simp: Some r slice_fits)
    have a': "agree h h' (insert b (\<Union>v \<in> set (window xs i n). reach S h v))"
      using a by (simp add: Some r slice_view[OF xs(1)])
    then have xs': "array_at T h' b = Some xs"
      using xs(1) array_at_cong[of h' b h T] by (simp add: agree_def)
    have "fits S h' v \<and> view S h' v = view S h v \<and> reach S h' v = reach S h v"
      if "v \<in> set (window xs i n)" for v
      using frame[of h v h'] xs(3) agree_subset[OF a', of "reach S h v"] that by auto
    then show ?thesis
      using xs xs' by (auto simp: Some r slice_fits slice_view[OF xs(1)] slice_view[OF xs'])
  qed (simp add: slice_nil)
next
  fix h s assume f: "fits (slice_shape T S) h s"
  show "reach (slice_shape T S) h s \<subseteq> dom (blocks h)"
  proof (cases s)
    case (Some r)
    obtain b i n where r: "r = ((b, i), n)" by (cases r) auto
    obtain xs where xs: "array_at T h b = Some xs" "\<forall>v \<in> set (window xs i n). fits S h v"
      using f by (auto simp: Some r slice_fits)
    then have "(\<Union>v \<in> set (window xs i n). reach S h v) \<subseteq> dom (blocks h)"
      using allocated by blast
    then show ?thesis
      using array_at_dom[OF xs(1)] by (simp add: Some r slice_view[OF xs(1)])
  qed (simp add: slice_nil)
qed

text \<open>The loop: the first \<open>i\<close> elements of the new array are copies, and none reaches the array.\<close>

definition copied_upto :: "memory \<Rightarrow> 't list \<Rightarrow> memory \<Rightarrow> addr \<Rightarrow> nat \<Rightarrow> 't list \<Rightarrow> bool" where
  "copied_upto h0 vs h a i ys \<longleftrightarrow> array_at T h a = Some ys \<and> length ys = length vs \<and>
     (\<forall>j < i. copied S h0 (vs ! j) h (ys ! j) \<and> a \<notin> reach S h (ys ! j))"

lemma copied_upto_next:
  assumes "copied_upto h0 vs h a i ys" and "i < length vs" and "grows h h'"
    and "copied S h0 (vs ! i) h' w" and "reach S h' w \<inter> dom (blocks h) = {}"
  shows "copied_upto h0 vs (h'\<lparr>blocks := (blocks h')(a \<mapsto> into_block T (ys[i := w]))\<rparr>) a (Suc i) (ys[i := w])"
    (is "copied_upto h0 vs ?h a (Suc i) (ys[i := w])")
proof -
  have a: "a \<in> dom (blocks h)"
    using assms(1) array_at_dom[of T h a ys] by (simp add: copied_upto_def)
  have "copied S h0 (vs ! j) h' (ys[i := w] ! j) \<and> a \<notin> reach S h' (ys[i := w] ! j)" if "j < Suc i" for j
  proof (cases "j = i")
    case True
    then show ?thesis using assms a by (auto simp: copied_upto_def)
  next
    case False
    then have j: "copied S h0 (vs ! j) h (ys ! j)" "a \<notin> reach S h (ys ! j)"
      using assms(1) that by (auto simp: copied_upto_def)
    then have "reach S h' (ys ! j) = reach S h (ys ! j)"
      using old_value(3)[OF assms(3)] by (simp add: copied_def)
    then show ?thesis using False copied_mono[OF j(1) assms(3)] j(2) by simp
  qed
  then have "copied S h0 (vs ! j) ?h (ys[i := w] ! j) \<and> a \<notin> reach S ?h (ys[i := w] ! j)"
    if "j < Suc i" for j
    using copied_store[of h0 "vs ! j" h' "ys[i := w] ! j" a] that by simp
  then show ?thesis
    using assms(1) by (simp add: copied_upto_def array_at_store)
qed

lemma copy_items_copies:
  assumes src: "array_at T h0 b = Some xs" "off + length vs \<le> length xs"
      "window xs off (length vs) = vs" "\<forall>v \<in> set vs. fits S h0 v" and a: "a \<notin> dom (blocks h0)"
    and "grows h0 h" and "copied_upto h0 vs h a i ys" and "i + n = length vs"
  shows "wp (copy_items T into (b, off) (a, 0) i n)
    (\<lambda>r h'. \<exists>ys'. r = Ret () \<and> grows h0 h' \<and> copied_upto h0 vs h' a (length vs) ys') h"
  using assms(6-)
proof (induction n arbitrary: i h ys)
  case 0
  then show ?case by (auto simp: wp_return)
next
  case (Suc n)
  let ?Q = "\<lambda>r h'. \<exists>ys'. r = Ret () \<and> grows h0 h' \<and> copied_upto h0 vs h' a (length vs) ys'"
  have i: "i < length vs" using Suc.prems(3) by simp
  have v: "xs ! (off + i) = vs ! i"
    using i src(2,3) by (metis add_leD1 nth_drop nth_take window_def)
  have body: "wp (go_bind (store_at T (a, i) w) (\<lambda>_. copy_items T into (b, off) (a, 0) (Suc i) n)) ?Q h'"
    if g: "grows h h'" "grows h0 h'" and c: "copied S h0 (vs ! i) h' w" "reach S h' w \<inter> dom (blocks h) = {}"
    for w h'
  proof -
    have arr: "array_at T h' a = Some ys" and len: "i < length ys"
      using grows_array[OF g(1)] Suc.prems(2) i by (auto simp: copied_upto_def)
    show ?thesis
      using Suc.IH[OF grows_store[OF g(2) array_at_dom[OF arr] a]
          copied_upto_next[OF Suc.prems(2) i g(1) c]] Suc.prems(3)
      by (simp add: wp_bind wp_store_at[OF arr len])
  qed
  have "wp (go_bind (into (vs ! i)) (\<lambda>w. go_bind (store_at T (a, i) w)
      (\<lambda>_. copy_items T into (b, off) (a, 0) (Suc i) n))) ?Q h"
    using src(4) i by (intro step[OF Suc.prems(1)] body) auto
  then show ?case
    using wp_load[OF grows_array[OF Suc.prems(1) src(1)], of "off + i"] src(2) i v
    by (simp add: wp_bind[of "load T (b, off + i)"])
qed

lemma copy_slice_copies:
  assumes wf: "wf_memory h" and f: "fits (slice_shape T S) h s"
  shows "wp (copy_slice T into s) (\<lambda>r h'. \<exists>t. r = Ret t \<and> grows h h' \<and>
    copied (slice_shape T S) h s h' t) h"
proof (cases s)
  case None
  then show ?thesis
    by (simp add: copy_slice_def wp_return grows_refl[OF wf] copied_def slice_nil)
next
  case (Some r)
  obtain b off n where r: "r = ((b, off), n)" by (cases r) auto
  obtain xs where xs: "array_at T h b = Some xs" "off + n \<le> length xs"
    "\<forall>v \<in> set (window xs off n). fits S h v"
    using f by (auto simp: Some r slice_fits)
  let ?a = "limit h" and ?vs = "window xs off n"
  let ?ys = "replicate n (zero_elem T)"
  let ?h1 = "h\<lparr>blocks := (blocks h)(?a \<mapsto> into_block T ?ys), limit := Suc ?a\<rparr>"
  have n: "length ?vs = n" using xs(2) by (simp add: window_def)
  have fresh: "?a \<notin> dom (blocks h)" by (rule fresh_limit[OF wf])
  have "copied_upto h ?vs ?h1 ?a 0 ?ys"
    using n by (simp add: copied_upto_def array_at_make)
  then have loop: "wp (copy_items T into (b, off) (?a, 0) 0 n) (\<lambda>r h'. \<exists>ys'. r = Ret () \<and> grows h h' \<and>
      copied_upto h ?vs h' ?a n ys') ?h1"
    using copy_items_copies[OF xs(1), of off ?vs ?a ?h1 0 ?ys n] n xs(2,3) fresh grows_make[OF wf] by simp
  have final: "copied (slice_shape T S) h s h' (Some ((?a, 0), n))"
    if c: "copied_upto h ?vs h' ?a n ys" for h' ys
  proof -
    have arr: "array_at T h' ?a = Some ys" and len: "length ys = n"
      and each: "\<forall>j < n. copied S h (?vs ! j) h' (ys ! j)"
      using c n by (auto simp: copied_upto_def)
    have "map (view S h') ys = map (view S h) ?vs"
      using each len n by (auto simp: copied_def intro: nth_equalityI)
    moreover have "\<forall>v \<in> set ys. fits S h' v \<and> reach S h' v \<inter> dom (blocks h) = {}"
      using each len by (simp add: all_set_conv_all_nth copied_def)
    moreover have "window ys 0 n = ys" using len by (simp add: window_def)
    ultimately show ?thesis
      using fresh len
      by (simp add: copied_def slice_fits arr slice_view[OF arr] Some r slice_view[OF xs(1)]) blast
  qed
  show ?thesis
    unfolding copy_slice_def Some r option.case prod.case wp_bind wp_make_block wp_return outcome.case
  proof (rule wp_mono[OF loop], elim exE conjE)
    fix res h' ys
    assume "res = Ret ()" and "grows h h'" and "copied_upto h ?vs h' ?a n ys"
    then show "case res of Ret x \<Rightarrow> \<exists>t. Ret (Some ((?a, 0), n)) = Ret t \<and> grows h h' \<and>
        copied (slice_shape T S) h (Some ((b, off), n)) h' t | Panic \<Rightarrow> \<exists>t. Panic = Ret t \<and> grows h h' \<and>
        copied (slice_shape T S) h (Some ((b, off), n)) h' t"
      using final[of h' ys] by (simp add: Some r)
  qed
qed

lemma slice_copyable: "copyable (slice_shape T S) (copy_slice T into)"
  unfolding copyable_def copyable_axioms_def builds_def
  using slice_shape_law copy_slice_copies by blast

end

end
