(* ===== verification/Deep_Copy.thy ===== *)
theory Deep_Copy
  imports Go_Heap
begin

text \<open>
  \<open>api/v1alpha1/zz_generated.deepcopy.go\<close>: the deep copies of the API types, over the
  memory of \<open>Go_Heap\<close>. A \<open>DeepCopyInto(out)\<close> yields the struct it leaves in \<open>*out\<close> (all callers
  pass a variable that nothing else refers to), a \<open>DeepCopy\<close> allocates that variable.

  For every type: its shape (how the struct is read as the tree of \<open>Api_Types\<close>) and the
  interpretation of \<open>copyable\<close>, by which the code keeps the contract of a deep copy.
\<close>

subsection \<open>Element types\<close>

definition strings :: "string elem" where
  "strings = \<lparr>into_block = Strings, of_block = (\<lambda>b. case b of Strings xs \<Rightarrow> Some xs | _ \<Rightarrow> None),
     zero_elem = []\<rparr>"

definition names :: "string elem" where
  "names = \<lparr>into_block = Names, of_block = (\<lambda>b. case b of Names xs \<Rightarrow> Some xs | _ \<Rightarrow> None),
     zero_elem = []\<rparr>"

definition secret_refs :: "SecretRef elem" where
  "secret_refs = \<lparr>into_block = SecretRefs,
     of_block = (\<lambda>b. case b of SecretRefs xs \<Rightarrow> Some xs | _ \<Rightarrow> None),
     zero_elem = \<lparr>sr_Name = [], sr_Namespace = []\<rparr>\<rparr>"

definition csr_refs :: "CsrRef elem" where
  "csr_refs = \<lparr>into_block = CsrRefs, of_block = (\<lambda>b. case b of CsrRefs xs \<Rightarrow> Some xs | _ \<Rightarrow> None),
     zero_elem = \<lparr>cr_Name = []\<rparr>\<rparr>"

definition cluster_specs :: "ClusterSpec elem" where
  "cluster_specs = \<lparr>into_block = Clusters,
     of_block = (\<lambda>b. case b of Clusters xs \<Rightarrow> Some xs | _ \<Rightarrow> None),
     zero_elem = \<lparr>cl_Name = [], cl_Server = []\<rparr>\<rparr>"

definition role_refs :: "RoleRef elem" where
  "role_refs = \<lparr>into_block = RoleRefs, of_block = (\<lambda>b. case b of RoleRefs xs \<Rightarrow> Some xs | _ \<Rightarrow> None),
     zero_elem = \<lparr>rr_APIGroup = [], rr_Kind = [], rr_Name = []\<rparr>\<rparr>"

definition conditions :: "Condition elem" where
  "conditions = \<lparr>into_block = ConditionArray,
     of_block = (\<lambda>b. case b of ConditionArray xs \<Rightarrow> Some xs | _ \<Rightarrow> None),
     zero_elem = new_condition [] [] 0 [] []\<rparr>"

definition zero_fields_struct :: fields_struct where
  "zero_fields_struct = \<lparr>f_Country = None, f_Province = None, f_Locality = None,
     f_Organization = None, f_OrganizationalUnit = None\<rparr>"

definition field_structs :: "fields_struct elem" where
  "field_structs = \<lparr>into_block = Fields, of_block = (\<lambda>b. case b of Fields xs \<Rightarrow> Some xs | _ \<Rightarrow> None),
     zero_elem = zero_fields_struct\<rparr>"

definition csr_structs :: "csr_struct elem" where
  "csr_structs = \<lparr>into_block = Csrs, of_block = (\<lambda>b. case b of Csrs xs \<Rightarrow> Some xs | _ \<Rightarrow> None),
     zero_elem = \<lparr>q_SignatureAlgorithm = [], q_AdditionalFields = zero_fields_struct\<rparr>\<rparr>"

definition zero_spec_struct :: spec_struct where
  "zero_spec_struct = \<lparr>p_Username = [], p_ExistingCSR = None, p_AutoApproveCSR = False,
     p_CSR = None, p_Cluster = None, p_RoleRef = None\<rparr>"

definition spec_structs :: "spec_struct elem" where
  "spec_structs = \<lparr>into_block = Specs, of_block = (\<lambda>b. case b of Specs xs \<Rightarrow> Some xs | _ \<Rightarrow> None),
     zero_elem = zero_spec_struct\<rparr>"

definition zero_status_struct :: status_struct where
  "zero_status_struct = \<lparr>t_UserSecret = \<lparr>sr_Name = [], sr_Namespace = []\<rparr>, t_Csr = \<lparr>cr_Name = []\<rparr>,
     t_Conditions = None, t_Kubeconfig = [], t_Status = []\<rparr>"

definition status_structs :: "status_struct elem" where
  "status_structs = \<lparr>into_block = Statuses,
     of_block = (\<lambda>b. case b of Statuses xs \<Rightarrow> Some xs | _ \<Rightarrow> None),
     zero_elem = zero_status_struct\<rparr>"

definition kubeconfig_structs :: "kubeconfig_struct elem" where
  "kubeconfig_structs = \<lparr>into_block = Kubeconfigs,
     of_block = (\<lambda>b. case b of Kubeconfigs xs \<Rightarrow> Some xs | _ \<Rightarrow> None),
     zero_elem = \<lparr>k_TypeMeta = \<lparr>tm_Kind = [], tm_APIVersion = []\<rparr>, k_ObjectMeta = zero_meta,
       k_Spec = zero_spec_struct, k_Status = zero_status_struct\<rparr>\<rparr>"

definition list_structs :: "list_struct elem" where
  "list_structs = \<lparr>into_block = Lists, of_block = (\<lambda>b. case b of Lists xs \<Rightarrow> Some xs | _ \<Rightarrow> None),
     zero_elem = \<lparr>l_TypeMeta = \<lparr>tm_Kind = [], tm_APIVersion = []\<rparr>, l_ListMeta = ListMeta [],
       l_Items = None\<rparr>\<rparr>"

definition reference_structs :: "reference_struct elem" where
  "reference_structs = \<lparr>into_block = References,
     of_block = (\<lambda>b. case b of References xs \<Rightarrow> Some xs | _ \<Rightarrow> None),
     zero_elem = \<lparr>o_Group = None, o_Kind = None, o_Name = [], o_Namespace = None\<rparr>\<rparr>"

lemma elem_laws: "elem_law strings" "elem_law names" "elem_law secret_refs" "elem_law csr_refs"
  "elem_law cluster_specs" "elem_law role_refs" "elem_law conditions" "elem_law field_structs"
  "elem_law csr_structs" "elem_law spec_structs" "elem_law status_structs"
  "elem_law kubeconfig_structs" "elem_law list_structs" "elem_law reference_structs"
  by (unfold_locales; simp add: strings_def names_def secret_refs_def csr_refs_def
      cluster_specs_def role_refs_def conditions_def field_structs_def csr_structs_def
      spec_structs_def status_structs_def kubeconfig_structs_def list_structs_def
      reference_structs_def)+

text \<open>
  \<open>DeepCopyInto\<close> of the apimachinery types that are embedded by value. Their structs are
  values here (what they point to is not in the modelled memory), so their copies are
  functions on values.
\<close>

record copy_library =
  ObjectMeta_DeepCopyInto :: "ObjectMeta \<Rightarrow> ObjectMeta"
  ListMeta_DeepCopyInto :: "ListMeta \<Rightarrow> ListMeta"
  Condition_DeepCopyInto :: "Condition \<Rightarrow> Condition"

definition copy_library_law :: "copy_library \<Rightarrow> bool" where
  "copy_library_law L \<longleftrightarrow> (\<forall>m. ObjectMeta_DeepCopyInto L m = m) \<and>
     (\<forall>m. ListMeta_DeepCopyInto L m = m) \<and> (\<forall>c. Condition_DeepCopyInto L c = c)"

subsection \<open>The code\<close>

definition SecretRef_DeepCopyInto :: "SecretRef \<Rightarrow> (memory, SecretRef) go" where
  "SecretRef_DeepCopyInto x = go_return x"

definition SecretRef_DeepCopy :: "pointer \<Rightarrow> (memory, pointer) go" where
  "SecretRef_DeepCopy p = copy_pointer secret_refs SecretRef_DeepCopyInto p"

definition CsrRef_DeepCopyInto :: "CsrRef \<Rightarrow> (memory, CsrRef) go" where
  "CsrRef_DeepCopyInto x = go_return x"

definition CsrRef_DeepCopy :: "pointer \<Rightarrow> (memory, pointer) go" where
  "CsrRef_DeepCopy p = copy_pointer csr_refs CsrRef_DeepCopyInto p"

definition Cluster_DeepCopyInto :: "ClusterSpec \<Rightarrow> (memory, ClusterSpec) go" where
  "Cluster_DeepCopyInto x = go_return x"

definition Cluster_DeepCopy :: "pointer \<Rightarrow> (memory, pointer) go" where
  "Cluster_DeepCopy p = copy_pointer cluster_specs Cluster_DeepCopyInto p"

definition AdditionalFields_DeepCopyInto :: "fields_struct \<Rightarrow> (memory, fields_struct) go" where
  "AdditionalFields_DeepCopyInto x =
     go_bind (copy_slice strings go_return (f_Country x)) (\<lambda>country.
     go_bind (copy_slice strings go_return (f_Province x)) (\<lambda>province.
     go_bind (copy_slice strings go_return (f_Locality x)) (\<lambda>locality.
     go_bind (copy_slice strings go_return (f_Organization x)) (\<lambda>organization.
     go_bind (copy_slice strings go_return (f_OrganizationalUnit x)) (\<lambda>unit.
     go_return (x\<lparr>f_Country := country, f_Province := province, f_Locality := locality,
       f_Organization := organization, f_OrganizationalUnit := unit\<rparr>))))))"

definition AdditionalFields_DeepCopy :: "pointer \<Rightarrow> (memory, pointer) go" where
  "AdditionalFields_DeepCopy p = copy_pointer field_structs AdditionalFields_DeepCopyInto p"

definition CertificateSigningRequest_DeepCopyInto :: "csr_struct \<Rightarrow> (memory, csr_struct) go" where
  "CertificateSigningRequest_DeepCopyInto x =
     go_bind (AdditionalFields_DeepCopyInto (q_AdditionalFields x)) (\<lambda>fields.
     go_return (x\<lparr>q_AdditionalFields := fields\<rparr>))"

definition CertificateSigningRequest_DeepCopy :: "pointer \<Rightarrow> (memory, pointer) go" where
  "CertificateSigningRequest_DeepCopy p =
     copy_pointer csr_structs CertificateSigningRequest_DeepCopyInto p"

definition KubeconfigSpec_DeepCopyInto :: "spec_struct \<Rightarrow> (memory, spec_struct) go" where
  "KubeconfigSpec_DeepCopyInto x =
     go_bind (copy_pointer secret_refs go_return (p_ExistingCSR x)) (\<lambda>existing.
     go_bind (copy_pointer csr_structs CertificateSigningRequest_DeepCopyInto (p_CSR x)) (\<lambda>csr.
     go_bind (copy_pointer cluster_specs go_return (p_Cluster x)) (\<lambda>cluster.
     go_bind (copy_pointer role_refs go_return (p_RoleRef x)) (\<lambda>role.
     go_return (x\<lparr>p_ExistingCSR := existing, p_CSR := csr, p_Cluster := cluster,
       p_RoleRef := role\<rparr>)))))"

definition KubeconfigSpec_DeepCopy :: "pointer \<Rightarrow> (memory, pointer) go" where
  "KubeconfigSpec_DeepCopy p = copy_pointer spec_structs KubeconfigSpec_DeepCopyInto p"

definition KubeconfigStatus_DeepCopyInto ::
  "copy_library \<Rightarrow> status_struct \<Rightarrow> (memory, status_struct) go" where
  "KubeconfigStatus_DeepCopyInto L x =
     go_bind (copy_slice conditions (\<lambda>c. go_return (Condition_DeepCopyInto L c)) (t_Conditions x)) (\<lambda>cs.
     go_return (x\<lparr>t_UserSecret := t_UserSecret x, t_Csr := t_Csr x, t_Conditions := cs\<rparr>))"

definition KubeconfigStatus_DeepCopy :: "copy_library \<Rightarrow> pointer \<Rightarrow> (memory, pointer) go" where
  "KubeconfigStatus_DeepCopy L p = copy_pointer status_structs (KubeconfigStatus_DeepCopyInto L) p"

definition Kubeconfig_DeepCopyInto ::
  "copy_library \<Rightarrow> kubeconfig_struct \<Rightarrow> (memory, kubeconfig_struct) go" where
  "Kubeconfig_DeepCopyInto L x =
     go_bind (KubeconfigSpec_DeepCopyInto (k_Spec x)) (\<lambda>spec.
     go_bind (KubeconfigStatus_DeepCopyInto L (k_Status x)) (\<lambda>status.
     go_return (x\<lparr>k_TypeMeta := k_TypeMeta x,
       k_ObjectMeta := ObjectMeta_DeepCopyInto L (k_ObjectMeta x),
       k_Spec := spec, k_Status := status\<rparr>)))"

definition Kubeconfig_DeepCopy :: "copy_library \<Rightarrow> pointer \<Rightarrow> (memory, pointer) go" where
  "Kubeconfig_DeepCopy L p = copy_pointer kubeconfig_structs (Kubeconfig_DeepCopyInto L) p"

definition KubeconfigList_DeepCopyInto ::
  "copy_library \<Rightarrow> list_struct \<Rightarrow> (memory, list_struct) go" where
  "KubeconfigList_DeepCopyInto L x =
     go_bind (copy_slice kubeconfig_structs (Kubeconfig_DeepCopyInto L) (l_Items x)) (\<lambda>items.
     go_return (x\<lparr>l_TypeMeta := l_TypeMeta x,
       l_ListMeta := ListMeta_DeepCopyInto L (l_ListMeta x), l_Items := items\<rparr>))"

definition KubeconfigList_DeepCopy :: "copy_library \<Rightarrow> pointer \<Rightarrow> (memory, pointer) go" where
  "KubeconfigList_DeepCopy L p = copy_pointer list_structs (KubeconfigList_DeepCopyInto L) p"

definition SecretObjectReference_DeepCopyInto ::
  "reference_struct \<Rightarrow> (memory, reference_struct) go" where
  "SecretObjectReference_DeepCopyInto x =
     go_bind (copy_pointer names go_return (o_Group x)) (\<lambda>group.
     go_bind (copy_pointer names go_return (o_Kind x)) (\<lambda>kind.
     go_bind (copy_pointer names go_return (o_Namespace x)) (\<lambda>namespace.
     go_return (x\<lparr>o_Group := group, o_Kind := kind, o_Namespace := namespace\<rparr>))))"

definition SecretObjectReference_DeepCopy :: "pointer \<Rightarrow> (memory, pointer) go" where
  "SecretObjectReference_DeepCopy p =
     copy_pointer reference_structs SecretObjectReference_DeepCopyInto p"

text \<open>
  A \<open>runtime.Object\<close> is nil (\<open>None\<close>) or holds a pointer with its dynamic type; an interface
  that holds a nil pointer is not nil, which is what the test in \<open>DeepCopyObject\<close> avoids.
\<close>

datatype runtime_object = KubeconfigObject pointer | KubeconfigListObject pointer

definition Kubeconfig_DeepCopyObject ::
  "copy_library \<Rightarrow> pointer \<Rightarrow> (memory, runtime_object option) go" where
  "Kubeconfig_DeepCopyObject L p =
     go_bind (Kubeconfig_DeepCopy L p) (\<lambda>c.
     if c \<noteq> None then go_return (Some (KubeconfigObject c)) else go_return None)"

definition KubeconfigList_DeepCopyObject ::
  "copy_library \<Rightarrow> pointer \<Rightarrow> (memory, runtime_object option) go" where
  "KubeconfigList_DeepCopyObject L p =
     go_bind (KubeconfigList_DeepCopy L p) (\<lambda>c.
     if c \<noteq> None then go_return (Some (KubeconfigListObject c)) else go_return None)"

subsection \<open>The shapes of the types\<close>

definition fields_shape ::
  "(fields_struct, CertificateSigningRequestAdditionalFields) shape" where
  "fields_shape = (let S = slice_shape strings value_shape in \<lparr>
     view = (\<lambda>h x. \<lparr>Country = view S h (f_Country x), Province = view S h (f_Province x),
       Locality = view S h (f_Locality x), Organization = view S h (f_Organization x),
       OrganizationalUnit = view S h (f_OrganizationalUnit x)\<rparr>),
     fits = (\<lambda>h x. fits S h (f_Country x) \<and> fits S h (f_Province x) \<and> fits S h (f_Locality x) \<and>
       fits S h (f_Organization x) \<and> fits S h (f_OrganizationalUnit x)),
     reach = (\<lambda>h x. reach S h (f_Country x) \<union> reach S h (f_Province x) \<union>
       reach S h (f_Locality x) \<union> reach S h (f_Organization x) \<union>
       reach S h (f_OrganizationalUnit x))\<rparr>)"

definition csr_shape :: "(csr_struct, CertificateSigningRequestSpec) shape" where
  "csr_shape = \<lparr>
     view = (\<lambda>h x. \<lparr>SignatureAlg = q_SignatureAlgorithm x,
       AdditionalFields = view fields_shape h (q_AdditionalFields x)\<rparr>),
     fits = (\<lambda>h x. fits fields_shape h (q_AdditionalFields x)),
     reach = (\<lambda>h x. reach fields_shape h (q_AdditionalFields x))\<rparr>"

definition spec_shape :: "(spec_struct, KubeconfigSpec) shape" where
  "spec_shape = (let E = pointer_shape secret_refs value_shape; Q = pointer_shape csr_structs csr_shape;
       C = pointer_shape cluster_specs value_shape; R = pointer_shape role_refs value_shape in \<lparr>
     view = (\<lambda>h x. \<lparr>Username = p_Username x, ExistingCSR = view E h (p_ExistingCSR x),
       AutoApproveCSR = p_AutoApproveCSR x, SpecCSR = view Q h (p_CSR x),
       SpecCluster = view C h (p_Cluster x), SpecRoleRef = view R h (p_RoleRef x)\<rparr>),
     fits = (\<lambda>h x. fits E h (p_ExistingCSR x) \<and> fits Q h (p_CSR x) \<and> fits C h (p_Cluster x) \<and>
       fits R h (p_RoleRef x)),
     reach = (\<lambda>h x. reach E h (p_ExistingCSR x) \<union> reach Q h (p_CSR x) \<union> reach C h (p_Cluster x) \<union>
       reach R h (p_RoleRef x))\<rparr>)"

text \<open>The status of \<open>Api_Types\<close> does not tell a nil slice of conditions from an empty one; the view does.\<close>

definition status_shape :: "(status_struct, KubeconfigStatus \<times> Condition slice) shape" where
  "status_shape = (let S = slice_shape conditions value_shape in \<lparr>
     view = (\<lambda>h x. (\<lparr>UserSecret = t_UserSecret x, StatusCsr = t_Csr x,
         Conditions = (case view S h (t_Conditions x) of None \<Rightarrow> [] | Some cs \<Rightarrow> cs),
         StatusKubeconfig = t_Kubeconfig x, Phase = t_Status x\<rparr>, view S h (t_Conditions x))),
     fits = (\<lambda>h x. fits S h (t_Conditions x)),
     reach = (\<lambda>h x. reach S h (t_Conditions x))\<rparr>)"

definition kubeconfig_shape ::
  "(kubeconfig_struct, TypeMeta \<times> Kubeconfig \<times> Condition slice) shape" where
  "kubeconfig_shape = \<lparr>
     view = (\<lambda>h x. (k_TypeMeta x, \<lparr>KMeta = k_ObjectMeta x, Spec = view spec_shape h (k_Spec x),
       Status = fst (view status_shape h (k_Status x))\<rparr>, snd (view status_shape h (k_Status x)))),
     fits = (\<lambda>h x. fits spec_shape h (k_Spec x) \<and> fits status_shape h (k_Status x)),
     reach = (\<lambda>h x. reach spec_shape h (k_Spec x) \<union> reach status_shape h (k_Status x))\<rparr>"

definition list_shape ::
  "(list_struct, TypeMeta \<times> ListMeta \<times> (TypeMeta \<times> Kubeconfig \<times> Condition slice) slice) shape" where
  "list_shape = (let S = slice_shape kubeconfig_structs kubeconfig_shape in \<lparr>
     view = (\<lambda>h x. (l_TypeMeta x, l_ListMeta x, view S h (l_Items x))),
     fits = (\<lambda>h x. fits S h (l_Items x)),
     reach = (\<lambda>h x. reach S h (l_Items x))\<rparr>)"

definition reference_shape ::
  "(reference_struct, string option \<times> string option \<times> string \<times> string option) shape" where
  "reference_shape = (let S = pointer_shape names value_shape in \<lparr>
     view = (\<lambda>h x. (view S h (o_Group x), view S h (o_Kind x), o_Name x, view S h (o_Namespace x))),
     fits = (\<lambda>h x. fits S h (o_Group x) \<and> fits S h (o_Kind x) \<and> fits S h (o_Namespace x)),
     reach = (\<lambda>h x. reach S h (o_Group x) \<union> reach S h (o_Kind x) \<union> reach S h (o_Namespace x))\<rparr>)"

subsection \<open>Every type keeps the contract\<close>

lemma agree_Un [simp]: "agree h h' (A \<union> B) \<longleftrightarrow> agree h h' A \<and> agree h h' B"
  by (auto simp: agree_def)

lemma value_copyable: "copyable value_shape go_return"
  by unfold_locales (auto simp: value_shape_def copied_def intro!: builds_return)

lemma condition_copyable:
  "copy_library_law L \<Longrightarrow> copyable value_shape (\<lambda>c. go_return (Condition_DeepCopyInto L c))"
  using value_copyable by (simp add: copy_library_law_def)

lemmas copyable_elems = elem_laws[THEN copyable_elem.intro]
lemmas slice_copyables = copyable_elems[THEN copyable_elem.slice_copyable]
lemmas pointer_copyables = copyable_elems[THEN copyable_elem.pointer_copyable]

interpretation strs: copyable "slice_shape strings value_shape" "copy_slice strings go_return"
  by (rule slice_copyables value_copyable)+

text \<open>A struct is copied when its fields are.\<close>

lemma copied_fieldsI:
  assumes "copied (slice_shape strings value_shape) h (f_Country x) h' (f_Country y)"
    and "copied (slice_shape strings value_shape) h (f_Province x) h' (f_Province y)"
    and "copied (slice_shape strings value_shape) h (f_Locality x) h' (f_Locality y)"
    and "copied (slice_shape strings value_shape) h (f_Organization x) h' (f_Organization y)"
    and "copied (slice_shape strings value_shape) h (f_OrganizationalUnit x) h' (f_OrganizationalUnit y)"
  shows "copied fields_shape h x h' y"
  using assms by (simp add: copied_def fields_shape_def Let_def Int_Un_distrib2)

interpretation fields: copyable fields_shape AdditionalFields_DeepCopyInto
proof
  fix h h' x
  assume "fits fields_shape h x" and "agree h h' (reach fields_shape h x)"
  then show "fits fields_shape h' x \<and> view fields_shape h' x = view fields_shape h x \<and>
      reach fields_shape h' x = reach fields_shape h x"
    using strs.frame[of h _ h'] by (simp add: fields_shape_def Let_def)
next
  fix h x assume "fits fields_shape h x"
  then show "reach fields_shape h x \<subseteq> dom (blocks h)"
    using strs.allocated[of h] by (simp add: fields_shape_def Let_def)
next
  fix h x assume wf: "wf_memory h" and "fits fields_shape h x"
  then have f: "fits (slice_shape strings value_shape) h (f_Country x)"
    "fits (slice_shape strings value_shape) h (f_Province x)"
    "fits (slice_shape strings value_shape) h (f_Locality x)"
    "fits (slice_shape strings value_shape) h (f_Organization x)"
    "fits (slice_shape strings value_shape) h (f_OrganizationalUnit x)"
    by (simp_all add: fields_shape_def Let_def)
  show "builds h (AdditionalFields_DeepCopyInto x) (copied fields_shape h x)"
    unfolding AdditionalFields_DeepCopyInto_def
    by (intro strs.builds_bind[OF grows_refl[OF wf] f(1)] strs.builds_bind[OF _ f(2)]
        strs.builds_bind[OF _ f(3)] strs.builds_bind[OF _ f(4)] strs.builds_bind[OF _ f(5)]
        builds_return impI copied_fieldsI) (simp_all add: grows_wf)
qed

lemma copied_csrI:
  "copied fields_shape h (q_AdditionalFields x) h' (q_AdditionalFields y) \<Longrightarrow>
     q_SignatureAlgorithm y = q_SignatureAlgorithm x \<Longrightarrow> copied csr_shape h x h' y"
  by (simp add: copied_def csr_shape_def)

interpretation request: copyable csr_shape CertificateSigningRequest_DeepCopyInto
proof
  fix h h' x
  assume "fits csr_shape h x" and "agree h h' (reach csr_shape h x)"
  then show "fits csr_shape h' x \<and> view csr_shape h' x = view csr_shape h x \<and>
      reach csr_shape h' x = reach csr_shape h x"
    using fields.frame[of h _ h'] by (simp add: csr_shape_def)
next
  fix h x assume "fits csr_shape h x"
  then show "reach csr_shape h x \<subseteq> dom (blocks h)"
    using fields.allocated[of h] by (simp add: csr_shape_def)
next
  fix h x assume wf: "wf_memory h" and "fits csr_shape h x"
  then have f: "fits fields_shape h (q_AdditionalFields x)"
    by (simp add: csr_shape_def)
  show "builds h (CertificateSigningRequest_DeepCopyInto x) (copied csr_shape h x)"
    unfolding CertificateSigningRequest_DeepCopyInto_def
    by (intro fields.builds_bind[OF grows_refl[OF wf] f] builds_return impI copied_csrI)
      (simp_all add: grows_wf)
qed

interpretation existing: copyable "pointer_shape secret_refs value_shape" "copy_pointer secret_refs go_return"
  by (rule pointer_copyables value_copyable)+

interpretation csr_ptr: copyable "pointer_shape csr_structs csr_shape"
  "copy_pointer csr_structs CertificateSigningRequest_DeepCopyInto"
  by (rule pointer_copyables request.copyable_axioms)+

interpretation cluster_ptr: copyable "pointer_shape cluster_specs value_shape" "copy_pointer cluster_specs go_return"
  by (rule pointer_copyables value_copyable)+

interpretation role_ptr: copyable "pointer_shape role_refs value_shape" "copy_pointer role_refs go_return"
  by (rule pointer_copyables value_copyable)+

interpretation name_ptr: copyable "pointer_shape names value_shape" "copy_pointer names go_return"
  by (rule pointer_copyables value_copyable)+

lemma copied_specI:
  assumes "copied (pointer_shape secret_refs value_shape) h (p_ExistingCSR x) h' (p_ExistingCSR y)"
    and "copied (pointer_shape csr_structs csr_shape) h (p_CSR x) h' (p_CSR y)"
    and "copied (pointer_shape cluster_specs value_shape) h (p_Cluster x) h' (p_Cluster y)"
    and "copied (pointer_shape role_refs value_shape) h (p_RoleRef x) h' (p_RoleRef y)"
    and "p_Username y = p_Username x" and "p_AutoApproveCSR y = p_AutoApproveCSR x"
  shows "copied spec_shape h x h' y"
  using assms by (simp add: copied_def spec_shape_def Let_def Int_Un_distrib2)

interpretation spec: copyable spec_shape KubeconfigSpec_DeepCopyInto
proof
  fix h h' x
  assume "fits spec_shape h x" and "agree h h' (reach spec_shape h x)"
  then show "fits spec_shape h' x \<and> view spec_shape h' x = view spec_shape h x \<and>
      reach spec_shape h' x = reach spec_shape h x"
    using existing.frame[of h _ h'] csr_ptr.frame[of h _ h'] cluster_ptr.frame[of h _ h']
      role_ptr.frame[of h _ h'] by (simp add: spec_shape_def Let_def)
next
  fix h x assume "fits spec_shape h x"
  then show "reach spec_shape h x \<subseteq> dom (blocks h)"
    using existing.allocated[of h] csr_ptr.allocated[of h] cluster_ptr.allocated[of h]
      role_ptr.allocated[of h] by (simp add: spec_shape_def Let_def)
next
  fix h x assume wf: "wf_memory h" and "fits spec_shape h x"
  then have f: "fits (pointer_shape secret_refs value_shape) h (p_ExistingCSR x)"
    "fits (pointer_shape csr_structs csr_shape) h (p_CSR x)"
    "fits (pointer_shape cluster_specs value_shape) h (p_Cluster x)"
    "fits (pointer_shape role_refs value_shape) h (p_RoleRef x)"
    by (simp_all add: spec_shape_def Let_def)
  show "builds h (KubeconfigSpec_DeepCopyInto x) (copied spec_shape h x)"
    unfolding KubeconfigSpec_DeepCopyInto_def
    by (intro existing.builds_bind[OF grows_refl[OF wf] f(1)] csr_ptr.builds_bind[OF _ f(2)]
        cluster_ptr.builds_bind[OF _ f(3)] role_ptr.builds_bind[OF _ f(4)]
        builds_return impI copied_specI) (simp_all add: grows_wf)
qed

lemma copied_referenceI:
  assumes "copied (pointer_shape names value_shape) h (o_Group x) h' (o_Group y)"
    and "copied (pointer_shape names value_shape) h (o_Kind x) h' (o_Kind y)"
    and "copied (pointer_shape names value_shape) h (o_Namespace x) h' (o_Namespace y)"
    and "o_Name y = o_Name x"
  shows "copied reference_shape h x h' y"
  using assms by (simp add: copied_def reference_shape_def Let_def Int_Un_distrib2)

interpretation reference: copyable reference_shape SecretObjectReference_DeepCopyInto
proof
  fix h h' x
  assume "fits reference_shape h x" and "agree h h' (reach reference_shape h x)"
  then show "fits reference_shape h' x \<and> view reference_shape h' x = view reference_shape h x \<and>
      reach reference_shape h' x = reach reference_shape h x"
    using name_ptr.frame[of h _ h'] by (simp add: reference_shape_def Let_def)
next
  fix h x assume "fits reference_shape h x"
  then show "reach reference_shape h x \<subseteq> dom (blocks h)"
    using name_ptr.allocated[of h] by (simp add: reference_shape_def Let_def)
next
  fix h x assume wf: "wf_memory h" and "fits reference_shape h x"
  then have f: "fits (pointer_shape names value_shape) h (o_Group x)"
    "fits (pointer_shape names value_shape) h (o_Kind x)"
    "fits (pointer_shape names value_shape) h (o_Namespace x)"
    by (simp_all add: reference_shape_def Let_def)
  show "builds h (SecretObjectReference_DeepCopyInto x) (copied reference_shape h x)"
    unfolding SecretObjectReference_DeepCopyInto_def
    by (intro name_ptr.builds_bind[OF grows_refl[OF wf] f(1)] name_ptr.builds_bind[OF _ f(2)]
        name_ptr.builds_bind[OF _ f(3)] builds_return impI copied_referenceI) (simp_all add: grows_wf)
qed

text \<open>The types that embed apimachinery structs: under the law of their copies.\<close>

lemma copied_statusI:
  assumes "copied (slice_shape conditions value_shape) h (t_Conditions x) h' (t_Conditions y)"
    and "t_UserSecret y = t_UserSecret x" and "t_Csr y = t_Csr x"
    and "t_Kubeconfig y = t_Kubeconfig x" and "t_Status y = t_Status x"
  shows "copied status_shape h x h' y"
  using assms by (simp add: copied_def status_shape_def Let_def)

lemma status_copyable:
  assumes L: "copy_library_law L"
  shows "copyable status_shape (KubeconfigStatus_DeepCopyInto L)"
proof -
  note cs = slice_copyables(7)[OF condition_copyable[OF L]]
  note law = copyable.axioms(1)[OF cs]
  show ?thesis
  proof
    fix h h' x
    assume "fits status_shape h x" and "agree h h' (reach status_shape h x)"
    then show "fits status_shape h' x \<and> view status_shape h' x = view status_shape h x \<and>
        reach status_shape h' x = reach status_shape h x"
      using shape_law.frame[OF law, of h _ h'] by (simp add: status_shape_def Let_def)
  next
    fix h x assume "fits status_shape h x"
    then show "reach status_shape h x \<subseteq> dom (blocks h)"
      using shape_law.allocated[OF law, of h] by (simp add: status_shape_def Let_def)
  next
    fix h x assume wf: "wf_memory h" and "fits status_shape h x"
    then have f: "fits (slice_shape conditions value_shape) h (t_Conditions x)"
      by (simp add: status_shape_def Let_def)
    show "builds h (KubeconfigStatus_DeepCopyInto L x) (copied status_shape h x)"
      unfolding KubeconfigStatus_DeepCopyInto_def
      by (intro copyable.builds_bind[OF cs grows_refl[OF wf] f] builds_return impI copied_statusI)
        (simp_all add: grows_wf)
  qed
qed

lemma copied_kubeconfigI:
  assumes "copied spec_shape h (k_Spec x) h' (k_Spec y)"
    and "copied status_shape h (k_Status x) h' (k_Status y)"
    and "k_TypeMeta y = k_TypeMeta x" and "k_ObjectMeta y = k_ObjectMeta x"
  shows "copied kubeconfig_shape h x h' y"
  using assms by (simp add: copied_def kubeconfig_shape_def Int_Un_distrib2)

lemma kubeconfig_copyable:
  assumes L: "copy_library_law L"
  shows "copyable kubeconfig_shape (Kubeconfig_DeepCopyInto L)"
proof -
  note st = status_copyable[OF L]
  note law = copyable.axioms(1)[OF st]
  show ?thesis
  proof
    fix h h' x
    assume "fits kubeconfig_shape h x" and "agree h h' (reach kubeconfig_shape h x)"
    then show "fits kubeconfig_shape h' x \<and> view kubeconfig_shape h' x = view kubeconfig_shape h x \<and>
        reach kubeconfig_shape h' x = reach kubeconfig_shape h x"
      using spec.frame[of h _ h'] shape_law.frame[OF law, of h _ h'] by (simp add: kubeconfig_shape_def)
  next
    fix h x assume "fits kubeconfig_shape h x"
    then show "reach kubeconfig_shape h x \<subseteq> dom (blocks h)"
      using spec.allocated[of h] shape_law.allocated[OF law, of h] by (simp add: kubeconfig_shape_def)
  next
    fix h x assume wf: "wf_memory h" and "fits kubeconfig_shape h x"
    then have f: "fits spec_shape h (k_Spec x)" "fits status_shape h (k_Status x)"
      by (simp_all add: kubeconfig_shape_def)
    show "builds h (Kubeconfig_DeepCopyInto L x) (copied kubeconfig_shape h x)"
      unfolding Kubeconfig_DeepCopyInto_def
      by (intro spec.builds_bind[OF grows_refl[OF wf] f(1)] copyable.builds_bind[OF st _ f(2)]
          builds_return impI copied_kubeconfigI)
        (use L in \<open>simp_all add: grows_wf copy_library_law_def\<close>)
  qed
qed

lemma copied_listI:
  assumes "copied (slice_shape kubeconfig_structs kubeconfig_shape) h (l_Items x) h' (l_Items y)"
    and "l_TypeMeta y = l_TypeMeta x" and "l_ListMeta y = l_ListMeta x"
  shows "copied list_shape h x h' y"
  using assms by (simp add: copied_def list_shape_def Let_def)

lemma list_copyable:
  assumes L: "copy_library_law L"
  shows "copyable list_shape (KubeconfigList_DeepCopyInto L)"
proof -
  note items = slice_copyables(12)[OF kubeconfig_copyable[OF L]]
  note law = copyable.axioms(1)[OF items]
  show ?thesis
  proof
    fix h h' x
    assume "fits list_shape h x" and "agree h h' (reach list_shape h x)"
    then show "fits list_shape h' x \<and> view list_shape h' x = view list_shape h x \<and>
        reach list_shape h' x = reach list_shape h x"
      using shape_law.frame[OF law, of h _ h'] by (simp add: list_shape_def Let_def)
  next
    fix h x assume "fits list_shape h x"
    then show "reach list_shape h x \<subseteq> dom (blocks h)"
      using shape_law.allocated[OF law, of h] by (simp add: list_shape_def Let_def)
  next
    fix h x assume wf: "wf_memory h" and "fits list_shape h x"
    then have f: "fits (slice_shape kubeconfig_structs kubeconfig_shape) h (l_Items x)"
      by (simp add: list_shape_def Let_def)
    show "builds h (KubeconfigList_DeepCopyInto L x) (copied list_shape h x)"
      unfolding KubeconfigList_DeepCopyInto_def
      by (intro copyable.builds_bind[OF items grows_refl[OF wf] f] builds_return impI copied_listI)
        (use L in \<open>simp_all add: grows_wf copy_library_law_def\<close>)
  qed
qed

lemmas kubeconfig_pointer_copyable = pointer_copyables(12)[OF kubeconfig_copyable]
lemmas list_pointer_copyable = pointer_copyables(13)[OF list_copyable]

lemma builds_obtain:
  assumes "builds h m P"
  obtains y h' where "m h = (Ret y, h')" and "grows h h'" and "P h' y"
  using assms by (auto simp: builds_def wp_def split: prod.splits)

lemma copied_nil:
  "copied (pointer_shape T S) h p h' q \<Longrightarrow> q = None \<longleftrightarrow> p = None"
  by (cases p; cases q) (auto simp: copied_def pointer_shape_def)

subsection \<open>Properties\<close>

text \<open>
  C27: On a well-formed memory, \<open>Kubeconfig.DeepCopyObject\<close> of a well-typed pointer never
  panics, returns the nil interface exactly for the nil pointer and otherwise a pointer to a
  new Kubeconfig that shows the same tree (type and object metadata, spec, status, nil slices
  kept apart from empty ones), while every block of the old memory stays as it was and the
  copy reaches none of them.
\<close>

theorem Kubeconfig_DeepCopyObject_copies:
  assumes "copy_library_law L" and "wf_memory h"
    and "fits (pointer_shape kubeconfig_structs kubeconfig_shape) h p"
  shows "\<exists>q h'. Kubeconfig_DeepCopyObject L p h =
      (Ret (if p = None then None else Some (KubeconfigObject q)), h') \<and>
    (q = None \<longleftrightarrow> p = None) \<and> grows h h' \<and>
    copied (pointer_shape kubeconfig_structs kubeconfig_shape) h p h' q"
proof -
  obtain q h' where q: "Kubeconfig_DeepCopy L p h = (Ret q, h')" "grows h h'"
    "copied (pointer_shape kubeconfig_structs kubeconfig_shape) h p h' q"
    unfolding Kubeconfig_DeepCopy_def
    by (rule builds_obtain[OF copyable.copies[OF kubeconfig_pointer_copyable[OF assms(1)] assms(2,3)]])
  with copied_nil[OF q(3)] show ?thesis
    by (auto simp: Kubeconfig_DeepCopyObject_def go_bind_def go_return_run)
qed

definition sample_memory :: memory where
  "sample_memory = \<lparr>blocks = [
     0 \<mapsto> Kubeconfigs [\<lparr>k_TypeMeta = \<lparr>tm_Kind = ''Kubeconfig'', tm_APIVersion = []\<rparr>, k_ObjectMeta = zero_meta,
       k_Spec = zero_spec_struct\<lparr>p_Username := ''jane'', p_CSR := Some (1, 0)\<rparr>,
       k_Status = zero_status_struct\<lparr>t_Conditions := Some ((3, 0), 1)\<rparr>\<rparr>],
     1 \<mapsto> Csrs [\<lparr>q_SignatureAlgorithm = SHA256WithRSA,
       q_AdditionalFields = zero_fields_struct\<lparr>f_Organization := Some ((2, 1), 2)\<rparr>\<rparr>],
     2 \<mapsto> Strings [''a'', ''ops'', ''dev''],
     3 \<mapsto> ConditionArray [new_condition ''CSRCreated'' ''True'' 1 ''r'' ''m''],
     4 \<mapsto> Lists [\<lparr>l_TypeMeta = \<lparr>tm_Kind = ''KubeconfigList'', tm_APIVersion = []\<rparr>,
       l_ListMeta = ListMeta [], l_Items = Some ((0, 0), 1)\<rparr>]], limit = 5\<rparr>"

definition sample_library :: copy_library where
  "sample_library = \<lparr>ObjectMeta_DeepCopyInto = (\<lambda>m. m), ListMeta_DeepCopyInto = (\<lambda>m. m),
     Condition_DeepCopyInto = (\<lambda>c. c)\<rparr>"

lemma sample_library_law: "copy_library_law sample_library"
  by (simp add: copy_library_law_def sample_library_def)

lemma sample_memory_wf: "wf_memory sample_memory"
  by (simp add: wf_memory_def sample_memory_def)

lemma sample_memory_arrays:
  "array_at kubeconfig_structs sample_memory 0 = Some [\<lparr>k_TypeMeta = \<lparr>tm_Kind = ''Kubeconfig'', tm_APIVersion = []\<rparr>, k_ObjectMeta = zero_meta,
       k_Spec = zero_spec_struct\<lparr>p_Username := ''jane'', p_CSR := Some (1, 0)\<rparr>,
       k_Status = zero_status_struct\<lparr>t_Conditions := Some ((3, 0), 1)\<rparr>\<rparr>]"
  "array_at csr_structs sample_memory 1 = Some [\<lparr>q_SignatureAlgorithm = SHA256WithRSA,
       q_AdditionalFields = zero_fields_struct\<lparr>f_Organization := Some ((2, 1), 2)\<rparr>\<rparr>]"
  "array_at strings sample_memory 2 = Some [''a'', ''ops'', ''dev'']"
  "array_at conditions sample_memory 3 = Some [new_condition ''CSRCreated'' ''True'' 1 ''r'' ''m'']"
  "array_at list_structs sample_memory 4 = Some [\<lparr>l_TypeMeta = \<lparr>tm_Kind = ''KubeconfigList'', tm_APIVersion = []\<rparr>,
       l_ListMeta = ListMeta [], l_Items = Some ((0, 0), 1)\<rparr>]"
  by (simp_all add: array_at_def sample_memory_def kubeconfig_structs_def csr_structs_def
      strings_def conditions_def list_structs_def)

lemmas shape_defs = pointer_shape_def slice_shape_def value_shape_def value_at_def elements_def
  window_def kubeconfig_shape_def spec_shape_def status_shape_def csr_shape_def fields_shape_def
  list_shape_def zero_spec_struct_def zero_status_struct_def zero_fields_struct_def Let_def

lemma sample_memory_fits:
  "fits (pointer_shape kubeconfig_structs kubeconfig_shape) sample_memory (Some (0, 0))"
  "fits (pointer_shape list_structs list_shape) sample_memory (Some (4, 0))"
  by (simp_all add: shape_defs sample_memory_arrays sample_memory_arrays(2)[simplified])

theorem Kubeconfig_DeepCopyObject_copies_witness:
  "\<exists>q h'. Kubeconfig_DeepCopyObject sample_library (Some (0, 0)) sample_memory =
      (Ret (Some (KubeconfigObject q)), h') \<and> q \<noteq> None \<and> grows sample_memory h' \<and>
    copied (pointer_shape kubeconfig_structs kubeconfig_shape) sample_memory (Some (0, 0)) h' q"
  using Kubeconfig_DeepCopyObject_copies[OF sample_library_law sample_memory_wf sample_memory_fits(1)]
  by auto

text \<open>
  C28: A list of Kubeconfigs (what the client's cache hands out) and its deep copy do not share
  storage: once \<open>KubeconfigList.DeepCopy\<close> has returned, both show the tree the original
  showed before, a later change of any block the copy reaches does not show in the original,
  and a later change of any block the original reaches does not show in the copy.
\<close>

theorem KubeconfigList_DeepCopy_isolated:
  fixes h h'' :: memory and q :: pointer
  assumes "copy_library_law L" and "wf_memory h" and "fits (pointer_shape list_structs list_shape) h p"
  defines "S \<equiv> pointer_shape list_structs list_shape"
  shows "\<exists>q h'. KubeconfigList_DeepCopy L p h = (Ret q, h') \<and> view S h' p = view S h p \<and>
    view S h' q = view S h p \<and>
    (\<forall>h''. agree h' h'' (- reach S h' q) \<longrightarrow> view S h'' p = view S h p) \<and>
    (\<forall>h''. agree h' h'' (- reach S h' p) \<longrightarrow> view S h'' q = view S h p)"
proof -
  note C = list_pointer_copyable[OF assms(1)]
  note law = copyable.axioms(1)[OF C]
  obtain q h' where q: "KubeconfigList_DeepCopy L p h = (Ret q, h')" "grows h h'" "copied S h p h' q"
    unfolding KubeconfigList_DeepCopy_def S_def
    by (rule builds_obtain[OF copyable.copies[OF C assms(2,3)]])
  show ?thesis
    using q shape_law.old_value(2)[OF law q(2) assms(3)]
      shape_law.isolated[OF law q(2) assms(3), folded S_def, OF q(3)]
    by (auto simp: copied_def S_def)
qed

theorem KubeconfigList_DeepCopy_isolated_witness:
  "\<exists>q h'. KubeconfigList_DeepCopy sample_library (Some (4, 0)) sample_memory = (Ret q, h') \<and>
    view (pointer_shape list_structs list_shape) h' q =
      view (pointer_shape list_structs list_shape) sample_memory (Some (4, 0))"
  using KubeconfigList_DeepCopy_isolated[OF sample_library_law sample_memory_wf sample_memory_fits(2)]
  by auto

definition keeps_type :: "'t elem \<Rightarrow> ('t, 'v) shape \<Rightarrow> (pointer \<Rightarrow> (memory, pointer) go) \<Rightarrow> bool" where
  "keeps_type T S deep_copy \<longleftrightarrow> (\<forall>h p. wf_memory h \<and> fits (pointer_shape T S) h p \<longrightarrow>
     builds h (deep_copy p) (fits (pointer_shape T S)))"

lemma builds_mono: "builds h m P \<Longrightarrow> (\<And>h' y. P h' y \<Longrightarrow> R h' y) \<Longrightarrow> builds h m R"
  unfolding builds_def by (erule wp_mono) blast

lemma keeps_typeI:
  assumes "elem_law T" and "copyable S into"
  shows "keeps_type T S (copy_pointer T into)"
  unfolding keeps_type_def
  by (auto intro!: builds_mono[OF copyable.copies[OF copyable_elem.pointer_copyable[OF
        copyable_elem.intro[OF assms]]]] simp: copied_def)

lemma value_types:
  "copyable value_shape SecretRef_DeepCopyInto" "copyable value_shape CsrRef_DeepCopyInto"
  "copyable value_shape Cluster_DeepCopyInto"
  using value_copyable
  by (simp_all add: SecretRef_DeepCopyInto_def[abs_def] CsrRef_DeepCopyInto_def[abs_def]
      Cluster_DeepCopyInto_def[abs_def])

text \<open>
  C29: Type safety of the generated code: on a well-formed memory, each of the ten \<open>DeepCopy\<close>
  functions returns without a panic for nil and for every well-typed pointer, only adds blocks
  to the memory, and its result is a well-typed pointer of the same type.
\<close>

theorem deep_copies_well_typed:
  assumes "copy_library_law L"
  shows "keeps_type secret_refs value_shape SecretRef_DeepCopy \<and>
    keeps_type csr_refs value_shape CsrRef_DeepCopy \<and>
    keeps_type cluster_specs value_shape Cluster_DeepCopy \<and>
    keeps_type field_structs fields_shape AdditionalFields_DeepCopy \<and>
    keeps_type csr_structs csr_shape CertificateSigningRequest_DeepCopy \<and>
    keeps_type spec_structs spec_shape KubeconfigSpec_DeepCopy \<and>
    keeps_type status_structs status_shape (KubeconfigStatus_DeepCopy L) \<and>
    keeps_type kubeconfig_structs kubeconfig_shape (Kubeconfig_DeepCopy L) \<and>
    keeps_type list_structs list_shape (KubeconfigList_DeepCopy L) \<and>
    keeps_type reference_structs reference_shape SecretObjectReference_DeepCopy"
  unfolding SecretRef_DeepCopy_def[abs_def] CsrRef_DeepCopy_def[abs_def] Cluster_DeepCopy_def[abs_def]
    AdditionalFields_DeepCopy_def[abs_def] CertificateSigningRequest_DeepCopy_def[abs_def]
    KubeconfigSpec_DeepCopy_def[abs_def] KubeconfigStatus_DeepCopy_def[abs_def]
    Kubeconfig_DeepCopy_def[abs_def] KubeconfigList_DeepCopy_def[abs_def]
    SecretObjectReference_DeepCopy_def[abs_def]
  by (intro conjI keeps_typeI elem_laws value_types fields.copyable_axioms request.copyable_axioms
      spec.copyable_axioms status_copyable kubeconfig_copyable list_copyable
      reference.copyable_axioms assms)

theorem deep_copies_well_typed_witness:
  "builds sample_memory (Kubeconfig_DeepCopy sample_library (Some (0, 0)))
     (fits (pointer_shape kubeconfig_structs kubeconfig_shape))"
  using deep_copies_well_typed[OF sample_library_law] sample_memory_wf sample_memory_fits(1)
  by (simp add: keeps_type_def)

end
