(* ===== verification/Start_Up.thy ===== *)
theory Start_Up
  imports Csr_Controller Webhook
begin

text \<open>
  \<open>main.go\<close>, the \<open>SetupWithManager\<close> functions of the two controllers and the webhook, and the
  registration of the API group: what the process asks of the controller manager before it
  starts, in which order, and what it does when a step fails. The manager, the flag parser
  and the scheme are libraries: a host answers each call with an error or nil.
\<close>

subsection \<open>The API group\<close>

record GroupVersion =
  gv_Group :: string
  gv_Version :: string

definition GroupVersion_value :: GroupVersion where
  "GroupVersion_value = \<lparr>gv_Group = ''kubeconfig.k8s.zoomoid.dev'', gv_Version = ''v1alpha1''\<rparr>"

record scheme_builder =
  sb_GroupVersion :: GroupVersion
  sb_Types :: "string list"

definition SchemeBuilder :: scheme_builder where
  "SchemeBuilder = \<lparr>sb_GroupVersion = GroupVersion_value, sb_Types = []\<rparr>"

definition Register :: "string list \<Rightarrow> scheme_builder \<Rightarrow> scheme_builder" where
  "Register kinds b = b\<lparr>sb_Types := sb_Types b @ kinds\<rparr>"

text \<open>The package's \<open>init\<close> registers the two types.\<close>

definition registered_types :: scheme_builder where
  "registered_types = Register [''Kubeconfig'', ''KubeconfigList''] SchemeBuilder"

text \<open>\<open>schema.GroupVersion.String\<close>: the \<open>apiVersion\<close> of objects and owner references.\<close>

definition GroupVersion_String :: "GroupVersion \<Rightarrow> string" where
  "GroupVersion_String gv =
     (if gv_Group gv \<noteq> [] then gv_Group gv @ ''/'' @ gv_Version gv else gv_Version gv)"

subsection \<open>Controllers and webhooks\<close>

text \<open>Handles to what the manager owns.\<close>

type_synonym client_handle = nat
type_synonym scheme_handle = nat

record KubeconfigReconciler =
  kr_Client :: client_handle
  kr_Scheme :: scheme_handle
  kr_Recorder :: string

record CertificateSigningRequestReconciler =
  qr_Client :: client_handle
  qr_Scheme :: scheme_handle
  qr_Recorder :: string
  qr_ClientSet :: client_handle

record kubeconfigDefaulter =
  kd_client :: client_handle

record kubeconfigValidator =
  kv_client :: client_handle

definition Defaulter_InjectClient ::
  "client_handle \<Rightarrow> kubeconfigDefaulter \<Rightarrow> go_error option \<times> kubeconfigDefaulter" where
  "Defaulter_InjectClient c a = (None, a\<lparr>kd_client := c\<rparr>)"

definition Validator_InjectClient ::
  "client_handle \<Rightarrow> kubeconfigValidator \<Rightarrow> go_error option \<times> kubeconfigValidator" where
  "Validator_InjectClient c a = (None, a\<lparr>kv_client := c\<rparr>)"

datatype reconciler = ReconcilesKubeconfig KubeconfigReconciler
  | ReconcilesCsr CertificateSigningRequestReconciler

text \<open>What the builder of a controller and of a webhook has been told at \<open>Complete\<close>.\<close>

record watches =
  watch_For :: string
  watch_Owns :: "string list"

record controller_setup =
  setup_Watches :: watches
  setup_Reconciler :: reconciler

record webhook_setup =
  hook_For :: string
  hook_Defaulter :: kubeconfigDefaulter
  hook_Validator :: kubeconfigValidator

subsection \<open>The host\<close>

record flags =
  metricsAddr :: string
  probeAddr :: string
  enableLeaderElection :: bool

record manager_options =
  mo_MetricsBindAddress :: string
  mo_Port :: int
  mo_HealthProbeBindAddress :: string
  mo_LeaderElection :: bool
  mo_LeaderElectionID :: string
  mo_ClientDisableCacheFor :: "string list"

datatype startup_call =
    AddClientGoToScheme
  | AddToScheme scheme_builder
  | GetConfig
  | NewManager manager_options
  | CompleteController controller_setup
  | NewForConfig
  | CompleteWebhook webhook_setup
  | AddHealthzCheck string
  | AddReadyzCheck string
  | StartManager

record 'm host =
  answer :: "startup_call \<Rightarrow> 'm \<Rightarrow> go_error option \<times> 'm"
  flag_Parse :: "flags \<Rightarrow> flags"
  mgr_GetClient :: client_handle
  mgr_GetScheme :: scheme_handle
  clientset :: client_handle

record 'm process =
  outside :: 'm
  steps :: "(startup_call \<times> go_error option) list"

definition ask :: "'m host \<Rightarrow> startup_call \<Rightarrow> ('m process, go_error option) go" where
  "ask H c = (\<lambda>s. case answer H c (outside s) of
     (err, m) \<Rightarrow> (Ret err, \<lparr>outside = m, steps = steps s @ [(c, err)]\<rparr>))"

subsection \<open>The code\<close>

text \<open>The kinds each controller watches: \<open>For\<close> and \<open>Owns\<close> of its builder.\<close>

definition Kubeconfig_watches :: watches where
  "Kubeconfig_watches = \<lparr>watch_For = ''Kubeconfig'', watch_Owns = [''CertificateSigningRequest'']\<rparr>"

definition Csr_watches :: watches where
  "Csr_watches = \<lparr>watch_For = ''CertificateSigningRequest'', watch_Owns = []\<rparr>"

definition Kubeconfig_SetupWithManager ::
  "'m host \<Rightarrow> KubeconfigReconciler \<Rightarrow> ('m process, go_error option) go" where
  "Kubeconfig_SetupWithManager H r = ask H (CompleteController
     \<lparr>setup_Watches = Kubeconfig_watches, setup_Reconciler = ReconcilesKubeconfig r\<rparr>)"

definition Csr_SetupWithManager ::
  "'m host \<Rightarrow> CertificateSigningRequestReconciler \<Rightarrow> ('m process, go_error option) go" where
  "Csr_SetupWithManager H r = ask H (CompleteController
     \<lparr>setup_Watches = Csr_watches, setup_Reconciler = ReconcilesCsr r\<rparr>)"

definition SetupWebhookWithManager :: "'m host \<Rightarrow> ('m process, go_error option) go" where
  "SetupWebhookWithManager H = ask H (CompleteWebhook
     \<lparr>hook_For = ''Kubeconfig'', hook_Defaulter = \<lparr>kd_client = mgr_GetClient H\<rparr>,
      hook_Validator = \<lparr>kv_client = mgr_GetClient H\<rparr>\<rparr>)"

text \<open>\<open>utilruntime.Must\<close> and the \<open>OrDie\<close> constructor of the client set panic on an error.\<close>

definition must :: "go_error option \<Rightarrow> ('s, unit) go" where
  "must err = (case err of None \<Rightarrow> go_return () | Some e \<Rightarrow> go_panic)"

definition init_scheme :: "'m host \<Rightarrow> ('m process, unit) go" where
  "init_scheme H =
     go_bind (ask H AddClientGoToScheme) (\<lambda>err.
     go_bind (must err) (\<lambda>_.
     go_bind (ask H (AddToScheme registered_types)) must))"

definition default_flags :: flags where
  "default_flags = \<lparr>metricsAddr = '':8080'', probeAddr = '':8081'', enableLeaderElection = False\<rparr>"

definition operator_options :: "flags \<Rightarrow> manager_options" where
  "operator_options f = \<lparr>mo_MetricsBindAddress = metricsAddr f, mo_Port = 9443,
     mo_HealthProbeBindAddress = probeAddr f, mo_LeaderElection = enableLeaderElection f,
     mo_LeaderElectionID = ''856a5ca6.k8s.zoomoid.dev'',
     mo_ClientDisableCacheFor = [''Kubeconfig'']\<rparr>"

text \<open>
  A step of \<open>main\<close> with \<open>if err != nil { os.Exit(1) }\<close>. The result of \<open>main\<close> is the exit status
  of the process, 0 when \<open>main\<close> returns; \<open>ctrl.GetConfigOrDie\<close> exits with 1 as well.
\<close>

definition or_exit :: "('s, go_error option) go \<Rightarrow> ('s, nat + unit) go" where
  "or_exit m = go_bind m (\<lambda>err. go_return (if err \<noteq> None then Inl 1 else Inr ()))"

definition main :: "'m host \<Rightarrow> ('m process, nat) go" where
  "main H = (let opts = operator_options (flag_Parse H default_flags) in
     go_then (or_exit (ask H GetConfig)) (\<lambda>_.
     go_then (or_exit (ask H (NewManager opts))) (\<lambda>_.
     go_then (or_exit (Kubeconfig_SetupWithManager H \<lparr>kr_Client = mgr_GetClient H,
       kr_Scheme = mgr_GetScheme H, kr_Recorder = ''kubeconfig-controller''\<rparr>)) (\<lambda>_.
     go_bind (ask H NewForConfig) (\<lambda>cs.
     go_bind (must cs) (\<lambda>_.
     go_then (or_exit (Csr_SetupWithManager H \<lparr>qr_Client = mgr_GetClient H,
       qr_Scheme = mgr_GetScheme H, qr_Recorder = ''kubeconfig-csr-controller'',
       qr_ClientSet = clientset H\<rparr>)) (\<lambda>_.
     go_then (or_exit (SetupWebhookWithManager H)) (\<lambda>_.
     go_then (or_exit (ask H (AddHealthzCheck ''healthz''))) (\<lambda>_.
     go_then (or_exit (ask H (AddReadyzCheck ''readyz''))) (\<lambda>_.
     go_then (or_exit (ask H StartManager)) (\<lambda>_.
     go_return 0)))))))))))"

text \<open>The process: package initialisation, then \<open>main\<close>. A panic ends a Go process with status 2.\<close>

definition run_process :: "'m host \<Rightarrow> ('m process, nat) go" where
  "run_process H = go_bind (init_scheme H) (\<lambda>_. main H)"

definition exit_status :: "nat outcome \<Rightarrow> nat" where
  "exit_status r = (case r of Ret n \<Rightarrow> n | Panic \<Rightarrow> 2)"

subsection \<open>The plan of the start-up\<close>

definition startup_plan :: "'m host \<Rightarrow> startup_call list" where
  "startup_plan H = [AddClientGoToScheme, AddToScheme registered_types, GetConfig,
     NewManager (operator_options (flag_Parse H default_flags)),
     CompleteController \<lparr>setup_Watches =
         \<lparr>watch_For = ''Kubeconfig'', watch_Owns = [''CertificateSigningRequest'']\<rparr>,
       setup_Reconciler = ReconcilesKubeconfig \<lparr>kr_Client = mgr_GetClient H,
         kr_Scheme = mgr_GetScheme H, kr_Recorder = ''kubeconfig-controller''\<rparr>\<rparr>,
     NewForConfig,
     CompleteController \<lparr>setup_Watches =
         \<lparr>watch_For = ''CertificateSigningRequest'', watch_Owns = []\<rparr>,
       setup_Reconciler = ReconcilesCsr \<lparr>qr_Client = mgr_GetClient H, qr_Scheme = mgr_GetScheme H,
         qr_Recorder = ''kubeconfig-csr-controller'', qr_ClientSet = clientset H\<rparr>\<rparr>,
     CompleteWebhook \<lparr>hook_For = ''Kubeconfig'', hook_Defaulter = \<lparr>kd_client = mgr_GetClient H\<rparr>,
       hook_Validator = \<lparr>kv_client = mgr_GetClient H\<rparr>\<rparr>,
     AddHealthzCheck ''healthz'', AddReadyzCheck ''readyz'', StartManager]"

text \<open>The host answers a sequence of calls; the sequence stops at the first error.\<close>

fun answers :: "'m host \<Rightarrow> startup_call list \<Rightarrow> 'm \<Rightarrow> (startup_call \<times> go_error option) list \<times> 'm" where
  "answers H [] m = ([], m)"
| "answers H (c # cs) m = (case answer H c m of
     (None, m') \<Rightarrow> (case answers H cs m' of (tr, m'') \<Rightarrow> ((c, None) # tr, m''))
   | (Some e, m') \<Rightarrow> ([(c, Some e)], m'))"

text \<open>Calls whose failure panics instead of exiting.\<close>

fun panics :: "startup_call \<Rightarrow> bool" where
  "panics AddClientGoToScheme = True"
| "panics (AddToScheme b) = True"
| "panics NewForConfig = True"
| "panics c = False"

definition status_of :: "(startup_call \<times> go_error option) list \<Rightarrow> nat" where
  "status_of tr = (case last tr of (c, None) \<Rightarrow> 0 | (c, Some e) \<Rightarrow> if panics c then 2 else 1)"

text \<open>What follows a step that exits, and one that panics, on an error.\<close>

lemma exit_step: "go_then (or_exit (ask H c)) f s = (case answer H c (outside s) of
    (None, m) \<Rightarrow> f () \<lparr>outside = m, steps = steps s @ [(c, None)]\<rparr>
  | (Some e, m) \<Rightarrow> (Ret 1, \<lparr>outside = m, steps = steps s @ [(c, Some e)]\<rparr>))"
  by (simp add: go_then_def or_exit_def ask_def go_bind_def go_return_def split: prod.splits option.splits)

lemma panic_step: "go_bind (ask H c) (\<lambda>err. go_bind (must err) f) s = (case answer H c (outside s) of
    (None, m) \<Rightarrow> f () \<lparr>outside = m, steps = steps s @ [(c, None)]\<rparr>
  | (Some e, m) \<Rightarrow> (Panic, \<lparr>outside = m, steps = steps s @ [(c, Some e)]\<rparr>))"
  by (simp add: must_def ask_def go_bind_def go_return_def go_panic_def split: prod.splits option.splits)

lemma run_process_steps: "run_process H =
   go_bind (ask H AddClientGoToScheme) (\<lambda>err. go_bind (must err) (\<lambda>_.
   go_bind (ask H (AddToScheme registered_types)) (\<lambda>err. go_bind (must err) (\<lambda>_. main H))))"
  by (simp add: run_process_def init_scheme_def go_bind_assoc)

text \<open>
  \<open>follows H f cs\<close>: from any state, \<open>f\<close> makes the calls \<open>cs\<close> up to the first error, and ends with
  the status that the last of them gives.
\<close>

definition follows :: "'m host \<Rightarrow> ('m process, nat) go \<Rightarrow> startup_call list \<Rightarrow> bool" where
  "follows H f cs \<longleftrightarrow> (\<forall>s. case answers H cs (outside s) of (tr, m) \<Rightarrow>
     (case f s of (r, s') \<Rightarrow> s' = \<lparr>outside = m, steps = steps s @ tr\<rparr> \<and> exit_status r = status_of tr))"

lemma status_of_Cons [simp]: "tr \<noteq> [] \<Longrightarrow> status_of (x # tr) = status_of tr"
  by (simp add: status_of_def)

lemma answers_nonempty: "cs \<noteq> [] \<Longrightarrow> answers H cs m = (tr, m') \<Longrightarrow> tr \<noteq> []"
  by (cases cs) (auto split: prod.splits option.splits)

lemma status_of_single [simp]:
  "status_of [(c, None)] = 0" "status_of [(c, Some e)] = (if panics c then 2 else 1)"
  by (simp_all add: status_of_def)

lemma followsI:
  assumes "\<And>s e m. answer H c (outside s) = (Some e, m) \<Longrightarrow>
      f s = (r, \<lparr>outside = m, steps = steps s @ [(c, Some e)]\<rparr>)"
    and "exit_status r = (if panics c then 2 else 1)"
    and "\<And>s m. answer H c (outside s) = (None, m) \<Longrightarrow>
      f s = g \<lparr>outside = m, steps = steps s @ [(c, None)]\<rparr>"
    and "follows H g cs" and "cs \<noteq> []"
  shows "follows H f (c # cs)"
  unfolding follows_def
proof
  fix s :: "'a process"
  obtain err m where a: "answer H c (outside s) = (err, m)" by force
  show "case answers H (c # cs) (outside s) of (tr, m) \<Rightarrow> (case f s of (r, s') \<Rightarrow>
      s' = \<lparr>outside = m, steps = steps s @ tr\<rparr> \<and> exit_status r = status_of tr)"
  proof (cases err)
    case None
    obtain tr m' where t: "answers H cs m = (tr, m')" by force
    have "tr \<noteq> []" by (rule answers_nonempty[OF assms(5) t])
    then show ?thesis
      using assms(4)[unfolded follows_def, rule_format, of "\<lparr>outside = m, steps = steps s @ [(c, None)]\<rparr>"]
        assms(3)[OF a[unfolded None]] a t None by (simp split: prod.splits)
  next
    case (Some e)
    then show ?thesis using a assms(1)[OF a[unfolded Some]] assms(2) by simp
  qed
qed

lemma follows_last:
  assumes "\<not> panics c"
  shows "follows H (go_then (or_exit (ask H c)) (\<lambda>_. go_return 0)) [c]"
  unfolding follows_def
proof
  fix s :: "'a process"
  obtain err m where "answer H c (outside s) = (err, m)" by force
  then show "case answers H [c] (outside s) of (tr, m) \<Rightarrow>
      (case go_then (or_exit (ask H c)) (\<lambda>_. go_return 0) s of (r, s') \<Rightarrow>
        s' = \<lparr>outside = m, steps = steps s @ tr\<rparr> \<and> exit_status r = status_of tr)"
    using assms by (cases err) (simp_all add: exit_step go_return_def exit_status_def)
qed

lemma follows_exit:
  assumes "\<not> panics c" and "follows H f cs" and "cs \<noteq> []"
  shows "follows H (go_then (or_exit (ask H c)) (\<lambda>_. f)) (c # cs)"
  by (rule followsI[OF _ _ _ assms(2,3), where r = "Ret 1"])
    (simp_all add: assms(1) exit_step exit_status_def)

lemma follows_panic:
  assumes "panics c" and "follows H f cs" and "cs \<noteq> []"
  shows "follows H (go_bind (ask H c) (\<lambda>err. go_bind (must err) (\<lambda>_. f))) (c # cs)"
  by (rule followsI[OF _ _ _ assms(2,3), where r = Panic])
    (simp_all add: assms(1) panic_step exit_status_def)

lemma run_process_follows: "follows H (run_process H) (startup_plan H)"
  unfolding run_process_steps main_def Let_def startup_plan_def Kubeconfig_SetupWithManager_def
    Csr_SetupWithManager_def SetupWebhookWithManager_def Kubeconfig_watches_def Csr_watches_def
  by (intro follows_panic follows_exit follows_last) simp_all

subsection \<open>Properties\<close>

definition succeeded :: "startup_call list \<Rightarrow> (startup_call \<times> go_error option) list" where
  "succeeded cs = map (\<lambda>c. (c, None)) cs"

lemma answers_cases:
  assumes "answers H cs m = (tr, m')"
  shows "tr = succeeded cs \<or> (\<exists>k e. k < length cs \<and> tr = succeeded (take k cs) @ [(cs ! k, Some e)])"
  using assms
proof (induction cs arbitrary: m tr)
  case Nil
  then show ?case by (simp add: succeeded_def)
next
  case (Cons c cs)
  obtain err m1 where a: "answer H c m = (err, m1)" by force
  show ?case
  proof (cases err)
    case None
    obtain tr1 where t: "answers H cs m1 = (tr1, m')" and tr: "tr = (c, None) # tr1"
      using Cons.prems a None by (auto split: prod.splits)
    show ?thesis
      using Cons.IH[OF t] tr by (auto simp: succeeded_def intro: exI[of _ "Suc _"])
  next
    case (Some e)
    then have "tr = [(c, Some e)]" using Cons.prems a by simp
    then show ?thesis by (auto simp: succeeded_def)
  qed
qed

lemma status_of_succeeded: "cs \<noteq> [] \<Longrightarrow> status_of (succeeded cs) = 0"
  by (cases cs rule: rev_cases) (simp_all add: status_of_def succeeded_def)

lemma status_of_failed: "status_of (tr @ [(c, Some e)]) = (if panics c then 2 else 1)"
  by (simp add: status_of_def)

definition boot :: "'m \<Rightarrow> 'm process" where
  "boot m = \<lparr>outside = m, steps = []\<rparr>"

lemma run_process_run:
  assumes "answers H (startup_plan H) m = (tr, m')"
  shows "\<exists>r. run_process H (boot m) = (r, \<lparr>outside = m', steps = tr\<rparr>) \<and> exit_status r = status_of tr"
  using run_process_follows[of H, unfolded follows_def, rule_format, of "boot m"] assms
  by (cases "run_process H (boot m)") (simp add: boot_def)

text \<open>
  C26: The process is an implementation of the start-up plan: whatever the host answers, it makes
  the calls of the plan in order up to the first that fails and no other, and ends with status
  0 if none failed, 2 if the scheme or the client set panicked and 1 otherwise.
\<close>

theorem run_process_refines_plan:
  "case answers H (startup_plan H) m of (tr, m') \<Rightarrow>
     (case run_process H (boot m) of (r, s) \<Rightarrow>
        steps s = tr \<and> outside s = m' \<and> exit_status r = status_of tr)"
proof -
  obtain tr m' where a: "answers H (startup_plan H) m = (tr, m')" by force
  show ?thesis using run_process_run[OF a] by (auto simp: a)
qed

lemma plan_split: "startup_plan H = butlast (startup_plan H) @ [StartManager]"
  "StartManager \<notin> set (butlast (startup_plan H))" "length (startup_plan H) = 11"
  by (simp_all add: startup_plan_def)

text \<open>
  The manager is started at most once, as the last thing the process does, and only after
  both API groups were added to the scheme, both controllers and the webhook were registered and
  both probes were installed, all without an error. The process ends with status 0 exactly if
  that happened and the manager itself ended without an error.
\<close>

theorem manager_started_last:
  fixes H :: "'m host" and m :: 'm
  shows "case run_process H (boot m) of (r, s) \<Rightarrow>
    (StartManager \<in> fst ` set (steps s) \<longleftrightarrow>
       (\<exists>err. steps s = succeeded (butlast (startup_plan H)) @ [(StartManager, err)])) \<and>
    (exit_status r = 0 \<longleftrightarrow> steps s = succeeded (startup_plan H))"
proof -
  let ?p = "startup_plan H"
  obtain tr m' where a: "answers H ?p m = (tr, m')" by force
  obtain r where r: "run_process H (boot m) = (r, \<lparr>outside = m', steps = tr\<rparr>)" "exit_status r = status_of tr"
    using run_process_run[OF a] by auto
  have all: "succeeded ?p = succeeded (butlast ?p) @ [(StartManager, None)]"
    by (subst plan_split(1)) (simp add: succeeded_def)
  from answers_cases[OF a] show ?thesis
  proof (elim disjE exE conjE)
    assume "tr = succeeded ?p"
    then show ?thesis using r all by (auto simp: status_of_succeeded startup_plan_def)
  next
    fix k e
    assume k: "k < length ?p" and tr: "tr = succeeded (take k ?p) @ [(?p ! k, Some e)]"
    have status: "status_of tr \<noteq> 0" by (simp add: tr status_of_failed)
    have ne: "tr \<noteq> succeeded ?p" using all tr by (auto simp: succeeded_def)
    show ?thesis
    proof (cases "k = length ?p - 1")
      case True
      then have "take k ?p = butlast ?p" "?p ! k = StartManager"
        by (simp_all add: startup_plan_def)
      then show ?thesis using r status ne tr by simp
    next
      case False
      then have k': "k < length (butlast ?p)" using k by simp
      then have "take k ?p = take k (butlast ?p)" "?p ! k = butlast ?p ! k"
        by (simp_all add: take_butlast nth_butlast k)
      then have "fst ` set tr \<subseteq> set (butlast ?p)"
        using tr nth_mem[OF k'] set_take_subset[of k "butlast ?p"] by (auto simp: succeeded_def)
      then have "StartManager \<notin> fst ` set tr" using plan_split(2)[of H] by blast
      then show ?thesis using r status ne by (auto simp: image_iff)
    qed
  qed
qed

text \<open>
  The \<open>apiVersion\<close> under which the type \<open>Kubeconfig\<close> is registered, from which
  \<open>SetControllerReference\<close> makes the owner references, is the constant that the approving
  controller compares them with.
\<close>

lemma registered_version:
  "GroupVersion_String (sb_GroupVersion registered_types) = KubeconfigOperatorAPIVersionV1Alpha1"
  "''Kubeconfig'' \<in> set (sb_Types registered_types)"
  by (simp_all add: registered_types_def Register_def SchemeBuilder_def GroupVersion_value_def
      GroupVersion_String_def)

end
