(* ===== verification/Event_Queue.thy ===== *)
theory Event_Queue
  imports Api_Types
begin

text \<open>
  The queues of controller-runtime, which decide about the runs that happen. A controller lists
  all objects of its kind when it starts, adds the name of an object to its queue when something
  changes that concerns it (what that is, \<open>SetupWithManager\<close> says), takes a name out to run
  \<open>Reconcile\<close> on it and puts it back after an error, a request to requeue or a panic. So an object
  for which there is something to do stands still for ever if its name is not in the queue. The
  locale states what a controller owes its queue for that not to happen.
\<close>

subsection \<open>Queues\<close>

text \<open>
  \<open>handle n s again s'\<close> is a run on \<open>n\<close>, \<open>again\<close> tells whether the name is put back. The queue gets
  at least the names that the change of the state touches, during the run too.
\<close>

inductive queue_run :: "('s \<Rightarrow> 'n set) \<Rightarrow> ('n \<Rightarrow> 's \<Rightarrow> bool \<Rightarrow> 's \<Rightarrow> bool) \<Rightarrow> ('s \<Rightarrow> 's \<Rightarrow> bool) \<Rightarrow>
    ('s \<Rightarrow> 's \<Rightarrow> 'n set) \<Rightarrow> 's \<Rightarrow> 's \<Rightarrow> 'n set \<Rightarrow> bool"
  for existing handle outside touched s0 where
  listed: "queue_run existing handle outside touched s0 s0 (existing s0)"
| handled: "queue_run existing handle outside touched s0 s P \<Longrightarrow> n \<in> P \<Longrightarrow> handle n s again s' \<Longrightarrow>
    touched s s' \<subseteq> T \<Longrightarrow>
    queue_run existing handle outside touched s0 s' (P - {n} \<union> (if again then {n} else {}) \<union> T)"
| elsewhere: "queue_run existing handle outside touched s0 s P \<Longrightarrow> outside s s' \<Longrightarrow> touched s s' \<subseteq> T \<Longrightarrow>
    queue_run existing handle outside touched s0 s' (P \<union> T)"
| restarted: "queue_run existing handle outside touched s0 s P \<Longrightarrow>
    queue_run existing handle outside touched s0 s (existing s)"

text \<open>
  The contract between a handler and its queue: something is due for an existing name only; whether it is
  depends on a part of the state that changes only with a trigger of the name; and a run that leaves
  something due for its name asks to be run again, has touched the name, or had a mishap.
\<close>

locale level_triggered =
  fixes existing :: "'s \<Rightarrow> 'n set" and handle :: "'n \<Rightarrow> 's \<Rightarrow> bool \<Rightarrow> 's \<Rightarrow> bool"
    and outside :: "'s \<Rightarrow> 's \<Rightarrow> bool" and touched :: "'s \<Rightarrow> 's \<Rightarrow> 'n set"
    and sound :: "'s \<Rightarrow> bool" and due :: "'n \<Rightarrow> 's \<Rightarrow> bool"
    and view :: "'n \<Rightarrow> 's \<Rightarrow> 'v" and mishap :: "'n \<Rightarrow> 's \<Rightarrow> 's \<Rightarrow> bool"
  assumes due_exists: "due n s \<Longrightarrow> n \<in> existing s"
    and due_view: "view n s = view n s' \<Longrightarrow> due n s \<Longrightarrow> due n s'"
    and untouched: "sound s \<Longrightarrow> sound s' \<Longrightarrow> n \<notin> touched s s' \<Longrightarrow> view n s' = view n s"
    and run_attends: "sound s \<Longrightarrow> handle n s again s' \<Longrightarrow> due n s' \<Longrightarrow>
      again \<or> n \<in> touched s s' \<or> mishap n s s'"
    and run_sound: "sound s \<Longrightarrow> handle n s again s' \<Longrightarrow> sound s'"
    and outside_sound: "sound s \<Longrightarrow> outside s s' \<Longrightarrow> sound s'"
begin

text \<open>
  What is due is in the queue, or a run with a mishap has taken it out, and nothing has touched it since.
\<close>

lemma due_queued:
  assumes "queue_run existing handle outside touched s0 s P" and "sound s0"
  shows "sound s \<and> (\<forall>n. due n s \<longrightarrow> n \<in> P \<or>
    (\<exists>s1 P1 s2. queue_run existing handle outside touched s0 s1 P1 \<and> n \<in> P1 \<and> handle n s1 False s2 \<and>
       mishap n s1 s2 \<and> view n s = view n s2))"
  using assms(1)
proof induction
  case listed
  then show ?case using assms(2) due_exists by blast
next
  case (handled s P n again s' T)
  have s': "sound s'" using handled run_sound by blast
  have "m \<in> P - {n} \<union> (if again then {n} else {}) \<union> T \<or>
      (\<exists>s1 P1 s2. queue_run existing handle outside touched s0 s1 P1 \<and> m \<in> P1 \<and> handle m s1 False s2 \<and>
        mishap m s1 s2 \<and> view m s' = view m s2)" if d: "due m s'" for m
  proof (cases "m \<in> touched s s' \<or> m = n \<and> again")
    case True
    then show ?thesis using handled by auto
  next
    case False
    show ?thesis
    proof (cases "m = n")
      case True
      then have "handle m s False s'" using False handled by simp
      then show ?thesis using run_attends[of s m False s'] True False handled d by blast
    next
      case other: False
      have v: "view m s' = view m s" using untouched[of s s' m] False handled s' by auto
      then have "due m s" using due_view[of m s' s] d by simp
      then show ?thesis using handled other v by auto
    qed
  qed
  then show ?case using s' by blast
next
  case (elsewhere s P s' T)
  have s': "sound s'" using elsewhere outside_sound by blast
  have "m \<in> P \<union> T \<or> (\<exists>s1 P1 s2. queue_run existing handle outside touched s0 s1 P1 \<and> m \<in> P1 \<and>
      handle m s1 False s2 \<and> mishap m s1 s2 \<and> view m s' = view m s2)" if d: "due m s'" for m
  proof (cases "m \<in> touched s s'")
    case True
    then show ?thesis using elsewhere by auto
  next
    case False
    then have v: "view m s' = view m s" using untouched[of s s' m] elsewhere s' by auto
    then have "due m s" using due_view[of m s' s] d by simp
    then show ?thesis using elsewhere v by auto
  qed
  then show ?case using s' by blast
next
  case (restarted s P)
  then show ?case using due_exists by blast
qed

end

subsection \<open>Results of a run\<close>

text \<open>
  What controller-runtime does with the result of a run: an error is retried with back-off, a
  positive \<open>RequeueAfter\<close> after that time, \<open>Requeue\<close> with back-off; after a panic the run is
  repeated, or the process restarts and lists everything.
\<close>

fun retried :: "reconcile_return outcome \<Rightarrow> bool" where
  "retried Panic = True"
| "retried (Ret (res, err)) = (err \<noteq> None \<or> 0 < RequeueAfter res \<or> Requeue res)"

end
