(* ===== verification/Watches.thy ===== *)
theory Watches
  imports Start_Up Api_Store
begin

text \<open>
  What controller-runtime puts into the queue of a controller: the names concerned by a change of
  the store, given the kinds its \<open>SetupWithManager\<close> names.
\<close>

text \<open>
  \<open>For\<close> a kind, an object that changes is enqueued by its own name; for a kind in \<open>Owns\<close>, by the
  name of the object that controls it. \<open>owner\<close> is that object's name by the metadata, as
  \<open>handler.EnqueueRequestForOwner\<close> finds it. The kinds are the two that the controllers watch.
\<close>

definition concerned ::
  "(ObjectMeta \<Rightarrow> string option) \<Rightarrow> watches \<Rightarrow> store \<Rightarrow> store \<Rightarrow> string set" where
  "concerned owner W c c' =
     {n. watch_For W = ''Kubeconfig'' \<and> kubeconfig_at c n \<noteq> kubeconfig_at c' n} \<union>
     {n. watch_For W = ''CertificateSigningRequest'' \<and> request_at c n \<noteq> request_at c' n} \<union>
     {m. ''CertificateSigningRequest'' \<in> set (watch_Owns W) \<and>
        (\<exists>n q. request_at c n \<noteq> request_at c' n \<and> (request_at c n = Some q \<or> request_at c' n = Some q) \<and>
           owner (CsrMeta q) = Some m)}"

abbreviation triggered :: "(ObjectMeta \<Rightarrow> string option) \<Rightarrow> store \<Rightarrow> store \<Rightarrow> string set" where
  "triggered owner \<equiv> concerned owner Kubeconfig_watches"

abbreviation csr_triggered :: "store \<Rightarrow> store \<Rightarrow> string set" where
  "csr_triggered \<equiv> concerned (\<lambda>_. None) Csr_watches"

lemma triggered_eq:
  "triggered owner c c' = {n. kubeconfig_at c n \<noteq> kubeconfig_at c' n} \<union>
     {m. \<exists>n q. request_at c n \<noteq> request_at c' n \<and> (request_at c n = Some q \<or> request_at c' n = Some q) \<and>
        owner (CsrMeta q) = Some m}"
  by (simp add: concerned_def Kubeconfig_watches_def)

lemma csr_triggered_eq: "csr_triggered c c' = {n. request_at c n \<noteq> request_at c' n}"
  by (simp add: concerned_def Csr_watches_def)

end
