(* ===== verification/Approval_Queue.thy ===== *)
theory Approval_Queue
  imports Sample_Store Event_Queue Watches
begin

text \<open>
  The queue of the approving controller: it gets the name of every signing request that changes
  (\<open>For\<close> in \<open>SetupWithManager\<close> of \<open>controllers/csr_controller.go\<close>). No request that is to be
  approved is lost from it, whichever calls fail.
\<close>

definition csr_handler :: "'w env \<Rightarrow> string \<Rightarrow> 'w \<Rightarrow> bool \<Rightarrow> 'w \<Rightarrow> bool" where
  "csr_handler E n w again w' \<longleftrightarrow> (\<exists>req r s. nn_Name req = n \<and> ReconcileCsr E req (start w) = (r, s) \<and>
     again = retried r \<and> w' = world s)"

definition approval_due :: "store \<Rightarrow> string \<Rightarrow> bool" where
  "approval_due c n \<longleftrightarrow> (\<exists>q. request_at c n = Some q \<and> to_approve q)"

text \<open>
  What the others may do during a run: everything, but for deleting requests and making one that
  is not to be approved into one that is. (Between runs they may do that too.)
\<close>

definition keeps_verdicts :: "store \<Rightarrow> store \<Rightarrow> bool" where
  "keeps_verdicts c c' \<longleftrightarrow> (\<forall>n q. request_at c n = Some q \<longrightarrow>
     (\<exists>q'. request_at c' n = Some q' \<and> (to_approve q' \<longrightarrow> to_approve q)))"

text \<open>At the end of a run on \<open>n\<close> that began at \<open>c0\<close>.\<close>

definition approval_done :: "('w \<Rightarrow> store) \<Rightarrow> string \<Rightarrow> store \<Rightarrow> reconcile_return outcome \<Rightarrow> 'w go_state \<Rightarrow> bool" where
  "approval_done obs n c0 r s \<longleftrightarrow> retried r \<or> \<not> approval_due (obs (world s)) n \<or>
     request_at c0 n \<noteq> request_at (obs (world s)) n"

lemma stable_present: "stable keeps_verdicts (\<lambda>c. A \<longrightarrow> request_at c n \<noteq> None)"
  unfolding stable_def keeps_verdicts_def by (metis not_None_eq)

lemma stable_settled: "stable keeps_verdicts (\<lambda>c. request_at c n \<noteq> None \<and> \<not> approval_due c n)"
  unfolding stable_def keeps_verdicts_def approval_due_def by (metis option.sel not_None_eq)

lemma approved_settled:
  assumes "request_at c (Name (CsrMeta q)) \<noteq> None" and "CertificateApproved \<in> cc_Type ` set (CsrConditions q)"
  shows "request_at (update_conditions q c) (Name (CsrMeta q)) \<noteq> None \<and>
    \<not> approval_due (update_conditions q c) (Name (CsrMeta q))"
  using assms by (auto simp: approval_due_def update_conditions_def to_approve_def)

lemma decide_done:
  assumes L: "store_law E obs keeps_verdicts" and a: "to_approve q" and n: "Name (CsrMeta q) = n"
  shows "wp (decide E q) (approval_done obs n c0) s"
proof -
  have retry: "wp (go_bind (record_event x y z) (\<lambda>_. go_bind (Status_Update_Csr E q') (\<lambda>_. go_return (empty_result, Some e))))
      (approval_done obs n c0) s'" for x y z q' e s'
    by (simp add: wp_bind Status_Update_Csr_def wp_record_event wp_api_call wp_return approval_done_def split: prod.split)
  show ?thesis
  proof (cases "parseCSR E (Request q)")
    case (Inl e)
    then show ?thesis
      by (simp add: decide_def ApproveCSR_def wp_bind[of "go_bind f g" for f g] wp_bind[of "set_csr_condition E q c" for c]
          wp_set_csr_condition wp_return retry)
  next
    case (Inr t)
    let ?v = "\<lambda>at. with_verdict q at CertificateApproved ''KubeconfigControllerApprove''
      ''The CSR was auto-approved by the kubeconfig operator''"
    have v: "Name (CsrMeta (?v at)) = n" "CertificateApproved \<in> cc_Type ` set (CsrConditions (?v at))" for at
      using n by (simp_all add: with_verdict_def csr_condition_def)
    have approve: "wp (go_bind (UpdateApproval E (?v at)) f) (approval_done obs n c0) s'"
      if f: "\<And>e x s'. wp (f (Some e, x)) (approval_done obs n c0) s'" "\<And>x. f (None, x) = go_return (empty_result, None)"
      for at f s'
      unfolding UpdateApproval_def
    proof (rule bind_write[OF approval_law[OF store_client_law[OF L]], where P = "\<lambda>_. True"
          and R = "\<lambda>c. request_at c n \<noteq> None \<and> \<not> approval_due c n"], goal_cases)
      case 1
      show ?case by (simp add: stable_def)
    next
      case 3
      show ?case by (rule stable_settled)
    next
      case (4 c)
      then show ?case using approved_settled[OF _ v(2)] v(1) by auto
    next
      case (6 obj w')
      then show ?case using f(2) by (simp add: wp_return approval_done_def)
    qed (simp_all add: f(1))
    show ?thesis
      unfolding decide_def ApproveCSR_def Inr sum.case go_bind_assoc wp_bind[of "set_csr_condition E q c" for c]
        wp_set_csr_condition outcome.case set_verdict[OF a, of CertificateApproved, simplified]
      by (rule approve) (simp_all add: retry)
  qed
qed

lemma ReconcileCsr_done:
  fixes w :: 'w
  assumes L: "store_law E obs keeps_verdicts" and n: "nn_Name req = n"
  shows "wp (ReconcileCsr E req) (approval_done obs n (obs w)) (start w)"
  unfolding ReconcileCsr_eq Get_Csr_def
proof (rule bind_read[OF fresh_csr_law[OF L] stable_present[where A = "request_at (obs w) n \<noteq> None" and n = n]],
    simp, unfold n, goal_cases)
  case (1 err q w' c)
  show ?case
  proof (cases err)
    case (Some e)
    have "approval_done obs n (obs w) (Ret (empty_result, None)) s" if "IsNotFound err" for s
      using 1(1,5) that by (auto simp: approval_done_def approval_due_def)
    then show ?thesis using Some by (simp add: wp_return) (simp add: approval_done_def)
  next
    case None
    then have q: "request_at c n = Some q" "Name (CsrMeta q) = n" using 1(4) by simp_all
    have left: "approval_done obs n (obs w) r \<lparr>world = w', calls = cs\<rparr>" if "\<not> to_approve q" for r cs
    proof -
      have "request_at c n \<noteq> None \<and> \<not> approval_due c n" using q(1) that by (simp add: approval_due_def)
      then show ?thesis using stableD[OF stable_settled 1(2)] by (simp add: approval_done_def)
    qed
    show ?thesis
    proof (cases "to_approve q")
      case True
      then show ?thesis using None decide_done[OF L True q(2)] by simp
    next
      case False
      then show ?thesis using None left by (simp add: wp_return)
    qed
  qed
qed

text \<open>The controller keeps the contract of \<open>Event_Queue\<close>.\<close>

lemma csr_handler_attends:
  assumes "store_law E obs keeps_verdicts" and "csr_handler E n w again w'" and "approval_due (obs w') n"
  shows "again \<or> n \<in> csr_triggered (obs w) (obs w')"
proof -
  obtain req r s where run: "nn_Name req = n" "ReconcileCsr E req (start w) = (r, s)" "again = retried r" "w' = world s"
    using assms(2) by (auto simp: csr_handler_def)
  then have "approval_done obs n (obs w) r s" using ReconcileCsr_done[OF assms(1) run(1), of w] by (simp add: wp_def)
  then show ?thesis using run(3,4) assms(3) by (auto simp: approval_done_def csr_triggered_eq)
qed

interpretation approval_queue: level_triggered
  "\<lambda>w. dom (request_at (obs w))" "csr_handler E" "\<lambda>w w'. True" "\<lambda>w w'. csr_triggered (obs w) (obs w')"
  "\<lambda>w. store_law E obs keeps_verdicts" "\<lambda>n w. approval_due (obs w) n"
  "\<lambda>n w. request_at (obs w) n" "\<lambda>n w w'. False"
proof (unfold_locales, goal_cases)
  case (1 n w)
  then show ?case by (auto simp: approval_due_def)
next
  case (2 n w w')
  then show ?case by (simp add: approval_due_def)
next
  case (3 w w' n)
  then show ?case by (simp add: csr_triggered_eq)
next
  case (4 w n again w')
  then show ?case using csr_handler_attends[OF 4] by simp
qed

abbreviation csr_queue :: "'w env \<Rightarrow> ('w \<Rightarrow> store) \<Rightarrow> 'w \<Rightarrow> 'w \<Rightarrow> string set \<Rightarrow> bool" where
  "csr_queue E obs \<equiv> queue_run (\<lambda>w. dom (request_at (obs w))) (csr_handler E) (\<lambda>w w'. True)
     (\<lambda>w w'. csr_triggered (obs w) (obs w'))"

text \<open>
  C19: No approval is forgotten: in every state the cluster and the queue get into, by runs of the
  approving controller during which any call may fail, arbitrary steps of all others and restarts,
  a request that the controller is to approve is in its queue.
\<close>

theorem approval_not_forgotten:
  assumes "store_law E obs keeps_verdicts" and "csr_queue E obs w0 w P"
    and "request_at (obs w) n = Some q" and "to_approve q"
  shows "n \<in> P"
proof -
  have "approval_due (obs w) n" using assms(3,4) by (auto simp: approval_due_def)
  then show ?thesis using approval_queue.due_queued[OF assms(2,1)] by blast
qed

text \<open>In the sample the first run of the Kubeconfig reconciler has created the request.\<close>

theorem approval_not_forgotten_witness:
  "\<exists>P q. csr_queue store_env named installed after_first P \<and> request_at (named after_first) ''kc'' = Some q \<and>
     to_approve q \<and> ''kc'' \<in> P"
proof -
  have L: "store_law store_env named keeps_verdicts"
    by (rule reliable_store_law[OF store_env_reliable]) (auto simp: keeps_verdicts_def)
  have "csr_queue store_env named installed after_first (dom (request_at (named installed)) \<union>
      csr_triggered (named installed) (named after_first))"
    by (rule queue_run.elsewhere[OF queue_run.listed]) simp_all
  moreover obtain q where "request_at (named after_first) ''kc'' = Some q" "to_approve q"
    using after_first_request new_kubeconfig_facts(1) by (auto simp: under_way_def Let_def)
  ultimately show ?thesis using approval_not_forgotten[OF L] by blast
qed

end
