(* ===== verification/Work_Queue.thy ===== *)
theory Work_Queue
  imports Admission Event_Queue Watches
begin

text \<open>
  The queue of the Kubeconfig reconciler: it gets the name of every Kubeconfig that changes (\<open>For\<close>)
  and of the owner of every signing request that changes (\<open>Owns\<close>, both in \<open>SetupWithManager\<close>).
  No Kubeconfig for which there is something to do is lost from it, unless a run drops its work:
  when an update of a status fails, for instance.
\<close>

subsection \<open>The queue of the Kubeconfig reconciler\<close>

text \<open>A request that somebody has decided about.\<close>

definition judged :: "Csr \<Rightarrow> bool" where
  "judged q \<longleftrightarrow> refused q \<or> CertificateApproved \<in> cc_Type ` set (CsrConditions q)"

text \<open>
  There is something to do for a Kubeconfig: it is not over, and its request is missing or has
  been decided about (a Kubeconfig whose request awaits a decision can only wait).
\<close>

definition unfinished :: "'w env \<Rightarrow> store \<Rightarrow> string \<Rightarrow> bool" where
  "unfinished E c n \<longleftrightarrow> (\<exists>k. kubeconfig_at c n = Some k \<and> \<not> isInTerminalCondition E k)"

definition work_due :: "'w env \<Rightarrow> store \<Rightarrow> string \<Rightarrow> bool" where
  "work_due E c n \<longleftrightarrow> unfinished E c n \<and> (\<forall>q. request_at c n = Some q \<longrightarrow> judged q)"

text \<open>
  A store in order: every Kubeconfig asks for an algorithm that is supported (the schema of the
  resource sees to that), and a request under its name is its own.
\<close>

definition tidy :: "(ObjectMeta \<Rightarrow> string option) \<Rightarrow> store \<Rightarrow> bool" where
  "tidy owner c \<longleftrightarrow> (\<forall>n k. kubeconfig_at c n = Some k \<longrightarrow>
     (\<exists>csr. SpecCSR (Spec k) = Some csr \<and> SignatureAlg csr \<in> set supported_algorithms) \<and>
     (\<forall>q. request_at c n = Some q \<longrightarrow> owner (CsrMeta q) = Some n))"

text \<open>
  What the others may do during a run: decide about requests and sign them, create objects,
  change specifications, but not delete Kubeconfigs or requests, take a decision back or write
  the status of a Kubeconfig. (Between runs they may do anything that keeps the store in order.)
  \<open>gen\<close> is the generation of a Kubeconfig, which the API server counts up with every change.
\<close>

definition meanwhile :: "(ObjectMeta \<Rightarrow> string option) \<Rightarrow> (Kubeconfig \<Rightarrow> nat) \<Rightarrow> store \<Rightarrow> store \<Rightarrow> bool" where
  "meanwhile owner gen c c' \<longleftrightarrow> (tidy owner c \<longrightarrow> tidy owner c') \<and>
     (\<forall>n k. kubeconfig_at c n = Some k \<longrightarrow>
        (\<exists>k'. kubeconfig_at c' n = Some k' \<and> Status k' = Status k \<and> (k' = k \<or> gen k < gen k'))) \<and>
     (\<forall>n q. request_at c n = Some q \<longrightarrow> (\<exists>q'. request_at c' n = Some q' \<and> (judged q \<longrightarrow> judged q'))) \<and>
     incidents c \<subseteq> incidents c'"

text \<open>
  The laws: the API server, condition lists, owner references that name the owner, generations
  that do not depend on the status, and updates of a status that fail with a conflict only if the Kubeconfig
  has changed since the run read it, and with NotFound only if it is gone. They may fail for other reasons at any time.
\<close>

definition owners_named :: "'w env \<Rightarrow> (ObjectMeta \<Rightarrow> string option) \<Rightarrow> bool" where
  "owners_named E owner \<longleftrightarrow>
     (\<forall>k m. OwnerReferences m = [] \<longrightarrow> owner (set_owner E k m) = Some (Name (KMeta k)))"

definition generations :: "(Kubeconfig \<Rightarrow> nat) \<Rightarrow> bool" where
  "generations gen \<longleftrightarrow> (\<forall>k st. gen (k\<lparr>Status := st\<rparr>) = gen k)"

definition overtaken :: "go_error \<Rightarrow> bool" where
  "overtaken e \<longleftrightarrow> (\<exists>m. e = StatusError ReasonConflict m \<or> e = StatusError ReasonNotFound m)"

definition status_law :: "'w env \<Rightarrow> ('w \<Rightarrow> store) \<Rightarrow> (Kubeconfig \<Rightarrow> nat) \<Rightarrow> bool" where
  "status_law E obs gen \<longleftrightarrow> (\<forall>k w e k' w'. client_Status_Update_Kubeconfig E k w = ((Some e, k'), w') \<longrightarrow> overtaken e \<longrightarrow>
     (\<forall>k''. kubeconfig_at (obs w') (Name (KMeta k)) = Some k'' \<longrightarrow> gen k'' \<noteq> gen k))"

definition queue_law :: "'w env \<Rightarrow> ('w \<Rightarrow> store) \<Rightarrow> (ObjectMeta \<Rightarrow> string option) \<Rightarrow> (Kubeconfig \<Rightarrow> nat) \<Rightarrow> bool" where
  "queue_law E obs owner gen \<longleftrightarrow> client_law E obs (meanwhile owner gen) \<and> conditions_law E \<and> owner_names E \<and>
     owners_named E owner \<and> generations gen \<and> status_law E obs gen"

text \<open>
  What a run may meet that makes it drop its work without asking for another one, as its calls show it: an
  update of the status that fails for another reason than that the Kubeconfig has changed or is gone,
  the event that the key or the request could not be generated, or an answer about the request that
  was not up to date.
\<close>

definition hitch :: "string \<Rightarrow> store \<Rightarrow> call list \<Rightarrow> bool" where
  "hitch n c cs \<longleftrightarrow> (\<exists>k e. UpdateKubeconfigStatus k (Some e) \<in> set cs \<and> \<not> overtaken e) \<or>
     (\<exists>e. Event ''Warning'' ''CsrFailed'' (csr_created_failed e) \<in> set cs) \<or> RequestIncident n \<in> incidents c"

definition kubeconfig_handler :: "'w env \<Rightarrow> string \<Rightarrow> 'w \<Rightarrow> bool \<Rightarrow> 'w \<Rightarrow> bool" where
  "kubeconfig_handler E n w again w' \<longleftrightarrow> (\<exists>req r s. nn_Name req = n \<and> Reconcile E req (start w) = (r, s) \<and>
     again = retried r \<and> w' = world s)"

definition outside_step :: "'w env \<Rightarrow> ('w \<Rightarrow> store) \<Rightarrow> (ObjectMeta \<Rightarrow> string option) \<Rightarrow> 'w \<Rightarrow> 'w \<Rightarrow> bool" where
  "outside_step E obs owner w w' \<longleftrightarrow> (\<exists>req r s. ReconcileCsr E req (start w) = (r, s) \<and> w' = world s) \<or>
     (tidy owner (obs w) \<longrightarrow> tidy owner (obs w'))"

subsection \<open>What does not get lost during a run\<close>

lemma stable_tidy: "stable (meanwhile owner gen) (tidy owner)"
  by (simp add: stable_def meanwhile_def)

lemma tidy_spec: "tidy owner c \<Longrightarrow> kubeconfig_at c n = Some k \<Longrightarrow>
    \<exists>csr. SpecCSR (Spec k) = Some csr \<and> SignatureAlg csr \<in> set supported_algorithms"
  by (simp add: tidy_def)

text \<open>The Kubeconfig \<open>n\<close> is there, in the generation of \<open>k\<close> or a later one.\<close>

definition current :: "(Kubeconfig \<Rightarrow> nat) \<Rightarrow> string \<Rightarrow> Kubeconfig \<Rightarrow> store \<Rightarrow> bool" where
  "current gen n k c \<longleftrightarrow> (\<exists>k'. kubeconfig_at c n = Some k' \<and> gen k \<le> gen k')"

lemma stable_current: "stable (meanwhile owner gen) (current gen n k)"
  unfolding stable_def
proof (intro allI impI)
  fix c c' assume m: "meanwhile owner gen c c'" and "current gen n k c"
  then obtain k1 where k1: "kubeconfig_at c n = Some k1" "gen k \<le> gen k1" by (auto simp: current_def)
  then obtain k2 where "kubeconfig_at c' n = Some k2" "k2 = k1 \<or> gen k1 < gen k2"
    using m unfolding meanwhile_def by blast
  then show "current gen n k c'" using k1(2) by (auto simp: current_def)
qed

lemma current_writes:
  assumes "generations gen" and "current gen n k c"
  shows "current gen n k (put_secret s c)" "current gen n k (put_binding b c)" "current gen n k (put_request q c)"
    "kubeconfig_at c (Name (KMeta k')) \<noteq> None \<Longrightarrow> current gen n k (update_status k' c)"
  using assms
  by (auto simp: current_def generations_def put_secret_def put_binding_def put_request_def update_status_def)

lemma current_same:
  assumes "generations gen" and "same_resource kc kc'"
  shows "gen kc' = gen kc"
proof -
  have "kc' = kc\<lparr>Status := Status kc'\<rparr>" using assms(2) by (simp add: same_resource_def)
  then show ?thesis using assms(1) by (metis generations_def)
qed

text \<open>\<open>c\<close> is a store in a run that began at \<open>c0\<close>.\<close>

definition since :: "(ObjectMeta \<Rightarrow> string option) \<Rightarrow> (Kubeconfig \<Rightarrow> nat) \<Rightarrow> store \<Rightarrow> store \<Rightarrow> bool" where
  "since owner gen c0 c \<longleftrightarrow> tidy owner c \<and> (\<forall>n k. kubeconfig_at c0 n = Some k \<longrightarrow> current gen n k c) \<and>
     (\<forall>n q. request_at c0 n = Some q \<longrightarrow> (\<exists>q'. request_at c n = Some q' \<and> (judged q \<longrightarrow> judged q')))"

lemma since_refl: "tidy owner c \<Longrightarrow> since owner gen c c"
  by (simp add: since_def current_def)

lemma stable_since: "stable (meanwhile owner gen) (since owner gen c0)"
  unfolding stable_def
proof (intro allI impI)
  fix c c' assume m: "meanwhile owner gen c c'" and s: "since owner gen c0 c"
  have "tidy owner c'" using m s by (simp add: meanwhile_def since_def)
  moreover have "kubeconfig_at c0 n = Some k \<Longrightarrow> current gen n k c'" for n k
    using stableD[OF stable_current m] s by (simp add: since_def)
  moreover have "\<exists>q'. request_at c' n = Some q' \<and> (judged q \<longrightarrow> judged q')" if "request_at c0 n = Some q" for n q
    using m s that unfolding meanwhile_def since_def by metis
  ultimately show "since owner gen c0 c'" by (simp add: since_def)
qed

lemma stable_requested: "stable (meanwhile owner gen) (\<lambda>c. A \<and> request_at c n \<noteq> None)"
  unfolding stable_def meanwhile_def by (metis option.exhaust option.distinct(1))

lemma stable_incident: "stable (meanwhile owner gen) (\<lambda>c. i \<in> incidents c)"
  by (auto simp: stable_def meanwhile_def)

lemma unaffected_incident: "unaffected E (\<lambda>c. i \<in> incidents c)"
  by (simp add: unaffected_def put_secret_def put_binding_def update_status_def put_request_def)

lemma tidy_writes:
  assumes t: "tidy owner c"
  shows "tidy owner (put_secret s c)" "tidy owner (put_binding b c)"
    "kubeconfig_at c (Name (KMeta k)) \<noteq> None \<Longrightarrow> tidy owner (update_status k c)"
    "request_at c (Name (CsrMeta q)) \<noteq> None \<Longrightarrow> tidy owner (update_conditions q c)"
    "owner_names E \<Longrightarrow> owners_named E owner \<Longrightarrow> tidy owner (put_request (createCsr E kc req) c)"
  using t
  by (auto simp: tidy_def put_secret_def put_binding_def update_status_def update_conditions_def put_request_def
      createCsr_def Let_def owners_named_def owner_names_def zero_meta_def split: if_splits)

lemma since_requests: "since owner gen c0 c \<Longrightarrow> request_at c n = None \<Longrightarrow> request_at c0 n = None"
  unfolding since_def by (metis not_None_eq)

lemma since_kubeconfigs: "since owner gen c0 c \<Longrightarrow> kubeconfig_at c n = None \<Longrightarrow> kubeconfig_at c0 n = None"
  unfolding since_def current_def by (metis not_None_eq)

lemma since_writes:
  assumes g: "generations gen" and s: "since owner gen c0 c"
  shows "since owner gen c0 (put_secret x c)" "since owner gen c0 (put_binding b c)"
    "kubeconfig_at c (Name (KMeta k)) \<noteq> None \<Longrightarrow> since owner gen c0 (update_status k c)"
  using s tidy_writes(1-3)[where owner = owner] current_writes[OF g, of _ _ c]
  by (simp_all add: since_def) (simp_all add: put_secret_def put_binding_def)

lemma since_put_request:
  assumes "owner_names E" and "owners_named E owner" and g: "generations gen" and s: "since owner gen c0 c"
    and none: "request_at c (Name (CsrMeta (createCsr E kc req))) = None"
  shows "since owner gen c0 (put_request (createCsr E kc req) c)"
proof -
  have "request_at c0 (Name (CsrMeta (createCsr E kc req))) = None" by (rule since_requests[OF s none])
  then show ?thesis
    using s tidy_writes(5)[OF _ assms(1,2), of c kc req] current_writes(3)[OF g]
    by (auto simp: since_def) (auto simp: put_request_def)
qed

text \<open>The state of a run that has read \<open>kc\<close>, which is not older than what was there at first.\<close>

definition in_run :: "(ObjectMeta \<Rightarrow> string option) \<Rightarrow> (Kubeconfig \<Rightarrow> nat) \<Rightarrow> store \<Rightarrow> string \<Rightarrow> Kubeconfig \<Rightarrow> store \<Rightarrow> bool" where
  "in_run owner gen c0 n kc c \<longleftrightarrow> since owner gen c0 c \<and> current gen n kc c \<and>
     (\<forall>k. kubeconfig_at c0 n = Some k \<longrightarrow> gen k \<le> gen kc)"

lemma stable_in_run: "stable (meanwhile owner gen) (in_run owner gen c0 n kc)"
  using stable_since stable_current unfolding stable_def in_run_def by blast

lemma in_run_same: "generations gen \<Longrightarrow> same_resource kc kc' \<Longrightarrow> in_run owner gen c0 n kc' c = in_run owner gen c0 n kc c"
  by (simp add: in_run_def current_def current_same)

lemma unaffected_queue:
  assumes "owner_names E" and "owners_named E owner" and g: "generations gen"
  shows "unaffected E (since owner gen c0)" "unaffected E (in_run owner gen c0 n kc)"
    "unaffected E (\<lambda>c. A \<and> request_at c n \<noteq> None)" "unaffected_by_verdicts (tidy owner)"
proof -
  show "unaffected E (since owner gen c0)"
    by (simp add: unaffected_def since_put_request[OF assms] since_writes[OF g])
  show "unaffected E (in_run owner gen c0 n kc)"
    by (simp add: unaffected_def in_run_def since_put_request[OF assms] since_writes[OF g] current_writes[OF g])
  show "unaffected E (\<lambda>c. A \<and> request_at c n \<noteq> None)"
    by (auto simp: unaffected_def put_secret_def put_binding_def update_status_def put_request_def)
  show "unaffected_by_verdicts (tidy owner)" by (simp add: unaffected_by_verdicts_def tidy_writes(4))
qed

text \<open>The laws, and the rules they give for the calls of a run.\<close>

lemma queue_lawD:
  assumes "queue_law E obs owner gen"
  shows "client_law E obs (meanwhile owner gen)" "owner_names E" "owners_named E owner" "generations gen"
    "conditions_law E" "status_law E obs gen"
  using assms by (simp_all add: queue_law_def)

subsection \<open>How a run ends\<close>

text \<open>
  Nothing is due for \<open>n\<close> at the end, or it has been touched: the Kubeconfig has changed or is
  over, its request has been created in the meantime, or had not been decided about.
\<close>

definition attended :: "'w env \<Rightarrow> string \<Rightarrow> store \<Rightarrow> store \<Rightarrow> bool" where
  "attended E n c0 c \<longleftrightarrow> kubeconfig_at c0 n \<noteq> kubeconfig_at c n \<or> \<not> unfinished E c n \<or>
     request_at c0 n = None \<and> request_at c n \<noteq> None \<or> (\<exists>q. request_at c0 n = Some q \<and> \<not> judged q)"

abbreviation run_done :: "'w env \<Rightarrow> ('w \<Rightarrow> store) \<Rightarrow> string \<Rightarrow> store \<Rightarrow> reconcile_return outcome \<Rightarrow> 'w go_state \<Rightarrow> bool" where
  "run_done E obs n c0 r s \<equiv> retried r \<or> attended E n c0 (obs (world s)) \<or> hitch n (obs (world s)) (calls s)"

lemma request_triggers:
  assumes "tidy owner c'" and "kubeconfig_at c' n = Some k" and "request_at c' n = Some q"
    and "request_at c n \<noteq> Some q"
  shows "n \<in> triggered owner c c'"
proof -
  have "owner (CsrMeta q) = Some n" using assms(1-3) by (simp add: tidy_def)
  then show ?thesis using assms(3,4) by (auto simp: triggered_eq intro!: exI[of _ n])
qed

lemma attended_due:
  assumes "attended E n c0 c" and s: "since owner gen c0 c" and d: "work_due E c n"
  shows "n \<in> triggered owner c0 c"
proof (rule ccontr)
  assume n: "n \<notin> triggered owner c0 c"
  then have same: "kubeconfig_at c0 n = kubeconfig_at c n" by (simp add: triggered_eq)
  obtain k where k: "kubeconfig_at c n = Some k" using d by (auto simp: work_due_def unfinished_def)
  have "request_at c n \<noteq> None \<and> request_at c0 n \<noteq> request_at c n"
    using assms(1) d same k since_requests[OF s, of n]
    by (cases "request_at c n"; cases "request_at c0 n") (auto simp: attended_def work_due_def)
  then show False using request_triggers n k s by (fastforce simp: since_def)
qed

text \<open>
  The last status of a run: it is written, or the Kubeconfig is gone, or it has changed since it
  was read (a conflict), which is a trigger itself; or the update fails for another reason.
\<close>

lemma bind_last_status:
  assumes law: "queue_law E obs owner gen" and n: "Name (KMeta kc) = n" and t: "isInTerminalCondition E kc"
    and s: "in_run owner gen c0 n kc (obs (world s))"
  shows "wp (go_bind (Status_Update_Kubeconfig E kc) (\<lambda>_. go_return x)) (run_done E obs n c0) s"
proof -
  note L = queue_lawD[OF law]
  have kept: "wp (Status_Update_Kubeconfig E kc) (\<lambda>r s'. in_run owner gen c0 n kc (obs (world s'))) s"
    by (rule keepsD[OF writes_keep(5)[OF L(1) stable_in_run unaffected_queue(2)[OF L(2-4)]] s])
  let ?done = "\<lambda>s'. attended E n c0 (obs (world s')) \<or> hitch n (obs (world s')) (calls s')"
  have "wp (Status_Update_Kubeconfig E kc) (\<lambda>r s'. \<exists>y. r = Ret y \<and> (in_run owner gen c0 n kc (obs (world s')) \<longrightarrow> ?done s')) s"
    unfolding Status_Update_Kubeconfig_def
  proof (rule wp_api_callI)
    fix err k' w' assume f: "client_Status_Update_Kubeconfig E kc (world s) = ((err, k'), w')"
    let ?s = "\<lparr>world = w', calls = calls s @ [UpdateKubeconfigStatus kc err]\<rparr>"
    have "?done ?s" if i: "in_run owner gen c0 n kc (obs w')"
    proof (cases err)
      case None
      then obtain c where "meanwhile owner gen (update_status kc c) (obs w')" "kubeconfig_at c n \<noteq> None"
        using update_kubeconfig_law[OF L(1), of kc] f n unfolding write_law_def by blast
      then have "\<exists>k. kubeconfig_at (obs w') n = Some k \<and> Status k = Status kc"
        using n by (force simp: meanwhile_def update_status_def)
      then show ?thesis using t by (auto simp: attended_def unfinished_def isInTerminalCondition_eq)
    next
      case (Some e)
      show ?thesis
      proof (cases "overtaken e")
        case True
        obtain k where k: "kubeconfig_at (obs w') n = Some k" "gen kc \<le> gen k" using i by (auto simp: in_run_def current_def)
        moreover have "gen k \<noteq> gen kc" using L(6) f n k(1) Some True by (auto simp: status_law_def)
        ultimately have "kubeconfig_at c0 n \<noteq> Some k" using i by (fastforce simp: in_run_def)
        then show ?thesis using k(1) by (simp add: attended_def)
      next
        case False
        then show ?thesis using Some by (auto simp: hitch_def)
      qed
    qed
    then show "\<exists>y. Ret (err, k') = Ret y \<and> (in_run owner gen c0 n kc (obs (world ?s)) \<longrightarrow> ?done ?s)" by simp
  qed
  then have "wp (Status_Update_Kubeconfig E kc) (\<lambda>r s'. \<exists>y. r = Ret y \<and> ?done s') s"
    using kept by (auto simp: wp_def split: prod.splits)
  then show ?thesis unfolding wp_bind by (auto simp: wp_return elim!: wp_mono)
qed

text \<open>The parts that may return from the whole run do so with something that is retried.\<close>

definition gives_up_retried :: "(reconcile_return + 'a) outcome \<Rightarrow> bool" where
  "gives_up_retried r \<longleftrightarrow> (\<forall>y. r = Ret (Inl y) \<longrightarrow> retried (Ret y))"

lemma user_secret_retried:
  "wp (reconcileUserSecret E kc) (\<lambda>r s'. gives_up_retried r \<and>
    (\<forall>kc' sec. r = Ret (Inr (kc', sec)) \<longrightarrow> same_resource kc kc')) s"
  by (simp add: reconcileUserSecret_def reconcileOwnSecret_def reconcileExistingSecret_def client_defs go_wp
      gives_up_retried_def same_resource_def adoptSecret_def SetUserSecret_def Let_def
      split: option.split prod.split)

lemma store_kubeconfig_retried:
  "wp (storeKubeconfig E kc sec cert) (\<lambda>r s'. gives_up_retried r \<and>
    (\<forall>kc'. r = Ret (Inr kc') \<longrightarrow> same_resource kc kc')) s"
  by (simp add: storeKubeconfig_def createKubeconfig_def ClusterCA_def ClientData_def client_defs go_wp
      gives_up_retried_def same_resource_def Let_def split: option.split prod.split)

lemma role_binding_retried: "wp (reconcileRoleBinding E kc) (\<lambda>r s'. gives_up_retried r) s"
  by (simp add: reconcileRoleBinding_def createClusterRoleBinding_def client_defs go_wp
      gives_up_retried_def Let_def split: option.split prod.split)

text \<open>No request was found: one is generated and created, or the run is retried.\<close>

lemma createCSR_issues:
  assumes "SpecCSR (Spec kc) = Some csr" and "SignatureAlg csr \<in> set supported_algorithms"
  shows "wp (createCSR E kc) (\<lambda>r s'. r = Panic \<or> (\<exists>key req. r = Ret (Some key, Some req, None)) \<or>
    (\<exists>k q e. r = Ret (k, q, Some e))) s"
  unfolding createCSR_def wp_bind[of "go_deref p" for p] wp_deref assms(1) option.case outcome.case
    wp_bind[of "generateKey E a" for a]
proof (rule wp_generateKeyI, goal_cases)
  case (2 k enc w')
  show ?case by (simp add: go_wp split: prod.split sum.split)
qed (use assms(2) in \<open>simp_all add: supported_algorithms_def wp_return\<close>)

text \<open>Calls that keep an assertion, before the rest of a run and at its end.\<close>

lemma bind_keeps:
  assumes "keeps obs P m" and "P (obs (world s))" and "\<And>s'. Q Panic s'"
    and "\<And>x s'. P (obs (world s')) \<Longrightarrow> wp (f x) Q s'"
  shows "wp (go_bind m f) Q s"
  unfolding wp_bind by (rule wp_mono[OF keepsD[OF assms(1,2)]]) (use assms(3,4) in \<open>auto split: outcome.split\<close>)

lemma run_keeps:
  assumes "keeps obs P m" and "P (obs (world s))" and "\<And>r s'. P (obs (world s')) \<Longrightarrow> Q r s'"
  shows "wp m Q s"
  by (rule wp_mono[OF keepsD[OF assms(1,2)] assms(3)])

lemma submit_done:
  assumes law: "queue_law E obs owner gen" and n: "Name (KMeta kc) = n" and s: "since owner gen c0 (obs (world s))"
  shows "wp (submitCSR E kc sec key req) (run_done E obs n c0) s"
proof -
  note L = queue_lawD(1)[OF law] and ow = queue_lawD(2-4)[OF law]
  let ?made = "\<lambda>c. request_at c0 n = None \<and> request_at c n \<noteq> None"
  note kept = bind_keeps[where P = "since owner gen c0" and obs = obs]
    and since_kept = writes_keep[OF L stable_since unaffected_queue(1)[OF ow]] keeps_basic
    and made_kept = writes_keep[OF L stable_requested unaffected_queue(3)[OF ow]]
  have create: "wp (go_bind (Create_Csr E (createCsr E kc req)) (\<lambda>(err, csr). case err of
        Some e \<Rightarrow> go_bind (record_event a b (d e)) (\<lambda>_. go_return (empty_result, err)) | None \<Rightarrow> f csr)) (run_done E obs n c0) s1"
    if f: "\<And>csr. keeps obs ?made (f csr)" and s1: "since owner gen c0 (obs (world s1))" for a b d f s1
    unfolding Create_Csr_def
  proof (rule bind_write[OF create_csr_law[OF L] stable_since s1
        stable_requested[where A = "request_at c0 n = None" and n = n]], goal_cases)
    case (1 c)
    then show ?case using since_requests[of owner gen c0 c] n ow by (auto simp: put_request_def createCsr_fields)
  next
    case (2 e obj w')
    show ?case by (simp add: go_wp)
  next
    case (3 obj w')
    have "wp (f obj) (run_done E obs n c0) s2" if "?made (obs (world s2))" for s2
      by (rule run_keeps[OF f that]) (simp add: attended_def)
    then show ?case using 3 by simp
  qed
  show ?thesis
    unfolding submitCSR_def Let_def SetCondition_def
  proof (rule kept, rule since_kept, rule s, simp, rule kept, rule since_kept, assumption, simp,
      rule kept, rule since_kept, assumption, simp, goal_cases)
    case (1 d1 s1 d2 s2 x s3)
    obtain err sec' where x: "x = (err, sec')" by (cases x)
    show ?case
    proof (cases err)
      case None
      show ?thesis
        unfolding x None prod.case option.case
        by (rule kept, rule since_kept, rule 1(3), simp, rule create)
          (intro made_kept keeps_rules, assumption)
    qed (simp add: x go_wp)
  qed
qed

lemma fresh_done:
  assumes law: "queue_law E obs owner gen" and n: "Name (KMeta kc) = n" and s: "since owner gen c0 (obs (world s))"
    and csr: "SpecCSR (Spec kc) = Some csr" "SignatureAlg csr \<in> set supported_algorithms"
  shows "wp (reconcileFreshCSR E kc sec) (run_done E obs n c0) s"
proof -
  note L = queue_lawD(1)[OF law]
  have made: "wp (createCSR E kc) (\<lambda>r s'. (r = Panic \<or> (\<exists>key req. r = Ret (Some key, Some req, None)) \<or>
      (\<exists>k q e. r = Ret (k, q, Some e))) \<and> since owner gen c0 (obs (world s'))) s1"
    if "since owner gen c0 (obs (world s1))" for s1
    using createCSR_issues[OF csr] keepsD[OF createCSR_keeps[OF L stable_since]] that by (simp add: wp_conj)
  have failed: "hitch n c (cs @ [Event ''Warning'' ''CsrFailed'' (csr_created_failed e)])" for c cs e
    by (auto simp: hitch_def)
  show ?thesis
    unfolding reconcileFreshCSR_def
  proof (rule bind_event, unfold wp_bind, rule wp_mono[OF made])
    show "since owner gen c0 (obs (world \<lparr>world = world s, calls = calls s @
        [Event ''Normal'' ''Generating'' ''Generating CSR for kubeconfig'']\<rparr>))" using s by simp
  qed (auto simp: go_wp Let_def submit_done[OF law n] failed)
qed

text \<open>A request was found: it waits for a decision, or the run ends the Kubeconfig or is retried.\<close>

lemma then_retried:
  assumes "wp m (\<lambda>r s'. gives_up_retried r \<and> (\<forall>a. r = Ret (Inr a) \<longrightarrow> R a)) s"
    and "keeps obs P m" and "P (obs (world s))"
    and "\<And>a s'. R a \<Longrightarrow> P (obs (world s')) \<Longrightarrow> wp (f a) (run_done E obs n c0) s'"
  shows "wp (go_then m f) (run_done E obs n c0) s"
proof -
  have "wp m (\<lambda>r s'. (gives_up_retried r \<and> (\<forall>a. r = Ret (Inr a) \<longrightarrow> R a)) \<and> P (obs (world s'))) s"
    using assms(1) keepsD[OF assms(2,3)] by (simp add: wp_conj)
  then show ?thesis
    by (intro wp_thenI[where R = "\<lambda>a s'. R a \<and> P (obs (world s'))"])
      (auto simp: gives_up_retried_def assms(4) elim!: wp_mono)
qed

lemma bind_condition_in_run:
  assumes "generations gen" and "in_run owner gen c0 n kc (obs (world s))"
    and "\<And>kc'. same_resource kc kc' \<Longrightarrow> in_run owner gen c0 n kc' (obs (world s)) \<Longrightarrow>
      isInTerminalCondition E kc' = isInTerminalCondition E (kc\<lparr>Status := (Status kc)\<lparr>Conditions :=
        meta_SetStatusCondition E (time_Now E (world s)) (Conditions (Status kc)) (new_condition t st 0 r m)\<rparr>\<rparr>) \<Longrightarrow>
      wp (k kc') Q s"
  shows "wp (go_bind (SetCondition E kc t st r m) k) Q s"
  unfolding wp_bind wp_SetCondition outcome.case
proof (rule assms(3))
  let ?kc = "kc\<lparr>Status := (Status kc)\<lparr>Conditions := meta_SetStatusCondition E (time_Now E (world s))
    (Conditions (Status kc)) (new_condition t st 0 r m)\<rparr>\<rparr>"
  show same: "same_resource kc ?kc" by (simp add: same_resource_def)
  show "in_run owner gen c0 n ?kc (obs (world s))" using in_run_same[OF assms(1) same] assms(2) by blast
qed (rule refl)

lemma same_phase: "same_resource kc (SetPhase kc p)"
  by (simp add: same_resource_def SetPhase_def)

lemma last_condition_done:
  assumes law: "queue_law E obs owner gen" and n: "Name (KMeta kc) = n" and t: "st \<noteq> ConditionUnknown"
    and s: "in_run owner gen c0 n kc (obs (world s))"
  shows "wp (go_bind (SetCondition E kc ConditionTypeKubeconfigFinished st re m) (\<lambda>kubeconfig.
    go_bind (Status_Update_Kubeconfig E (SetPhase kubeconfig p)) (\<lambda>_. go_return x))) (run_done E obs n c0) s"
proof (rule bind_condition_in_run[where obs = obs, OF queue_lawD(4)[OF law] s])
  fix kc' assume kc': "same_resource kc kc'" "in_run owner gen c0 n kc' (obs (world s))"
    "isInTerminalCondition E kc' = isInTerminalCondition E (kc\<lparr>Status := (Status kc)\<lparr>Conditions :=
      meta_SetStatusCondition E (time_Now E (world s)) (Conditions (Status kc))
        (new_condition ConditionTypeKubeconfigFinished st 0 re m)\<rparr>\<rparr>)"
  show "wp (go_bind (Status_Update_Kubeconfig E (SetPhase kc' p)) (\<lambda>_. go_return x)) (run_done E obs n c0) s"
  proof (rule bind_last_status[OF law])
    show "Name (KMeta (SetPhase kc' p)) = n" using kc'(1) n by (simp add: same_resource_def SetPhase_def)
    show "isInTerminalCondition E (SetPhase kc' p)" using kc'(3) t by (simp add: condition_after(1)[OF queue_lawD(5)[OF law]])
    show "in_run owner gen c0 n (SetPhase kc' p) (obs (world s))"
      using kc'(2) by (simp add: in_run_same[OF queue_lawD(4)[OF law] same_phase])
  qed
qed

lemma approved_done:
  assumes law: "queue_law E obs owner gen" and n: "Name (KMeta kc) = n" and s: "in_run owner gen c0 n kc (obs (world s))"
  shows "wp (reconcileApproved E kc sec q) (run_done E obs n c0) s"
proof -
  note L = queue_lawD[OF law]
  note keep = parts_keep[OF L(1) stable_in_run unaffected_queue(2)[OF L(2-4)]]
  have store: "wp (go_then (storeKubeconfig E kc2 sec cert) (\<lambda>kubeconfig.
      go_then (reconcileRoleBinding E kubeconfig) (\<lambda>_. finishKubeconfig E kubeconfig))) (run_done E obs n c0) s2"
    if kc2: "Name (KMeta kc2) = n" "in_run owner gen c0 n kc2 (obs (world s2))" for kc2 cert s2
  proof (rule then_retried[where R = "same_resource kc2" and obs = obs, OF store_kubeconfig_retried keep(2) kc2(2)])
    fix kc3 :: Kubeconfig and s3 :: "'a go_state"
    assume same: "same_resource kc2 kc3" and i: "in_run owner gen c0 n kc2 (obs (world s3))"
    have kc3: "Name (KMeta kc3) = n" "in_run owner gen c0 n kc3 (obs (world s3))"
      using same i kc2(1) by (simp_all add: in_run_same[OF L(4) same]) (simp add: same_resource_def)
    show "wp (go_then (reconcileRoleBinding E kc3) (\<lambda>_. finishKubeconfig E kc3)) (run_done E obs n c0) s3"
    proof (rule then_retried[where R = "\<lambda>_. True" and obs = obs, OF _ keep(3) kc3(2)], goal_cases)
      case 1
      show ?case using role_binding_retried[of E kc3] by simp
    next
      case (2 a s4)
      then show ?case unfolding finishKubeconfig_def by (intro last_condition_done[OF law kc3(1)]) simp_all
    qed
  qed
  show ?thesis
    unfolding reconcileApproved_def
  proof (rule bind_condition_in_run[where obs = obs, OF L(4) s], goal_cases)
    case (1 kc')
    then have "Name (KMeta kc') = n" using n by (simp add: same_resource_def)
    then show ?case
      using store 1(2) by (simp add: wp_bind Status_Update_Kubeconfig_def wp_api_call wp_return split: prod.split)
  qed
qed

lemma denied_done:
  assumes law: "queue_law E obs owner gen" and n: "Name (KMeta kc) = n" and s: "in_run owner gen c0 n kc (obs (world s))"
  shows "wp (reconcileDenied E kc) (run_done E obs n c0) s"
  unfolding reconcileDenied_def
proof (rule bind_condition_in_run[where obs = obs, OF queue_lawD(4)[OF law] s], goal_cases)
  case (1 kc')
  then show ?case using n by (intro last_condition_done[OF law]) (simp_all add: same_resource_def)
qed

lemma reconcileCSR_done:
  assumes law: "queue_law E obs owner gen" and n: "Name (KMeta kc) = n" and s: "in_run owner gen c0 n kc (obs (world s))"
    and csr: "SpecCSR (Spec kc) = Some csr" "SignatureAlg csr \<in> set supported_algorithms"
  shows "wp (reconcileCSR E kc sec) (run_done E obs n c0) s"
proof -
  note L = queue_lawD(1)[OF law]
  have name: "nn_Name (csr_name kc) = n" by (simp add: csr_name_def n)
  show ?thesis
    unfolding reconcileCSR_def Get_Csr_def
  proof (rule bind_read[OF get_csr_law[OF L] stable_in_run s], unfold name, goal_cases)
    case (1 err q w' c)
    note stale_keeps = parts_keep(5,6)[OF L stable_incident unaffected_incident]
    have stale: "wp (reconcileFreshCSR E kc sec) (run_done E obs n c0) s'" "wp (reconcileExistingCSR E kc sec q) (run_done E obs n c0) s'"
      if "RequestIncident n \<in> incidents c" "obs (world s') = obs w'" for s'
      using stableD[OF stable_incident 1(2) that(1)] that(2)
      by (auto intro!: run_keeps[OF stale_keeps(1), where i2 = "RequestIncident n"] run_keeps[OF stale_keeps(2), where i2 = "RequestIncident n"] simp: hitch_def)
    show ?case
    proof (cases err)
      case (Some e)
      then show ?thesis using fresh_done[OF law n _ csr] 1(3) by (simp add: wp_return in_run_def)
    next
      case None
      show ?thesis
      proof (cases "RequestIncident n \<in> incidents c")
        case True
        then show ?thesis using None stale(2) by simp
      next
        case False
      then have q: "request_at c n = Some q" using 1(4) None by simp
      have eq: "reconcileExistingCSR E kc sec q = (if refused q then reconcileDenied E kc
          else if CertificateApproved \<in> cc_Type ` set (CsrConditions q) then reconcileApproved E kc sec q
          else go_return (empty_result, None))"
        by (simp add: reconcileExistingCSR_def getCertApprovalCondition_eq refused_def)
      have "attended E n c0 (obs w')" if "\<not> judged q"
      proof -
        have "request_at c0 n = Some q0 \<Longrightarrow> \<not> judged q0" for q0 using 1(1) q that by (force simp: in_run_def since_def)
        moreover have "request_at (obs w') n \<noteq> None" using 1(2) q by (force simp: meanwhile_def)
        ultimately show ?thesis by (cases "request_at c0 n") (simp_all add: attended_def)
      qed
      then show ?thesis
        unfolding None prod.case option.case eq
        by (auto simp: denied_done[OF law n] approved_done[OF law n] 1(3) wp_return judged_def)
      qed
    qed
  qed
qed

lemma Reconcile_done:
  fixes w :: 'w
  assumes law: "queue_law E obs owner gen" and t: "tidy owner (obs w)" and n: "nn_Name req = n"
  shows "wp (Reconcile E req) (run_done E obs n (obs w)) (start w)"
proof -
  note L = queue_lawD(1)[OF law] and ow = queue_lawD(2-4)[OF law]
  let ?c0 = "obs w"
  have s: "since owner gen ?c0 (obs (world (start w)))" using since_refl[OF t] by simp
  show ?thesis
    unfolding Reconcile_def Get_Kubeconfig_def
  proof (rule bind_read[OF get_kubeconfig_law[OF L] stable_since s], unfold n, goal_cases)
    case (1 err kc w' c)
    show ?case
    proof (cases err)
      case (Some e)
      have "attended E n ?c0 (obs w')" if "IsNotFound err"
      proof -
        have "kubeconfig_at ?c0 n = None" using since_kubeconfigs[OF 1(1)] 1(5) that by blast
        then show ?thesis by (auto simp: attended_def unfinished_def)
      qed
      then show ?thesis using Some by (simp add: wp_return)
    next
      case None
      then have k: "kubeconfig_at c n = Some kc" "Name (KMeta kc) = n" using 1(4) by simp_all
      then obtain csr where csr: "SpecCSR (Spec kc) = Some csr" "SignatureAlg csr \<in> set supported_algorithms"
        using 1(1) tidy_spec unfolding since_def by blast
      have over: "\<not> unfinished E (obs w') n" if "isInTerminalCondition E kc"
        using that k 1(2) by (force simp: unfinished_def meanwhile_def isInTerminalCondition_eq)
      let ?s = "\<lparr>world = w', calls = calls (start w) @ [GetKubeconfig req None kc]\<rparr>"
      have "current gen n kc (obs w')"
        by (rule stableD[OF stable_current 1(2)]) (simp add: current_def k(1))
      moreover have "gen k0 \<le> gen kc" if "kubeconfig_at ?c0 n = Some k0" for k0
        using 1(1) that k(1) by (fastforce simp: since_def current_def)
      ultimately have i: "in_run owner gen ?c0 n kc (obs (world ?s))" using 1(3) by (simp add: in_run_def)
      have secret: "wp (reconcileUserSecret E kc) (\<lambda>r s'. in_run owner gen ?c0 n kc (obs (world s')) \<and> gives_up_retried r \<and>
          (\<forall>kc' sec. r = Ret (Inr (kc', sec)) \<longrightarrow> same_resource kc kc')) ?s"
        using keepsD[OF parts_keep(1)[OF L stable_in_run unaffected_queue(2)[OF ow]] i]
          user_secret_retried[of E kc ?s] by (simp add: wp_conj)
      have rest: "wp (reconcileCSR E kc' sec) (run_done E obs n ?c0) s'"
        if "in_run owner gen ?c0 n kc (obs (world s'))" "same_resource kc kc'" for kc' sec s'
        by (rule reconcileCSR_done[OF law])
          (use that in_run_same[OF ow(3) that(2)] csr k in \<open>simp_all add: same_resource_def\<close>)
      have "wp (go_then (reconcileUserSecret E kc) (\<lambda>(kc, sec). reconcileCSR E kc sec)) (run_done E obs n ?c0) ?s"
      proof (rule wp_thenI[where R = "\<lambda>(kc', sec) s'. in_run owner gen ?c0 n kc (obs (world s')) \<and> same_resource kc kc'"],
          rule wp_mono[OF secret], goal_cases)
        case (1 r s')
        then show ?case by (auto simp: gives_up_retried_def)
      next
        case (2 a s')
        then show ?case by (auto simp: rest)
      qed
      then show ?thesis using None over by (simp add: wp_return attended_def)
    qed
  qed
qed

lemma Reconcile_since:
  assumes law: "queue_law E obs owner gen" and t: "tidy owner (obs w)" and run: "Reconcile E req (start w) = (r, s)"
  shows "since owner gen (obs w) (obs (world s))"
proof -
  note L = queue_lawD(1)[OF law] and ow = queue_lawD(2-4)[OF law]
  show ?thesis
    by (rule keeps_run[OF Reconcile_keeps[OF L stable_since unaffected_queue(1)[OF ow]] run since_refl[OF t]])
qed

lemma kubeconfig_handlerI:
  "Reconcile E req (start w) = (r, s) \<Longrightarrow> nn_Name req = n \<Longrightarrow> kubeconfig_handler E n w (retried r) (world s)"
  by (auto simp: kubeconfig_handler_def)

text \<open>A run that has left its work to nobody, because of a hitch.\<close>

definition dropped :: "'w env \<Rightarrow> ('w \<Rightarrow> store) \<Rightarrow> string \<Rightarrow> 'w \<Rightarrow> 'w \<Rightarrow> bool" where
  "dropped E obs n w w' \<longleftrightarrow> (\<exists>req r s. nn_Name req = n \<and> Reconcile E req (start w) = (r, s) \<and> world s = w' \<and>
     \<not> retried r \<and> hitch n (obs w') (calls s))"

lemma handler_attends:
  assumes law: "queue_law E obs owner gen" and t: "tidy owner (obs w)"
    and h: "kubeconfig_handler E n w again w'" and d: "work_due E (obs w') n"
  shows "again \<or> n \<in> triggered owner (obs w) (obs w') \<or> dropped E obs n w w'"
proof -
  obtain req r s where run: "nn_Name req = n" "Reconcile E req (start w) = (r, s)" "again = retried r" "w' = world s"
    using h by (auto simp: kubeconfig_handler_def)
  have "retried r \<or> attended E n (obs w) (obs w') \<or> hitch n (obs w') (calls s)"
    using Reconcile_done[OF law t run(1)] run by (simp add: wp_def)
  then show ?thesis using attended_due Reconcile_since[OF law t run(2)] d run unfolding dropped_def by metis
qed

lemma handler_tidy:
  assumes "queue_law E obs owner gen" and "tidy owner (obs w)" and "kubeconfig_handler E n w again w'"
  shows "tidy owner (obs w')"
  using assms Reconcile_since[OF assms(1,2)] by (auto simp: kubeconfig_handler_def since_def)

lemma outside_tidy:
  assumes law: "queue_law E obs owner gen" and t: "tidy owner (obs w)" and o: "outside_step E obs owner w w'"
  shows "tidy owner (obs w')"
proof -
  note L = queue_lawD(1)[OF law] and ow = queue_lawD(2-4)[OF law]
  have "tidy owner (obs (world s))" if "ReconcileCsr E req (start w) = (r, s)" for req r s
    by (rule keeps_run[OF ReconcileCsr_keeps[OF L stable_tidy unaffected_queue(4)[OF ow]] that t])
  then show ?thesis using o t by (auto simp: outside_step_def)
qed

lemma triggered_commute: "triggered owner c c' = triggered owner c' c"
  unfolding triggered_eq by (intro arg_cong2[where f = "(\<union>)"] Collect_cong) metis+

text \<open>What a Kubeconfig has to do depends on itself and its request, and every change of these is a trigger.\<close>

definition work_view :: "string \<Rightarrow> store \<Rightarrow> (Kubeconfig \<times> Csr option) option" where
  "work_view n c = map_option (\<lambda>k. (k, request_at c n)) (kubeconfig_at c n)"

lemma due_viewed: "work_view n c = work_view n c' \<Longrightarrow> work_due E c n \<Longrightarrow> work_due E c' n"
  by (cases "kubeconfig_at c n"; cases "kubeconfig_at c' n") (auto simp: work_view_def work_due_def unfinished_def)

lemma view_untouched:
  assumes "tidy owner c" and "tidy owner c'" and n: "n \<notin> triggered owner c c'"
  shows "work_view n c' = work_view n c"
proof -
  have same: "kubeconfig_at c n = kubeconfig_at c' n" using n by (simp add: triggered_eq)
  have "request_at c n = request_at c' n" if k: "kubeconfig_at c n = Some k" for k
  proof (cases "request_at c n")
    case (Some q)
    then show ?thesis
      using request_triggers[OF assms(1) k Some, of c'] n by (cases "request_at c' n = Some q") (auto simp: triggered_commute[of owner c])
  next
    case None
    then show ?thesis using request_triggers[OF assms(2) k[unfolded same], of _ c] n by (cases "request_at c' n") auto
  qed
  then show ?thesis unfolding work_view_def same[symmetric] by (intro option.map_cong refl) simp
qed

text \<open>The operator keeps the contract, on every store and with every environment that keep the laws.\<close>

interpretation operator_queue: level_triggered
  "\<lambda>w. dom (kubeconfig_at (obs w))" "kubeconfig_handler E" "outside_step E obs owner"
  "\<lambda>w w'. triggered owner (obs w) (obs w')" "\<lambda>w. queue_law E obs owner gen \<and> tidy owner (obs w)"
  "\<lambda>n w. work_due E (obs w) n" "\<lambda>n w. work_view n (obs w)" "dropped E obs"
proof (unfold_locales, goal_cases)
  case (1 n s)
  then show ?case by (auto simp: work_due_def unfinished_def)
next
  case (2 n s s')
  then show ?case by (rule due_viewed)
next
  case (3 s s' n)
  then show ?case by (intro view_untouched) auto
next
  case (4 s n again s')
  then show ?case by (intro handler_attends) auto
next
  case (5 s n again s')
  then show ?case by (auto intro: handler_tidy)
next
  case (6 s s')
  then show ?case by (auto intro: outside_tidy)
qed

abbreviation queue :: "'w env \<Rightarrow> ('w \<Rightarrow> store) \<Rightarrow> (ObjectMeta \<Rightarrow> string option) \<Rightarrow> 'w \<Rightarrow> 'w \<Rightarrow> string set \<Rightarrow> bool" where
  "queue E obs owner \<equiv> queue_run (\<lambda>w. dom (kubeconfig_at (obs w))) (kubeconfig_handler E) (outside_step E obs owner)
     (\<lambda>w w'. triggered owner (obs w) (obs w'))"

text \<open>
  C6: No work is forgotten without a trace: in every state the cluster and the queue get into, by runs of the
  reconciler during which any calls fail, others decide about requests and change specifications, by
  runs of the approving controller, steps of the others and restarts, a Kubeconfig that is
  neither over nor waiting for a decision about its request is in the queue, or the last run on it,
  since which neither it nor its request has changed, had a hitch: its update of the status failed (for another
  reason than a conflict or NotFound), its key or request could not be generated, which it has recorded as an event, or an
  answer about the request was not up to date. (The store is in order: requests under the name of a
  Kubeconfig are its own, and during a run nobody deletes it or its request or writes its status.)
\<close>

theorem nothing_forgotten:
  assumes "queue_law E obs owner gen" and "tidy owner (obs w0)" and "queue E obs owner w0 w P"
    and "work_due E (obs w) n"
  shows "n \<in> P \<or> (\<exists>w1 P1 req r s. queue E obs owner w0 w1 P1 \<and> n \<in> P1 \<and> nn_Name req = n \<and>
    Reconcile E req (start w1) = (r, s) \<and> \<not> retried r \<and> hitch n (obs (world s)) (calls s) \<and>
    kubeconfig_at (obs w) n = kubeconfig_at (obs (world s)) n \<and> request_at (obs w) n = request_at (obs (world s)) n)"
proof -
  have "n \<in> P \<or> (\<exists>w1 P1 w2. queue E obs owner w0 w1 P1 \<and> n \<in> P1 \<and> dropped E obs n w1 w2 \<and>
      work_view n (obs w) = work_view n (obs w2))"
    using operator_queue.due_queued[OF assms(3), of gen] assms(1,2,4) by blast
  moreover have "kubeconfig_at (obs w) n = kubeconfig_at (obs w2) n \<and> request_at (obs w) n = request_at (obs w2) n"
    if "work_view n (obs w) = work_view n (obs w2)" for w2
    using that assms(4)
    by (cases "kubeconfig_at (obs w2) n") (auto simp: work_view_def work_due_def unfinished_def)
  ultimately show ?thesis unfolding dropped_def by metis
qed

subsection \<open>A failed update of the status\<close>

text \<open>
  The replies that make a run meet a refused request: everything is read, the update of the status
  fails without an effect, and nothing else happens in the cluster.
\<close>

definition refusal_unrecorded :: "'w env \<Rightarrow> ('w \<Rightarrow> store) \<Rightarrow> NamespacedName \<Rightarrow> 'w \<Rightarrow> bool" where
  "refusal_unrecorded E obs req w \<longleftrightarrow> (\<exists>kc sec q w1 w2 w3.
     client_Get_Kubeconfig E req zero_kubeconfig w = ((None, kc), w1) \<and> \<not> isInTerminalCondition E kc \<and>
     ExistingCSR (Spec kc) = None \<and> client_Get_Secret E (user_secret_name kc) zero_secret w1 = ((None, sec), w2) \<and>
     client_Get_Csr E (csr_name kc) zero_csr w2 = ((None, q), w3) \<and> refused q \<and>
     (\<forall>k. \<exists>e k' w4. client_Status_Update_Kubeconfig E k w3 = ((Some e, k'), w4) \<and> obs w4 = obs w) \<and>
     kubeconfig_at (obs w) (nn_Name req) = Some kc \<and> request_at (obs w) (nn_Name req) = Some q)"

lemma refusal_unrecorded_run:
  assumes "refusal_unrecorded E obs req w"
  shows "wp (Reconcile E req) (\<lambda>r s'. r = Ret (empty_result, None) \<and> obs (world s') = obs w) (start w)"
proof -
  obtain kc sec q w1 w2 w3 where k: "client_Get_Kubeconfig E req zero_kubeconfig w = ((None, kc), w1)"
    "\<not> isInTerminalCondition E kc" "ExistingCSR (Spec kc) = None"
    and sec: "client_Get_Secret E (user_secret_name kc) zero_secret w1 = ((None, sec), w2)"
    and q: "client_Get_Csr E (csr_name kc) zero_csr w2 = ((None, q), w3)" "refused q"
    and fails: "\<And>k. \<exists>e k' w4. client_Status_Update_Kubeconfig E k w3 = ((Some e, k'), w4) \<and> obs w4 = obs w"
    using assms unfolding refusal_unrecorded_def by blast
  have last: "wp (go_bind (Status_Update_Kubeconfig E k) (\<lambda>_. go_return x)) (\<lambda>r s'. r = Ret x \<and> obs (world s') = obs w) s"
    if "world s = w3" for k x s
  proof -
    obtain e k' w4 where "client_Status_Update_Kubeconfig E k w3 = ((Some e, k'), w4)" "obs w4 = obs w"
      using fails by blast
    then show ?thesis by (simp add: Status_Update_Kubeconfig_def wp_bind wp_api_call wp_return that)
  qed
  have "wp (reconcileDenied E kc) (\<lambda>r s'. r = Ret (empty_result, None) \<and> obs (world s') = obs w) s"
    if "world s = w3" for s
    unfolding reconcileDenied_def wp_bind[of "SetCondition E k t st re m" for k t st re m] wp_SetCondition outcome.case
    by (rule last[OF that])
  then show ?thesis
    using q(2)
    by (simp add: wp_Reconcile k reconcileUserSecret_def reconcileOwnSecret_def Get_Secret_def wp_then wp_bind wp_api_call
        wp_return sec wp_reconcileCSR q(1) reconcileExistingCSR_def getCertApprovalCondition_eq refused_def)
qed

lemma unrecorded_refusal_dropped:
  assumes "refusal_unrecorded E obs req w" and "queue E obs owner w0 w P" and "nn_Name req \<in> P"
  shows "\<exists>w'. queue E obs owner w0 w' (P - {nn_Name req}) \<and> work_due E (obs w') (nn_Name req)"
proof -
  obtain r s where "Reconcile E req (start w) = (r, s)" by (cases "Reconcile E req (start w)")
  then have run: "Reconcile E req (start w) = (Ret (empty_result, None), s)" and o: "obs (world s) = obs w"
    using refusal_unrecorded_run[OF assms(1)] by (simp_all add: wp_def)
  have "kubeconfig_handler E (nn_Name req) w False (world s)"
    using kubeconfig_handlerI[OF run refl] by (simp add: empty_result_def)
  moreover have "triggered owner (obs w) (obs (world s)) = {}" by (simp add: o triggered_eq)
  ultimately have "queue E obs owner w0 (world s) (P - {nn_Name req})"
    using queue_run.handled[OF assms(2,3), where again = False and T = "{}"] by simp
  moreover have "work_due E (obs w) (nn_Name req)"
    using assms(1) by (auto simp: refusal_unrecorded_def work_due_def unfinished_def judged_def)
  ultimately show ?thesis using o by metis
qed

text \<open>
  C35: Work does get lost by a failed update of the status: if the update that records a refusal fails,
  and nothing has changed, the run reports success and asks for no other run, as the error of
  \<open>r.Status().Update\<close> is dropped. Nothing has changed that would trigger one, so the Kubeconfig
  leaves the queue while it is neither over nor waiting, until something else changes it or the
  operator starts again.
\<close>

theorem unrecorded_refusal_forgotten:
  assumes "refusal_unrecorded E obs req w" and "queue E obs owner w0 w P" and "nn_Name req \<in> P"
  shows "\<exists>w'. queue E obs owner w0 w' (P - {nn_Name req}) \<and> work_due E (obs w') (nn_Name req)"
  by (rule unrecorded_refusal_dropped[OF assms])

subsection \<open>Samples\<close>

definition sample_owner :: "ObjectMeta \<Rightarrow> string option" where
  "sample_owner m = map_option or_Name (find (\<lambda>r. or_Controller r \<and> or_Kind r = ''Kubeconfig'') (OwnerReferences m))"

text \<open>Nobody changes a Kubeconfig in the samples, so all have the same generation.\<close>

abbreviation sample_generation :: "Kubeconfig \<Rightarrow> nat" where
  "sample_generation \<equiv> \<lambda>k. 1"

lemma store_env_queue_law: "queue_law store_env named sample_owner sample_generation"
proof -
  have "meanwhile sample_owner sample_generation c c" for c by (simp add: meanwhile_def)
  then have "store_law store_env named (meanwhile sample_owner sample_generation)"
    by (rule reliable_store_law[OF store_env_reliable])
  moreover have "owners_named store_env sample_owner"
    by (simp add: owners_named_def set_owner_def store_env_def sample_owner_def operator_reference_def)
  moreover have "status_law store_env named sample_generation"
    by (auto simp: status_law_def store_env_def write_reply_def split: if_splits)
  ultimately show ?thesis
    using reliable_laws[OF store_env_reliable] by (simp add: queue_law_def generations_def store_client_law)
qed

lemma installed_tidy: "tidy sample_owner (named installed)"
  using new_kubeconfig_facts(2) by (auto simp: tidy_def installed_facts workable_def split: if_splits)

text \<open>A store that answers but does not take updates of a status, and a request that has been denied.\<close>

definition unwritable :: "store env" where
  "unwritable = store_env\<lparr>client_Status_Update_Kubeconfig := (\<lambda>k c. ((Some (PlainError ''timeout''), k), c))\<rparr>"

definition denied :: store where
  "denied = installed\<lparr>secret_at := [user_key ''kc'' \<mapsto> [''tls.key'' \<mapsto> ''key'', ''tls.csr'' \<mapsto> ''request'']],
     request_at := [''kc'' \<mapsto> (sample_csr CertificateDenied [])
       \<lparr>CsrMeta := zero_meta\<lparr>Name := ''kc'', OwnerReferences := [operator_reference new_kubeconfig]\<rparr>\<rparr>]\<rparr>"

lemma denied_unrecorded: "refusal_unrecorded unwritable named request_kc denied"
proof -
  have k: "kubeconfig_at (named denied) = [''kc'' \<mapsto> new_kubeconfig]"
    using installed_facts(1) by (simp add: denied_def named_def)
  obtain q where q: "request_at (named denied) ''kc'' = Some q" "refused q"
    by (simp add: named_def denied_def sample_csr_def refused_def sample_condition_def)
  have live: "\<not> isInTerminalCondition unwritable new_kubeconfig"
    using new_kubeconfig_facts(4) by (simp add: unwritable_def isInTerminalCondition_def)
  have names: "nn_Name request_kc = ''kc''" "nn_Name (csr_name new_kubeconfig) = ''kc''"
    "nn_key (user_secret_name new_kubeconfig) = user_key ''kc''"
    using installed_facts(4) new_kubeconfig_facts(1) by (simp_all add: csr_name_def user_secret_key)
  have sec: "secret_at denied (user_key ''kc'') \<noteq> None" by (simp add: denied_def)
  then obtain d where d: "secret_at denied (user_key ''kc'') = Some d" by blast
  show ?thesis
    unfolding refusal_unrecorded_def
    by (intro exI[of _ new_kubeconfig] exI[of _ "secret_of (user_secret_name new_kubeconfig) d"] exI[of _ q] exI[of _ denied])
      (use k q live d names new_kubeconfig_facts(6) in \<open>simp add: unwritable_def store_env_def read_reply_def\<close>)
qed

lemma denied_queue:
  "queue unwritable named sample_owner denied denied {''kc''}"
  "\<exists>w'. queue unwritable named sample_owner denied w' {} \<and> work_due unwritable (named w') ''kc''"
proof -
  have "dom (kubeconfig_at (named denied)) = {''kc''}" using installed_facts(1) by (simp add: denied_def named_def)
  then show q: "queue unwritable named sample_owner denied denied {''kc''}"
    using queue_run.listed[where existing = "\<lambda>w. dom (kubeconfig_at (named w))"] by metis
  show "\<exists>w'. queue unwritable named sample_owner denied w' {} \<and> work_due unwritable (named w') ''kc''"
    using unrecorded_refusal_dropped[OF denied_unrecorded q] installed_facts(4) by simp
qed

lemma unwritable_law: "queue_law unwritable named sample_owner sample_generation"
proof -
  note law = store_env_queue_law[unfolded queue_law_def client_law_def client_reads_def store_writes_def]
  have "meanwhile sample_owner sample_generation c c" for c by (simp add: meanwhile_def)
  then have "\<forall>k. write_law (meanwhile sample_owner sample_generation) named
      (\<lambda>c. kubeconfig_at c (Name (KMeta k)) \<noteq> None) (update_status k) (\<lambda>k'. True) (client_Status_Update_Kubeconfig unwritable k)"
    by (auto simp: write_law_def unwritable_def)
  moreover have "status_law unwritable named sample_generation"
    by (simp add: status_law_def unwritable_def overtaken_def)
  moreover have "owners_named unwritable sample_owner" "owner_names unwritable" "conditions_law unwritable"
    using law by (simp_all add: owners_named_def owner_names_def conditions_law_def set_owner_def unwritable_def)
  ultimately show ?thesis
    using law unfolding queue_law_def client_law_def client_reads_def store_writes_def
    by (simp add: unwritable_def)
qed

lemma denied_tidy: "tidy sample_owner (named denied)"
  using new_kubeconfig_facts(1,2) installed_facts(1)
  by (auto simp: tidy_def named_def denied_def workable_def sample_csr_def sample_owner_def operator_reference_def split: if_splits)

text \<open>In a store that takes no updates of a status, a refused Kubeconfig is forgotten, and the failed update is to blame.\<close>

theorem nothing_forgotten_witness:
  "\<exists>w w1 req r s. queue unwritable named sample_owner denied w {} \<and> work_due unwritable (named w) ''kc'' \<and>
     nn_Name req = ''kc'' \<and> Reconcile unwritable req (start w1) = (r, s) \<and> hitch ''kc'' (named (world s)) (calls s)"
proof -
  obtain w where w: "queue unwritable named sample_owner denied w {}" "work_due unwritable (named w) ''kc''"
    using denied_queue(2) by blast
  show ?thesis
    using nothing_forgotten[OF unwritable_law denied_tidy w] w by blast
qed

theorem unrecorded_refusal_forgotten_witness:
  "\<exists>w'. queue unwritable named sample_owner denied w' {} \<and> work_due unwritable (named w') ''kc''"
  using unrecorded_refusal_forgotten[OF denied_unrecorded denied_queue(1)] installed_facts(4) by simp

end
