(* ===== verification/Queue_Drains.thy ===== *)
theory Queue_Drains
  imports Work_Queue
begin

text \<open>
  The queue of the Kubeconfig reconciler comes to rest. If nothing fails and nobody else acts, the
  worker that takes one name after the other out of the queue, in any order, runs at most five
  times for each name, and then no name is left: every Kubeconfig is over or waits for a decision
  about its request. So the triggers that the operator causes by its own writes do not keep it
  busy.
\<close>

subsection \<open>What a run changes\<close>

text \<open>
  A run on \<open>n\<close> changes the status of the Kubeconfig \<open>n\<close>, may create its request, and takes no
  secret away; everything else about Kubeconfigs and requests stays.
\<close>

definition local_change :: "(ObjectMeta \<Rightarrow> string option) \<Rightarrow> string \<Rightarrow> store \<Rightarrow> store \<Rightarrow> bool" where
  "local_change owner n c c' \<longleftrightarrow>
     (\<forall>m. m \<noteq> n \<longrightarrow> kubeconfig_at c' m = kubeconfig_at c m \<and> request_at c' m = request_at c m) \<and>
     (\<forall>k'. kubeconfig_at c' n = Some k' \<longrightarrow> (\<exists>k. kubeconfig_at c n = Some k \<and> same_resource k k')) \<and>
     (\<forall>q. request_at c n = Some q \<longrightarrow> request_at c' n = Some q) \<and>
     (\<forall>q. request_at c n = None \<and> request_at c' n = Some q \<longrightarrow> \<not> judged q \<and> owner (CsrMeta q) = Some n) \<and>
     (\<forall>p. secret_at c p \<noteq> None \<longrightarrow> secret_at c' p \<noteq> None) \<and> config_at c' = config_at c"

lemma local_refl: "local_change owner n c c"
  by (auto simp: local_change_def same_resource_def)

lemma local_secret: "local_change owner n c (with_secret pre m d c)"
  by (auto simp: local_change_def with_secret_def same_resource_def)

lemma local_status:
  assumes "local_change owner n c c1" and "Name (KMeta k) = n" and "kubeconfig_at c n \<noteq> None"
    and "kubeconfig_at c1 = kubeconfig_at c"
  shows "local_change owner n c (update_status k c1)"
  using assms by (auto simp: local_change_def update_status_def same_resource_def split: if_splits)

lemma local_submitted:
  assumes "submitted E pre kc n c c'" and k: "kubeconfig_at c n = Some kc" "Name (KMeta kc) = n"
    and none: "request_at c n = None" and ow: "owner_names E" "owners_named E owner"
  shows "local_change owner n c c'"
proof -
  obtain kc1 kc2 d req where s: "live E kc kc1" "live E kc kc2"
    "c' = update_status kc2 (put_request (createCsr E kc1 req) (with_secret pre n d c))"
    using assms(1) unfolding submitted_def by blast
  let ?q = "(createCsr E kc1 req)\<lparr>CsrConditions := [], Certificate := []\<rparr>"
  have q: "Name (CsrMeta (createCsr E kc1 req)) = n" "owner (CsrMeta ?q) = Some n" "\<not> judged ?q"
    using s(1) k ow by (simp_all add: live_def createCsr_fields judged_def refused_def)
      (simp add: createCsr_def Let_def owners_named_def zero_meta_def)
  have "local_change owner n c (put_request (createCsr E kc1 req) (with_secret pre n d c))"
    using q none by (auto simp: local_change_def put_request_def with_secret_def same_resource_def)
  then show ?thesis unfolding s(3) by (rule local_status) (use s(2) k in \<open>simp_all add: live_def put_request_def\<close>)
qed

lemma local_written:
  assumes "status_written E kc P (with_secret pre n d c) c'" and "kubeconfig_at c n = Some kc" "Name (KMeta kc) = n"
  shows "local_change owner n c c'"
  using assms local_status[OF local_secret] by (auto simp: status_written_def)

lemma local_granted:
  assumes "granted_store E pre kc q n d c c'" and "kubeconfig_at c n = Some kc" "Name (KMeta kc) = n"
  shows "local_change owner n c c'"
proof -
  have b: "local_change owner n c (with_binding kc role (with_secret pre n d' c))" for role d'
    using local_secret[of owner n c pre n d'] by (auto simp: local_change_def with_binding_def put_binding_def)
  show ?thesis using assms local_status[OF b] by (auto simp: granted_store_def)
qed

subsection \<open>One run\<close>

text \<open>Nobody is kept waiting for a certificate: a request that is approved is signed.\<close>

definition signed_promptly :: "store \<Rightarrow> bool" where
  "signed_promptly c \<longleftrightarrow> (\<forall>n q. request_at c n = Some q \<longrightarrow> judged q \<longrightarrow> refused q \<or> grantable q)"

lemma request_change:
  fixes s :: "'w go_state"
  assumes r: "reliable E obs" and k: "kubeconfig_at c n = Some kc" "Name (KMeta kc) = n" and sp: "workable kc"
    and ca: "config_at c (nn_key kube_root_ca_name) \<noteq> None" and l: "live E kc kc1"
    and h: "in_hand pre n sec" "SecretData sec = Some d" and o: "obs (world s) = with_secret pre n d c"
    and q: "judged q \<longrightarrow> refused q \<or> grantable q"
  shows "wp (reconcileExistingCSR E kc1 sec q) (\<lambda>r s'. r = Ret (empty_result, None) \<and>
    local_change owner n c (obs (world s')) \<and> (\<not> judged q \<longrightarrow> obs (world s') = with_secret pre n d c)) s"
proof -
  have at: "kubeconfig_at c n \<noteq> None" using k by simp
  obtain cl role where spec: "SpecCluster (Spec kc) = Some cl" "SpecRoleRef (Spec kc) = Some role"
    using sp by (auto simp: workable_def)
  have eq: "reconcileExistingCSR E kc1 sec q = (if refused q then reconcileDenied E kc1
      else if CertificateApproved \<in> cc_Type ` set (CsrConditions q) then reconcileApproved E kc1 sec q
      else go_return (empty_result, None))"
    by (simp add: reconcileExistingCSR_def getCertApprovalCondition_eq refused_def)
  consider "refused q" | "\<not> refused q" "grantable q" | "\<not> judged q" using q by blast
  then show ?thesis
  proof cases
    case 1
    then show ?thesis
      unfolding eq using local_written[OF _ k] by (auto simp: judged_def intro!: wp_mono[OF denied_run[OF r l k(2) o at]])
  next
    case 2
    then show ?thesis
      unfolding eq using local_granted[OF _ k]
      by (auto simp: grantable_def judged_def intro!: wp_mono[OF grantable_run[OF r l k(2) h o at 2(2) spec ca]])
  next
    case 3
    then show ?thesis using o local_secret unfolding eq by (simp add: judged_def wp_return)
  qed
qed

lemma run_change:
  fixes w :: 'w
  assumes r: "reliable E obs" and ow: "owners_named E owner" and o: "operable pre n (obs w)"
    and sg: "signed_promptly (obs w)" and n: "nn_Name req = n"
  shows "wp (Reconcile E req) (\<lambda>r s'. r = Ret (empty_result, None) \<and> local_change owner n (obs w) (obs (world s')) \<and>
    (stage_of E (obs w) n \<in> {Undecided, Over} \<longrightarrow> kubeconfig_at (obs (world s')) = kubeconfig_at (obs w) \<and>
       request_at (obs (world s')) = request_at (obs w))) (start w)"
proof (cases "stage_of E (obs w) n = Over")
  case True
  then show ?thesis by (auto simp: local_refl intro!: wp_mono[OF run_when_over[OF r n True]])
next
  case False
  then obtain kc where k: "kubeconfig_at (obs w) n = Some kc" "\<not> isInTerminalCondition E kc"
    by (auto simp: stage_of_def split: option.splits if_splits)
  then have kc: "Name (KMeta kc) = n" "workable kc" "ExistingCSR (Spec kc) = predefined pre n"
    and ca: "config_at (obs w) (nn_key kube_root_ca_name) \<noteq> None" and there: "provided pre n (obs w)"
    using o by (simp_all add: operable_def)
  show ?thesis
  proof (cases "request_at (obs w) n")
    case None
    then have "stage_of E (obs w) n = Unrequested" using k by (simp add: stage_of_def)
    then show ?thesis
      using local_submitted[OF _ k(1) kc(1) None reliable_laws(2)[OF r] ow]
      by (auto intro!: wp_mono[OF first_run[OF r k(1) kc(1,3) there kc(2) n k(2) None]])
  next
    case (Some q)
    have q: "judged q \<longrightarrow> refused q \<or> grantable q" using sg Some by (simp add: signed_promptly_def)
    have st: "stage_of E (obs w) n \<in> {Undecided, Over} \<longrightarrow> \<not> judged q"
      using k Some q by (auto simp: stage_of_def)
    show ?thesis
    proof (rule start_run[where kc = kc and pre = pre, OF r], goal_cases)
      case (6 kc1 sec d s1)
      have n1: "Name (KMeta kc1) = n" and o1: "obs (world s1) = with_secret pre n d (obs w)" and h: "in_hand pre n sec"
        using 6 n kc(1) by (simp_all add: live_def)
      show ?case
        by (rule existing_run[OF r n1 o1 Some],
            rule wp_mono[OF request_change[OF r k(1) kc(1,2) ca 6(1) h 6(3) _ q]]) (use st in auto)
    qed (use k kc there n in simp_all)
  qed
qed

subsection \<open>The worker\<close>

text \<open>
  A state in which the worker can do its work, and the names the run of it has still to be done
  for. The measure counts two runs for every stage that is still to come and one for every name in
  the queue.
\<close>

definition workable_store :: "promises \<Rightarrow> store \<Rightarrow> bool" where
  "workable_store pre c \<longleftrightarrow> (\<forall>n. operable pre n c) \<and> signed_promptly c"

definition effort :: "'w env \<Rightarrow> string set \<Rightarrow> store \<Rightarrow> string set \<Rightarrow> nat" where
  "effort E N c P = (\<Sum>n\<in>N. 2 * work_left (stage_of E c n)) + card P"

inductive working :: "'w env \<Rightarrow> ('w \<Rightarrow> store) \<Rightarrow> (ObjectMeta \<Rightarrow> string option) \<Rightarrow> 'w \<Rightarrow> string set \<Rightarrow> nat \<Rightarrow> 'w \<Rightarrow> string set \<Rightarrow> bool"
  for E obs owner w0 P0 where
  begins: "working E obs owner w0 P0 0 w0 P0"
| takes: "working E obs owner w0 P0 i w P \<Longrightarrow> nn_Name req \<in> P \<Longrightarrow> Reconcile E req (start w) = (r, s) \<Longrightarrow>
    working E obs owner w0 P0 (Suc i) (world s) (P - {nn_Name req} \<union>
      (if retried r then {nn_Name req} else {}) \<union> triggered owner (obs w) (obs (world s)))"

lemma local_workable:
  assumes "workable_store pre c" and l: "local_change owner n c c'"
  shows "workable_store pre c'"
proof -
  have "operable pre m c'" for m
  proof -
    have o: "operable pre m c" using assms(1) by (simp add: workable_store_def)
    have "\<exists>k. kubeconfig_at c m = Some k \<and> same_resource k k'" if "kubeconfig_at c' m = Some k'" for k'
      using l that by (cases "m = n") (auto simp: local_change_def same_resource_def)
    moreover have "secret_at c p \<noteq> None \<Longrightarrow> secret_at c' p \<noteq> None" for p using l unfolding local_change_def by blast
    then have "provided pre m c'" using o by (simp add: operable_def provided_def)
    moreover have "config_at c' = config_at c" using l by (simp add: local_change_def)
    ultimately show ?thesis using o by (fastforce simp: operable_def same_resource_def workable_def)
  qed
  moreover have "signed_promptly c'"
    unfolding signed_promptly_def
  proof (intro allI impI)
    fix m q assume q: "request_at c' m = Some q" "judged q"
    then have "request_at c m = Some q" using l by (cases "m = n"; cases "request_at c m") (auto simp: local_change_def)
    then show "refused q \<or> grantable q" using assms(1) q(2) by (auto simp: workable_store_def signed_promptly_def)
  qed
  ultimately show ?thesis by (simp add: workable_store_def)
qed

lemma local_triggered:
  assumes l: "local_change owner n c c'"
  shows "triggered owner c c' \<subseteq> {n}"
proof
  fix m assume m: "m \<in> triggered owner c c'"
  show "m \<in> {n}"
  proof (rule ccontr)
    assume other: "m \<notin> {n}"
    then have "kubeconfig_at c m = kubeconfig_at c' m" using l by (auto simp: local_change_def)
    then obtain i q where q: "request_at c i \<noteq> request_at c' i" "request_at c i = Some q \<or> request_at c' i = Some q"
      "owner (CsrMeta q) = Some m"
      using m unfolding triggered_eq by blast
    then have "i = n" using l by (auto simp: local_change_def)
    then have "request_at c n = None \<and> request_at c' n = Some q"
      using q l by (cases "request_at c n") (auto simp: local_change_def)
    then show False using l q(3) other by (auto simp: local_change_def)
  qed
qed

lemma local_stage:
  assumes "local_change owner n c c'" and "m \<noteq> n"
  shows "stage_of E c' m = stage_of E c m"
proof -
  have same: "kubeconfig_at c' m = kubeconfig_at c m" "request_at c' m = request_at c m"
    using assms by (auto simp: local_change_def)
  show ?thesis unfolding stage_of_def same ..
qed

text \<open>One run of the worker: it uses up effort.\<close>

lemma worker_step:
  assumes r: "reliable E obs" and ow: "owners_named E owner" and c: "workable_store pre (obs w)"
    and run: "Reconcile E req (start w) = (res, s)" and n: "nn_Name req = n"
    and P': "P' = P - {n} \<union> (if retried res then {n} else {}) \<union> triggered owner (obs w) (obs (world s))"
    and N: "finite N" "P \<subseteq> N" "n \<in> P" and rest: "\<And>m. m \<in> N - P \<Longrightarrow> stage_of E (obs w) m \<in> {Undecided, Over}"
  shows "P' \<subseteq> N" "workable_store pre (obs (world s))" "stage_of E (obs w) k \<le> stage_of E (obs (world s)) k"
    "effort E N (obs (world s)) P' < effort E N (obs w) P"
    "m \<in> N - P' \<Longrightarrow> stage_of E (obs (world s)) m \<in> {Undecided, Over}"
proof -
  let ?c = "obs w" and ?c' = "obs (world s)" and ?st = "stage_of E (obs w) n"
  have o: "operable pre n ?c" "signed_promptly ?c" using c by (simp_all add: workable_store_def)
  have change: "res = Ret (empty_result, None)" "local_change owner n ?c ?c'"
    and waits: "?st \<in> {Undecided, Over} \<Longrightarrow> kubeconfig_at ?c' = kubeconfig_at ?c \<and> request_at ?c' = request_at ?c"
    using run_change[OF r ow o n] run by (auto simp: wp_def)
  have stage: "stage_of E ?c' n = stage_after ?st" using stage_step[OF r o(1) n] run by (simp add: wp_def)
  have p: "P' = P - {n} \<union> triggered owner ?c ?c'" using P' change(1) by (simp add: empty_result_def)
  then have sub: "P' \<subseteq> P" using local_triggered[OF change(2)] N(3) by auto
  then show "P' \<subseteq> N" using N(2) by blast
  show "workable_store pre ?c'" by (rule local_workable[OF c change(2)])
  show "stage_of E ?c k \<le> stage_of E ?c' k"
    using stage stage_after_advances(1) by (cases "k = n") (simp_all add: local_stage[OF change(2)])
  have quiet: "P' = P - {n}" if "?st \<in> {Undecided, Over}" using p waits[OF that] by (auto simp: triggered_eq)
  have fin: "finite P" using N finite_subset by blast
  have split: "(\<Sum>m\<in>N. 2 * work_left (stage_of E d m)) = 2 * work_left (stage_of E d n) +
      (\<Sum>m\<in>N - {n}. 2 * work_left (stage_of E d m))" for d
    using N by (intro sum.remove) auto
  have same: "(\<Sum>m\<in>N - {n}. 2 * work_left (stage_of E ?c' m)) = (\<Sum>m\<in>N - {n}. 2 * work_left (stage_of E ?c m))"
    by (intro sum.cong refl) (simp add: local_stage[OF change(2)])
  show "effort E N ?c' P' < effort E N ?c P"
  proof (cases "?st \<in> {Undecided, Over}")
    case True
    then have "card P' < card P" using quiet card_Diff1_less[OF fin N(3)] by simp
    then show ?thesis using True stage by (auto simp: effort_def split same)
  next
    case False
    then have "work_left (stage_of E ?c' n) < work_left ?st" unfolding stage by (cases ?st) simp_all
    then show ?thesis using card_mono[OF fin sub] by (simp add: effort_def split same)
  qed
  show "stage_of E ?c' m \<in> {Undecided, Over}" if m: "m \<in> N - P'"
  proof (cases "m = n")
    case True
    then show ?thesis unfolding True stage by (rule_tac stage_after_advances(2))
  next
    case False
    then show ?thesis using rest[of m] m p by (auto simp: local_stage[OF change(2)])
  qed
qed

lemma working_invariant:
  assumes "reliable E obs" and "owners_named E owner" and "workable_store pre (obs w0)" and "finite P0"
    and "working E obs owner w0 P0 i w P"
  shows "P \<subseteq> P0 \<and> workable_store pre (obs w) \<and> i + effort E P0 (obs w) P \<le> effort E P0 (obs w0) P0 \<and>
    (\<forall>m. stage_of E (obs w0) m \<le> stage_of E (obs w) m) \<and>
    (\<forall>m \<in> P0 - P. stage_of E (obs w) m \<in> {Undecided, Over})"
  using assms(5)
proof induction
  case begins
  then show ?case using assms(3) by simp
next
  case (takes i w P req res s)
  have inv: "P \<subseteq> P0" "workable_store pre (obs w)" "i + effort E P0 (obs w) P \<le> effort E P0 (obs w0) P0"
    "\<And>m. stage_of E (obs w0) m \<le> stage_of E (obs w) m"
    "\<And>m. m \<in> P0 - P \<Longrightarrow> stage_of E (obs w) m \<in> {Undecided, Over}"
    using takes.IH by blast+
  note step = worker_step[OF assms(1,2) inv(2) takes(3) refl refl assms(4) inv(1) takes(2) inv(5)]
  show ?case
  proof (intro conjI allI ballI)
    show "Suc i + effort E P0 (obs (world s)) (P - {nn_Name req} \<union> (if retried res then {nn_Name req} else {}) \<union>
        triggered owner (obs w) (obs (world s))) \<le> effort E P0 (obs w0) P0"
      using inv(3) step(4) by simp
    show "stage_of E (obs w0) m \<le> stage_of E (obs (world s)) m" for m using inv(4)[of m] step(3)[of m] by (rule order_trans)
  qed (rule step; assumption)+
qed

text \<open>
  C7: The queue drains: if nothing fails, nobody else acts, every Kubeconfig can be worked on and
  approved requests are signed, a worker that starts with the queue \<open>P0\<close> does at most five runs for
  each name in it, in whatever order it takes them, the names its own writes put back included.
  No Kubeconfig falls back behind the stage it had, and when the queue is empty, every one in
  it is over or awaits a decision.
\<close>

theorem queue_drains:
  assumes "reliable E obs" and "owners_named E owner" and "workable_store pre (obs w0)" and "finite P0"
    and "working E obs owner w0 P0 i w P"
  shows "i \<le> 5 * card P0 \<and> (\<forall>n. stage_of E (obs w0) n \<le> stage_of E (obs w) n) \<and>
    (P = {} \<longrightarrow> (\<forall>n \<in> P0. stage_of E (obs w) n \<in> {Undecided, Over}))"
proof -
  have "work_left st \<le> 2" for st by (cases st) simp_all
  then have "(\<Sum>n\<in>P0. 2 * work_left (stage_of E (obs w0) n)) \<le> (\<Sum>n\<in>P0. 4)" by (intro sum_mono) simp
  then have "effort E P0 (obs w0) P0 \<le> 5 * card P0" by (simp add: effort_def)
  then show ?thesis using working_invariant[OF assms] by auto
qed

theorem queue_drains_witness:
  "\<exists>P. working store_env named sample_owner installed {''kc''} 1 after_first P \<and>
    (P = {} \<longrightarrow> stage_of store_env (named after_first) ''kc'' \<in> {Undecided, Over})"
proof -
  have "operable sample_promises n (named installed)" for n
    using installed_operable by (simp add: operable_def installed_facts provided_def)
  moreover have "signed_promptly (named installed)" by (simp add: signed_promptly_def installed_facts)
  ultimately have c: "workable_store sample_promises (named installed)" by (simp add: workable_store_def)
  have ow: "owners_named store_env sample_owner" using store_env_queue_law by (rule queue_lawD)
  obtain P where P: "working store_env named sample_owner installed {''kc''} (Suc 0) after_first P"
    using working.takes[OF working.begins _ first_run_sample(1), of "{''kc''}" named sample_owner]
    by (simp add: installed_facts(4) after_first_def)
  then show ?thesis using queue_drains[OF store_env_reliable ow c _ P] by auto
qed

end
