(* ===== verification/Deletion.thy ===== *)
theory Deletion
  imports Work_Queue
begin

text \<open>
  What is left of a Kubeconfig after it has been deleted. The garbage collector of the cluster
  removes the objects that name the Kubeconfig as their owner; the user secret and the request do
  (\<open>createUserSecret\<close>, \<open>createCsr\<close>), the role binding does not (\<open>createClusterRoleBinding\<close>), and no
  part of the operator ever deletes an object. So the user keeps the role.
\<close>

subsection \<open>Deletion and garbage collection\<close>

definition kept_from :: "(ObjectMeta \<Rightarrow> string option) \<Rightarrow> string \<Rightarrow> ('o \<Rightarrow> ObjectMeta) \<Rightarrow> (string \<rightharpoonup> 'o) \<Rightarrow> (string \<rightharpoonup> 'o)" where
  "kept_from owner n meta m = (\<lambda>k. case m k of None \<Rightarrow> None
     | Some x \<Rightarrow> if owner (meta x) = Some n then None else Some x)"

text \<open>Secrets are without metadata in the store: which of them are removed is left open.\<close>

definition collected :: "(ObjectMeta \<Rightarrow> string option) \<Rightarrow> string \<Rightarrow> (string \<times> string \<rightharpoonup> (string \<rightharpoonup> bytes)) \<Rightarrow> store \<Rightarrow> store" where
  "collected owner n left c = c\<lparr>kubeconfig_at := (kubeconfig_at c)(n := None), secret_at := left,
     request_at := kept_from owner n CsrMeta (request_at c), binding_at := kept_from owner n CrbMeta (binding_at c)\<rparr>"

text \<open>
  What may happen afterwards: runs of both controllers on anything, and steps of the others, who
  do what they like except that they leave role bindings alone.
\<close>

definition spares_bindings :: "store \<Rightarrow> store \<Rightarrow> bool" where
  "spares_bindings c c' \<longleftrightarrow> binding_at c' = binding_at c"

inductive aftermath :: "'w env \<Rightarrow> ('w \<Rightarrow> store) \<Rightarrow> 'w \<Rightarrow> 'w \<Rightarrow> bool" for E obs w0 where
  deleted: "aftermath E obs w0 w0"
| kubeconfig_run: "aftermath E obs w0 w \<Longrightarrow> Reconcile E req (start w) = (r, s) \<Longrightarrow> aftermath E obs w0 (world s)"
| csr_run: "aftermath E obs w0 w \<Longrightarrow> ReconcileCsr E req (start w) = (r, s) \<Longrightarrow> aftermath E obs w0 (world s)"
| others_step: "aftermath E obs w0 w \<Longrightarrow> spares_bindings (obs w) (obs w') \<Longrightarrow> aftermath E obs w0 w'"

lemma stable_binding: "stable spares_bindings (\<lambda>c. binding_at c m = Some b)"
  by (simp add: stable_def spares_bindings_def)

lemma unaffected_binding:
  "unaffected E (\<lambda>c. binding_at c m = Some b)" "unaffected_by_verdicts (\<lambda>c. binding_at c m = Some b)"
  by (auto simp: unaffected_def unaffected_by_verdicts_def put_secret_def put_binding_def put_request_def
      update_status_def update_conditions_def)

lemma binding_stays:
  assumes L: "client_law E obs spares_bindings" and "aftermath E obs w0 w" and "binding_at (obs w0) m = Some b"
  shows "binding_at (obs w) m = Some b"
  using assms(2)
proof induction
  case deleted
  show ?case by (rule assms(3))
next
  case (kubeconfig_run w req r s)
  then show ?case using keeps_run[OF Reconcile_keeps[OF L stable_binding unaffected_binding(1)]] by blast
next
  case (csr_run w req r s)
  then show ?case using keeps_run[OF ReconcileCsr_keeps[OF L stable_binding unaffected_binding(2)]] by blast
next
  case (others_step w w')
  then show ?case by (simp add: spares_bindings_def)
qed

subsection \<open>The role outlives the Kubeconfig\<close>

text \<open>The owner is read off the owner references.\<close>

definition ownerless :: "(ObjectMeta \<Rightarrow> string option) \<Rightarrow> bool" where
  "ownerless owner \<longleftrightarrow> (\<forall>m. OwnerReferences m = [] \<longrightarrow> owner m = None)"

lemma granted_leaves_binding:
  fixes w :: 'w
  assumes r: "reliable E obs" and o: "operable pre n (obs w)" and k: "kubeconfig_at (obs w) n = Some kc"
    and live: "\<not> isInTerminalCondition E kc" and q: "request_at (obs w) n = Some q" "grantable q"
    and free: "binding_at (obs w) (nn_Name (crb_name kc)) = None" and n: "nn_Name req = n"
  shows "wp (Reconcile E req) (\<lambda>r s'. r = Ret (empty_result, None) \<and>
    (\<exists>b. binding_at (obs (world s')) (nn_Name (crb_name kc)) = Some b \<and> grants kc b \<and> OwnerReferences (CrbMeta b) = [])) (start w)"
proof -
  have "wp (Reconcile E req) (\<lambda>r s'. r = Ret (empty_result, None) \<and>
      (\<exists>d. granted_store E pre kc q n d (obs w) (obs (world s')))) (start w)"
    by (rule last_run[OF r k]) (use o k live q n in \<open>auto simp: operable_def\<close>)
  moreover have "\<exists>b. binding_at c' (nn_Name (crb_name kc)) = Some b \<and> grants kc b \<and> OwnerReferences (CrbMeta b) = []"
    if "granted_store E pre kc q n d (obs w) c'" for c' d
    using that free wanted_binding_fields[of kc]
    by (auto simp: granted_store_def with_binding_def put_binding_def wanted_binding_def zero_meta_def)
  ultimately show ?thesis by (auto elim: wp_mono)
qed

text \<open>
  C36: The role outlives the Kubeconfig: if a run ends a granted Kubeconfig whose role binding is
  new, and the Kubeconfig is then deleted and everything that names it as its owner collected,
  the role binding is still there and grants the user the role, and stays there whatever runs of
  the operator follow: the operator does not make the Kubeconfig its owner and never deletes it.
\<close>

theorem role_outlives_kubeconfig:
  assumes "reliable E obs" and "operable pre (nn_Name req) (obs w)" and "kubeconfig_at (obs w) (nn_Name req) = Some kc"
    and "\<not> isInTerminalCondition E kc" and "request_at (obs w) (nn_Name req) = Some q" and "grantable q"
    and "binding_at (obs w) (nn_Name (crb_name kc)) = None" and "Reconcile E req (start w) = (r, s)"
    and "ownerless owner" and "obs w1 = collected owner (nn_Name req) left (obs (world s))"
    and "aftermath E obs w1 w2"
  shows "kubeconfig_at (obs w1) (nn_Name req) = None \<and>
    (\<exists>b. binding_at (obs w2) (nn_Name (crb_name kc)) = Some b \<and> grants kc b)"
proof -
  obtain b where b: "binding_at (obs (world s)) (nn_Name (crb_name kc)) = Some b" "grants kc b" "OwnerReferences (CrbMeta b) = []"
    using granted_leaves_binding[OF assms(1-7) refl] assms(8) by (auto simp: wp_def)
  have "binding_at (obs w1) (nn_Name (crb_name kc)) = Some b"
    using b(1,3) assms(9,10) by (simp add: collected_def kept_from_def ownerless_def)
  moreover have "client_law E obs spares_bindings"
    by (rule store_client_law[OF reliable_store_law[OF assms(1)]]) (simp add: spares_bindings_def)
  ultimately show ?thesis using binding_stays[OF _ assms(11)] b(2) assms(10) by (auto simp: collected_def)
qed

subsection \<open>A sample\<close>

lemma named_named: "named (named c) = named c"
  by (simp add: named_def fun_eq_iff option.map_comp comp_def)

lemma named_collected: "named (collected owner n left (named c)) = collected owner n left (named c)"
  by (rule store.equality)
    (auto simp: named_def collected_def kept_from_def fun_eq_iff map_option_case split: option.splits)

definition after_deletion :: store where
  "after_deletion = collected sample_owner ''kc'' Map.empty
     (named (world (snd (Reconcile store_env request_kc (start Sample_Store.decided)))))"

theorem role_outlives_kubeconfig_witness:
  "kubeconfig_at after_deletion ''kc'' = None \<and>
   (\<exists>b. binding_at (named (world (snd (Reconcile store_env request_kc (start after_deletion))))) ''jane-kubeconfig'' = Some b \<and>
      grants new_kubeconfig b)"
proof -
  have o: "named after_deletion = collected sample_owner (nn_Name request_kc) Map.empty
      (named (world (snd (Reconcile store_env request_kc (start Sample_Store.decided)))))"
    by (simp add: after_deletion_def named_collected installed_facts(4))
  have k: "kubeconfig_at (named Sample_Store.decided) ''kc'' = Some new_kubeconfig"
    using installed_facts(1) by (simp add: Sample_Store.decided_def named_def)
  obtain q where q: "request_at (named Sample_Store.decided) ''kc'' = Some q" "grantable q"
    by (simp add: Sample_Store.decided_def named_def sample_csr_def grantable_def sample_condition_def)
  have after: "aftermath store_env named after_deletion (world (snd (Reconcile store_env request_kc (start after_deletion))))"
    by (rule aftermath.kubeconfig_run[OF aftermath.deleted prod.collapse[symmetric]])
  have "ownerless sample_owner" by (simp add: ownerless_def sample_owner_def)
  then have "kubeconfig_at (named after_deletion) (nn_Name request_kc) = None \<and>
    (\<exists>b. binding_at (named (world (snd (Reconcile store_env request_kc (start after_deletion))))) (nn_Name (crb_name new_kubeconfig)) = Some b \<and>
      grants new_kubeconfig b)"
    using role_outlives_kubeconfig[OF store_env_reliable, of sample_promises request_kc Sample_Store.decided new_kubeconfig q,
        OF _ _ _ _ q(2) _ prod.collapse[symmetric] _ o after]
      decided_stage(2) k new_kubeconfig_facts(4) q(1) installed_facts(4)
    by (simp add: Sample_Store.decided_def installed_def)
  then show ?thesis by (simp add: installed_facts(4) crb_name_def new_kubeconfig_facts(7))
qed

end
