(* ===== verification/Spec2Isabelle.thy ===== *)
theory Spec2Isabelle
  imports Webhook_Laws Csr_Approval Signing_Laws Config_Laws
    Kubeconfig_Safety Kubeconfig_Errors Kubeconfig_Objects Kubeconfig_Status
    Kubeconfig_Secrets Kubeconfig_Behaviour Recovery Name_Clashes Replicas Confidentiality Identity Object_References
    Deep_Copy Start_Up Approval_Queue Queue_Drains Deletion
begin

text \<open>
  The kubeconfig operator: a Kubernetes controller that turns a cluster-scoped resource
  \<open>Kubeconfig\<close> (a user name, a role, parameters of a signing request) into a kubeconfig file
  with a client certificate, by way of a certificate signing request. This library models its
  program logic and proves what makes it correct.

  \<^bold>\<open>The program.\<close> The mutating webhook (\<open>api/v1alpha1/kubeconfig_webhook.go\<close>, \<open>Default\<close>) completes
  the specification of a new resource; it asks \<open>pkg/utils/cluster_endpoint.go\<close> for the server,
  which reads a kubeconfig file with \<open>pkg/kubeconfig/types.go\<close>. The validating webhook keeps
  two fields immutable. The reconciler of the resource
  (\<open>controllers/kubeconfig_controller.go\<close>) creates the user secret, generates a key and a
  request (\<open>controllers/utils.go\<close>), stores both in the secret, creates the
  CertificateSigningRequest, waits until it is approved and signed, then stores certificate
  and kubeconfig file (\<open>controllers/resources.go\<close>, \<open>controllers/client_cert.go\<close>) and creates
  the role binding. It keeps no state between runs: every run reads the cluster again, and
  the conditions in the status say where it stands. The second reconciler
  (\<open>controllers/csr_controller.go\<close>) approves those requests of the first that carry an
  annotation. The two communicate only through objects of the cluster.

  \<^bold>\<open>How it is modelled.\<close> A Go function is a HOL function of the same name. Code that calls the
  API server, the clock or a random source runs in the state-passing monad of \<open>Prelude\<close>, whose
  outcome is \<open>Ret\<close> or \<open>Panic\<close>: a nil pointer that is followed and a nil map that is written
  panic. A function with early returns is cut into parts joined by \<open>go_then\<close>, \<open>Inl\<close> being a
  return from the whole function. An \<open>error\<close> is a value, \<open>None\<close> for nil. What is not in the
  repository (the API server, apimachinery, YAML, x509, PEM decoding) is the record \<open>env\<close> of
  \<open>Runtime\<close>, an argument of the definitions, arbitrary unless a theorem states a law as a
  hypothesis (\<open>conditions_law\<close>, \<open>yaml_law\<close>, \<open>range_law\<close>, \<open>pem_law\<close>, \<open>x509_law\<close>, \<open>owner_law\<close>,
  \<open>client_law\<close>). The state of the world is a type variable that every client call may change
  in any way, which covers all interleavings with other actors between two calls of a run.
  The state of a run also carries the trace of the calls made with their replies, and the
  properties of order and content are statements about that trace. There is no loop that could
  run forever and no fuel: all definitions are total, and a run makes at most ten calls.
  Byte slices and strings are lists of characters; \<open>pem.Encode\<close> and base64 are modelled byte
  for byte in \<open>Encoding\<close>.

  \<^bold>\<open>The theories.\<close>
  \<^item> \<open>Prelude\<close>: Go values, the monad, its weakest preconditions (collection \<open>go_wp\<close>), and
    \<open>guarded\<close>, the form of the ordering properties.
  \<^item> \<open>Api_Types\<close>: the resource of \<open>api/v1alpha1\<close> and the Kubernetes objects. \<open>Runtime\<close>: the
    environment, the trace, the client calls and their rules.
  \<^item> \<open>Status_Conditions\<close>: the contract of condition lists as a locale, and its interpretation on
    \<open>setStatusCondition\<close> and \<open>findStatusCondition\<close> of the approving controller.
  \<^item> \<open>Encoding\<close>; \<open>Config_File\<close> (\<open>pkg/kubeconfig\<close>: the locale \<open>entry_list\<close> and its three
    interpretations); \<open>Cluster_Endpoint\<close>; \<open>Webhook\<close>; \<open>Signing_Request\<close> (\<open>utils.go\<close>);
    \<open>Resources\<close> (\<open>resources.go\<close>, \<open>client_cert.go\<close>); \<open>Csr_Controller\<close>; \<open>Kubeconfig_Controller\<close>.
  \<^item> \<open>Kubeconfig_Safety\<close>: the order of the writes, without any hypothesis.
    \<open>Kubeconfig_Errors\<close>: which errors are returned. \<open>Kubeconfig_Objects\<close>: a run stays on its own
    objects, whose names and contents are written out. \<open>Kubeconfig_Status\<close>: when a status is terminal. \<open>Kubeconfig_Secrets\<close>: the
    successful run in full, and branches that differ from the documentation.
    \<open>Kubeconfig_Behaviour\<close>: bounded work, finished resources, and what a panic comes from.
  \<^item> \<open>Webhook_Laws\<close>: defaulting and validation. \<open>Csr_Approval\<close>: which requests are approved.
    \<open>Signing_Laws\<close>: keys, algorithms, and that one controller can read what the other writes.
    \<open>Config_Laws\<close>: kubeconfig files and the endpoint.
  \<^item> \<open>Sample_Cluster\<close>: an in-memory cluster as an instance of the environment, for witnesses.
  \<^item> \<open>Api_Store\<close>: the API server as a store of objects with laws of its calls; \<open>System\<close>: both
    controllers, failing calls and all other parties as one step relation over it, and the
    invariant of its reachable states; \<open>Run_Frame\<close>: what a run leaves alone; \<open>Progress\<close> and \<open>Lifecycle\<close>: what runs achieve if nothing
    fails, from a new resource to the end, and that the work terminates; \<open>Sample_Store\<close>: a store
    that satisfies all these laws, with the witnesses; \<open>Recovery\<close>: what follows once calls succeed
    again; \<open>Admission\<close>: the system with its webhooks, in which what users submit is defaulted and
    validated before it is stored.
  \<^item> \<open>Lost_Keys\<close>: two situations outside the assumptions of \<open>System\<close> in which the private key is
    lost; \<open>Replicas\<close>: two replicas at once, which can lose it too; \<open>Name_Clashes\<close>: Kubeconfigs that share a secret or the name of a role binding;
    \<open>Identity\<close>: for which user a certificate is, and what a change of the user name does.
  \<^item> \<open>Event_Queue\<close>: the work queues of controller-runtime and, as the locale \<open>level_triggered\<close>, what a
    controller owes its queue; \<open>Watches\<close>: the names a change puts into a queue; \<open>Approval_Queue\<close> and \<open>Work_Queue\<close> interpret it on the two
    controllers, so nothing that is due is forgotten, and show what a failed update of a status
    does; \<open>Queue_Drains\<close>: a worker empties the queue in a bounded number of runs.
  \<^item> \<open>Deletion\<close>: what is left of a Kubeconfig after its deletion.
  \<^item> \<open>Confidentiality\<close>: two runs that differ in private keys are compared; nothing but the data
    of secrets and the kubeconfig file depends on them.
  \<^item> \<open>Object_References\<close>: the types of \<open>object_reference_types.go\<close> and what their schema accepts,
    with the regular expressions of the markers as data and a matcher for them.
  \<^item> \<open>Go_Heap\<close> and \<open>Deep_Copy\<close>: memory with pointers and slices, and every function of
    \<open>api/v1alpha1/zz_generated.deepcopy.go\<close> on it.
  \<^item> \<open>Start_Up\<close>: \<open>main.go\<close>, the \<open>SetupWithManager\<close> functions, \<open>SetupWebhookWithManager\<close>,
    \<open>InjectClient\<close> and the registration of the types in \<open>groupversion_info.go\<close>.
  \<^item> This theory: the contract between the two controllers.

  \<^bold>\<open>The system.\<close> \<open>reachable\<close> (\<open>System\<close>) has as steps a whole run of either controller, on any
  resource, and a step of the others. Within a run the others may act before and after every
  call, and a call may fail, with or without its effect; a process that crashes behaves as one
  whose later calls all fail without effect. The assumptions are those of \<open>cluster_law\<close>: a read
  of a Kubeconfig answers with the object as it is at some moment during the call, a write
  takes effect on the object it names or not at all, an object is created only where there is
  none, a read that fails leaves the object it is given alone (\<open>failed_get_law\<close>). Reads of
  secrets and requests may come from a cache that is behind, as \<open>main.go\<close> turns it off for Kubeconfigs
  only; reads of role bindings and of the cluster CA may answer anything. What has gone wrong outside the operator is noted in
  a history variable of the store, \<open>incidents\<close>, that no operation reads: an answer about a secret or request that was not up to
  date (\<open>client_law\<close>), and the steps of \<open>others\<close> that write a user secret once it is there, create a request of that
  name or change what it requests, or declare the resource finished. A property that a Kubeconfig has only without
  such an incident says so (\<open>disturbed\<close>). (\<open>store_law\<close>, by which all reads are up to date, is needed for the approving controller only.) Approving, denying, signing
  and deleting requests is up to the others, and so is providing a predefined secret. The
  parameter \<open>pre\<close> of type \<open>promises\<close> says what stays fixed about the Kubeconfigs of a name: the
  predefined secret they refer to, if any, and the users they may be for (all, where nothing is
  promised). \<open>distinct_secrets\<close> asks that no two names share a secret. \<open>Lost_Keys\<close>,
  \<open>Name_Clashes\<close> and \<open>Identity\<close> show what happens without these assumptions. \<open>reliable\<close> (\<open>Progress\<close>) adds that calls do not fail and that
  nobody else acts during a run. \<open>Admission\<close> discharges the assumptions about
  specifications: \<open>admit\<close> is the way of a submission through \<open>Default\<close>, the enumeration of
  algorithms in the schema, and \<open>ValidateCreate\<close> or \<open>ValidateUpdate\<close>; \<open>operating\<close> has it as a
  step, and its states are reachable in \<open>System\<close>, hold complete specifications only and C8
  says what a panic in one of them comes from. \<open>stage_of\<close> reads off the store how far a resource is, and
  \<open>work_left\<close> is the measure by which the work terminates: at most two runs find something to
  do, the one that submits the request and the one that acts on its decision. \<open>recovers_after_failures\<close>
  joins both: from every reachable state, once calls succeed (\<open>with_calls\<close>), a Kubeconfig with
  automatic approval ends complete and bound, under the conditions listed there (no incident, no other binding of its name, no refused request).

  \<^bold>\<open>The queues.\<close> \<open>queue_run\<close> (\<open>Event_Queue\<close>) has as states the world and the set of queued names; its
  steps are a run on a queued name, which is put back if the result asks for it (\<open>retried\<close>), a step of
  the others, and a restart, which lists everything. A change adds at least the names it touches:
  \<open>concerned\<close> (\<open>Watches\<close>) computes them from the kinds that \<open>SetupWithManager\<close> hands to the builder
  by \<open>For\<close> and \<open>Owns\<close>, and is \<open>triggered\<close> for the Kubeconfig reconciler, \<open>csr_triggered\<close> for the
  approving controller. What the others may do during a run is \<open>meanwhile\<close> and
  \<open>keeps_verdicts\<close>: they delete no Kubeconfig and no request and take no decision back, so that a run
  that acts on what it has read is not wrong about what is there at its end; between runs they do
  what they like. Any call may fail. The reconciler hides the failure of an update of a status: a conflict
  does no harm, as the Kubeconfig has then changed (seen by its generation), any other failure is a \<open>hitch\<close>, and so is
  a key or request that cannot be generated and an outdated answer about the request. A name for which
  something is due is in the queue, or the last run on it had a hitch and nothing has changed since.

  \<^bold>\<open>Memory.\<close> In \<open>Deep_Copy\<close> a pointer or slice is an address into blocks of typed memory, a
  function allocates and writes as the Go code does, and \<open>shape\<close> relates a struct in memory to
  the tree it stands for and the blocks it reaches. The locale \<open>copyable\<close> is the contract of a
  \<open>DeepCopyInto\<close> (same tree, new blocks only, old memory untouched); pointers and slices of a
  copyable type are copyable, and each generated function is an interpretation.

  \<^bold>\<open>What is not modelled.\<close> Logging; the parsing of the command line;
  how controller-runtime starts what is registered (its answers are the parameter \<open>host\<close>) and how
  long it waits before it runs a name again (its queues are modelled as sets of names);
  the markers for generators
  other than those of validation; the deep copies of library types, a parameter with a law.
  Labels and annotations are maps; the metadata of an object is reduced to the fields that the
  code reads or sets, so a resource version that makes a write fail is one of the failures any
  call may have. The runs of the system do not overlap, as with one replica or leader
  election (which the manifests turn on and \<open>main.go\<close> by itself does not): a second replica
  between two calls of a run would be another party that writes user secrets, which \<open>others\<close>
  excludes; \<open>Replicas\<close> shows one interleaving in which that does harm. The two controllers of
  one process may overlap: what the approving one writes is a step that \<open>others\<close> allows.

  \<^bold>\<open>Left.\<close> Which interleavings of two replicas are harmless is not characterised. No code of the
  repository with program logic is left out; the rest are comments, imports, tests and manifests.
\<close>

subsection \<open>From one controller to the other\<close>

text \<open>
  C23: The two controllers together: a request that the Kubeconfig reconciler has generated
  and created for a Kubeconfig with automatic approval is approved by the approving
  controller when it reads it, without any change to the request itself; and once the signer
  has added a certificate, the Kubeconfig reconciler treats it as granted.
\<close>

theorem auto_approval_grants:
  assumes "pem_law E" and "x509_law E" and "owner_law E kc" and "AutoApproveCSR (Spec kc)"
    and "createCSR E kc s = (Ret (key, Some request, None), s')"
    and "client_Get_Csr E req zero_csr w = ((None, createCsr E kc request), w1)"
    and "\<And>sent. \<exists>reply w2. clientset_UpdateApproval E sent w1 = ((None, reply), w2)"
  shows "\<exists>sent w2. ReconcileCsr E req (start w) = (Ret (empty_result, None), \<lparr>world = w2,
      calls = [GetCsr req None (createCsr E kc request), UpdateCsrApproval sent None]\<rparr>) \<and>
    Request sent = request \<and> CsrMeta sent = CsrMeta (createCsr E kc request) \<and>
    (cert \<noteq> [] \<longrightarrow> grantable (sent\<lparr>Certificate := cert\<rparr>))"
proof -
  let ?csr = "createCsr E kc request"
  let ?sent = "with_verdict ?csr (time_Now E w1) CertificateApproved ''KubeconfigControllerApprove''
    ''The CSR was auto-approved by the kubeconfig operator''"
  have approve: "to_approve ?csr" using to_approve_createCsr[OF assms(3)] assms(4) by simp
  have req: "Request ?csr = request" and conds: "CsrConditions ?csr = []"
    by (simp_all add: createCsr_def Let_def)
  obtain t where "parseCSR E (Request ?csr) = Inr t"
    using parse_generated[OF assms(1,2,5)] req by auto
  moreover obtain reply w2 where "clientset_UpdateApproval E ?sent w1 = ((None, reply), w2)"
    using assms(7) by blast
  ultimately have "ReconcileCsr E req (start w) = (Ret (empty_result, None), \<lparr>world = w2,
      calls = [GetCsr req None ?csr, UpdateCsrApproval ?sent None]\<rparr>)"
    using ReconcileCsr_approves[OF assms(6) approve _ refl] by blast
  moreover have "Request ?sent = request \<and> CsrMeta ?sent = CsrMeta ?csr \<and>
      (cert \<noteq> [] \<longrightarrow> grantable (?sent\<lparr>Certificate := cert\<rparr>))"
    using req conds by (simp add: with_verdict_def grantable_def csr_condition_def)
  ultimately show ?thesis by blast
qed

text \<open>An environment that holds the created request and accepts approvals.\<close>

definition approving_env :: "Csr \<Rightarrow> cluster env" where
  "approving_env csr = pem_env\<lparr>client_Get_Csr := \<lambda>n obj w. ((None, csr), w),
     clientset_UpdateApproval := \<lambda>c w. ((None, c), w)\<rparr>"

theorem auto_approval_grants_witness:
  "\<exists>key request sent. let E = approving_env (createCsr sample_env new_kubeconfig request) in
     fst (createCSR E new_kubeconfig (start empty_cluster)) = Ret (key, Some request, None) \<and>
     fst (ReconcileCsr E request_kc (start empty_cluster)) = Ret (empty_result, None) \<and>
     grantable (sent\<lparr>Certificate := ''cert''\<rparr>)"
proof -
  obtain key request where k: "createCSR pem_env new_kubeconfig (start empty_cluster) =
      (Ret (key, Some request, None), start empty_cluster)"
    using pem_env_createCSR by blast
  let ?csr = "createCsr sample_env new_kubeconfig request"
  let ?E = "approving_env ?csr"
  have keys: "createRSAKey ?E = createRSAKey pem_env" "createECDSAKey ?E = createECDSAKey pem_env"
    "createEd25519Key ?E = createEd25519Key pem_env"
    by (simp_all add: createRSAKey_def createECDSAKey_def createEd25519Key_def approving_env_def)
  have "generateKey ?E = generateKey pem_env"
    by (rule ext) (simp only: generateKey_def keys)
  moreover have "x509_CreateCertificateRequest ?E = x509_CreateCertificateRequest pem_env"
    by (simp add: approving_env_def)
  ultimately have run: "createCSR ?E new_kubeconfig (start empty_cluster) =
      (Ret (key, Some request, None), start empty_cluster)"
    using k by (simp only: createCSR_def)
  have laws: "pem_law ?E" "x509_law ?E"
    using pem_env_laws by (simp_all add: pem_law_def x509_law_def approving_env_def)
  have csr: "createCsr ?E new_kubeconfig request = ?csr"
    by (simp add: createCsr_def set_owner_def approving_env_def pem_env_def)
  have own: "owner_law ?E new_kubeconfig"
    using sample_owner_law by (simp add: owner_law_def set_owner_def approving_env_def pem_env_def)
  have auto: "AutoApproveCSR (Spec new_kubeconfig)" by (simp add: new_kubeconfig_def)
  have "client_Get_Csr ?E request_kc zero_csr empty_cluster =
      ((None, createCsr ?E new_kubeconfig request), empty_cluster)"
    by (simp only: csr) (simp add: approving_env_def)
  moreover have "\<exists>reply w2. clientset_UpdateApproval ?E sent empty_cluster = ((None, reply), w2)" for sent
    by (simp add: approving_env_def)
  ultimately obtain sent w2 where "ReconcileCsr ?E request_kc (start empty_cluster) =
      (Ret (empty_result, None), \<lparr>world = w2,
        calls = [GetCsr request_kc None (createCsr ?E new_kubeconfig request), UpdateCsrApproval sent None]\<rparr>)"
    and "''cert'' \<noteq> [] \<longrightarrow> grantable (sent\<lparr>Certificate := ''cert''\<rparr>)"
    using auto_approval_grants[OF laws own auto run, where req = request_kc and w = empty_cluster and
      ?w1.0 = empty_cluster and cert = "''cert''"] by blast
  with run show ?thesis
    by (intro exI[of _ key] exI[of _ request] exI[of _ sent]) (simp add: Let_def)
qed

end
